(* ===== verification/Voip_Prelude.thy ===== *)
theory Voip_Prelude
  imports Main "HOL-Library.Word"
begin

text \<open>
  Shared vocabulary of the development.

  \<^item> Machine integers: Rust's \<open>u8\<close>, \<open>u16\<close>, \<open>u32\<close>, \<open>u64\<close> are words of that width;
    an \<open>i32\<close> is a 32-bit word read by \<^const>\<open>sint\<close>; \<open>usize\<close> is a natural number.
  \<^item> Outcomes: \<open>result\<close> is Rust's \<open>Result\<close> with a third constructor for a panic.
  \<^item> Strings: a Rust \<open>String\<close> is its sequence of UTF-8 bytes, a HOL \<open>string\<close>.
  \<^item> Arithmetic that can overflow takes the flag \<open>oc\<close> (overflow checks): with the
    flag set, as in a debug build, an overflow panics; without it, as in a release
    build, the operation wraps around.
  \<^item> Big-endian byte strings, with the round trips every wire format below needs.
\<close>

named_theorems wire_simps \<open>equations that evaluate encoders and decoders\<close>
named_theorems arith_ops \<open>unfolding rules for the machine arithmetic wrappers\<close>

unbundle bit_operations_syntax

type_synonym u8 = "8 word"
type_synonym u16 = "16 word"
type_synonym u32 = "32 word"
type_synonym u64 = "64 word"
type_synonym i32 = "32 word"
type_synonym bytes = "8 word list"

section \<open>Outcomes\<close>

datatype ('a, 'e) result = Ok 'a | Err 'e | Panic

primrec res_bind :: "('a, 'e) result \<Rightarrow> ('a \<Rightarrow> ('b, 'e) result) \<Rightarrow> ('b, 'e) result" where
  "res_bind (Ok x) f = f x"
| "res_bind (Err e) f = Err e"
| "res_bind Panic f = Panic"

primrec res_map :: "('a \<Rightarrow> 'b) \<Rightarrow> ('a, 'e) result \<Rightarrow> ('b, 'e) result" where
  "res_map f (Ok x) = Ok (f x)"
| "res_map f (Err e) = Err e"
| "res_map f Panic = Panic"

primrec is_ok :: "('a, 'e) result \<Rightarrow> bool" where
  "is_ok (Ok x) = True"
| "is_ok (Err e) = False"
| "is_ok Panic = False"

lemma res_bind_assoc: "res_bind (res_bind r f) g = res_bind r (\<lambda>x. res_bind (f x) g)"
  by (cases r) simp_all

lemma res_bind_eq_Ok_iff:
  "res_bind r f = Ok y \<longleftrightarrow> (\<exists>x. r = Ok x \<and> f x = Ok y)"
  by (cases r) simp_all

lemma res_map_eq_Ok_iff: "res_map f r = Ok y \<longleftrightarrow> (\<exists>x. r = Ok x \<and> y = f x)"
  by (cases r) auto

lemma res_map_snd: "res_map snd (res_map (\<lambda>(b, a). (f b, a)) r) = res_map snd r"
  by (cases r) (auto split: prod.splits)

lemma is_ok_iff: "is_ok r \<longleftrightarrow> (\<exists>x. r = Ok x)"
  by (cases r) simp_all

text \<open>What a call into the network library answers.\<close>

datatype 'a io = IoOk 'a | IoErr string

text \<open>\<open>map_err\<close> on such an answer and on a result.\<close>

primrec map_err :: "(string \<Rightarrow> 'e) \<Rightarrow> 'a io \<Rightarrow> ('a, 'e) result" where
  "map_err f (IoOk x) = Ok x"
| "map_err f (IoErr e) = Err (f e)"

primrec res_map_err :: "('e \<Rightarrow> 'f) \<Rightarrow> ('a, 'e) result \<Rightarrow> ('a, 'f) result" where
  "res_map_err f (Ok x) = Ok x"
| "res_map_err f (Err e) = Err (f e)"
| "res_map_err f Panic = Panic"

lemma map_err_eq_Ok_iff: "map_err f r = Ok x \<longleftrightarrow> r = IoOk x"
  by (cases r) simp_all

lemma res_map_err_eq_Ok_iff: "res_map_err f r = Ok x \<longleftrightarrow> r = Ok x"
  by (cases r) simp_all

lemma no_panic:
  "res_bind r f = Panic \<longleftrightarrow> r = Panic \<or> (\<exists>x. r = Ok x \<and> f x = Panic)"
  "res_map g r = Panic \<longleftrightarrow> r = Panic" "map_err h a \<noteq> Panic" "res_map_err k r = Panic \<longleftrightarrow> r = Panic"
  by (cases r; cases a; simp)+

lemmas res_ok_iffs = res_bind_eq_Ok_iff map_err_eq_Ok_iff res_map_err_eq_Ok_iff

datatype read_outcome = ReadTimeout | ReadError string | ReadClosed | ReadBytes bytes

section \<open>Machine arithmetic\<close>

definition saturating_sub :: "'a::len word \<Rightarrow> 'a word \<Rightarrow> 'a word" where
  "saturating_sub a b = (if b \<le> a then a - b else 0)"

definition saturating_add :: "'a::len word \<Rightarrow> 'a word \<Rightarrow> 'a word" where
  "saturating_add a b = (if unat a + unat b < 2 ^ LENGTH('a) then a + b else - 1)"

definition checked_add :: "bool \<Rightarrow> 'a::len word \<Rightarrow> 'a word \<Rightarrow> ('a word, 'e) result" where
  "checked_add oc a b =
     (if oc \<and> \<not> unat a + unat b < 2 ^ LENGTH('a) then Panic else Ok (a + b))"

definition checked_sub :: "bool \<Rightarrow> 'a::len word \<Rightarrow> 'a word \<Rightarrow> ('a word, 'e) result" where
  "checked_sub oc a b = (if oc \<and> a < b then Panic else Ok (a - b))"

definition checked_mul :: "bool \<Rightarrow> 'a::len word \<Rightarrow> 'a word \<Rightarrow> ('a word, 'e) result" where
  "checked_mul oc a b =
     (if oc \<and> \<not> unat a * unat b < 2 ^ LENGTH('a) then Panic else Ok (a * b))"

lemma unat_byte_less [simp]: "unat (b :: u8) < 256"
  using unsigned_less [of b, where 'a = nat] by simp

lemma unat_u16_less [simp]: "unat (b :: u16) < 65536"
  using unsigned_less [of b, where 'a = nat] by simp

lemma unat_u32_less [simp]: "unat (b :: u32) < 4294967296"
  using unsigned_less [of b, where 'a = nat] by simp

lemma unat_u64_less [simp]: "unat (b :: u64) < 18446744073709551616"
  using unsigned_less [of b, where 'a = nat] by simp

lemma unat_saturating_sub [arith_ops]: "unat (saturating_sub a b) = unat a - unat b"
proof (cases "b \<le> a")
  case True
  then show ?thesis
    by (simp add: saturating_sub_def unat_sub)
next
  case False
  then have "unat a \<le> unat b"
    by (simp add: word_le_nat_alt)
  with False show ?thesis
    by (simp add: saturating_sub_def)
qed

lemma unat_saturating_add [arith_ops]:
  fixes a b :: "'a::len word"
  shows "unat (saturating_add a b) = min (unat a + unat b) (2 ^ LENGTH('a) - 1)"
proof (cases "unat a + unat b < 2 ^ LENGTH('a)")
  case True
  then show ?thesis
    by (simp add: saturating_add_def unat_word_ariths)
next
  case False
  then show ?thesis
    by (simp add: saturating_add_def unsigned_minus_1_eq_mask mask_eq_exp_minus_1)
qed

lemma checked_add_fits:
  fixes a b :: "'a::len word"
  assumes "unat a + unat b < 2 ^ LENGTH('a)"
  shows "checked_add oc a b = Ok (a + b)" and "unat (a + b) = unat a + unat b"
  using assms by (simp_all add: checked_add_def unat_word_ariths)

lemma checked_sub_fits:
  fixes a b :: "'a::len word"
  assumes "b \<le> a"
  shows "checked_sub oc a b = Ok (a - b)" and "unat (a - b) = unat a - unat b"
  using assms by (simp_all add: checked_sub_def unat_sub not_less)

lemma unat_plus_one_below:
  fixes c n :: "'a::len word"
  assumes "c < n"
  shows "unat (c + 1) = unat c + 1"
proof -
  have "unat c < unat n"
    using assms by (simp add: word_less_nat_alt)
  moreover have "unat n < 2 ^ LENGTH('a)"
    by (rule unsigned_less)
  ultimately have "unat c + 1 < 2 ^ LENGTH('a)"
    by linarith
  then show ?thesis
    using checked_add_fits(2) [of c 1] by simp
qed

lemma unat_ucast_up:
  fixes w :: "'a::len word"
  assumes "LENGTH('a) \<le> LENGTH('b::len)"
  shows "unat (ucast w :: 'b word) = unat w"
proof -
  have "unat w < 2 ^ LENGTH('a)"
    by (rule unsigned_less)
  also have "(2::nat) ^ LENGTH('a) \<le> 2 ^ LENGTH('b)"
    using assms by simp
  finally show ?thesis
    by (simp add: unsigned_ucast_eq take_bit_nat_eq_self_iff)
qed

lemma unat_ucast_down:
  fixes v :: "'a::len word"
  assumes "unat v < 2 ^ LENGTH('b::len)"
  shows "unat (ucast v :: 'b word) = unat v"
  using assms by (simp add: unsigned_ucast_eq take_bit_nat_eq_self_iff)

lemma unat_power_fits:
  fixes w :: "'a::len word"
  assumes "unat w ^ n < 2 ^ LENGTH('a)"
  shows "unat (w ^ n) = unat w ^ n"
proof -
  have "w ^ n = of_nat (unat w ^ n)" by simp
  then show ?thesis
    using assms by (simp only: unat_of_nat mod_less)
qed

section \<open>Big-endian byte strings\<close>

text \<open>\<open>be_bytes n k\<close> is the \<open>n\<close>-byte big-endian form of \<open>k\<close> (\<open>to_be_bytes\<close>), and
  \<open>be_val\<close> reads such a form back (\<open>from_be_bytes\<close>).\<close>

primrec be_bytes :: "nat \<Rightarrow> nat \<Rightarrow> bytes" where
  "be_bytes 0 k = []"
| "be_bytes (Suc n) k = be_bytes n (k div 256) @ [of_nat (k mod 256)]"

definition be_val :: "bytes \<Rightarrow> nat" where
  "be_val bs = foldl (\<lambda>acc b. acc * 256 + unat b) 0 bs"

lemma be_val_Nil [simp]: "be_val [] = 0"
  by (simp add: be_val_def)

lemma be_val_snoc [simp]: "be_val (bs @ [b]) = be_val bs * 256 + unat b"
  by (simp add: be_val_def)

lemma length_be_bytes [simp]: "length (be_bytes n k) = n"
  by (induction n arbitrary: k) simp_all

lemma be_bytes_eq_Nil_iff [simp]: "be_bytes n k = [] \<longleftrightarrow> n = 0"
  using length_be_bytes [of n k] by (metis length_0_conv)

lemma unat_of_nat_byte [simp]: "unat (of_nat (k mod 256) :: u8) = k mod 256"
  by (simp add: unat_of_nat)

lemma be_bytes_Suc_Cons:
  "be_bytes (Suc n) k = of_nat (k div 256 ^ n mod 256) # be_bytes n k"
proof (induction n arbitrary: k)
  case 0
  then show ?case by simp
next
  case (Suc n)
  have "be_bytes (Suc (Suc n)) k = be_bytes (Suc n) (k div 256) @ [of_nat (k mod 256)]"
    by simp
  also have "\<dots> = of_nat (k div 256 div 256 ^ n mod 256) # be_bytes (Suc n) k"
    using Suc [of "k div 256"] by simp
  finally show ?case
    by (simp add: div_mult2_eq)
qed

lemma be_val_be_bytes: "be_val (be_bytes n k) = k mod 256 ^ n"
proof (induction n arbitrary: k)
  case 0
  then show ?case by simp
next
  case (Suc n)
  have "k mod (256 * 256 ^ n) = 256 * (k div 256 mod 256 ^ n) + k mod 256"
    by (rule mod_mult2_eq)
  with Suc show ?case by simp
qed

lemma be_val_be_bytes_id [wire_simps]: "k < 256 ^ n \<Longrightarrow> be_val (be_bytes n k) = k"
  by (simp add: be_val_be_bytes)

lemma be_val_bound: "be_val bs < 256 ^ length bs"
proof (induction bs rule: rev_induct)
  case Nil
  then show ?case by simp
next
  case (snoc b bs)
  have "be_val (bs @ [b]) < (be_val bs + 1) * 256" by simp
  also have "\<dots> \<le> 256 ^ length bs * 256"
    using snoc by (intro mult_le_mono1) simp
  finally show ?case by simp
qed

lemma be_bytes_be_val: "be_bytes (length bs) (be_val bs) = bs"
proof (induction bs rule: rev_induct)
  case Nil
  then show ?case by simp
next
  case (snoc b bs)
  then show ?case
    using unat_byte_less [of b] by simp
qed

lemma be_bytes_inj:
  assumes "be_bytes n j = be_bytes n k" and "j < 256 ^ n" and "k < 256 ^ n"
  shows "j = k"
  using assms by (metis be_val_be_bytes_id)

section \<open>Bit fields\<close>

lemma or_field_nat:
  fixes t v m :: nat
  assumes "v < 2 ^ m"
  shows "t * 2 ^ m OR v = t * 2 ^ m + v"
proof -
  have "push_bit m t OR v = push_bit m t + v"
  proof (rule disjunctive_add_eq_or [symmetric])
    show "push_bit m t AND v = 0"
    proof (rule bit_eqI)
      fix n
      have "bit v n \<Longrightarrow> n < m"
        using assms by (metis bit_take_bit_iff take_bit_nat_eq_self)
      then show "bit (push_bit m t AND v) n \<longleftrightarrow> bit 0 n"
        by (auto simp: bit_simps)
    qed
  qed
  then show ?thesis
    by (simp add: push_bit_eq_mult)
qed

lemma and_field_nat: "(k::nat) AND (2 ^ m - 1) = k mod 2 ^ m"
  by (metis mask_eq_exp_minus_1 take_bit_eq_mask take_bit_eq_mod)

section \<open>Strings as bytes\<close>

definition str_bytes :: "string \<Rightarrow> bytes" where
  "str_bytes s = map (\<lambda>c. of_nat (of_char c)) s"

definition bytes_str :: "bytes \<Rightarrow> string" where
  "bytes_str bs = map (\<lambda>b. char_of (unat b)) bs"

lemma length_str_bytes [simp]: "length (str_bytes s) = length s"
  by (simp add: str_bytes_def)

lemma str_bytes_Nil [simp]: "str_bytes [] = []"
  by (simp add: str_bytes_def)

lemma str_bytes_append [simp]: "str_bytes (s @ t) = str_bytes s @ str_bytes t"
  by (simp add: str_bytes_def)

lemma unat_of_char_byte [simp]: "unat (of_nat (of_char c) :: u8) = of_char c"
  by (simp add: unat_of_nat)

lemma bytes_str_str_bytes [wire_simps]: "bytes_str (str_bytes s) = s"
  by (simp add: bytes_str_def str_bytes_def comp_def)

lemma str_bytes_inj: "str_bytes s = str_bytes t \<Longrightarrow> s = t"
  by (metis bytes_str_str_bytes)

lemma str_bytes_bytes_str: "str_bytes (bytes_str bs) = bs"
proof -
  have "of_nat (of_char (char_of (unat b) :: char)) = b" for b :: u8
    by simp
  then show ?thesis
    by (simp add: bytes_str_def str_bytes_def comp_def)
qed

section \<open>Decimal numbers\<close>

text \<open>The decimal form of a number as \<open>format!\<close> prints it, and \<open>str::parse::<u16>\<close>: an
  optional plus sign, at least one digit, no overflow.\<close>

fun show_nat :: "nat \<Rightarrow> string" where
  "show_nat n =
     (if n < 10 then [char_of (48 + n)] else show_nat (n div 10) @ [char_of (48 + n mod 10)])"

declare show_nat.simps [simp del]

definition is_digit :: "char \<Rightarrow> bool" where
  "is_digit c \<longleftrightarrow> 48 \<le> (of_char c :: nat) \<and> (of_char c :: nat) \<le> 57"

definition digits_val :: "string \<Rightarrow> nat" where
  "digits_val s = foldl (\<lambda>acc c. acc * 10 + (of_char c - 48)) 0 s"

definition parse_u16 :: "string \<Rightarrow> u16 option" where
  "parse_u16 s =
     (let ds = (case s of CHR ''+'' # t \<Rightarrow> t | _ \<Rightarrow> s) in
      if ds \<noteq> [] \<and> list_all is_digit ds \<and> digits_val ds < 65536
      then Some (of_nat (digits_val ds)) else None)"

lemma of_char_digit [simp]: "n < 10 \<Longrightarrow> of_char (char_of (48 + n :: nat) :: char) = 48 + n"
  by simp

lemma digit_not_plus:
  assumes "is_digit c"
  shows "c \<noteq> CHR ''+''"
  using assms by (auto simp: is_digit_def)

lemma show_nat_digits: "show_nat n \<noteq> [] \<and> list_all is_digit (show_nat n) \<and> digits_val (show_nat n) = n"
proof (induction n rule: show_nat.induct)
  case (1 n)
  show ?case
  proof (cases "n < 10")
    case True
    then show ?thesis
      by (simp add: show_nat.simps [of n] is_digit_def digits_val_def)
  next
    case False
    then show ?thesis
      using 1 by (simp add: show_nat.simps [of n] is_digit_def digits_val_def)
  qed
qed

lemma parse_u16_show_nat: "parse_u16 (show_nat (unat p)) = Some p"
proof -
  obtain c cs where s: "show_nat (unat p) = c # cs"
    using show_nat_digits [of "unat p"] by (cases "show_nat (unat p)") auto
  then have "is_digit c"
    using show_nat_digits [of "unat p"] by simp
  then have "c \<noteq> CHR ''+''"
    by (rule digit_not_plus)
  then have "(case c # cs of CHR ''+'' # t \<Rightarrow> t | _ \<Rightarrow> c # cs) = c # cs"
    by (auto split: char.split bool.split)
  then show ?thesis
    using show_nat_digits [of "unat p"] s by (simp add: parse_u16_def)
qed

section \<open>Lists and maps\<close>

lemma take_append_exact [simp]: "length xs = n \<Longrightarrow> take n (xs @ ys) = xs"
  by simp

lemma drop_append_exact [simp]: "length xs = n \<Longrightarrow> drop n (xs @ ys) = ys"
  by simp

lemma append_eq_split:
  assumes "xs @ ys = xs' @ ys'" and "length xs = length xs'"
  shows "xs = xs'" and "ys = ys'"
  using assms by simp_all

section \<open>The contract of a self-delimiting integer code\<close>

text \<open>A decoder that reports the value it read from the front of a buffer together with the
  number of bytes consumed, and the encoder it inverts on the values in \<open>fits\<close>.\<close>

locale prefix_codec =
  fixes enc :: "'v \<Rightarrow> bytes"
    and dec :: "bytes \<Rightarrow> 'v \<times> nat"
    and fits :: "'v \<Rightarrow> bool"
  assumes dec_enc: "fits v \<Longrightarrow> dec (enc v @ rest) = (v, length (enc v))"
begin

lemma enc_prefix_free:
  assumes "fits u" and "fits v" and "enc u @ xs = enc v @ ys"
  shows "u = v \<and> xs = ys"
  using assms by (metis append_eq_append_conv dec_enc prod.inject)

lemma enc_list_prefix_free:
  assumes "list_all fits us" and "list_all fits vs" and "length us = length vs"
    and "concat (map enc us) @ xs = concat (map enc vs) @ ys"
  shows "us = vs \<and> xs = ys"
  using assms
proof (induction us arbitrary: vs)
  case Nil
  then show ?case by simp
next
  case (Cons u us)
  then obtain v vs' where vs: "vs = v # vs'" by (cases vs) auto
  with Cons.prems
  have "u = v \<and> concat (map enc us) @ xs = concat (map enc vs') @ ys"
    by (intro enc_prefix_free) simp_all
  with Cons vs show ?case by simp
qed

end

end
