(* ===== verification/Core_Types.thy ===== *)
theory Core_Types
  imports Voip_Prelude
begin

text \<open>
  The value types of the core crate (\<open>src/crates/voip-core/src/types.rs\<close>): the native
  enumerations, the wire enumerations of \<open>src/proto/signaling.proto\<close> that the generated
  protobuf code gives them, the conversions between the two, and the composite records
  with their conversions.

  A protobuf enumeration field travels as an \<open>i32\<close>.  The locale \<open>proto_enum\<close> states what
  the generated code and the two \<open>From\<close> instances of an enumeration promise, proves once
  that the field conversion \<open>i32_to_native_enum\<close> inverts the encoding and that an unknown
  value becomes the variant with discriminant 0, and is interpreted on every enumeration.
\<close>

section \<open>Enumerations\<close>

datatype NATType = NATNone | Cone | SymmetricSequential | SymmetricPseudo | SymmetricRandom

datatype NatType_proto =
  NatNone | NatCone | NatSymmetricSequential | NatSymmetricPseudo | NatSymmetricRandom

fun NATType_from_proto :: "NatType_proto \<Rightarrow> NATType" where
  "NATType_from_proto NatNone = NATNone"
| "NATType_from_proto NatCone = Cone"
| "NATType_from_proto NatSymmetricSequential = SymmetricSequential"
| "NATType_from_proto NatSymmetricPseudo = SymmetricPseudo"
| "NATType_from_proto NatSymmetricRandom = SymmetricRandom"

fun NATType_to_proto :: "NATType \<Rightarrow> NatType_proto" where
  "NATType_to_proto NATNone = NatNone"
| "NATType_to_proto Cone = NatCone"
| "NATType_to_proto SymmetricSequential = NatSymmetricSequential"
| "NATType_to_proto SymmetricPseudo = NatSymmetricPseudo"
| "NATType_to_proto SymmetricRandom = NatSymmetricRandom"

fun NatType_as_i32 :: "NatType_proto \<Rightarrow> i32" where
  "NatType_as_i32 NatNone = 0"
| "NatType_as_i32 NatCone = 1"
| "NatType_as_i32 NatSymmetricSequential = 2"
| "NatType_as_i32 NatSymmetricPseudo = 3"
| "NatType_as_i32 NatSymmetricRandom = 4"

definition NatType_try_from :: "i32 \<Rightarrow> NatType_proto option" where
  "NatType_try_from v =
     (if v = 0 then Some NatNone else if v = 1 then Some NatCone
      else if v = 2 then Some NatSymmetricSequential
      else if v = 3 then Some NatSymmetricPseudo
      else if v = 4 then Some NatSymmetricRandom else None)"

fun NATType_is_predictable :: "NATType \<Rightarrow> bool" where
  "NATType_is_predictable SymmetricSequential = True"
| "NATType_is_predictable SymmetricPseudo = True"
| "NATType_is_predictable _ = False"

fun is_no_nat :: "NATType \<Rightarrow> bool" where
  "is_no_nat NATNone = True"
| "is_no_nat _ = False"

datatype PredictionConfidence = Sequential | PseudoSequential | Random

datatype PredictionConfidence_proto = PSequential | PPseudoSequential | PRandom

fun PredictionConfidence_from_proto :: "PredictionConfidence_proto \<Rightarrow> PredictionConfidence" where
  "PredictionConfidence_from_proto PSequential = Sequential"
| "PredictionConfidence_from_proto PPseudoSequential = PseudoSequential"
| "PredictionConfidence_from_proto PRandom = Random"

fun PredictionConfidence_to_proto :: "PredictionConfidence \<Rightarrow> PredictionConfidence_proto" where
  "PredictionConfidence_to_proto Sequential = PSequential"
| "PredictionConfidence_to_proto PseudoSequential = PPseudoSequential"
| "PredictionConfidence_to_proto Random = PRandom"

fun PredictionConfidence_as_i32 :: "PredictionConfidence_proto \<Rightarrow> i32" where
  "PredictionConfidence_as_i32 PSequential = 0"
| "PredictionConfidence_as_i32 PPseudoSequential = 1"
| "PredictionConfidence_as_i32 PRandom = 2"

definition PredictionConfidence_try_from :: "i32 \<Rightarrow> PredictionConfidence_proto option" where
  "PredictionConfidence_try_from v =
     (if v = 0 then Some PSequential else if v = 1 then Some PPseudoSequential
      else if v = 2 then Some PRandom else None)"

fun PredictionConfidence_is_predictable :: "PredictionConfidence \<Rightarrow> bool" where
  "PredictionConfidence_is_predictable Random = False"
| "PredictionConfidence_is_predictable _ = True"

datatype ProbeMethod = QuicPathProbing

datatype ProbeMethod_proto = PQuicPathProbing

fun ProbeMethod_from_proto :: "ProbeMethod_proto \<Rightarrow> ProbeMethod" where
  "ProbeMethod_from_proto PQuicPathProbing = QuicPathProbing"

fun ProbeMethod_to_proto :: "ProbeMethod \<Rightarrow> ProbeMethod_proto" where
  "ProbeMethod_to_proto QuicPathProbing = PQuicPathProbing"

fun ProbeMethod_as_i32 :: "ProbeMethod_proto \<Rightarrow> i32" where
  "ProbeMethod_as_i32 PQuicPathProbing = 0"

definition ProbeMethod_try_from :: "i32 \<Rightarrow> ProbeMethod_proto option" where
  "ProbeMethod_try_from v = (if v = 0 then Some PQuicPathProbing else None)"

datatype DiscoveryMethod = Dht | Signaling | Cache

datatype DiscoveryMethod_proto = DiscoveryDht | DiscoverySignaling | DiscoveryCache

fun DiscoveryMethod_from_proto :: "DiscoveryMethod_proto \<Rightarrow> DiscoveryMethod" where
  "DiscoveryMethod_from_proto DiscoveryDht = Dht"
| "DiscoveryMethod_from_proto DiscoverySignaling = Signaling"
| "DiscoveryMethod_from_proto DiscoveryCache = Cache"

fun DiscoveryMethod_to_proto :: "DiscoveryMethod \<Rightarrow> DiscoveryMethod_proto" where
  "DiscoveryMethod_to_proto Dht = DiscoveryDht"
| "DiscoveryMethod_to_proto Signaling = DiscoverySignaling"
| "DiscoveryMethod_to_proto Cache = DiscoveryCache"

fun DiscoveryMethod_as_i32 :: "DiscoveryMethod_proto \<Rightarrow> i32" where
  "DiscoveryMethod_as_i32 DiscoveryDht = 0"
| "DiscoveryMethod_as_i32 DiscoverySignaling = 1"
| "DiscoveryMethod_as_i32 DiscoveryCache = 2"

definition DiscoveryMethod_try_from :: "i32 \<Rightarrow> DiscoveryMethod_proto option" where
  "DiscoveryMethod_try_from v =
     (if v = 0 then Some DiscoveryDht else if v = 1 then Some DiscoverySignaling
      else if v = 2 then Some DiscoveryCache else None)"

datatype MediaType = Audio | Video | Screen

datatype MediaType_proto = MediaAudio | MediaVideo | MediaScreen

fun MediaType_from_proto :: "MediaType_proto \<Rightarrow> MediaType" where
  "MediaType_from_proto MediaAudio = Audio"
| "MediaType_from_proto MediaVideo = Video"
| "MediaType_from_proto MediaScreen = Screen"

fun MediaType_to_proto :: "MediaType \<Rightarrow> MediaType_proto" where
  "MediaType_to_proto Audio = MediaAudio"
| "MediaType_to_proto Video = MediaVideo"
| "MediaType_to_proto Screen = MediaScreen"

fun MediaType_as_i32 :: "MediaType_proto \<Rightarrow> i32" where
  "MediaType_as_i32 MediaAudio = 0"
| "MediaType_as_i32 MediaVideo = 1"
| "MediaType_as_i32 MediaScreen = 2"

definition MediaType_try_from :: "i32 \<Rightarrow> MediaType_proto option" where
  "MediaType_try_from v =
     (if v = 0 then Some MediaAudio else if v = 1 then Some MediaVideo
      else if v = 2 then Some MediaScreen else None)"

datatype WireCallState = WRinging | WAccepted | WConnected | WFailed | WEnded

datatype WireCallState_proto = CallRinging | CallAccepted | CallConnected | CallFailed | CallEnded

fun WireCallState_from_proto :: "WireCallState_proto \<Rightarrow> WireCallState" where
  "WireCallState_from_proto CallRinging = WRinging"
| "WireCallState_from_proto CallAccepted = WAccepted"
| "WireCallState_from_proto CallConnected = WConnected"
| "WireCallState_from_proto CallFailed = WFailed"
| "WireCallState_from_proto CallEnded = WEnded"

fun WireCallState_to_proto :: "WireCallState \<Rightarrow> WireCallState_proto" where
  "WireCallState_to_proto WRinging = CallRinging"
| "WireCallState_to_proto WAccepted = CallAccepted"
| "WireCallState_to_proto WConnected = CallConnected"
| "WireCallState_to_proto WFailed = CallFailed"
| "WireCallState_to_proto WEnded = CallEnded"

fun WireCallState_as_i32 :: "WireCallState_proto \<Rightarrow> i32" where
  "WireCallState_as_i32 CallRinging = 0"
| "WireCallState_as_i32 CallAccepted = 1"
| "WireCallState_as_i32 CallConnected = 2"
| "WireCallState_as_i32 CallFailed = 3"
| "WireCallState_as_i32 CallEnded = 4"

definition WireCallState_try_from :: "i32 \<Rightarrow> WireCallState_proto option" where
  "WireCallState_try_from v =
     (if v = 0 then Some CallRinging
      else if v = 1 then Some CallAccepted
      else if v = 2 then Some CallConnected
      else if v = 3 then Some CallFailed
      else if v = 4 then Some CallEnded
      else None)"

datatype SubscriptionState = Pending | Active | Paused | SubscriptionEnded

datatype SubscriptionState_proto = SubPending | SubActive | SubPaused | SubEnded

fun SubscriptionState_from_proto :: "SubscriptionState_proto \<Rightarrow> SubscriptionState" where
  "SubscriptionState_from_proto SubPending = Pending"
| "SubscriptionState_from_proto SubActive = Active"
| "SubscriptionState_from_proto SubPaused = Paused"
| "SubscriptionState_from_proto SubEnded = SubscriptionEnded"

fun SubscriptionState_to_proto :: "SubscriptionState \<Rightarrow> SubscriptionState_proto" where
  "SubscriptionState_to_proto Pending = SubPending"
| "SubscriptionState_to_proto Active = SubActive"
| "SubscriptionState_to_proto Paused = SubPaused"
| "SubscriptionState_to_proto SubscriptionEnded = SubEnded"

fun SubscriptionState_as_i32 :: "SubscriptionState_proto \<Rightarrow> i32" where
  "SubscriptionState_as_i32 SubPending = 0"
| "SubscriptionState_as_i32 SubActive = 1"
| "SubscriptionState_as_i32 SubPaused = 2"
| "SubscriptionState_as_i32 SubEnded = 3"

definition SubscriptionState_try_from :: "i32 \<Rightarrow> SubscriptionState_proto option" where
  "SubscriptionState_try_from v =
     (if v = 0 then Some SubPending
      else if v = 1 then Some SubActive
      else if v = 2 then Some SubPaused
      else if v = 3 then Some SubEnded
      else None)"

datatype PeerStatus = Online | Offline | InCall

datatype PeerStatus_proto = PeerOnline | PeerOffline | PeerInCall

fun PeerStatus_from_proto :: "PeerStatus_proto \<Rightarrow> PeerStatus" where
  "PeerStatus_from_proto PeerOnline = Online"
| "PeerStatus_from_proto PeerOffline = Offline"
| "PeerStatus_from_proto PeerInCall = InCall"

fun PeerStatus_to_proto :: "PeerStatus \<Rightarrow> PeerStatus_proto" where
  "PeerStatus_to_proto Online = PeerOnline"
| "PeerStatus_to_proto Offline = PeerOffline"
| "PeerStatus_to_proto InCall = PeerInCall"

fun PeerStatus_as_i32 :: "PeerStatus_proto \<Rightarrow> i32" where
  "PeerStatus_as_i32 PeerOnline = 0"
| "PeerStatus_as_i32 PeerOffline = 1"
| "PeerStatus_as_i32 PeerInCall = 2"

definition PeerStatus_try_from :: "i32 \<Rightarrow> PeerStatus_proto option" where
  "PeerStatus_try_from v =
     (if v = 0 then Some PeerOnline else if v = 1 then Some PeerOffline
      else if v = 2 then Some PeerInCall else None)"

datatype ConnectionMethod = NoConnection | Ipv6Direct | Ipv4Cone | Ipv4Prediction | Masque | MasqueHttp2

datatype ConnectionMethod_proto = ConnNone | ConnIpv6Direct | ConnIpv4Cone | ConnIpv4Prediction | ConnMasque | ConnMasqueHttp2

fun ConnectionMethod_from_proto :: "ConnectionMethod_proto \<Rightarrow> ConnectionMethod" where
  "ConnectionMethod_from_proto ConnNone = NoConnection"
| "ConnectionMethod_from_proto ConnIpv6Direct = Ipv6Direct"
| "ConnectionMethod_from_proto ConnIpv4Cone = Ipv4Cone"
| "ConnectionMethod_from_proto ConnIpv4Prediction = Ipv4Prediction"
| "ConnectionMethod_from_proto ConnMasque = Masque"
| "ConnectionMethod_from_proto ConnMasqueHttp2 = MasqueHttp2"

fun ConnectionMethod_to_proto :: "ConnectionMethod \<Rightarrow> ConnectionMethod_proto" where
  "ConnectionMethod_to_proto NoConnection = ConnNone"
| "ConnectionMethod_to_proto Ipv6Direct = ConnIpv6Direct"
| "ConnectionMethod_to_proto Ipv4Cone = ConnIpv4Cone"
| "ConnectionMethod_to_proto Ipv4Prediction = ConnIpv4Prediction"
| "ConnectionMethod_to_proto Masque = ConnMasque"
| "ConnectionMethod_to_proto MasqueHttp2 = ConnMasqueHttp2"

fun ConnectionMethod_as_i32 :: "ConnectionMethod_proto \<Rightarrow> i32" where
  "ConnectionMethod_as_i32 ConnNone = 0"
| "ConnectionMethod_as_i32 ConnIpv6Direct = 1"
| "ConnectionMethod_as_i32 ConnIpv4Cone = 2"
| "ConnectionMethod_as_i32 ConnIpv4Prediction = 3"
| "ConnectionMethod_as_i32 ConnMasque = 4"
| "ConnectionMethod_as_i32 ConnMasqueHttp2 = 5"

definition ConnectionMethod_try_from :: "i32 \<Rightarrow> ConnectionMethod_proto option" where
  "ConnectionMethod_try_from v =
     (if v = 0 then Some ConnNone
      else if v = 1 then Some ConnIpv6Direct
      else if v = 2 then Some ConnIpv4Cone
      else if v = 3 then Some ConnIpv4Prediction
      else if v = 4 then Some ConnMasque
      else if v = 5 then Some ConnMasqueHttp2
      else None)"

fun is_direct :: "ConnectionMethod \<Rightarrow> bool" where
  "is_direct Ipv6Direct = True"
| "is_direct Ipv4Cone = True"
| "is_direct Ipv4Prediction = True"
| "is_direct _ = False"

fun is_relayed :: "ConnectionMethod \<Rightarrow> bool" where
  "is_relayed Masque = True"
| "is_relayed MasqueHttp2 = True"
| "is_relayed _ = False"

datatype CallEndReason =
  Normal | Rejected | Timeout | FailedIpv4Random | FailedUdpBlocked | FailedNetwork
| MigrationFailed | FailedMasqueUnreachable | FailedTcpBlocked

datatype CallEndReason_proto =
  EndNormal | EndRejected | EndTimeout | EndFailedIpv4Random | EndFailedUdpBlocked
| EndFailedNetwork | EndMigrationFailed | EndFailedMasqueUnreachable | EndFailedTcpBlocked

fun CallEndReason_from_proto :: "CallEndReason_proto \<Rightarrow> CallEndReason" where
  "CallEndReason_from_proto EndNormal = Normal"
| "CallEndReason_from_proto EndRejected = Rejected"
| "CallEndReason_from_proto EndTimeout = Timeout"
| "CallEndReason_from_proto EndFailedIpv4Random = FailedIpv4Random"
| "CallEndReason_from_proto EndFailedUdpBlocked = FailedUdpBlocked"
| "CallEndReason_from_proto EndFailedNetwork = FailedNetwork"
| "CallEndReason_from_proto EndMigrationFailed = MigrationFailed"
| "CallEndReason_from_proto EndFailedMasqueUnreachable = FailedMasqueUnreachable"
| "CallEndReason_from_proto EndFailedTcpBlocked = FailedTcpBlocked"

fun CallEndReason_to_proto :: "CallEndReason \<Rightarrow> CallEndReason_proto" where
  "CallEndReason_to_proto Normal = EndNormal"
| "CallEndReason_to_proto Rejected = EndRejected"
| "CallEndReason_to_proto Timeout = EndTimeout"
| "CallEndReason_to_proto FailedIpv4Random = EndFailedIpv4Random"
| "CallEndReason_to_proto FailedUdpBlocked = EndFailedUdpBlocked"
| "CallEndReason_to_proto FailedNetwork = EndFailedNetwork"
| "CallEndReason_to_proto MigrationFailed = EndMigrationFailed"
| "CallEndReason_to_proto FailedMasqueUnreachable = EndFailedMasqueUnreachable"
| "CallEndReason_to_proto FailedTcpBlocked = EndFailedTcpBlocked"

fun CallEndReason_as_i32 :: "CallEndReason_proto \<Rightarrow> i32" where
  "CallEndReason_as_i32 EndNormal = 0"
| "CallEndReason_as_i32 EndRejected = 1"
| "CallEndReason_as_i32 EndTimeout = 2"
| "CallEndReason_as_i32 EndFailedIpv4Random = 3"
| "CallEndReason_as_i32 EndFailedUdpBlocked = 4"
| "CallEndReason_as_i32 EndFailedNetwork = 5"
| "CallEndReason_as_i32 EndMigrationFailed = 6"
| "CallEndReason_as_i32 EndFailedMasqueUnreachable = 7"
| "CallEndReason_as_i32 EndFailedTcpBlocked = 8"

definition CallEndReason_try_from :: "i32 \<Rightarrow> CallEndReason_proto option" where
  "CallEndReason_try_from v =
     (if v = 0 then Some EndNormal else if v = 1 then Some EndRejected
      else if v = 2 then Some EndTimeout else if v = 3 then Some EndFailedIpv4Random
      else if v = 4 then Some EndFailedUdpBlocked else if v = 5 then Some EndFailedNetwork
      else if v = 6 then Some EndMigrationFailed
      else if v = 7 then Some EndFailedMasqueUnreachable
      else if v = 8 then Some EndFailedTcpBlocked else None)"

fun is_failure :: "CallEndReason \<Rightarrow> bool" where
  "is_failure Normal = False"
| "is_failure Rejected = False"
| "is_failure _ = True"

fun should_retry :: "CallEndReason \<Rightarrow> bool" where
  "should_retry FailedIpv4Random = True"
| "should_retry FailedMasqueUnreachable = True"
| "should_retry _ = False"

text \<open>\<open>i32_to_native_enum\<close>: an unknown field value falls back to value 0, whose own
  conversion is unwrapped and would panic if 0 were not a variant.\<close>

definition i32_to_native_enum ::
  "(i32 \<Rightarrow> 'p option) \<Rightarrow> ('p \<Rightarrow> 'n) \<Rightarrow> i32 \<Rightarrow> ('n, unit) result" where
  "i32_to_native_enum try_from into v =
     (case try_from v of
        Some p \<Rightarrow> Ok (into p)
      | None \<Rightarrow> (case try_from 0 of Some p \<Rightarrow> Ok (into p) | None \<Rightarrow> Panic))"

section \<open>The contract of a wire enumeration\<close>

locale proto_enum =
  fixes try_from :: "i32 \<Rightarrow> 'p option"
    and as_i32 :: "'p \<Rightarrow> i32"
    and into :: "'p \<Rightarrow> 'n"
    and from_native :: "'n \<Rightarrow> 'p"
  assumes try_as: "try_from (as_i32 p) = Some p"
    and as_try: "try_from v = Some p \<Longrightarrow> as_i32 p = v"
    and zero_known: "try_from 0 \<noteq> None"
    and into_from: "into (from_native n) = n"
    and from_into: "from_native (into p) = p"
begin

lemma decode_encode: "i32_to_native_enum try_from into (as_i32 (from_native n)) = Ok n"
  by (simp add: i32_to_native_enum_def try_as into_from)

lemma decode_known:
  assumes "try_from v \<noteq> None"
  shows "\<exists>n. i32_to_native_enum try_from into v = Ok n \<and> as_i32 (from_native n) = v"
  using assms by (auto simp: i32_to_native_enum_def as_try from_into)

lemma decode_unknown:
  assumes "try_from v = None"
  shows "i32_to_native_enum try_from into v = i32_to_native_enum try_from into 0"
  using assms by (simp add: i32_to_native_enum_def split: option.splits)

lemma decode_total: "\<exists>n. i32_to_native_enum try_from into v = Ok n"
  using zero_known by (auto simp: i32_to_native_enum_def split: option.splits)

lemma encode_inj: "as_i32 (from_native m) = as_i32 (from_native n) \<longleftrightarrow> m = n"
  by (metis try_as into_from option.inject)

end

interpretation nat_type_enum:
  proto_enum NatType_try_from NatType_as_i32 NATType_from_proto NATType_to_proto
proof (unfold_locales, goal_cases)
  case (1 p) then show ?case by (cases p) (simp_all add: NatType_try_from_def)
next
  case (2 v p) then show ?case by (auto simp: NatType_try_from_def split: if_splits)
next
  case 3 then show ?case by (simp add: NatType_try_from_def)
next
  case (4 n) then show ?case by (cases n) simp_all
next
  case (5 p) then show ?case by (cases p) simp_all
qed

interpretation confidence_enum:
  proto_enum PredictionConfidence_try_from PredictionConfidence_as_i32 PredictionConfidence_from_proto PredictionConfidence_to_proto
proof (unfold_locales, goal_cases)
  case (1 p) then show ?case by (cases p) (simp_all add: PredictionConfidence_try_from_def)
next
  case (2 v p) then show ?case by (auto simp: PredictionConfidence_try_from_def split: if_splits)
next
  case 3 then show ?case by (simp add: PredictionConfidence_try_from_def)
next
  case (4 n) then show ?case by (cases n) simp_all
next
  case (5 p) then show ?case by (cases p) simp_all
qed

interpretation probe_method_enum:
  proto_enum ProbeMethod_try_from ProbeMethod_as_i32 ProbeMethod_from_proto ProbeMethod_to_proto
proof (unfold_locales, goal_cases)
  case (1 p) then show ?case by (cases p) (simp_all add: ProbeMethod_try_from_def)
next
  case (2 v p) then show ?case by (auto simp: ProbeMethod_try_from_def split: if_splits)
next
  case 3 then show ?case by (simp add: ProbeMethod_try_from_def)
next
  case (4 n) then show ?case by (cases n) simp_all
next
  case (5 p) then show ?case by (cases p) simp_all
qed

interpretation discovery_method_enum:
  proto_enum DiscoveryMethod_try_from DiscoveryMethod_as_i32 DiscoveryMethod_from_proto DiscoveryMethod_to_proto
proof (unfold_locales, goal_cases)
  case (1 p) then show ?case by (cases p) (simp_all add: DiscoveryMethod_try_from_def)
next
  case (2 v p) then show ?case by (auto simp: DiscoveryMethod_try_from_def split: if_splits)
next
  case 3 then show ?case by (simp add: DiscoveryMethod_try_from_def)
next
  case (4 n) then show ?case by (cases n) simp_all
next
  case (5 p) then show ?case by (cases p) simp_all
qed

interpretation media_type_enum:
  proto_enum MediaType_try_from MediaType_as_i32 MediaType_from_proto MediaType_to_proto
proof (unfold_locales, goal_cases)
  case (1 p) then show ?case by (cases p) (simp_all add: MediaType_try_from_def)
next
  case (2 v p) then show ?case by (auto simp: MediaType_try_from_def split: if_splits)
next
  case 3 then show ?case by (simp add: MediaType_try_from_def)
next
  case (4 n) then show ?case by (cases n) simp_all
next
  case (5 p) then show ?case by (cases p) simp_all
qed

interpretation wire_call_state_enum:
  proto_enum WireCallState_try_from WireCallState_as_i32 WireCallState_from_proto WireCallState_to_proto
proof (unfold_locales, goal_cases)
  case (1 p) then show ?case by (cases p) (simp_all add: WireCallState_try_from_def)
next
  case (2 v p) then show ?case by (auto simp: WireCallState_try_from_def split: if_splits)
next
  case 3 then show ?case by (simp add: WireCallState_try_from_def)
next
  case (4 n) then show ?case by (cases n) simp_all
next
  case (5 p) then show ?case by (cases p) simp_all
qed

interpretation subscription_state_enum:
  proto_enum SubscriptionState_try_from SubscriptionState_as_i32 SubscriptionState_from_proto SubscriptionState_to_proto
proof (unfold_locales, goal_cases)
  case (1 p) then show ?case by (cases p) (simp_all add: SubscriptionState_try_from_def)
next
  case (2 v p) then show ?case by (auto simp: SubscriptionState_try_from_def split: if_splits)
next
  case 3 then show ?case by (simp add: SubscriptionState_try_from_def)
next
  case (4 n) then show ?case by (cases n) simp_all
next
  case (5 p) then show ?case by (cases p) simp_all
qed

interpretation peer_status_enum:
  proto_enum PeerStatus_try_from PeerStatus_as_i32 PeerStatus_from_proto PeerStatus_to_proto
proof (unfold_locales, goal_cases)
  case (1 p) then show ?case by (cases p) (simp_all add: PeerStatus_try_from_def)
next
  case (2 v p) then show ?case by (auto simp: PeerStatus_try_from_def split: if_splits)
next
  case 3 then show ?case by (simp add: PeerStatus_try_from_def)
next
  case (4 n) then show ?case by (cases n) simp_all
next
  case (5 p) then show ?case by (cases p) simp_all
qed

interpretation connection_method_enum:
  proto_enum ConnectionMethod_try_from ConnectionMethod_as_i32 ConnectionMethod_from_proto ConnectionMethod_to_proto
proof (unfold_locales, goal_cases)
  case (1 p) then show ?case by (cases p) (simp_all add: ConnectionMethod_try_from_def)
next
  case (2 v p) then show ?case by (auto simp: ConnectionMethod_try_from_def split: if_splits)
next
  case 3 then show ?case by (simp add: ConnectionMethod_try_from_def)
next
  case (4 n) then show ?case by (cases n) simp_all
next
  case (5 p) then show ?case by (cases p) simp_all
qed

interpretation end_reason_enum:
  proto_enum CallEndReason_try_from CallEndReason_as_i32 CallEndReason_from_proto CallEndReason_to_proto
proof (unfold_locales, goal_cases)
  case (1 p) then show ?case by (cases p) (simp_all add: CallEndReason_try_from_def)
next
  case (2 v p) then show ?case by (auto simp: CallEndReason_try_from_def split: if_splits)
next
  case 3 then show ?case by (simp add: CallEndReason_try_from_def)
next
  case (4 n) then show ?case by (cases n) simp_all
next
  case (5 p) then show ?case by (cases p) simp_all
qed

section \<open>Composite records\<close>

record PortPredictionData =
  external_ip :: string
  predicted_port_start :: u32
  predicted_port_end :: u32
  confidence :: PredictionConfidence
  base_port :: u32
  delta_pattern :: i32
  probed_at :: u64
  probe_method :: ProbeMethod

record PortPrediction_proto =
  p_external_ip :: string
  p_predicted_port_start :: u32
  p_predicted_port_end :: u32
  p_confidence :: i32
  p_base_port :: u32
  p_delta_pattern :: i32
  p_probed_at :: u64
  p_probe_method :: i32

definition PortPredictionData_from_proto ::
  "PortPrediction_proto \<Rightarrow> (PortPredictionData, unit) result" where
  "PortPredictionData_from_proto p =
     res_bind (i32_to_native_enum PredictionConfidence_try_from PredictionConfidence_from_proto
                 (p_confidence p)) (\<lambda>c.
     res_bind (i32_to_native_enum ProbeMethod_try_from ProbeMethod_from_proto
                 (p_probe_method p)) (\<lambda>m.
     Ok \<lparr> external_ip = p_external_ip p,
          predicted_port_start = p_predicted_port_start p,
          predicted_port_end = p_predicted_port_end p,
          confidence = c,
          base_port = p_base_port p,
          delta_pattern = p_delta_pattern p,
          probed_at = p_probed_at p,
          probe_method = m \<rparr>))"

definition PortPredictionData_to_proto :: "PortPredictionData \<Rightarrow> PortPrediction_proto" where
  "PortPredictionData_to_proto d =
     \<lparr> p_external_ip = external_ip d,
       p_predicted_port_start = predicted_port_start d,
       p_predicted_port_end = predicted_port_end d,
       p_confidence = PredictionConfidence_as_i32 (PredictionConfidence_to_proto (confidence d)),
       p_base_port = base_port d,
       p_delta_pattern = delta_pattern d,
       p_probed_at = probed_at d,
       p_probe_method = ProbeMethod_as_i32 (ProbeMethod_to_proto (probe_method d)) \<rparr>"

definition range_size :: "bool \<Rightarrow> PortPredictionData \<Rightarrow> (u32, unit) result" where
  "range_size oc d =
     checked_add oc (saturating_sub (predicted_port_end d) (predicted_port_start d)) 1"

definition is_usable :: "PortPredictionData \<Rightarrow> bool" where
  "is_usable d \<longleftrightarrow>
     PredictionConfidence_is_predictable (confidence d)
     \<and> predicted_port_start d > 0
     \<and> predicted_port_end d \<ge> predicted_port_start d"

record TrackInfo =
  track_namespace :: string
  codec :: string
  priority :: u32
  media_type :: MediaType
  bitrate_max :: u32
  bitrate_min :: u32
  frame_duration_ms :: u32

record TrackAnnouncement_proto =
  p_track_namespace :: string
  p_codec :: string
  p_priority :: u32
  p_media_type :: i32
  p_bitrate_max :: u32
  p_bitrate_min :: u32
  p_frame_duration_ms :: u32

definition TrackInfo_from_proto :: "TrackAnnouncement_proto \<Rightarrow> (TrackInfo, unit) result" where
  "TrackInfo_from_proto p =
     res_bind (i32_to_native_enum MediaType_try_from MediaType_from_proto (p_media_type p)) (\<lambda>m.
     Ok \<lparr> track_namespace = p_track_namespace p, codec = p_codec p, priority = p_priority p,
          media_type = m, bitrate_max = p_bitrate_max p, bitrate_min = p_bitrate_min p,
          frame_duration_ms = p_frame_duration_ms p \<rparr>)"

definition TrackInfo_to_proto :: "TrackInfo \<Rightarrow> TrackAnnouncement_proto" where
  "TrackInfo_to_proto d =
     \<lparr> p_track_namespace = track_namespace d, p_codec = codec d, p_priority = priority d,
       p_media_type = MediaType_as_i32 (MediaType_to_proto (media_type d)),
       p_bitrate_max = bitrate_max d, p_bitrate_min = bitrate_min d,
       p_frame_duration_ms = frame_duration_ms d \<rparr>"

record NATInfo =
  nat_type :: NATType
  prediction :: "PortPredictionData option"

record NatInfo_proto =
  p_nat_type :: i32
  p_prediction :: "PortPrediction_proto option"

definition NATInfo_from_proto :: "NatInfo_proto \<Rightarrow> (NATInfo, unit) result" where
  "NATInfo_from_proto p =
     res_bind (i32_to_native_enum NatType_try_from NATType_from_proto (p_nat_type p)) (\<lambda>n.
     case p_prediction p of
       None \<Rightarrow> Ok \<lparr> nat_type = n, prediction = None \<rparr>
     | Some q \<Rightarrow> res_bind (PortPredictionData_from_proto q) (\<lambda>d.
         Ok \<lparr> nat_type = n, prediction = Some d \<rparr>))"

definition NATInfo_to_proto :: "NATInfo \<Rightarrow> NatInfo_proto" where
  "NATInfo_to_proto d =
     \<lparr> p_nat_type = NatType_as_i32 (NATType_to_proto (nat_type d)),
       p_prediction = map_option PortPredictionData_to_proto (prediction d) \<rparr>"

definition no_nat :: NATInfo where
  "no_nat = \<lparr> nat_type = NATNone, prediction = None \<rparr>"

definition cone_nat :: NATInfo where
  "cone_nat = \<lparr> nat_type = Cone, prediction = None \<rparr>"

definition symmetric_with_prediction :: "PortPredictionData \<Rightarrow> NATInfo" where
  "symmetric_with_prediction p =
     \<lparr> nat_type = (case confidence p of
                    Sequential \<Rightarrow> SymmetricSequential
                  | PseudoSequential \<Rightarrow> SymmetricPseudo
                  | Random \<Rightarrow> SymmetricRandom),
       prediction = Some p \<rparr>"

definition supports_direct :: "NATInfo \<Rightarrow> bool" where
  "supports_direct n \<longleftrightarrow>
     nat_type n \<in> {NATNone, Cone, SymmetricSequential, SymmetricPseudo}"

section \<open>Tunnel, transport and lifecycle enumerations\<close>

datatype TunnelStatus = NotNeeded | TConnecting | TActive | TActiveHttp2 | TRecovering | TFailed

fun TunnelStatus_is_active :: "TunnelStatus \<Rightarrow> bool" where
  "TunnelStatus_is_active TActive = True"
| "TunnelStatus_is_active TActiveHttp2 = True"
| "TunnelStatus_is_active _ = False"

fun TunnelStatus_is_failed :: "TunnelStatus \<Rightarrow> bool" where
  "TunnelStatus_is_failed TFailed = True"
| "TunnelStatus_is_failed _ = False"

datatype MasqueTransport = Http3 | Http2

datatype NATProbingState = NPIdle | Probing | Analyzing | Cached | Refreshing

datatype PushRetryState = PRIdle | Pushing | Waiting | PRConnected | PermanentlyFailed

datatype ProxyLifecycleState = Off | Starting | Serving | Shutting

section \<open>Facts about the conversions\<close>

lemma PortPredictionData_round_trip:
  "PortPredictionData_from_proto (PortPredictionData_to_proto d) = Ok d"
  by (simp add: PortPredictionData_from_proto_def PortPredictionData_to_proto_def
      confidence_enum.decode_encode probe_method_enum.decode_encode)

lemma PortPredictionData_from_proto_total: "\<exists>d. PortPredictionData_from_proto p = Ok d"
  using confidence_enum.decode_total [of "p_confidence p"]
    probe_method_enum.decode_total [of "p_probe_method p"]
  by (auto simp: PortPredictionData_from_proto_def)

lemma TrackInfo_round_trip: "TrackInfo_from_proto (TrackInfo_to_proto d) = Ok d"
  by (simp add: TrackInfo_from_proto_def TrackInfo_to_proto_def media_type_enum.decode_encode)

lemma NATInfo_round_trip: "NATInfo_from_proto (NATInfo_to_proto d) = Ok d"
  by (simp add: NATInfo_from_proto_def NATInfo_to_proto_def nat_type_enum.decode_encode
      PortPredictionData_round_trip split: option.split)

lemma NATInfo_from_proto_total: "\<exists>d. NATInfo_from_proto p = Ok d"
proof -
  obtain n where "i32_to_native_enum NatType_try_from NATType_from_proto (p_nat_type p) = Ok n"
    using nat_type_enum.decode_total by blast
  then show ?thesis
    using PortPredictionData_from_proto_total
    by (cases "p_prediction p") (auto simp: NATInfo_from_proto_def res_bind_eq_Ok_iff)
qed

end
