(* ===== verification/Call_State.thy ===== *)
theory Call_State
  imports Core_Types
begin

text \<open>
  The call lifecycle machine of \<open>src/crates/voip-core/src/state.rs\<close>.  Each transition method
  is a function from the machine to the updated machine and its \<open>TransitionResult\<close>; the
  machine's life is the inductive relation \<open>call_step\<close> of successful transitions.  The
  diagram in the documentation of \<open>CallStateMachine\<close> is the abstract specification
  \<open>lifecycle_edge\<close>, which the methods are shown to implement.
\<close>

section \<open>The machine\<close>

datatype CallState = Idle | Ringing | Accepted | Connected | Failed | Ended

datatype TransitionResult = TOk | TInvalid (t_from: CallState) (t_to: CallState) (t_reason: string)

record CallStateMachine =
  csm_state :: CallState
  csm_method :: "ConnectionMethod option"
  csm_end_reason :: "CallEndReason option"
  csm_retry_count :: u32
  csm_max_retries :: u32

definition csm_new :: "u32 \<Rightarrow> CallStateMachine" where
  "csm_new max_retries =
     \<lparr> csm_state = Idle, csm_method = None, csm_end_reason = None,
       csm_retry_count = 0, csm_max_retries = max_retries \<rparr>"

definition csm_is_terminal :: "CallStateMachine \<Rightarrow> bool" where
  "csm_is_terminal m \<longleftrightarrow> csm_state m = Failed \<or> csm_state m = Ended"

definition csm_is_connected :: "CallStateMachine \<Rightarrow> bool" where
  "csm_is_connected m \<longleftrightarrow> csm_state m = Connected"

definition csm_ring :: "CallStateMachine \<Rightarrow> CallStateMachine \<times> TransitionResult" where
  "csm_ring m =
     (case csm_state m of
        Idle \<Rightarrow> (m\<lparr>csm_state := Ringing\<rparr>, TOk)
      | _ \<Rightarrow> (m, TInvalid (csm_state m) Ringing ''Can only ring from Idle state''))"

definition csm_accept :: "CallStateMachine \<Rightarrow> CallStateMachine \<times> TransitionResult" where
  "csm_accept m =
     (case csm_state m of
        Ringing \<Rightarrow> (m\<lparr>csm_state := Accepted\<rparr>, TOk)
      | _ \<Rightarrow> (m, TInvalid (csm_state m) Accepted ''Can only accept from Ringing state''))"

definition csm_connect ::
  "ConnectionMethod \<Rightarrow> CallStateMachine \<Rightarrow> CallStateMachine \<times> TransitionResult" where
  "csm_connect method m =
     (case csm_state m of
        Accepted \<Rightarrow> (m\<lparr>csm_state := Connected, csm_method := Some method\<rparr>, TOk)
      | _ \<Rightarrow> (m, TInvalid (csm_state m) Connected ''Can only connect from Accepted state''))"

definition csm_end ::
  "CallEndReason \<Rightarrow> CallStateMachine \<Rightarrow> CallStateMachine \<times> TransitionResult" where
  "csm_end reason m =
     (case csm_state m of
        Connected \<Rightarrow> (m\<lparr>csm_state := Ended, csm_end_reason := Some reason\<rparr>, TOk)
      | _ \<Rightarrow> (m, TInvalid (csm_state m) Ended ''Can only end from Connected state''))"

definition csm_fail ::
  "CallEndReason \<Rightarrow> CallStateMachine \<Rightarrow> CallStateMachine \<times> TransitionResult" where
  "csm_fail reason m =
     (let failed = (m\<lparr>csm_state := Failed, csm_end_reason := Some reason\<rparr>, TOk) in
      case csm_state m of
        Ringing \<Rightarrow> failed
      | Accepted \<Rightarrow> failed
      | Connected \<Rightarrow> failed
      | Idle \<Rightarrow> (m, TInvalid (csm_state m) Failed ''Cannot fail from Idle state'')
      | Failed \<Rightarrow> (m, TInvalid (csm_state m) Failed ''Call has already failed'')
      | Ended \<Rightarrow> (m, TInvalid (csm_state m) Failed ''Call has already ended normally''))"

definition csm_reject :: "CallStateMachine \<Rightarrow> CallStateMachine \<times> TransitionResult" where
  "csm_reject m =
     (case csm_state m of
        Ringing \<Rightarrow> (m\<lparr>csm_state := Failed, csm_end_reason := Some Rejected\<rparr>, TOk)
      | _ \<Rightarrow> (m, TInvalid (csm_state m) Failed ''Can only reject from Ringing state''))"

definition csm_timeout :: "CallStateMachine \<Rightarrow> CallStateMachine \<times> TransitionResult" where
  "csm_timeout m =
     (let timed_out = (m\<lparr>csm_state := Failed, csm_end_reason := Some Timeout\<rparr>, TOk) in
      case csm_state m of
        Ringing \<Rightarrow> timed_out
      | Accepted \<Rightarrow> timed_out
      | _ \<Rightarrow> (m, TInvalid (csm_state m) Failed
                  ''Can only timeout from Ringing or Accepted state''))"

definition csm_retry :: "CallStateMachine \<Rightarrow> CallStateMachine \<times> TransitionResult" where
  "csm_retry m =
     (case csm_state m of
        Failed \<Rightarrow>
          if csm_retry_count m \<ge> csm_max_retries m
          then (m, TInvalid (csm_state m) Ringing ''Max retries exceeded'')
          else (m\<lparr>csm_retry_count := csm_retry_count m + 1, csm_state := Ringing,
                  csm_end_reason := None\<rparr>, TOk)
      | _ \<Rightarrow> (m, TInvalid (csm_state m) Ringing ''Can only retry from Failed state''))"

text \<open>The calls a client of the machine can make, and a sequence of them.\<close>

datatype csm_event =
  EvRing | EvAccept | EvConnect ConnectionMethod | EvEnd CallEndReason
| EvFail CallEndReason | EvReject | EvTimeout | EvRetry

fun csm_apply :: "csm_event \<Rightarrow> CallStateMachine \<Rightarrow> CallStateMachine \<times> TransitionResult" where
  "csm_apply EvRing m = csm_ring m"
| "csm_apply EvAccept m = csm_accept m"
| "csm_apply (EvConnect c) m = csm_connect c m"
| "csm_apply (EvEnd r) m = csm_end r m"
| "csm_apply (EvFail r) m = csm_fail r m"
| "csm_apply EvReject m = csm_reject m"
| "csm_apply EvTimeout m = csm_timeout m"
| "csm_apply EvRetry m = csm_retry m"

fun csm_run :: "csm_event list \<Rightarrow> CallStateMachine \<Rightarrow> CallStateMachine \<times> TransitionResult list"
  where
  "csm_run [] m = (m, [])"
| "csm_run (e # es) m =
     (let (m', r) = csm_apply e m; (m'', rs) = csm_run es m' in (m'', r # rs))"

inductive call_step :: "CallStateMachine \<Rightarrow> csm_event \<Rightarrow> CallStateMachine \<Rightarrow> bool" where
  "csm_apply e m = (m', TOk) \<Longrightarrow> call_step m e m'"

inductive call_reach :: "u32 \<Rightarrow> CallStateMachine \<Rightarrow> bool" for max_retries where
  reach_new: "call_reach max_retries (csm_new max_retries)"
| reach_step: "call_reach max_retries m \<Longrightarrow> call_step m e m' \<Longrightarrow> call_reach max_retries m'"

inductive_simps call_step_iff: "call_step m e m'"
inductive_cases call_reachE: "call_reach n m"

section \<open>The documented diagram\<close>

text \<open>The arrows of the diagram in the documentation of \<open>CallStateMachine\<close>.\<close>

inductive lifecycle_edge :: "CallState \<Rightarrow> CallState \<Rightarrow> bool" where
  "lifecycle_edge Idle Ringing"
| "lifecycle_edge Ringing Accepted"
| "lifecycle_edge Accepted Connected"
| "lifecycle_edge Connected Ended"
| "lifecycle_edge Ringing Failed"
| "lifecycle_edge Accepted Failed"
| "lifecycle_edge Connected Failed"
| "lifecycle_edge Failed Ringing"

inductive_simps lifecycle_edge_simps [simp]: "lifecycle_edge s t"

lemmas csm_defs =
  csm_ring_def csm_accept_def csm_connect_def csm_end_def csm_fail_def csm_reject_def
  csm_timeout_def csm_retry_def

section \<open>Facts about single transitions\<close>

lemma csm_apply_invalid:
  assumes "csm_apply e m = (m', TInvalid s t why)"
  shows "m' = m \<and> s = csm_state m"
  using assms
  by (cases e) (auto simp: csm_defs Let_def split: CallState.splits if_splits)

lemma csm_apply_edge:
  assumes "csm_apply e m = (m', TOk)"
  shows "lifecycle_edge (csm_state m) (csm_state m')"
  using assms
  by (cases e) (auto simp: csm_defs Let_def split: CallState.splits if_splits)

lemma csm_apply_failed:
  assumes "csm_apply e m = (m', TOk)" and "csm_state m = Failed"
  shows "csm_retry_count m < csm_max_retries m"
  using assms
  by (cases e) (auto simp: csm_defs Let_def not_le split: CallState.splits if_splits)

lemma csm_apply_max_retries: "csm_max_retries (fst (csm_apply e m)) = csm_max_retries m"
  by (cases e) (auto simp: csm_defs Let_def split: CallState.splits)

lemma edge_enabled:
  assumes "lifecycle_edge (csm_state m) t"
    and "csm_state m = Failed \<Longrightarrow> csm_retry_count m < csm_max_retries m"
  shows "\<exists>e m'. csm_apply e m = (m', TOk) \<and> csm_state m' = t"
proof -
  let ?e = "case (csm_state m, t) of
      (Idle, _) \<Rightarrow> EvRing | (Failed, _) \<Rightarrow> EvRetry | (Ringing, Accepted) \<Rightarrow> EvAccept
    | (Accepted, Connected) \<Rightarrow> EvConnect Masque | (Connected, Ended) \<Rightarrow> EvEnd Normal
    | _ \<Rightarrow> EvFail FailedNetwork"
  have "\<exists>m'. csm_apply ?e m = (m', TOk) \<and> csm_state m' = t"
    using assms by (auto simp: csm_defs split: CallState.splits)
  then show ?thesis by blast
qed

section \<open>The invariant of a reachable machine\<close>

definition csm_inv :: "u32 \<Rightarrow> CallStateMachine \<Rightarrow> bool" where
  "csm_inv n m \<longleftrightarrow>
     csm_max_retries m = n
     \<and> csm_retry_count m \<le> n
     \<and> (csm_end_reason m \<noteq> None \<longleftrightarrow> csm_is_terminal m)
     \<and> (csm_state m \<in> {Connected, Ended} \<longrightarrow> csm_method m \<noteq> None)
     \<and> (csm_state m = Idle \<longrightarrow> csm_retry_count m = 0 \<and> csm_method m = None)"

lemma csm_inv_new: "csm_inv n (csm_new n)"
  by (simp add: csm_inv_def csm_new_def csm_is_terminal_def)

lemma csm_inv_apply:
  assumes "csm_inv n m"
  shows "csm_inv n (fst (csm_apply e m))"
  using assms
  by (cases e)
    (auto simp: csm_inv_def csm_defs csm_is_terminal_def Let_def not_le inc_le
        split: CallState.splits)

lemma call_reach_inv: "call_reach n m \<Longrightarrow> csm_inv n m"
proof (induction rule: call_reach.induct)
  case reach_new
  then show ?case by (rule csm_inv_new)
next
  case (reach_step m e m')
  then show ?case
    using csm_inv_apply [of n m e] by (simp add: call_step_iff)
qed

section \<open>A bound on the life of a call\<close>

text \<open>Every successful transition uses up one unit of the machine's budget: four transitions
  per attempt, and one attempt more than there are retries.\<close>

fun state_rank :: "CallState \<Rightarrow> nat" where
  "state_rank Idle = 4"
| "state_rank Ringing = 3"
| "state_rank Accepted = 2"
| "state_rank Connected = 1"
| "state_rank Failed = 0"
| "state_rank Ended = 0"

definition csm_budget :: "CallStateMachine \<Rightarrow> nat" where
  "csm_budget m =
     4 * (unat (csm_max_retries m) - unat (csm_retry_count m)) + state_rank (csm_state m)"

lemma csm_budget_retry:
  assumes "(c :: u32) < n"
  shows "4 * (unat n - unat (c + 1)) + 4 = 4 * (unat n - unat c)"
proof -
  have "unat (c + 1) = unat c + 1"
    using assms by (rule unat_plus_one_below)
  moreover have "unat c < unat n"
    using assms by (simp add: word_less_nat_alt)
  ultimately show ?thesis by simp
qed

lemma csm_budget_step:
  assumes "csm_apply e m = (m', TOk)"
  shows "csm_budget m' < csm_budget m"
  using assms csm_budget_retry [of "csm_retry_count m" "csm_max_retries m"]
  by (cases e)
    (auto simp: csm_budget_def csm_defs Let_def not_le split: CallState.splits if_splits)

lemma csm_run_budget:
  "length (filter (\<lambda>r. r = TOk) (snd (csm_run es m))) + csm_budget (fst (csm_run es m))
     \<le> csm_budget m"
proof (induction es arbitrary: m)
  case Nil
  then show ?case by simp
next
  case (Cons e es)
  obtain m' r where a: "csm_apply e m = (m', r)" by (cases "csm_apply e m")
  show ?case
    using Cons.IH [of m'] csm_budget_step [of e m m'] csm_apply_invalid [of e m m'] a
    by (cases r) (auto simp: Let_def split: prod.splits)
qed

section \<open>Properties\<close>



text \<open>C22: in every machine reachable from \<open>new(max_retries)\<close> the retry counter is within the
  maximum, an end reason is recorded exactly in the terminal states, a connected or ended call
  has a connection method, and an idle machine has neither retries nor a method.\<close>

theorem reachable_call_invariant:
  assumes "call_reach n m"
  shows "csm_retry_count m \<le> n
    \<and> (csm_end_reason m \<noteq> None \<longleftrightarrow> csm_is_terminal m)
    \<and> (csm_state m = Connected \<or> csm_state m = Ended \<longrightarrow> csm_method m \<noteq> None)
    \<and> (csm_state m = Idle \<longrightarrow> csm_retry_count m = 0 \<and> csm_method m = None)"
  using call_reach_inv [OF assms] by (auto simp: csm_inv_def)

theorem reachable_call_invariant_witness:
  "call_reach 3 ((csm_new 3)\<lparr>csm_state := Ringing\<rparr>)
   \<and> csm_retry_count ((csm_new 3)\<lparr>csm_state := Ringing\<rparr>) \<le> 3"
proof -
  have "call_step (csm_new 3) EvRing ((csm_new 3)\<lparr>csm_state := Ringing\<rparr>)"
    by (simp add: call_step_iff csm_ring_def csm_new_def)
  then have "call_reach 3 ((csm_new 3)\<lparr>csm_state := Ringing\<rparr>)"
    by (rule reach_step [OF reach_new])
  then show ?thesis
    using reachable_call_invariant by blast
qed

text \<open>C23: whatever sequence of calls a client makes on a new machine, at most
  \<open>4 * (max_retries + 1)\<close> of them succeed: a call cannot cycle between failure and retry
  for ever.\<close>

theorem call_life_bounded:
  "length (filter (\<lambda>r. r = TOk) (snd (csm_run es (csm_new n)))) \<le> 4 * (unat n + 1)"
  using csm_run_budget [of es "csm_new n"] by (simp add: csm_budget_def csm_new_def)

end
