(* ===== verification/Core_Config.thy ===== *)
theory Core_Config
  imports Core_Types
begin

text \<open>
  Configuration (\<open>src/crates/voip-core/src/config.rs\<close>) and the error classification of the
  core crate (\<open>src/crates/voip-core/src/error.rs\<close>): the \<open>VoIPConfig\<close> and \<open>OpusConfig\<close> records
  with their defaults, the derived retry delay and port ranges, and the maps from a
  \<open>VoipError\<close> to a call end reason, a wire error code and the recovery classes.
\<close>

section \<open>Configuration records\<close>

record VoIPConfig =
  path_probe_count :: u32
  path_probe_timeout_ms :: u64
  nat_cache_ttl_secs :: u64
  path_refresh_count :: u32
  nat_delta_variance_threshold :: u32
  prediction_margin_sequential :: u32
  prediction_margin_pseudo :: u32
  prediction_max_probes :: u32
  quic_connect_timeout_ms :: u64
  quic_prediction_timeout_ms :: u64
  quic_idle_timeout_ms :: u64
  quic_alpn :: string
  discovery_privacy_first :: bool
  dht_lookup_timeout_ms :: u64
  dht_bootstrap_nodes :: "string list"
  dht_record_ttl_secs :: u64
  push_retry_enabled :: bool
  push_retry_initial_delay_secs :: u64
  push_retry_max_attempts :: u32
  push_retry_backoff_multiplier :: u32
  masque_fallback_enabled :: bool
  masque_discovery_timeout_ms :: u64
  masque_connect_timeout_ms :: u64
  masque_max_proxy_attempts :: u32
  masque_proxy_enabled :: bool
  masque_proxy_max_sessions :: u32
  call_ring_timeout_ms :: u64
  call_connect_timeout_ms :: u64
  migration_path_timeout_ms :: u64
  migration_max_reprobes :: u32
  rate_limit_calls_per_min :: u32
  rate_limit_registrations_per_min :: u32
  rate_limit_ws_messages_per_sec :: u32
  jwt_expiry_secs :: u64
  signaling_server_ips :: "string list"
  session_ticket_ttl_secs :: u64
  moq_feedback_interval_ms :: u64
  ws_idle_timeout_secs :: u64

definition VoIPConfig_default :: VoIPConfig where
  "VoIPConfig_default =
     \<lparr> path_probe_count = 5, path_probe_timeout_ms = 1000, nat_cache_ttl_secs = 300,
       path_refresh_count = 2, nat_delta_variance_threshold = 3,
       prediction_margin_sequential = 3, prediction_margin_pseudo = 8,
       prediction_max_probes = 17,
       quic_connect_timeout_ms = 5000, quic_prediction_timeout_ms = 3000,
       quic_idle_timeout_ms = 30000, quic_alpn = ''moq-00'',
       discovery_privacy_first = True, dht_lookup_timeout_ms = 200,
       dht_bootstrap_nodes = [], dht_record_ttl_secs = 3600,
       push_retry_enabled = True, push_retry_initial_delay_secs = 5,
       push_retry_max_attempts = 3, push_retry_backoff_multiplier = 3,
       masque_fallback_enabled = True, masque_discovery_timeout_ms = 2000,
       masque_connect_timeout_ms = 3000, masque_max_proxy_attempts = 3,
       masque_proxy_enabled = False, masque_proxy_max_sessions = 10,
       call_ring_timeout_ms = 30000, call_connect_timeout_ms = 10000,
       migration_path_timeout_ms = 5000, migration_max_reprobes = 1,
       rate_limit_calls_per_min = 10, rate_limit_registrations_per_min = 6,
       rate_limit_ws_messages_per_sec = 30, jwt_expiry_secs = 3600,
       signaling_server_ips = [], session_ticket_ttl_secs = 86400,
       moq_feedback_interval_ms = 1000, ws_idle_timeout_secs = 300 \<rparr>"

text \<open>\<open>u64::pow\<close> squares its base only while a further factor remains, so it overflows exactly
  when the power itself does.\<close>

definition checked_pow :: "bool \<Rightarrow> 'a::len word \<Rightarrow> nat \<Rightarrow> ('a word, 'e) result" where
  "checked_pow oc b n =
     (if oc \<and> \<not> unat b ^ n < 2 ^ LENGTH('a) then Panic else Ok (b ^ n))"

definition retry_delay_secs :: "bool \<Rightarrow> VoIPConfig \<Rightarrow> u32 \<Rightarrow> (u64, unit) result" where
  "retry_delay_secs oc cfg attempt =
     (if attempt = 0 then Ok 0
      else let exponent = unat (attempt - 1);
               multiplier = ucast (push_retry_backoff_multiplier cfg) in
           res_bind (checked_pow oc multiplier exponent)
             (\<lambda>p. checked_mul oc (push_retry_initial_delay_secs cfg) p))"

definition sequential_prediction_range :: "VoIPConfig \<Rightarrow> u32 \<Rightarrow> u32 \<times> u32" where
  "sequential_prediction_range cfg base =
     (let start = saturating_sub base (prediction_margin_sequential cfg);
          stop = saturating_add base (prediction_margin_sequential cfg) in
      (max start 1024, min stop 65535))"

definition pseudo_prediction_range :: "VoIPConfig \<Rightarrow> u32 \<Rightarrow> u32 \<times> u32" where
  "pseudo_prediction_range cfg base =
     (let start = saturating_sub base (prediction_margin_pseudo cfg);
          stop = saturating_add base (prediction_margin_pseudo cfg) in
      (max start 1024, min stop 65535))"

definition OPUS_APPLICATION_VOIP :: u32 where
  "OPUS_APPLICATION_VOIP = 2048"

record OpusConfig =
  sample_rate :: u32
  channels :: u8
  application :: u32
  opus_bitrate_max :: i32
  opus_bitrate_min :: i32
  opus_frame_duration_ms :: u32
  fec :: bool
  dtx :: bool
  complexity :: u8
  frame_size :: nat

definition OpusConfig_default :: OpusConfig where
  "OpusConfig_default =
     \<lparr> sample_rate = 48000, channels = 1, application = OPUS_APPLICATION_VOIP,
       opus_bitrate_max = 64000, opus_bitrate_min = 6000, opus_frame_duration_ms = 20,
       fec = True, dtx = True, complexity = 10, frame_size = 960 \<rparr>"

section \<open>Errors of the core crate\<close>

datatype VoipError =
  QuicConnectionFailed string | QuicHandshakeTimeout | VMigrationFailed
| NatProbeFailed string | NatRandomBothSides | UdpBlocked | TcpBlocked
| MasqueProxyUnreachable string | MasqueTunnelFailed string | MasqueTunnelDisconnected
| MasqueNoProxy | ProxyTokenInvalid
| SignalingError string | JwtAuthFailed string | RateLimited | PeerNotFound string
| VPeerOffline string
| InvalidTransition string string string | CallAlreadyExists string
| DhtLookupFailed string | DhtRecordVerificationFailed
| SignatureVerificationFailed | InvalidKeyMaterial string
| Internal string

fun to_call_end_reason :: "VoipError \<Rightarrow> CallEndReason" where
  "to_call_end_reason (QuicConnectionFailed _) = FailedNetwork"
| "to_call_end_reason QuicHandshakeTimeout = Timeout"
| "to_call_end_reason VMigrationFailed = MigrationFailed"
| "to_call_end_reason (NatProbeFailed _) = FailedNetwork"
| "to_call_end_reason NatRandomBothSides = FailedIpv4Random"
| "to_call_end_reason UdpBlocked = FailedUdpBlocked"
| "to_call_end_reason TcpBlocked = FailedTcpBlocked"
| "to_call_end_reason (MasqueProxyUnreachable _) = FailedMasqueUnreachable"
| "to_call_end_reason (MasqueTunnelFailed _) = FailedMasqueUnreachable"
| "to_call_end_reason MasqueTunnelDisconnected = FailedMasqueUnreachable"
| "to_call_end_reason MasqueNoProxy = FailedMasqueUnreachable"
| "to_call_end_reason ProxyTokenInvalid = FailedMasqueUnreachable"
| "to_call_end_reason (SignalingError _) = FailedNetwork"
| "to_call_end_reason (JwtAuthFailed _) = FailedNetwork"
| "to_call_end_reason RateLimited = FailedNetwork"
| "to_call_end_reason (PeerNotFound _) = FailedNetwork"
| "to_call_end_reason (VPeerOffline _) = Timeout"
| "to_call_end_reason (InvalidTransition _ _ _) = FailedNetwork"
| "to_call_end_reason (CallAlreadyExists _) = FailedNetwork"
| "to_call_end_reason (DhtLookupFailed _) = FailedNetwork"
| "to_call_end_reason DhtRecordVerificationFailed = FailedNetwork"
| "to_call_end_reason SignatureVerificationFailed = FailedNetwork"
| "to_call_end_reason (InvalidKeyMaterial _) = FailedNetwork"
| "to_call_end_reason (Internal _) = FailedNetwork"

fun to_error_code :: "VoipError \<Rightarrow> u32" where
  "to_error_code (PeerNotFound _) = 1001"
| "to_error_code (VPeerOffline _) = 1002"
| "to_error_code (CallAlreadyExists _) = 1004"
| "to_error_code RateLimited = 2001"
| "to_error_code (JwtAuthFailed _) = 2002"
| "to_error_code (SignalingError _) = 2003"
| "to_error_code MasqueNoProxy = 3001"
| "to_error_code (MasqueProxyUnreachable _) = 3002"
| "to_error_code ProxyTokenInvalid = 3003"
| "to_error_code _ = 9999"

fun is_recoverable :: "VoipError \<Rightarrow> bool" where
  "is_recoverable QuicHandshakeTimeout = True"
| "is_recoverable (NatProbeFailed _) = True"
| "is_recoverable (DhtLookupFailed _) = True"
| "is_recoverable (SignalingError _) = True"
| "is_recoverable _ = False"

fun is_migratable :: "VoipError \<Rightarrow> bool" where
  "is_migratable VMigrationFailed = True"
| "is_migratable MasqueTunnelDisconnected = True"
| "is_migratable _ = False"

fun is_fatal :: "VoipError \<Rightarrow> bool" where
  "is_fatal NatRandomBothSides = True"
| "is_fatal UdpBlocked = True"
| "is_fatal TcpBlocked = True"
| "is_fatal MasqueNoProxy = True"
| "is_fatal (PeerNotFound _) = True"
| "is_fatal SignatureVerificationFailed = True"
| "is_fatal DhtRecordVerificationFailed = True"
| "is_fatal _ = False"

fun should_push_retry :: "VoipError \<Rightarrow> bool" where
  "should_push_retry NatRandomBothSides = True"
| "should_push_retry (MasqueProxyUnreachable _) = True"
| "should_push_retry _ = False"

section \<open>Facts\<close>

lemma retry_delay_fits:
  assumes "attempt \<noteq> 0"
    and "unat (push_retry_initial_delay_secs cfg)
           * unat (push_retry_backoff_multiplier cfg) ^ (unat attempt - 1) < 2 ^ 64"
    and "0 < unat (push_retry_initial_delay_secs cfg)"
  shows "\<exists>d. retry_delay_secs oc cfg attempt = Ok d
           \<and> unat d = unat (push_retry_initial_delay_secs cfg)
                      * unat (push_retry_backoff_multiplier cfg) ^ (unat attempt - 1)"
proof -
  let ?i = "push_retry_initial_delay_secs cfg"
  let ?m = "push_retry_backoff_multiplier cfg"
  let ?n = "unat attempt - 1"
  have e: "unat (attempt - 1) = ?n"
    using assms(1) by (simp add: unat_minus_one)
  have u: "unat (ucast ?m :: u64) = unat ?m"
    by (rule unat_ucast_up) simp
  have "unat ?m ^ ?n \<le> unat ?i * unat ?m ^ ?n"
    using assms(3) by simp
  then have p: "unat ?m ^ ?n < 2 ^ 64"
    using assms(2) by linarith
  then have q: "unat ((ucast ?m :: u64) ^ ?n) = unat ?m ^ ?n"
    using u by (subst unat_power_fits) simp_all
  show ?thesis
    using assms p e q u
    by (simp add: retry_delay_secs_def checked_pow_def checked_mul_def unat_word_ariths)
qed

lemma clamp_range:
  fixes base margin :: u32
  assumes "1024 \<le> base" and "base \<le> 65535"
  shows "1024 \<le> max (saturating_sub base margin) 1024
    \<and> max (saturating_sub base margin) 1024 \<le> base
    \<and> base \<le> min (saturating_add base margin) 65535
    \<and> min (saturating_add base margin) 65535 \<le> 65535"
proof -
  have "unat base < 65536"
    using assms(2) by (simp add: word_le_nat_alt)
  then show ?thesis
    using assms by (auto simp: word_le_nat_alt unat_saturating_sub unat_saturating_add max_def min_def)
qed

section \<open>Properties\<close>

text \<open>The push-retry delay is the exponential backoff
  \<open>initial * multiplier ^ (attempt - 1)\<close>, computed without a panic in every build as long as
  that number fits in 64 bits.\<close>

lemma retry_delay_backoff:
  assumes "attempt \<noteq> 0"
    and "unat (push_retry_initial_delay_secs cfg)
           * unat (push_retry_backoff_multiplier cfg) ^ (unat attempt - 1) < 2 ^ 64"
    and "0 < unat (push_retry_initial_delay_secs cfg)"
  shows "\<exists>d. retry_delay_secs oc cfg attempt = Ok d
           \<and> unat d = unat (push_retry_initial_delay_secs cfg)
                      * unat (push_retry_backoff_multiplier cfg) ^ (unat attempt - 1)"
  using assms by (rule retry_delay_fits)

lemma retry_delay_backoff_witness:
  "\<exists>d. retry_delay_secs True VoIPConfig_default 3 = Ok d \<and> unat d = 45"
  using retry_delay_backoff [of 3 VoIPConfig_default True]
  by (simp add: VoIPConfig_default_def)

text \<open>The error classification of the core crate is consistent.  An error for which a push
  retry is attempted maps to an end reason whose own retry flag is set, every error maps to a
  failure reason, and no error is both recoverable and fatal or both migratable and fatal.\<close>

lemma error_classification_consistent:
  "(should_push_retry e \<longrightarrow> should_retry (to_call_end_reason e))
   \<and> is_failure (to_call_end_reason e)
   \<and> \<not> (is_recoverable e \<and> is_fatal e) \<and> \<not> (is_migratable e \<and> is_fatal e)"
  by (cases e) simp_all

lemma error_classification_consistent_witness:
  "should_push_retry NatRandomBothSides \<and> should_retry (to_call_end_reason NatRandomBothSides)"
  using error_classification_consistent [of NatRandomBothSides] by simp

end
