(* ===== verification/Core_Crypto.thy ===== *)
theory Core_Crypto
  imports Core_Config
begin

text \<open>
  Peer identifiers (\<open>src/crates/voip-core/src/crypto.rs\<close>).  A peer identifier is the
  hexadecimal form of an Ed25519 public key.  The curve library is a parameter: \<open>as_bytes\<close>,
  \<open>from_bytes\<close>, \<open>sign\<close> and \<open>verify\<close> stand for the methods of \<open>ed25519_dalek\<close> of those names.
  Of a formatted error message only the fixed part is kept.
\<close>

section \<open>Hexadecimal\<close>

definition HEX_CHARS :: string where
  "HEX_CHARS = ''0123456789abcdef''"

definition hex_encode :: "bytes \<Rightarrow> string" where
  "hex_encode bs =
     concat (map (\<lambda>b. [HEX_CHARS ! unat (drop_bit 4 b), HEX_CHARS ! unat (b AND 0x0f)]) bs)"

definition char_from_hex :: "u8 \<Rightarrow> (u8, VoipError) result" where
  "char_from_hex c =
     (if 48 \<le> c \<and> c \<le> 57 then Ok (c - 48)
      else if 97 \<le> c \<and> c \<le> 102 then Ok (c - 97 + 10)
      else if 65 \<le> c \<and> c \<le> 70 then Ok (c - 65 + 10)
      else Err (InvalidKeyMaterial ''invalid hex character''))"

fun hex_decode_chunks :: "bytes \<Rightarrow> (bytes, VoipError) result" where
  "hex_decode_chunks (h # l # rest) =
     res_bind (char_from_hex h) (\<lambda>high.
     res_bind (char_from_hex l) (\<lambda>low.
     res_map (\<lambda>bs. (push_bit 4 high OR low) # bs) (hex_decode_chunks rest)))"
| "hex_decode_chunks [h] = res_bind (char_from_hex h) (\<lambda>_. Panic)"
| "hex_decode_chunks [] = Ok []"

definition hex_decode :: "string \<Rightarrow> (bytes, VoipError) result" where
  "hex_decode s =
     (if \<not> even (length s) then Err (InvalidKeyMaterial ''hex string has odd length'')
      else hex_decode_chunks (str_bytes s))"

section \<open>Peer identifiers and record signatures\<close>

definition peer_id_from_public_key :: "('k \<Rightarrow> bytes) \<Rightarrow> 'k \<Rightarrow> string" where
  "peer_id_from_public_key as_bytes pk = hex_encode (as_bytes pk)"

definition parse_peer_id :: "(bytes \<Rightarrow> 'k option) \<Rightarrow> string \<Rightarrow> ('k, VoipError) result" where
  "parse_peer_id from_bytes peer_id =
     res_bind (hex_decode peer_id) (\<lambda>bs.
       if length bs \<noteq> 32
       then Err (InvalidKeyMaterial ''peer ID must be 32 bytes (64 hex chars)'')
       else case from_bytes bs of
              Some k \<Rightarrow> Ok k
            | None \<Rightarrow> Err (InvalidKeyMaterial ''invalid public key''))"

definition sign_dht_record :: "('sk \<Rightarrow> bytes \<Rightarrow> 's) \<Rightarrow> 'sk \<Rightarrow> bytes \<Rightarrow> 's" where
  "sign_dht_record sign key bs = sign key bs"

definition verify_dht_record :: "('k \<Rightarrow> bytes \<Rightarrow> 's \<Rightarrow> bool) \<Rightarrow> 'k \<Rightarrow> bytes \<Rightarrow> 's \<Rightarrow> bool" where
  "verify_dht_record verify pk bs sig = verify pk bs sig"

section \<open>Facts\<close>

lemma nibbles:
  fixes b :: u8
  shows "unat (drop_bit 4 b) < 16" and "unat (b AND 0x0f) < 16"
    and "push_bit 4 (drop_bit 4 b) OR (b AND 0x0f) = b"
proof -
  show "unat (drop_bit 4 b) < 16"
    by (simp add: drop_bit_eq_div unat_div less_mult_imp_div_less)
  have m: "b AND 0x0f = take_bit 4 b"
    by (simp add: take_bit_eq_mask mask_eq_exp_minus_1)
  show "unat (b AND 0x0f) < 16"
    unfolding m by (simp add: take_bit_eq_mod unat_mod)
  show "push_bit 4 (drop_bit 4 b) OR (b AND 0x0f) = b"
    unfolding m by (rule bit_eqI) (auto simp: bit_simps)
qed

lemma char_from_hex_digit:
  assumes "n < 16"
  shows "char_from_hex (of_nat (of_char (HEX_CHARS ! n))) = Ok (of_nat n)"
proof -
  have "\<forall>k \<in> set [0..<16]. char_from_hex (of_nat (of_char (HEX_CHARS ! k))) = Ok (of_nat k)"
    by code_simp
  with assms show ?thesis by simp
qed

lemma hex_decode_chunks_encode: "hex_decode_chunks (str_bytes (hex_encode bs)) = Ok bs"
proof (induction bs)
  case Nil
  then show ?case by (simp add: hex_encode_def)
next
  case (Cons b bs)
  have "hex_encode (b # bs)
      = HEX_CHARS ! unat (drop_bit 4 b) # HEX_CHARS ! unat (b AND 0x0f) # hex_encode bs"
    by (simp add: hex_encode_def)
  with Cons show ?case
    using nibbles [of b] by (simp add: str_bytes_def char_from_hex_digit)
qed

lemma length_hex_encode [simp]: "length (hex_encode bs) = 2 * length bs"
  by (induction bs) (simp_all add: hex_encode_def)

lemma hex_decode_encode: "hex_decode (hex_encode bs) = Ok bs"
  by (simp add: hex_decode_def hex_decode_chunks_encode)

lemma char_from_hex_no_panic: "char_from_hex c \<noteq> Panic"
  by (simp add: char_from_hex_def)

lemma hex_decode_chunks_even:
  "even (length bs) \<Longrightarrow>
     hex_decode_chunks bs \<noteq> Panic
     \<and> (\<forall>ys. hex_decode_chunks bs = Ok ys \<longrightarrow> 2 * length ys = length bs)"
proof (induction bs rule: hex_decode_chunks.induct)
  case (1 h l rest)
  then show ?case
    using char_from_hex_no_panic [of h] char_from_hex_no_panic [of l]
    by (cases "char_from_hex h"; cases "char_from_hex l"; cases "hex_decode_chunks rest") auto
qed simp_all

section \<open>Properties\<close>

text \<open>Decoding inverts encoding on every byte string, the encoding has two characters per
  byte, and the decoder never panics: every string is either decoded to half its length or
  refused with an error.\<close>

lemma hex_round_trip:
  "hex_decode (hex_encode bs) = Ok bs
   \<and> length (hex_encode bs) = 2 * length bs
   \<and> ((\<exists>ys. hex_decode s = Ok ys \<and> 2 * length ys = length s)
      \<or> (\<exists>e. hex_decode s = Err (InvalidKeyMaterial e)))"
proof -
  have err: "hex_decode_chunks xs = Err e \<Longrightarrow> \<exists>m. e = InvalidKeyMaterial m" for xs e
  proof (induction xs arbitrary: e rule: hex_decode_chunks.induct)
    case (1 h l rest)
    then show ?case
      by (cases "hex_decode_chunks rest") (auto simp: char_from_hex_def split: if_splits)
  qed (auto simp: char_from_hex_def split: if_splits)
  have "(\<exists>ys. hex_decode s = Ok ys \<and> 2 * length ys = length s)
      \<or> (\<exists>e. hex_decode s = Err (InvalidKeyMaterial e))"
    using hex_decode_chunks_even [of "str_bytes s"] err [of "str_bytes s"]
    by (cases "hex_decode_chunks (str_bytes s)") (auto simp: hex_decode_def)
  then show ?thesis
    by (simp add: hex_decode_encode)
qed

text \<open>A peer identifier identifies its key.  Parsing the identifier of a key gives the key
  back, and two keys with the same identifier are equal, provided that the key library reads
  back the 32 bytes it writes for a key.\<close>

lemma peer_id_round_trip:
  fixes as_bytes :: "'k \<Rightarrow> bytes"
  assumes "\<And>k. length (as_bytes k) = 32"
    and "\<And>k. from_bytes (as_bytes k) = Some k"
  shows "parse_peer_id from_bytes (peer_id_from_public_key as_bytes pk) = Ok pk
    \<and> length (peer_id_from_public_key as_bytes pk) = 64
    \<and> (peer_id_from_public_key as_bytes pk = peer_id_from_public_key as_bytes pk'
         \<longrightarrow> pk = pk')"
proof -
  have rt: "parse_peer_id from_bytes (peer_id_from_public_key as_bytes k) = Ok k" for k
    using assms by (simp add: parse_peer_id_def peer_id_from_public_key_def hex_decode_encode)
  then show ?thesis
    using assms(1) by (auto simp: peer_id_from_public_key_def) (metis result.inject(1))
qed

lemma peer_id_round_trip_witness:
  "parse_peer_id (\<lambda>bs. if length bs = 32 then Some (hd bs = 1) else None)
     (peer_id_from_public_key (\<lambda>k. replicate 32 (if k then 1 else 0)) True) = Ok True"
  using peer_id_round_trip [of "\<lambda>k. replicate 32 (if k then 1 else (0::u8))"
      "\<lambda>bs. if length bs = 32 then Some (hd bs = 1) else None" True True]
  by simp

end
