(* ===== verification/Utf8.thy ===== *)
theory Utf8
  imports Voip_Prelude
begin

text \<open>
  The two conversions of byte strings to Rust strings that the wire parsers use:
  \<open>String::from_utf8\<close>, which refuses ill-formed input, and \<open>String::from_utf8_lossy\<close>, which
  puts the replacement character U+FFFD for every maximal ill-formed part.
\<close>

definition in_range :: "u8 \<Rightarrow> u8 \<Rightarrow> u8 \<Rightarrow> bool" where
  "in_range lo hi b \<longleftrightarrow> lo \<le> b \<and> b \<le> hi"

definition utf8_second_ok :: "u8 \<Rightarrow> u8 \<Rightarrow> bool" where
  "utf8_second_ok b0 b1 =
     (if b0 = 0xE0 then in_range 0xA0 0xBF b1
      else if b0 = 0xED then in_range 0x80 0x9F b1
      else if b0 = 0xF0 then in_range 0x90 0xBF b1
      else if b0 = 0xF4 then in_range 0x80 0x8F b1
      else in_range 0x80 0xBF b1)"

definition utf8_width :: "u8 \<Rightarrow> nat" where
  "utf8_width b =
     (if b \<le> 0x7F then 1
      else if in_range 0xC2 0xDF b then 2
      else if in_range 0xE0 0xEF b then 3
      else if in_range 0xF0 0xF4 b then 4
      else 0)"

text \<open>The number of bytes of the first well-formed character, or of the ill-formed part.\<close>

fun utf8_chunk :: "bytes \<Rightarrow> bool \<times> nat" where
  "utf8_chunk [] = (True, 0)"
| "utf8_chunk (b0 # bs) =
     (let w = utf8_width b0 in
      if w = 0 then (False, 1)
      else if w = 1 then (True, 1)
      else case bs of
        [] \<Rightarrow> (False, 1)
      | b1 # bs1 \<Rightarrow>
          if \<not> utf8_second_ok b0 b1 then (False, 1)
          else if w = 2 then (True, 2)
          else case bs1 of
            [] \<Rightarrow> (False, 2)
          | b2 # bs2 \<Rightarrow>
              if \<not> in_range 0x80 0xBF b2 then (False, 2)
              else if w = 3 then (True, 3)
              else case bs2 of
                [] \<Rightarrow> (False, 3)
              | b3 # bs3 \<Rightarrow> if in_range 0x80 0xBF b3 then (True, 4) else (False, 3))"

lemma utf8_chunk_pos:
  assumes "bs \<noteq> []" and "(ok, n) = utf8_chunk bs"
  shows "0 < n"
  using assms by (cases bs) (auto simp: Let_def split: list.splits if_splits)

lemma utf8_chunk_shrinks:
  assumes "bs \<noteq> []" and "(ok, n) = utf8_chunk bs"
  shows "length bs - n < length bs"
  using utf8_chunk_pos [OF assms] assms(1) by simp

function utf8_valid :: "bytes \<Rightarrow> bool" where
  "utf8_valid bs =
     (if bs = [] then True
      else let (ok, n) = utf8_chunk bs in ok \<and> utf8_valid (drop n bs))"
  by pat_completeness auto

termination utf8_valid
  by (relation "measure length") (auto intro: utf8_chunk_shrinks)

function utf8_lossy :: "bytes \<Rightarrow> bytes" where
  "utf8_lossy bs =
     (if bs = [] then []
      else let (ok, n) = utf8_chunk bs in
           (if ok then take n bs else [0xEF, 0xBF, 0xBD]) @ utf8_lossy (drop n bs))"
  by pat_completeness auto

termination utf8_lossy
  by (relation "measure length") (auto intro: utf8_chunk_shrinks)

declare utf8_valid.simps [simp del] utf8_lossy.simps [simp del]

definition from_utf8 :: "bytes \<Rightarrow> string option" where
  "from_utf8 bs = (if utf8_valid bs then Some (bytes_str bs) else None)"

definition from_utf8_lossy :: "bytes \<Rightarrow> string" where
  "from_utf8_lossy bs = bytes_str (utf8_lossy bs)"

lemma utf8_lossy_valid: "utf8_valid bs \<Longrightarrow> utf8_lossy bs = bs"
proof (induction bs rule: utf8_lossy.induct)
  case (1 bs)
  show ?case
  proof (cases "bs = []")
    case True
    then show ?thesis by (simp add: utf8_lossy.simps)
  next
    case False
    then show ?thesis
      using 1 by (auto simp: utf8_lossy.simps [of bs] utf8_valid.simps [of bs] split: prod.splits)
  qed
qed

lemma from_utf8_str_bytes: "utf8_valid (str_bytes s) \<Longrightarrow> from_utf8 (str_bytes s) = Some s"
  by (simp add: from_utf8_def bytes_str_str_bytes)

lemma from_utf8_lossy_str_bytes:
  "utf8_valid (str_bytes s) \<Longrightarrow> from_utf8_lossy (str_bytes s) = s"
  by (simp add: from_utf8_lossy_def utf8_lossy_valid bytes_str_str_bytes)

lemma utf8_valid_ascii:
  assumes "\<forall>b \<in> set bs. b \<le> 0x7F"
  shows "utf8_valid bs"
  using assms
proof (induction bs)
  case Nil
  then show ?case by (simp add: utf8_valid.simps)
next
  case (Cons b bs)
  then show ?case
    by (subst utf8_valid.simps) (simp add: utf8_width_def)
qed

lemma utf8_chunk_append:
  assumes "utf8_chunk bs = (True, n)" and "bs \<noteq> []"
  shows "utf8_chunk (bs @ cs) = (True, n) \<and> n \<le> length bs"
proof -
  obtain b0 bs0 where bs: "bs = b0 # bs0" using assms(2) by (cases bs) auto
  show ?thesis
    using assms(1) by (auto simp: bs Let_def split: list.splits if_splits)
qed

lemma utf8_valid_append: "utf8_valid bs \<Longrightarrow> utf8_valid cs \<Longrightarrow> utf8_valid (bs @ cs)"
proof (induction bs rule: utf8_valid.induct)
  case (1 bs)
  show ?case
  proof (cases "bs = []")
    case False
    obtain n where n: "utf8_chunk bs = (True, n)" "utf8_valid (drop n bs)"
      using 1(2) False by (auto simp: utf8_valid.simps [of bs] split: prod.splits)
    then have "utf8_valid (drop n bs @ cs)"
      using 1(1) [OF False] 1(3) by simp
    then show ?thesis
      using utf8_chunk_append [OF n(1) False, of cs] False by (subst utf8_valid.simps) simp
  qed (use 1(3) in simp)
qed

end
