(* ===== verification/Moq_Codec.thy ===== *)
theory Moq_Codec
  imports Utf8
begin

text \<open>
  The wire formats of the MoQ session layer (\<open>src/crates/voip-client/src/moq.rs\<close>): QUIC
  variable-length integers, media datagrams, the setup messages and track namespaces.
\<close>

section \<open>Errors and variable-length integers\<close>

datatype MoqError =
  MoqInvalidState string string
| MoqTransportError string
| MoqDatagramSendFailed string
| MoqDatagramRecvFailed string
| MoqDatagramTooShort nat nat
| MoqInvalidDatagramType u8
| MoqUnexpectedMessageType u64 u64
| MoqVersionNegotiationFailed
| MoqTrackNotFound string
| MoqSubscribeError u64 string

definition moq_encode_varint :: "u64 \<Rightarrow> bytes" where
  "moq_encode_varint v =
     (if v < 0x40 then [ucast v]
      else if v < 0x4000 then be_bytes 2 (unat (0x4000 OR (ucast v :: u16)))
      else if v < 0x40000000 then be_bytes 4 (unat (0x80000000 OR (ucast v :: u32)))
      else be_bytes 8 (unat (0xC000000000000000 OR v)))"

definition moq_decode_varint :: "bytes \<Rightarrow> u64 \<times> nat" where
  "moq_decode_varint bs =
     (case bs of
        [] \<Rightarrow> (0, 0)
      | first # _ \<Rightarrow>
          let prefix = drop_bit 6 first in
          if prefix = 0 then (ucast first, 1)
          else if prefix = 1 then
            (if length bs < 2 then (0, 0)
             else (ucast ((of_nat (be_val (take 2 bs)) :: u16) AND 0x3FFF), 2))
          else if prefix = 2 then
            (if length bs < 4 then (0, 0)
             else (ucast ((of_nat (be_val (take 4 bs)) :: u32) AND 0x3FFFFFFF), 4))
          else
            (if length bs < 8 then (0, 0)
             else ((of_nat (be_val (take 8 bs)) :: u64) AND 0x3FFFFFFFFFFFFFFF, 8)))"

section \<open>Datagrams\<close>

definition DATAGRAM_TYPE_MEDIA :: u8 where
  "DATAGRAM_TYPE_MEDIA = 0x01"

record MoqDatagram =
  datagram_type :: u8
  track_alias :: u32
  sequence :: u64
  timestamp :: u64
  payload :: bytes

definition MoqDatagram_new :: "u32 \<Rightarrow> u64 \<Rightarrow> u64 \<Rightarrow> bytes \<Rightarrow> MoqDatagram" where
  "MoqDatagram_new alias sq ts pl =
     \<lparr> datagram_type = DATAGRAM_TYPE_MEDIA, track_alias = alias, sequence = sq,
       timestamp = ts, payload = pl \<rparr>"

definition MoqDatagram_audio :: "u32 \<Rightarrow> u64 \<Rightarrow> u64 \<Rightarrow> bytes \<Rightarrow> MoqDatagram" where
  "MoqDatagram_audio alias sq ts opus_data = MoqDatagram_new alias sq ts opus_data"

definition MoqDatagram_encode :: "MoqDatagram \<Rightarrow> bytes" where
  "MoqDatagram_encode d =
     [datagram_type d] @ be_bytes 4 (unat (track_alias d))
     @ moq_encode_varint (sequence d) @ moq_encode_varint (timestamp d) @ payload d"

definition MoqDatagram_decode :: "bytes \<Rightarrow> (MoqDatagram, MoqError) result" where
  "MoqDatagram_decode bs =
     (if length bs < 5 then Err (MoqDatagramTooShort (length bs) 5)
      else let dt = hd bs; cursor = tl bs in
        if dt \<noteq> DATAGRAM_TYPE_MEDIA then Err (MoqInvalidDatagramType dt)
        else let alias = of_nat (be_val (take 4 cursor));
                 cursor = drop 4 cursor;
                 (sq, seq_len) = moq_decode_varint cursor;
                 cursor = drop seq_len cursor;
                 (ts, ts_len) = moq_decode_varint cursor;
                 cursor = drop ts_len cursor in
             Ok \<lparr> datagram_type = dt, track_alias = alias, sequence = sq, timestamp = ts,
                  payload = cursor \<rparr>)"

section \<open>Setup messages\<close>

definition DRAFT_17 :: u64 where
  "DRAFT_17 = 0xff000011"

record ClientSetup =
  cs_versions :: "u64 list"
  cs_role :: u8
  cs_path :: "string option"

definition ClientSetup_voip_default :: ClientSetup where
  "ClientSetup_voip_default = \<lparr> cs_versions = [DRAFT_17], cs_role = 0x03, cs_path = None \<rparr>"

definition ClientSetup_encode :: "ClientSetup \<Rightarrow> bytes" where
  "ClientSetup_encode c =
     moq_encode_varint 0x01
     @ moq_encode_varint (of_nat (length (cs_versions c)))
     @ concat (map moq_encode_varint (cs_versions c))
     @ moq_encode_varint (ucast (cs_role c))
     @ (case cs_path c of
          None \<Rightarrow> []
        | Some p \<Rightarrow> moq_encode_varint (of_nat (length p)) @ str_bytes p)"

text \<open>The optional path at the end of both setup messages.\<close>

definition moq_parse_path :: "bytes \<Rightarrow> string option" where
  "moq_parse_path cursor =
     (if cursor = [] then None
      else let (path_len, pl_len) = moq_decode_varint cursor;
               cursor = drop pl_len cursor in
           if length cursor \<ge> unat path_len
           then Some (from_utf8_lossy (take (unat path_len) cursor)) else None)"

text \<open>The version loop of \<open>parse_client_setup\<close>: one variable-length integer per announced
  version; an exhausted buffer yields zeros.\<close>

text \<open>\<open>Vec::with_capacity\<close> panics when the allocation exceeds \<open>isize::MAX\<close> bytes; a version
  takes eight bytes.\<close>

definition MAX_VERSION_CAPACITY :: nat where
  "MAX_VERSION_CAPACITY = (2 ^ 63 - 1) div 8"

primrec moq_parse_versions :: "nat \<Rightarrow> bytes \<Rightarrow> u64 list \<times> bytes" where
  "moq_parse_versions 0 cursor = ([], cursor)"
| "moq_parse_versions (Suc n) cursor =
     (let (v, v_len) = moq_decode_varint cursor;
          (vs, rest) = moq_parse_versions n (drop v_len cursor) in
      (v # vs, rest))"

definition parse_client_setup :: "bytes \<Rightarrow> (ClientSetup, MoqError) result" where
  "parse_client_setup bs =
     (let (mt, mt_len) = moq_decode_varint bs; cursor = drop mt_len bs in
      if mt \<noteq> 0x01 then Err (MoqUnexpectedMessageType 0x01 mt)
      else let (num_versions, nv_len) = moq_decode_varint cursor;
               cursor = drop nv_len cursor in
        if MAX_VERSION_CAPACITY < unat num_versions then Panic
        else let (versions, cursor) = moq_parse_versions (unat num_versions) cursor;
                 (role, r_len) = moq_decode_varint cursor;
                 cursor = drop r_len cursor in
             Ok \<lparr> cs_versions = versions, cs_role = ucast role,
                  cs_path = moq_parse_path cursor \<rparr>)"

record ServerSetup =
  ss_version :: u64
  ss_role :: u8
  ss_path :: "string option"

definition ServerSetup_decode :: "bytes \<Rightarrow> (ServerSetup, MoqError) result" where
  "ServerSetup_decode bs =
     (let (mt, mt_len) = moq_decode_varint bs; cursor = drop mt_len bs in
      if mt \<noteq> 0x02 then Err (MoqUnexpectedMessageType 0x02 mt)
      else let (version, v_len) = moq_decode_varint cursor;
               cursor = drop v_len cursor;
               (role, r_len) = moq_decode_varint cursor;
               cursor = drop r_len cursor in
           Ok \<lparr> ss_version = version, ss_role = ucast role, ss_path = moq_parse_path cursor \<rparr>)"

section \<open>Track namespaces\<close>

record TrackNamespace =
  tn_namespace :: string
  tn_alias :: u32
  tn_priority :: u8

definition TrackNamespace_audio :: "string \<Rightarrow> TrackNamespace" where
  "TrackNamespace_audio peer_id =
     \<lparr> tn_namespace = ''voip/'' @ peer_id @ ''/audio/opus-48k'', tn_alias = 0, tn_priority = 0 \<rparr>"

definition TrackNamespace_video :: "string \<Rightarrow> TrackNamespace" where
  "TrackNamespace_video peer_id =
     \<lparr> tn_namespace = ''voip/'' @ peer_id @ ''/video/vp9-720p'', tn_alias = 0, tn_priority = 1 \<rparr>"

definition TrackNamespace_screen :: "string \<Rightarrow> TrackNamespace" where
  "TrackNamespace_screen peer_id =
     \<lparr> tn_namespace = ''voip/'' @ peer_id @ ''/screen/vp9-1080p'', tn_alias = 0,
       tn_priority = 3 \<rparr>"

definition with_alias :: "TrackNamespace \<Rightarrow> u32 \<Rightarrow> TrackNamespace" where
  "with_alias t a = t\<lparr>tn_alias := a\<rparr>"

text \<open>\<open>str::contains\<close>.\<close>

fun str_contains :: "string \<Rightarrow> string \<Rightarrow> bool" where
  "str_contains pat s =
     (take (length pat) s = pat \<or> (case s of [] \<Rightarrow> False | _ # s' \<Rightarrow> str_contains pat s'))"

declare str_contains.simps [simp del]

datatype MoqMediaType = MoqAudio | MoqVideo | MoqScreen | MoqUnknown

definition TrackNamespace_media_type :: "TrackNamespace \<Rightarrow> MoqMediaType" where
  "TrackNamespace_media_type t =
     (if str_contains ''/audio/'' (tn_namespace t) then MoqAudio
      else if str_contains ''/video/'' (tn_namespace t) then MoqVideo
      else if str_contains ''/screen/'' (tn_namespace t) then MoqScreen
      else MoqUnknown)"

text \<open>\<open>str::splitn(n, c)\<close>: at most \<open>n\<close> parts, the last one unsplit.\<close>

fun splitn :: "nat \<Rightarrow> char \<Rightarrow> string \<Rightarrow> string list" where
  "splitn 0 c s = []"
| "splitn (Suc 0) c s = [s]"
| "splitn (Suc (Suc n)) c s =
     (if c \<in> set s
      then takeWhile (\<lambda>x. x \<noteq> c) s # splitn (Suc n) c (tl (dropWhile (\<lambda>x. x \<noteq> c) s))
      else [s])"

definition parse_namespace :: "string \<Rightarrow> string \<times> string" where
  "parse_namespace full =
     (case splitn 3 (CHR ''/'') full of
        [a, b, c] \<Rightarrow> (a @ ''/'' @ b, c)
      | _ \<Rightarrow> (full, ''''))"

section \<open>Facts about variable-length integers\<close>

lemma tagged_field:
  assumes "t < 4" and "v < 2 ^ (8 * n + 6)"
  defines "k \<equiv> t * 2 ^ (8 * n + 6) + v"
  shows "k < 256 ^ Suc n"
    and "drop_bit 6 (of_nat (k div 256 ^ n mod 256) :: u8) = of_nat t"
proof -
  have p: "(256::nat) ^ n = 2 ^ (8 * n)"
    by (simp add: power_mult)
  have s: "(2::nat) ^ (8 * n + 6) = 64 * 256 ^ n"
    by (simp add: p power_add)
  have "k < (t + 1) * 2 ^ (8 * n + 6)"
    using assms(2) by (simp add: k_def)
  also have "\<dots> \<le> 4 * 2 ^ (8 * n + 6)"
    using assms(1) by (intro mult_le_mono1) simp
  finally show k: "k < 256 ^ Suc n"
    by (simp add: s)
  have "k div 256 ^ n = t * 64 + v div 256 ^ n"
    by (simp add: k_def s) (metis div_mult_self1 mult.assoc mult.commute power_not_zero zero_neq_numeral add.commute)
  moreover have "v div 256 ^ n < 64"
    using assms(2) by (simp add: s less_mult_imp_div_less)
  ultimately have f: "k div 256 ^ n div 64 = t" and m: "k div 256 ^ n < 256"
    using assms(1) by simp_all
  show "drop_bit 6 (of_nat (k div 256 ^ n mod 256) :: u8) = of_nat t"
  proof (rule word_unat_eq_iff [THEN iffD2])
    show "unat (drop_bit 6 (of_nat (k div 256 ^ n mod 256) :: u8)) = unat (of_nat t :: u8)"
      using f m assms(1) by (simp add: drop_bit_eq_div unat_div unat_of_nat)
  qed
qed

lemma masked_field:
  assumes "v < 2 ^ m"
  shows "(of_nat (t * 2 ^ m + v) :: 'a::len word) AND mask m = of_nat v"
proof -
  have "take_bit m (of_nat (t * 2 ^ m + v) :: 'a word) = of_nat (take_bit m (t * 2 ^ m + v))"
    by (simp only: take_bit_of_nat)
  also have "take_bit m (t * 2 ^ m + v) = v"
    using assms by (simp add: take_bit_eq_mod)
  finally show ?thesis
    by (simp only: take_bit_eq_mask)
qed

lemma ucast_of_nat_small:
  assumes "v < 2 ^ LENGTH('a::len)" and "LENGTH('a) \<le> LENGTH('b::len)"
  shows "ucast (of_nat v :: 'a word) = (of_nat v :: 'b word)"
proof -
  have "(2::nat) ^ LENGTH('a) \<le> 2 ^ LENGTH('b)"
    using assms(2) by simp
  then have "v < 2 ^ LENGTH('b)"
    using assms(1) by linarith
  then show ?thesis
    using assms by (simp add: word_unat_eq_iff unat_ucast_up unat_of_nat)
qed

lemma tagged_bytes:
  assumes "k = t * 2 ^ (8 * n + 6) + v" and "t < 4" and "v < 2 ^ (8 * n + 6)"
  obtains b where "be_bytes (Suc n) k = b # be_bytes n k"
    and "drop_bit 6 b = (of_nat t :: u8)" and "be_val (be_bytes (Suc n) k) = k"
  using assms tagged_field [of t v n] be_bytes_Suc_Cons [of n k] be_val_be_bytes_id [of k "Suc n"]
  by blast

lemma moq_decode_field2:
  assumes "k = 1 * 2 ^ (8 * 1 + 6) + v" and "v < 2 ^ 14"
  shows "moq_decode_varint (be_bytes 2 k @ rest) = (of_nat v, 2)"
proof -
  obtain b where b: "be_bytes 2 k = b # be_bytes 1 k" "drop_bit 6 b = 1" "be_val (be_bytes 2 k) = k"
    using tagged_bytes [OF assms(1)] assms(2) by (auto simp: numeral_2_eq_2)
  have "ucast ((of_nat k :: u16) AND 0x3FFF) = (of_nat v :: u64)"
    using masked_field [of v 14 1, where 'a = 16] assms
    by (simp add: mask_eq_exp_minus_1 ucast_of_nat_small)
  moreover have "take 2 (be_bytes 2 k @ rest) = be_bytes 2 k"
    by simp
  ultimately show ?thesis
    using b by (simp add: moq_decode_varint_def Let_def)
qed

lemma moq_decode_field4:
  assumes "k = 2 * 2 ^ (8 * 3 + 6) + v" and "v < 2 ^ 30"
  shows "moq_decode_varint (be_bytes 4 k @ rest) = (of_nat v, 4)"
proof -
  obtain b where b: "be_bytes 4 k = b # be_bytes 3 k" "drop_bit 6 b = 2" "be_val (be_bytes 4 k) = k"
    using tagged_bytes [OF assms(1)] assms(2) by auto
  have "ucast ((of_nat k :: u32) AND 0x3FFFFFFF) = (of_nat v :: u64)"
    using masked_field [of v 30 2, where 'a = 32] assms
    by (simp add: mask_eq_exp_minus_1 ucast_of_nat_small)
  moreover have "take 4 (be_bytes 4 k @ rest) = be_bytes 4 k"
    by simp
  ultimately show ?thesis
    using b by (simp add: moq_decode_varint_def Let_def)
qed

lemma moq_decode_field8:
  assumes "k = 3 * 2 ^ (8 * 7 + 6) + v" and "v < 2 ^ 62"
  shows "moq_decode_varint (be_bytes 8 k @ rest) = (of_nat v, 8)"
proof -
  obtain b where b: "be_bytes 8 k = b # be_bytes 7 k" "drop_bit 6 b = 3" "be_val (be_bytes 8 k) = k"
    using tagged_bytes [OF assms(1)] assms(2) by auto
  have "(of_nat k :: u64) AND 0x3FFFFFFFFFFFFFFF = (of_nat v :: u64)"
    using masked_field [of v 62 3, where 'a = 64] assms
    by (simp add: mask_eq_exp_minus_1 ucast_of_nat_small)
  moreover have "take 8 (be_bytes 8 k @ rest) = be_bytes 8 k"
    by simp
  ultimately show ?thesis
    using b by (simp add: moq_decode_varint_def Let_def)
qed

lemma unat_or_field:
  assumes "unat (c :: 'a::len word) = t * 2 ^ m" and "unat w < 2 ^ m"
  shows "unat (c OR w) = t * 2 ^ m + unat w"
  using or_field_nat [OF assms(2), of t] assms(1) by (simp add: unsigned_or_eq)

lemma moq_varint_small_width:
  assumes "v < 0x40000000"
  shows "moq_decode_varint (moq_encode_varint v @ rest) = (v, length (moq_encode_varint v))"
proof -
  consider (one) "v < 0x40" | (two) "\<not> v < 0x40" "v < 0x4000"
    | (four) "\<not> v < 0x40" "\<not> v < 0x4000" "v < 0x40000000"
    using assms by blast
  then show ?thesis
  proof cases
    case one
    then have u: "unat v < 64" by (simp add: word_less_nat_alt)
    then have "unat (ucast v :: u8) = unat v"
      by (intro unat_ucast_down) simp
    then have "drop_bit 6 (ucast v :: u8) = 0" and "ucast (ucast v :: u8) = v"
      using u by (simp_all add: word_unat_eq_iff drop_bit_eq_div unat_div unat_ucast_up)
    with one show ?thesis
      by (simp add: moq_encode_varint_def moq_decode_varint_def)
  next
    case two
    then have u: "unat v < 2 ^ 14" by (simp add: word_less_nat_alt)
    then have w: "unat (ucast v :: u16) = unat v"
      by (intro unat_ucast_down) simp
    have "unat (0x4000 OR (ucast v :: u16)) = 1 * 2 ^ 14 + unat v"
      using unat_or_field [of "0x4000 :: u16" 1 14 "ucast v"] u w by simp
    then show ?thesis
      using two u moq_decode_field2 [of _ "unat v"] by (simp add: moq_encode_varint_def)
  next
    case four
    then have u: "unat v < 2 ^ 30" by (simp add: word_less_nat_alt)
    then have w: "unat (ucast v :: u32) = unat v"
      by (intro unat_ucast_down) simp
    have "unat (0x80000000 OR (ucast v :: u32)) = 2 * 2 ^ 30 + unat v"
      using unat_or_field [of "0x80000000 :: u32" 2 30 "ucast v"] u w by simp
    then show ?thesis
      using four u moq_decode_field4 [of _ "unat v"] by (simp add: moq_encode_varint_def)
  qed
qed

lemma moq_varint_large:
  assumes "\<not> v < 0x40000000"
  shows "moq_decode_varint (moq_encode_varint v @ rest) = (take_bit 62 v, 8)"
    and "length (moq_encode_varint v) = 8"
proof -
  have ge: "\<not> v < 0x40" "\<not> v < 0x4000"
    using assms by (auto simp: word_less_nat_alt)
  let ?r = "unat (take_bit 62 v)"
  have r: "?r < 2 ^ 62"
    by (simp add: take_bit_eq_mod unat_mod)
  have "0xC000000000000000 OR v = 0xC000000000000000 OR take_bit 62 v"
  proof (rule bit_word_eqI)
    fix n assume n: "n < LENGTH(64)"
    have c: "(0xC000000000000000 :: u64) = push_bit 62 3" by simp
    show "bit (0xC000000000000000 OR v) n = bit (0xC000000000000000 OR take_bit 62 v) n"
    proof (cases "n < 62")
      case False
      then have "n = 62 \<or> n = 63" using n by auto
      then show ?thesis by (auto simp: bit_simps)
    qed (simp add: bit_simps)
  qed
  then have "unat (0xC000000000000000 OR v) = 3 * 2 ^ 62 + ?r"
    using unat_or_field [of "0xC000000000000000 :: u64" 3 62 "take_bit 62 v"] r by simp
  then show "moq_decode_varint (moq_encode_varint v @ rest) = (take_bit 62 v, 8)"
    using assms ge r moq_decode_field8 [of _ ?r] by (simp add: moq_encode_varint_def)
  show "length (moq_encode_varint v) = 8"
    using assms ge by (simp add: moq_encode_varint_def)
qed

lemma moq_varint_decode_encode:
  "moq_decode_varint (moq_encode_varint v @ rest)
     = (take_bit 62 v, length (moq_encode_varint v))"
proof (cases "v < 0x40000000")
  case True
  then have "take_bit 62 (unat v) = unat v"
    by (simp add: word_less_nat_alt take_bit_nat_eq_self_iff)
  then have "take_bit 62 v = v"
    by (simp add: word_unat_eq_iff unsigned_take_bit_eq)
  with moq_varint_small_width [OF True] show ?thesis by simp
next
  case False
  then show ?thesis by (simp add: moq_varint_large)
qed

lemma take_bit_62_small: "v < 2 ^ 62 \<Longrightarrow> take_bit 62 (v :: u64) = v"
  by (simp add: word_unat_eq_iff unsigned_take_bit_eq word_less_nat_alt take_bit_nat_eq_self_iff)

lemma moq_encode_varint_not_Nil [simp]: "moq_encode_varint v \<noteq> []"
  by (simp add: moq_encode_varint_def)

interpretation moq_varint: prefix_codec moq_encode_varint moq_decode_varint "\<lambda>v. v < 2 ^ 62"
  by unfold_locales (simp add: moq_varint_decode_encode take_bit_62_small)

section \<open>Facts about messages\<close>

lemma moq_parse_versions_encode:
  assumes "list_all (\<lambda>v. v < 2 ^ 62) vs"
  shows "moq_parse_versions (length vs) (concat (map moq_encode_varint vs) @ rest) = (vs, rest)"
  using assms
proof (induction vs)
  case (Cons v vs)
  then show ?case by (simp add: moq_varint.dec_enc)
qed simp

lemma moq_parse_path_encode:
  assumes "utf8_valid (str_bytes p)" and "length p < 2 ^ 62"
  shows "moq_parse_path (moq_encode_varint (of_nat (length p)) @ str_bytes p) = Some p"
proof -
  have "unat (of_nat (length p) :: u64) = length p"
    using assms(2) by (simp add: unat_of_nat)
  moreover from this have "(of_nat (length p) :: u64) < 2 ^ 62"
    using assms(2) by (simp add: word_less_nat_alt)
  ultimately show ?thesis
    using assms(1)
    by (simp add: moq_parse_path_def moq_varint.dec_enc from_utf8_lossy_str_bytes)
qed

lemma MoqDatagram_decode_encode:
  assumes "datagram_type d = DATAGRAM_TYPE_MEDIA"
  shows "MoqDatagram_decode (MoqDatagram_encode d)
    = Ok (d\<lparr>sequence := take_bit 62 (sequence d), timestamp := take_bit 62 (timestamp d)\<rparr>)"
proof -
  have "(of_nat (be_val (be_bytes 4 (unat (track_alias d)))) :: u32) = track_alias d"
    by (simp add: be_val_be_bytes)
  then show ?thesis
    using assms
    by (simp add: MoqDatagram_decode_def MoqDatagram_encode_def moq_varint_decode_encode)
qed

lemma client_setup_decode_encode:
  assumes "list_all (\<lambda>v. v < 2 ^ 62) (cs_versions c)"
    and "length (cs_versions c) \<le> MAX_VERSION_CAPACITY"
    and "\<And>p. cs_path c = Some p \<Longrightarrow> utf8_valid (str_bytes p) \<and> length p < 2 ^ 62"
  shows "parse_client_setup (ClientSetup_encode c) = Ok c"
proof -
  have l: "unat (of_nat (length (cs_versions c)) :: u64) = length (cs_versions c)"
    using assms(2) by (simp add: unat_of_nat MAX_VERSION_CAPACITY_def)
  then have f: "(of_nat (length (cs_versions c)) :: u64) < 2 ^ 62"
    using assms(2) by (simp add: word_less_nat_alt MAX_VERSION_CAPACITY_def)
  have r: "ucast (ucast (cs_role c) :: u64) = cs_role c"
    by (simp add: word_unat_eq_iff unat_ucast_down unat_ucast_up)
  have r62: "(ucast (cs_role c) :: u64) < 2 ^ 62"
    by (simp add: word_less_nat_alt unat_ucast_up less_trans [OF unat_byte_less])
  have n: "\<not> MAX_VERSION_CAPACITY < length (cs_versions c)"
    using assms(2) by simp
  have one: "(1 :: u64) < 2 ^ 62" by (simp add: word_less_nat_alt)
  show ?thesis
  proof (cases "cs_path c")
    case None
    with l f r r62 n one assms(1) show ?thesis
      by (simp add: parse_client_setup_def ClientSetup_encode_def moq_varint.dec_enc
          moq_parse_versions_encode moq_parse_path_def moq_varint.dec_enc [of _ "[]", simplified])
  next
    case (Some p)
    with l f r r62 n one assms(1) assms(3) [OF Some] show ?thesis
      by (simp add: parse_client_setup_def ClientSetup_encode_def moq_varint.dec_enc
          moq_parse_versions_encode moq_parse_path_encode)
  qed
qed

section \<open>Properties\<close>

text \<open>C37: a media datagram survives the wire.  Decoding an encoded media datagram returns the
  same track alias, payload, sequence number and timestamp, the last two reduced to the 62 bits
  a QUIC variable-length integer carries; so below 2^62 the datagram itself comes back.\<close>

theorem moq_datagram_round_trip:
  assumes "datagram_type d = DATAGRAM_TYPE_MEDIA"
  shows "MoqDatagram_decode (MoqDatagram_encode d)
      = Ok (d\<lparr>sequence := take_bit 62 (sequence d), timestamp := take_bit 62 (timestamp d)\<rparr>)
    \<and> (sequence d < 2 ^ 62 \<and> timestamp d < 2 ^ 62 \<longrightarrow>
         MoqDatagram_decode (MoqDatagram_encode d) = Ok d)"
  using MoqDatagram_decode_encode [OF assms] by (simp add: take_bit_62_small)

theorem moq_datagram_round_trip_witness:
  "MoqDatagram_decode (MoqDatagram_encode (MoqDatagram_new 7 100000 5000000000 [1, 2, 3]))
     = Ok (MoqDatagram_new 7 100000 5000000000 [1, 2, 3])"
  using moq_datagram_round_trip [of "MoqDatagram_new 7 100000 5000000000 [1, 2, 3]"]
  by (simp add: MoqDatagram_new_def word_less_nat_alt)

text \<open>The acceptor reads exactly the CLIENT_SETUP the initiator wrote, with its versions,
  role and optional path, for versions below 2^62 and a well-formed path.\<close>

lemma client_setup_round_trip:
  assumes "list_all (\<lambda>v. v < 2 ^ 62) (cs_versions c)"
    and "length (cs_versions c) \<le> MAX_VERSION_CAPACITY"
    and "\<And>p. cs_path c = Some p \<Longrightarrow> utf8_valid (str_bytes p) \<and> length p < 2 ^ 62"
  shows "parse_client_setup (ClientSetup_encode c) = Ok c"
  using assms by (rule client_setup_decode_encode)

lemma client_setup_round_trip_witness:
  "parse_client_setup (ClientSetup_encode ClientSetup_voip_default) = Ok ClientSetup_voip_default"
  by (rule client_setup_round_trip)
    (simp_all add: ClientSetup_voip_default_def DRAFT_17_def MAX_VERSION_CAPACITY_def
      word_less_nat_alt)

text \<open>A nine-byte CLIENT_SETUP that announces 2^60 versions aborts the acceptor: the capacity
  of the version list is taken from the wire before any version is read.\<close>

lemma parse_client_setup_capacity_panic:
  "parse_client_setup ([0x01] @ be_bytes 8 (3 * 2 ^ 62 + 2 ^ 60)) = Panic"
proof -
  have "moq_decode_varint (be_bytes 8 (3 * 2 ^ (8 * 7 + 6) + 2 ^ 60) @ []) = (of_nat (2 ^ 60), 8)"
    by (rule moq_decode_field8) simp_all
  moreover have "moq_decode_varint ([0x01] @ be_bytes 8 (3 * 2 ^ 62 + 2 ^ 60)) = (1, 1)"
    by (simp add: moq_decode_varint_def)
  ultimately show ?thesis
    by (simp add: parse_client_setup_def MAX_VERSION_CAPACITY_def)
qed

text \<open>A datagram cut off right after the alias is not refused: it decodes to sequence number and
  timestamp zero.\<close>

lemma MoqDatagram_decode_truncated:
  "MoqDatagram_decode (DATAGRAM_TYPE_MEDIA # be_bytes 4 (unat a))
     = Ok (MoqDatagram_new a 0 0 [])"
  by (simp add: MoqDatagram_decode_def MoqDatagram_new_def moq_decode_varint_def be_val_be_bytes)

end
