(* ===== verification/Moq_Session.thy ===== *)
theory Moq_Session
  imports Moq_Codec
begin

text \<open>
  The MoQ session (\<open>struct MoqSession\<close> of \<open>src/crates/voip-client/src/moq.rs\<close>).  The QUIC
  connection is third-party code: what it answers to \<open>open_bi\<close>, \<open>accept_bi\<close>, \<open>write_all\<close>,
  \<open>read\<close>, \<open>send_datagram\<close> and \<open>read_datagram\<close> is an argument of the operation, an \<open>io\<close> or
  \<open>read_outcome\<close> value.  The control stream is the list of bytes written to it so far, absent
  until a stream has been opened.
\<close>

section \<open>State\<close>

datatype SessionState = SIdle | SettingUp | SActive | Closing | Closed

fun show_SessionState :: "SessionState \<Rightarrow> string" where
  "show_SessionState SIdle = ''Idle''"
| "show_SessionState SettingUp = ''SettingUp''"
| "show_SessionState SActive = ''Active''"
| "show_SessionState Closing = ''Closing''"
| "show_SessionState Closed = ''Closed''"

datatype StartPoint = Latest | Earliest | Absolute u64 u64

record TrackSubscription =
  ts_subscribe_id :: u64
  ts_namespace :: TrackNamespace
  ts_start :: StartPoint

record QualityReport =
  qr_track_alias :: u32
  qr_last_seq :: u64
  qr_received :: u64
  qr_lost :: u64
  qr_rtt_us :: u64
  qr_jitter_us :: u64
  qr_report_time :: nat

record TrackUpdate =
  tu_subscribe_id :: u64
  tu_priority :: u8

record ConnectionMigrationMsg =
  cm_new_ipv6_addresses :: "string list"
  cm_new_ipv4_reflexive :: "string list"

record MoqSession =
  ms_state :: SessionState
  ms_subscriptions :: "TrackSubscription list"
  ms_announced :: "TrackNamespace list"
  ms_quality_reports :: "QualityReport list"
  ms_next_subscribe_id :: u64
  ms_control :: "bytes option"
  ms_connection_closed :: bool

definition MoqSession_new :: MoqSession where
  "MoqSession_new =
     \<lparr> ms_state = SIdle, ms_subscriptions = [], ms_announced = [], ms_quality_reports = [],
       ms_next_subscribe_id = 0, ms_control = None, ms_connection_closed = False \<rparr>"

definition QualityReport_new :: "nat \<Rightarrow> u32 \<Rightarrow> QualityReport" where
  "QualityReport_new now alias =
     \<lparr> qr_track_alias = alias, qr_last_seq = 0, qr_received = 0, qr_lost = 0, qr_rtt_us = 0,
       qr_jitter_us = 0, qr_report_time = now \<rparr>"

section \<open>Handshake\<close>

text \<open>\<open>write_all\<close> on the control stream, a no-op while there is none.\<close>

definition moq_control_write ::
  "unit io \<Rightarrow> bytes \<Rightarrow> MoqSession \<Rightarrow> MoqSession \<times> (unit, MoqError) result" where
  "moq_control_write w bs s =
     (case ms_control s of
        None \<Rightarrow> (s, Ok ())
      | Some out \<Rightarrow>
          (case w of
             IoOk _ \<Rightarrow> (s\<lparr>ms_control := Some (out @ bs)\<rparr>, Ok ())
           | IoErr e \<Rightarrow> (s, Err (MoqTransportError e))))"

text \<open>The bytes of one \<open>read\<close> under the ten-second timeout; a closed stream reads as none.\<close>

definition moq_control_read :: "read_outcome \<Rightarrow> (bytes, MoqError) result" where
  "moq_control_read r =
     (case r of
        ReadTimeout \<Rightarrow> Err (MoqTransportError ''read timeout'')
      | ReadError e \<Rightarrow> Err (MoqTransportError e)
      | ReadClosed \<Rightarrow> Err (MoqTransportError ''control stream closed'')
      | ReadBytes bs \<Rightarrow>
          if bs = [] then Err (MoqTransportError ''control stream closed'') else Ok bs)"

definition moq_check_server_setup :: "bytes \<Rightarrow> (unit, MoqError) result" where
  "moq_check_server_setup buf =
     (let mt = fst (moq_decode_varint buf) in
      if mt = 0x02 then
        res_bind (ServerSetup_decode buf) (\<lambda>ss.
          if ss_version ss \<noteq> DRAFT_17 then Err MoqVersionNegotiationFailed else Ok ())
      else if mt = 0x0D \<or> mt = 0x1A \<or> mt = 0x1B then Ok ()
      else Err (MoqUnexpectedMessageType 0x02 mt))"

definition moq_require ::
  "SessionState \<Rightarrow> MoqSession \<Rightarrow> (MoqSession \<Rightarrow> MoqSession \<times> ('a, MoqError) result)
     \<Rightarrow> MoqSession \<times> ('a, MoqError) result" where
  "moq_require st s k =
     (if ms_state s \<noteq> st
      then (s, Err (MoqInvalidState (show_SessionState st) (show_SessionState (ms_state s))))
      else k s)"

definition moq_setup ::
  "unit io \<Rightarrow> unit io \<Rightarrow> read_outcome \<Rightarrow> MoqSession \<Rightarrow> MoqSession \<times> (unit, MoqError) result" where
  "moq_setup opened w r s = moq_require SIdle s (\<lambda>s.
     let s = s\<lparr>ms_state := SettingUp\<rparr> in
     case opened of
       IoErr e \<Rightarrow> (s, Err (MoqTransportError e))
     | IoOk _ \<Rightarrow>
         let s = s\<lparr>ms_control := Some []\<rparr>;
             (s, wr) = moq_control_write w (ClientSetup_encode ClientSetup_voip_default) s in
         case res_bind wr (\<lambda>_. res_bind (moq_control_read r) moq_check_server_setup) of
           Ok _ \<Rightarrow> (s\<lparr>ms_state := SActive\<rparr>, Ok ())
         | Err e \<Rightarrow> (s, Err e)
         | Panic \<Rightarrow> (s, Panic))"

definition server_setup_bytes :: bytes where
  "server_setup_bytes =
     moq_encode_varint 0x02 @ moq_encode_varint DRAFT_17 @ moq_encode_varint 0x03"

definition moq_accept ::
  "unit io \<Rightarrow> read_outcome \<Rightarrow> unit io \<Rightarrow> MoqSession \<Rightarrow> MoqSession \<times> (unit, MoqError) result" where
  "moq_accept accepted r w s = moq_require SIdle s (\<lambda>s.
     let s = s\<lparr>ms_state := SettingUp\<rparr> in
     case accepted of
       IoErr e \<Rightarrow> (s, Err (MoqTransportError e))
     | IoOk _ \<Rightarrow>
         let s = s\<lparr>ms_control := Some []\<rparr> in
         case res_bind (moq_control_read r) parse_client_setup of
           Err e \<Rightarrow> (s, Err e)
         | Panic \<Rightarrow> (s, Panic)
         | Ok cs \<Rightarrow>
             if DRAFT_17 \<notin> set (cs_versions cs) then (s, Err MoqVersionNegotiationFailed)
             else let (s, wr) = moq_control_write w server_setup_bytes s in
                  case wr of
                    Ok _ \<Rightarrow> (s\<lparr>ms_state := SActive\<rparr>, Ok ())
                  | Err e \<Rightarrow> (s, Err e)
                  | Panic \<Rightarrow> (s, Panic))"

section \<open>Tracks\<close>

definition announce_bytes :: "TrackNamespace \<Rightarrow> bytes" where
  "announce_bytes ns =
     moq_encode_varint 0x03 @ moq_encode_varint (of_nat (length (tn_namespace ns)))
     @ str_bytes (tn_namespace ns)"

definition moq_announce ::
  "unit io \<Rightarrow> TrackNamespace \<Rightarrow> MoqSession \<Rightarrow> MoqSession \<times> (unit, MoqError) result" where
  "moq_announce w ns s = moq_require SActive s (\<lambda>s.
     let (s, wr) = moq_control_write w (announce_bytes ns) s in
     case wr of
       Ok _ \<Rightarrow> (s\<lparr>ms_announced := ms_announced s @ [ns]\<rparr>, Ok ())
     | Err e \<Rightarrow> (s, Err e)
     | Panic \<Rightarrow> (s, Panic))"

definition start_bytes :: "StartPoint \<Rightarrow> bytes" where
  "start_bytes start =
     (case start of
        Latest \<Rightarrow> moq_encode_varint 0x01
      | Earliest \<Rightarrow> moq_encode_varint 0x02
      | Absolute g ob \<Rightarrow>
          moq_encode_varint 0x03 @ moq_encode_varint g @ moq_encode_varint ob)"

definition subscribe_bytes :: "u64 \<Rightarrow> TrackNamespace \<Rightarrow> StartPoint \<Rightarrow> bytes" where
  "subscribe_bytes sid namespace start =
     (let (ns, track_name) = parse_namespace (tn_namespace namespace) in
      moq_encode_varint 0x06 @ moq_encode_varint sid
      @ moq_encode_varint (of_nat (length ns)) @ str_bytes ns
      @ moq_encode_varint (of_nat (length track_name)) @ str_bytes track_name
      @ moq_encode_varint (ucast (tn_priority namespace)) @ start_bytes start)"

definition moq_subscribe ::
  "bool \<Rightarrow> unit io \<Rightarrow> TrackNamespace \<Rightarrow> StartPoint \<Rightarrow> MoqSession
     \<Rightarrow> MoqSession \<times> (u64, MoqError) result" where
  "moq_subscribe oc w namespace start s = moq_require SActive s (\<lambda>s.
     let sid = ms_next_subscribe_id s in
     case checked_add oc sid 1 of
       Ok next \<Rightarrow>
         let s = s\<lparr>ms_next_subscribe_id := next\<rparr>;
             (s, wr) = moq_control_write w (subscribe_bytes sid namespace start) s in
         (case wr of
            Ok _ \<Rightarrow>
              (s\<lparr>ms_subscriptions := ms_subscriptions s
                   @ [\<lparr> ts_subscribe_id = sid, ts_namespace = namespace, ts_start = start \<rparr>]\<rparr>,
               Ok sid)
          | Err e \<Rightarrow> (s, Err e)
          | Panic \<Rightarrow> (s, Panic))
     | Err e \<Rightarrow> (s, Err e)
     | Panic \<Rightarrow> (s, Panic))"

section \<open>Media, feedback and in-call messages\<close>

definition moq_send_datagram ::
  "(bytes \<Rightarrow> unit io) \<Rightarrow> MoqDatagram \<Rightarrow> MoqSession \<Rightarrow> MoqSession \<times> (unit, MoqError) result" where
  "moq_send_datagram send d s = moq_require SActive s (\<lambda>s.
     case send (MoqDatagram_encode d) of
       IoOk _ \<Rightarrow> (s, Ok ())
     | IoErr e \<Rightarrow> (s, Err (MoqDatagramSendFailed e)))"

definition moq_recv_datagram ::
  "bytes io \<Rightarrow> MoqSession \<Rightarrow> MoqSession \<times> (MoqDatagram, MoqError) result" where
  "moq_recv_datagram received s = moq_require SActive s (\<lambda>s.
     case received of
       IoErr e \<Rightarrow> (s, Err (MoqDatagramRecvFailed e))
     | IoOk bs \<Rightarrow> (s, MoqDatagram_decode bs))"

definition moq_send_quality_report ::
  "unit io \<Rightarrow> QualityReport \<Rightarrow> MoqSession \<Rightarrow> MoqSession \<times> (unit, MoqError) result" where
  "moq_send_quality_report w r s =
     moq_control_write w
       (moq_encode_varint 0x80 @ moq_encode_varint (ucast (qr_track_alias r))
        @ moq_encode_varint (qr_last_seq r) @ moq_encode_varint (qr_received r)
        @ moq_encode_varint (qr_lost r) @ moq_encode_varint (qr_rtt_us r)) s"

definition moq_send_track_update ::
  "unit io \<Rightarrow> TrackUpdate \<Rightarrow> MoqSession \<Rightarrow> MoqSession \<times> (unit, MoqError) result" where
  "moq_send_track_update w u s =
     moq_control_write w
       (moq_encode_varint 0x10 @ moq_encode_varint (tu_subscribe_id u)
        @ moq_encode_varint (ucast (tu_priority u))) s"

definition address_list_bytes :: "string list \<Rightarrow> bytes" where
  "address_list_bytes as =
     moq_encode_varint (of_nat (length as))
     @ concat (map (\<lambda>a. moq_encode_varint (of_nat (length a)) @ str_bytes a) as)"

definition moq_send_migration_message ::
  "unit io \<Rightarrow> ConnectionMigrationMsg \<Rightarrow> MoqSession \<Rightarrow> MoqSession \<times> (unit, MoqError) result" where
  "moq_send_migration_message w m s =
     moq_control_write w
       (moq_encode_varint 0x20 @ address_list_bytes (cm_new_ipv6_addresses m)
        @ address_list_bytes (cm_new_ipv4_reflexive m)) s"

definition moq_close :: "MoqSession \<Rightarrow> MoqSession \<times> (unit, MoqError) result" where
  "moq_close s = (s\<lparr>ms_connection_closed := True, ms_state := Closed\<rparr>, Ok ())"

definition subscribed_tracks :: "MoqSession \<Rightarrow> TrackNamespace list" where
  "subscribed_tracks s = map ts_namespace (ms_subscriptions s)"

definition quality_report :: "u32 \<Rightarrow> MoqSession \<Rightarrow> QualityReport option" where
  "quality_report alias s = find (\<lambda>r. qr_track_alias r = alias) (ms_quality_reports s)"

text \<open>\<open>iter_mut().find\<close>: the first report of the track is updated in place.\<close>

fun qr_record :: "bool \<Rightarrow> nat \<Rightarrow> MoqDatagram \<Rightarrow> QualityReport list \<Rightarrow> (QualityReport list, unit) result"
  where
  "qr_record oc now d [] =
     Ok [(QualityReport_new now (track_alias d))\<lparr>qr_last_seq := sequence d, qr_received := 1\<rparr>]"
| "qr_record oc now d (r # rs) =
     (if qr_track_alias r = track_alias d
      then res_map (\<lambda>n. r\<lparr>qr_last_seq := sequence d, qr_received := n\<rparr> # rs)
             (checked_add oc (qr_received r) 1)
      else res_map ((#) r) (qr_record oc now d rs))"

definition record_received_datagram ::
  "bool \<Rightarrow> nat \<Rightarrow> MoqDatagram \<Rightarrow> MoqSession \<Rightarrow> (MoqSession, unit) result" where
  "record_received_datagram oc now d s =
     res_map (\<lambda>rs. s\<lparr>ms_quality_reports := rs\<rparr>) (qr_record oc now d (ms_quality_reports s))"

text \<open>One tick of the feedback loop: every report is sent, failures are only logged.\<close>

fun moq_feedback_tick :: "unit io list \<Rightarrow> QualityReport list \<Rightarrow> MoqSession \<Rightarrow> MoqSession" where
  "moq_feedback_tick (w # ws) (r # rs) s =
     moq_feedback_tick ws rs (fst (moq_send_quality_report w r s))"
| "moq_feedback_tick _ _ s = s"

section \<open>Runs of a session\<close>

text \<open>One step is one call of an operation, whatever the transport answers.  The subscribe
  counter is assumed not to have used up its 64 bits.\<close>

inductive moq_step :: "MoqSession \<Rightarrow> MoqSession \<Rightarrow> bool" where
  step_setup: "moq_step s (fst (moq_setup opened w r s))"
| step_accept: "moq_step s (fst (moq_accept accepted r w s))"
| step_announce: "moq_step s (fst (moq_announce w ns s))"
| step_subscribe: "ms_next_subscribe_id s < - 1 \<Longrightarrow> moq_step s (fst (moq_subscribe oc w ns start s))"
| step_send: "moq_step s (fst (moq_send_datagram send d s))"
| step_recv: "moq_step s (fst (moq_recv_datagram received s))"
| step_report: "moq_step s (fst (moq_send_quality_report w q s))"
| step_update: "moq_step s (fst (moq_send_track_update w u s))"
| step_migrate: "moq_step s (fst (moq_send_migration_message w m s))"
| step_record: "record_received_datagram oc now d s = Ok s' \<Longrightarrow> moq_step s s'"
| step_close: "moq_step s (fst (moq_close s))"

inductive moq_reach :: "MoqSession \<Rightarrow> bool" where
  reach_new: "moq_reach MoqSession_new"
| reach_step: "moq_reach s \<Longrightarrow> moq_step s s' \<Longrightarrow> moq_reach s'"

definition moq_inv :: "MoqSession \<Rightarrow> bool" where
  "moq_inv s \<longleftrightarrow>
     (ms_state s = SActive \<longrightarrow> ms_control s \<noteq> None \<and> \<not> ms_connection_closed s)
     \<and> (ms_connection_closed s \<longrightarrow> ms_state s = Closed)
     \<and> (ms_state s = SIdle \<longrightarrow> ms_subscriptions s = [] \<and> ms_announced s = [])
     \<and> sorted_wrt (<) (map ts_subscribe_id (ms_subscriptions s))
     \<and> (\<forall>t \<in> set (ms_subscriptions s). ts_subscribe_id t < ms_next_subscribe_id s)
     \<and> distinct (map qr_track_alias (ms_quality_reports s))"

lemmas moq_defs =
  moq_require_def moq_control_write_def moq_setup_def moq_accept_def moq_announce_def
  moq_send_datagram_def moq_recv_datagram_def moq_send_quality_report_def
  moq_send_track_update_def moq_send_migration_message_def moq_close_def

lemma moq_inv_new: "moq_inv MoqSession_new"
  by (simp add: moq_inv_def MoqSession_new_def)

lemma moq_control_write_inv:
  assumes "moq_inv s"
  shows "moq_inv (fst (moq_control_write w bs s))"
  using assms by (auto simp: moq_inv_def moq_control_write_def split: option.split io.split)

lemma moq_control_write_frame:
  assumes "moq_control_write w bs s = (s', wr)"
  shows "ms_state s' = ms_state s \<and> ms_subscriptions s' = ms_subscriptions s
    \<and> ms_announced s' = ms_announced s \<and> ms_quality_reports s' = ms_quality_reports s
    \<and> ms_next_subscribe_id s' = ms_next_subscribe_id s
    \<and> ms_connection_closed s' = ms_connection_closed s
    \<and> (ms_control s' = None \<longleftrightarrow> ms_control s = None) \<and> wr \<noteq> Panic"
  using assms by (auto simp: moq_control_write_def split: option.splits io.splits)

lemma moq_setup_inv:
  assumes "moq_inv s"
  shows "moq_inv (fst (moq_setup opened w r s))"
  using assms
  by (auto simp: moq_setup_def moq_require_def moq_inv_def Let_def
      split: io.split prod.split result.split dest!: moq_control_write_frame)

lemma moq_accept_inv:
  assumes "moq_inv s"
  shows "moq_inv (fst (moq_accept accepted r w s))"
  using assms
  by (auto simp: moq_accept_def moq_require_def moq_inv_def Let_def
      split: io.split prod.split result.split dest!: moq_control_write_frame)

lemma moq_announce_inv:
  assumes "moq_inv s"
  shows "moq_inv (fst (moq_announce w ns s))"
  using assms
  by (auto simp: moq_announce_def moq_require_def moq_inv_def Let_def
      split: prod.split result.split dest!: moq_control_write_frame)

lemma moq_subscribe_inv:
  assumes "moq_inv s" and "ms_next_subscribe_id s < - 1"
  shows "moq_inv (fst (moq_subscribe oc w ns start s))"
proof -
  let ?n = "ms_next_subscribe_id s"
  have n: "unat (?n + 1) = unat ?n + 1"
    using assms(2) by (rule unat_plus_one_below)
  then have fits: "unat ?n + unat (1 :: u64) < 2 ^ LENGTH(64)"
    using unsigned_less [of "?n + 1", where 'a = nat] by simp
  have c: "(checked_add oc ?n 1 :: (u64, MoqError) result) = Ok (?n + 1)"
    using fits by (rule checked_add_fits(1))
  have lt: "x < ?n + 1" if "x < ?n" for x
    using that n by (simp add: word_less_nat_alt)
  have "?n < ?n + 1"
    using n by (simp add: word_less_nat_alt)
  then show ?thesis
    using assms(1)
    by (auto simp: moq_subscribe_def moq_require_def moq_inv_def c Let_def sorted_wrt_append lt
        split: prod.split result.split dest!: moq_control_write_frame)
qed

lemma qr_record_aliases:
  assumes "qr_record oc now d rs = Ok rs'"
  shows "map qr_track_alias rs'
    = map qr_track_alias rs
      @ (if track_alias d \<in> set (map qr_track_alias rs) then [] else [track_alias d])"
  using assms
proof (induction rs arbitrary: rs')
  case Nil
  then show ?case by (auto simp: QualityReport_new_def)
next
  case (Cons r rs)
  then show ?case
    by (auto simp: res_map_eq_Ok_iff split: if_splits)
qed

lemma record_received_inv:
  assumes "moq_inv s" and "record_received_datagram oc now d s = Ok s'"
  shows "moq_inv s'"
  using assms qr_record_aliases [of oc now d "ms_quality_reports s"]
  by (auto simp: moq_inv_def record_received_datagram_def res_map_eq_Ok_iff)

lemma moq_step_inv:
  assumes "moq_step s s'" and "moq_inv s"
  shows "moq_inv s'"
  using assms
proof (cases rule: moq_step.cases)
  case (step_send send d)
  with assms show ?thesis by (auto simp: moq_send_datagram_def moq_require_def split: io.split)
next
  case (step_recv received)
  with assms show ?thesis by (auto simp: moq_recv_datagram_def moq_require_def split: io.split)
next
  case step_close
  with assms show ?thesis by (auto simp: moq_inv_def moq_close_def)
qed (use assms in \<open>auto intro: moq_setup_inv moq_accept_inv moq_announce_inv moq_subscribe_inv
      moq_control_write_inv record_received_inv
      simp: moq_send_quality_report_def moq_send_track_update_def moq_send_migration_message_def\<close>)

lemma moq_reach_inv: "moq_reach s \<Longrightarrow> moq_inv s"
  by (induction rule: moq_reach.induct) (auto intro: moq_inv_new moq_step_inv)

lemma moq_step_closed:
  assumes "moq_step s s'" and "ms_state s = Closed"
  shows "ms_state s' = Closed"
  using assms
  by (cases rule: moq_step.cases)
    (auto simp: moq_defs moq_subscribe_def record_received_datagram_def res_map_eq_Ok_iff
      split: option.split io.split)

section \<open>Reception statistics\<close>

lemma qr_record_find:
  assumes "qr_record oc now d rs = Ok rs'"
  shows "find (\<lambda>r. qr_track_alias r = a) rs' =
    (if a = track_alias d
     then Some (case find (\<lambda>r. qr_track_alias r = a) rs of
         None \<Rightarrow> (QualityReport_new now a)\<lparr>qr_last_seq := sequence d, qr_received := 1\<rparr>
       | Some r \<Rightarrow> r\<lparr>qr_last_seq := sequence d, qr_received := qr_received r + 1\<rparr>)
     else find (\<lambda>r. qr_track_alias r = a) rs)"
  using assms
proof (induction rs arbitrary: rs')
  case Nil
  then show ?case by (auto simp: QualityReport_new_def)
next
  case (Cons r rs)
  then show ?case
    by (auto simp: res_map_eq_Ok_iff checked_add_def split: if_splits)
qed

lemma qr_record_ok:
  assumes "\<And>r. find (\<lambda>r. qr_track_alias r = track_alias d) rs = Some r
             \<Longrightarrow> unat (qr_received r) + 1 < 2 ^ 64"
  shows "\<exists>rs'. qr_record oc now d rs = Ok rs'"
  using assms
proof (induction rs)
  case Nil
  then show ?case by simp
next
  case (Cons r rs)
  then show ?case
    by (cases "qr_track_alias r = track_alias d") (auto simp: checked_add_fits res_map_eq_Ok_iff)
qed

primrec record_all :: "bool \<Rightarrow> nat \<Rightarrow> MoqDatagram list \<Rightarrow> MoqSession \<Rightarrow> (MoqSession, unit) result"
  where
  "record_all oc now [] s = Ok s"
| "record_all oc now (d # ds) s =
     res_bind (record_received_datagram oc now d s) (record_all oc now ds)"

lemma record_all_snoc:
  "record_all oc now (ds @ [d]) s
     = res_bind (record_all oc now ds s) (record_received_datagram oc now d)"
proof (induction ds arbitrary: s)
  case Nil
  show ?case by (cases "record_received_datagram oc now d s") simp_all
next
  case (Cons e ds)
  then show ?case
    by (cases "record_received_datagram oc now e s") simp_all
qed

definition report_matches :: "MoqDatagram list \<Rightarrow> u32 \<Rightarrow> QualityReport option \<Rightarrow> bool" where
  "report_matches ds a q =
     (let mine = filter (\<lambda>d. track_alias d = a) ds in
      case q of
        None \<Rightarrow> mine = []
      | Some r \<Rightarrow> mine \<noteq> [] \<and> unat (qr_received r) = length mine
          \<and> qr_last_seq r = sequence (last mine) \<and> qr_lost r = 0)"

lemma record_all_matches:
  assumes "length ds < 2 ^ 64"
  shows "\<exists>s. record_all oc now ds MoqSession_new = Ok s
    \<and> (\<forall>a. report_matches ds a (quality_report a s))"
  using assms
proof (induction ds rule: rev_induct)
  case Nil
  then show ?case
    by (simp add: report_matches_def quality_report_def MoqSession_new_def)
next
  case (snoc d ds)
  then obtain s where s: "record_all oc now ds MoqSession_new = Ok s"
    and m: "\<And>a. report_matches ds a (quality_report a s)"
    by auto
  have bound: "length (filter (\<lambda>d. track_alias d = a) ds) + 1 < 2 ^ 64" for a
    by (rule le_less_trans [OF add_right_mono [OF length_filter_le]]) (use snoc.prems in simp)
  have fit: "unat (qr_received r) + 1 < 2 ^ 64" if "quality_report a s = Some r" for a r
    using m [of a] that bound [of a] by (simp add: report_matches_def Let_def)
  then have "\<exists>rs'. qr_record oc now d (ms_quality_reports s) = Ok rs'"
    by (intro qr_record_ok) (auto simp: quality_report_def)
  then obtain rs' where rs': "qr_record oc now d (ms_quality_reports s) = Ok rs'" ..
  have "report_matches (ds @ [d]) a (find (\<lambda>r. qr_track_alias r = a) rs')" for a
  proof (cases "quality_report a s")
    case None
    with m [of a] show ?thesis
      by (auto simp: report_matches_def quality_report_def qr_record_find [OF rs'] Let_def
          QualityReport_new_def)
  next
    case (Some r)
    then have "unat (qr_received r + 1) = unat (qr_received r) + 1"
      using fit [OF Some] by (simp add: checked_add_fits(2))
    with m [of a] Some show ?thesis
      by (auto simp: report_matches_def quality_report_def qr_record_find [OF rs'] Let_def)
  qed
  with s rs' show ?case
    by (simp add: record_all_snoc record_received_datagram_def quality_report_def)
qed

section \<open>Properties\<close>




text \<open>The reception statistics are exact.  After any sequence of fewer than 2^64 received
  datagrams, the report of a track exists exactly when a datagram of that track arrived, counts
  those datagrams and carries the sequence number of the latest; its loss counter is still
  zero.\<close>

lemma reception_statistics_exact:
  assumes "length ds < 2 ^ 64"
  shows "\<exists>s. record_all oc now ds MoqSession_new = Ok s
    \<and> (\<forall>a. report_matches ds a (quality_report a s))"
  using assms by (rule record_all_matches)

lemma reception_statistics_exact_witness:
  "\<exists>s. record_all True 0 [MoqDatagram_new 1 5 0 [], MoqDatagram_new 1 9 0 []] MoqSession_new = Ok s
    \<and> report_matches [MoqDatagram_new 1 5 0 [], MoqDatagram_new 1 9 0 []] 1 (quality_report 1 s)"
  using reception_statistics_exact [of "[MoqDatagram_new 1 5 0 [], MoqDatagram_new 1 9 0 []]" True 0]
  by auto

text \<open>A reply GOAWAY in place of SERVER_SETUP also makes the initiator active, without any
  version having been agreed.\<close>

lemma moq_setup_goaway_active:
  "ms_state (fst (moq_setup (IoOk ()) (IoOk ()) (ReadBytes [0x1A]) MoqSession_new)) = SActive"
  by (simp add: moq_setup_def moq_require_def MoqSession_new_def moq_control_write_def
      moq_control_read_def moq_check_server_setup_def moq_decode_varint_def)

text \<open>A failed handshake leaves the session setting up, where every later attempt is refused.\<close>

lemma moq_setup_failure_is_final:
  assumes "moq_setup opened w r MoqSession_new = (s, Err e)"
  shows "moq_setup opened' w' r' s
           = (s, Err (MoqInvalidState ''Idle'' ''SettingUp''))"
  using assms
  by (auto simp: moq_setup_def moq_require_def MoqSession_new_def Let_def
      split: io.splits prod.splits result.splits dest!: moq_control_write_frame)

end
