(* ===== verification/Leb128.thy ===== *)
theory Leb128
  imports Voip_Prelude
begin

text \<open>
  Little-endian base-128 integers: the encoder of
  \<open>src/crates/voip-client/src/masque.rs\<close> (\<open>encode_varint\<close>, \<open>varint_len\<close>) and the decoder of
  \<open>src/crates/voip-client/src/nat_probe.rs\<close> (\<open>decode_varint\<close>).  The two are shown to form a
  self-delimiting code.
\<close>

function leb_encode :: "u64 \<Rightarrow> bytes" where
  "leb_encode v =
     (let byte = ucast (v AND 0x7F) :: u8; v' = drop_bit 7 v in
      if v' \<noteq> 0 then (byte OR 0x80) # leb_encode v' else [byte])"
  by pat_completeness auto

lemma unat_shift7: "unat (drop_bit 7 (v :: u64)) = unat v div 128"
  by (simp add: drop_bit_eq_div unat_div)

termination leb_encode
proof (relation "measure unat", goal_cases)
  case (2 v byte v')
  then have "0 < unat v"
    by (auto simp: unat_gt_0)
  with 2 show ?case by (simp add: unat_shift7 div_less_dividend)
qed simp

declare leb_encode.simps [simp del]

function varint_len :: "u64 \<Rightarrow> u64" where
  "varint_len v = (if v > 0x7F then varint_len (drop_bit 7 v) + 1 else 1)"
  by pat_completeness auto

termination varint_len
  by (relation "measure unat") (auto simp: unat_shift7 word_less_nat_alt div_less_dividend)

declare varint_len.simps [simp del]

fun leb_decode_loop :: "bytes \<Rightarrow> u64 \<Rightarrow> nat \<Rightarrow> nat \<Rightarrow> u64 \<times> nat" where
  "leb_decode_loop [] value shift i = (value, i)"
| "leb_decode_loop (byte # bs) value shift i =
     (let value = value OR push_bit shift (ucast (byte AND 0x7F)); i = i + 1 in
      if byte AND 0x80 = 0 then (value, i)
      else let shift = shift + 7 in
           if shift \<ge> 64 then (value, i) else leb_decode_loop bs value shift i)"

definition leb_decode :: "bytes \<Rightarrow> u64 \<times> nat" where
  "leb_decode bs = leb_decode_loop bs 0 0 0"

section \<open>Facts\<close>

lemma low_byte:
  fixes v :: u64
  defines "b \<equiv> ucast (v AND 0x7F) :: u8"
  shows "b AND 0x80 = 0" and "(b OR 0x80) AND 0x80 \<noteq> 0"
    and "ucast (b AND 0x7F) = v AND 0x7F" and "ucast ((b OR 0x80) AND 0x7F) = v AND 0x7F"
proof -
  have m: "(0x7F :: u64) = mask 7" "(0x7F :: u8) = mask 7"
    by (simp_all add: mask_eq_exp_minus_1)
  have "\<not> bit b 7"
    unfolding b_def m by (simp add: bit_simps)
  then show "b AND 0x80 = 0"
    using and_exp_eq_0_iff_not_bit [of b 7] by simp
  have "(b OR 0x80) AND 0x80 = (0x80 :: u8)"
    by (simp add: bit.conj_disj_distrib2 \<open>b AND 0x80 = 0\<close>)
  then show "(b OR 0x80) AND 0x80 \<noteq> 0" by simp
  show low: "ucast (b AND 0x7F) = v AND 0x7F"
    unfolding b_def m by (rule bit_word_eqI) (auto simp: bit_simps)
  have "(b OR 0x80) AND 0x7F = b AND 0x7F"
    by (simp add: bit.conj_disj_distrib2)
  then show "ucast ((b OR 0x80) AND 0x7F) = v AND 0x7F"
    by (simp add: low)
qed

lemma split_low7:
  fixes v :: u64
  shows "push_bit s (v AND 0x7F) OR push_bit (s + 7) (drop_bit 7 v) = push_bit s v"
proof -
  have m: "(0x7F :: u64) = mask 7"
    by (simp add: mask_eq_exp_minus_1)
  show ?thesis
  proof (rule bit_word_eqI)
    fix n assume "n < LENGTH(64)"
    then show "bit (push_bit s (v AND 0x7F) OR push_bit (s + 7) (drop_bit 7 v)) n
        = bit (push_bit s v) n"
      unfolding m by (cases "n < s + 7") (auto simp: bit_simps)
  qed
qed

lemma low7_id:
  fixes v :: u64
  assumes "drop_bit 7 v = 0"
  shows "v AND 0x7F = v"
proof -
  have "unat v div 128 = 0"
    using assms unat_shift7 [of v] by simp
  then have "unat v < 2 ^ 7" by simp
  then have "take_bit 7 v = v"
    by (simp add: word_unat_eq_iff unsigned_take_bit_eq take_bit_nat_eq_self_iff)
  then show ?thesis
    by (simp add: take_bit_eq_mask mask_eq_exp_minus_1)
qed

lemma leb_decode_loop_encode:
  assumes "unat v < 2 ^ (64 - shift)" and "shift < 64"
  shows "leb_decode_loop (leb_encode v @ rest) acc shift i
    = (acc OR push_bit shift v, i + length (leb_encode v))"
  using assms
proof (induction v arbitrary: acc shift i rule: leb_encode.induct)
  case (1 v)
  show ?case
  proof (cases "drop_bit 7 v = 0")
    case True
    then show ?thesis
      using low_byte [of v] by (simp add: leb_encode.simps [of v] low7_id)
  next
    case False
    then have "128 \<le> unat v"
      using unat_shift7 [of v] unat_eq_zero [of "drop_bit 7 v"] by (cases "unat v < 128") simp_all
    then have "(2::nat) ^ 7 < 2 ^ (64 - shift)"
      using "1.prems"(1) by simp
    then have "7 < 64 - shift"
      by (rule power_less_imp_less_exp [rotated]) simp
    then have s: "shift + 7 < 64" by simp
    have "(2::nat) ^ (64 - shift) = 2 ^ ((64 - (shift + 7)) + 7)"
      by (rule arg_cong [of _ _ "power 2"]) (use s in simp)
    also have "\<dots> = 2 ^ (64 - (shift + 7)) * 2 ^ 7"
      by (rule power_add)
    finally have "(2::nat) ^ (64 - shift) = 2 ^ (64 - (shift + 7)) * 128" by simp
    then have "unat v < 2 ^ (64 - (shift + 7)) * 128"
      using "1.prems"(1) by (simp only:)
    then have u: "unat (drop_bit 7 v) < 2 ^ (64 - (shift + 7))"
      unfolding unat_shift7 by (rule less_mult_imp_div_less)
    have "leb_decode_loop (leb_encode v @ rest) acc shift i
        = leb_decode_loop (leb_encode (drop_bit 7 v) @ rest)
            (acc OR push_bit shift (v AND 0x7F)) (shift + 7) (i + 1)"
      using False s low_byte [of v] by (simp add: leb_encode.simps [of v] Let_def)
    also have "\<dots> = ((acc OR push_bit shift (v AND 0x7F)) OR push_bit (shift + 7) (drop_bit 7 v),
        i + 1 + length (leb_encode (drop_bit 7 v)))"
      by (rule "1.IH" [OF refl refl False u s])
    finally show ?thesis
      using False split_low7 [of shift v]
      by (simp add: leb_encode.simps [of v] Let_def or.assoc)
  qed
qed

lemma leb_decode_encode: "leb_decode (leb_encode v @ rest) = (v, length (leb_encode v))"
proof -
  have "unat v < 2 ^ (64 - 0)"
    by simp
  then show ?thesis
    using leb_decode_loop_encode [of v 0 rest 0 0] by (simp add: leb_decode_def)
qed

interpretation leb128: prefix_codec leb_encode leb_decode "\<lambda>_. True"
  by unfold_locales (simp add: leb_decode_encode)

lemma leb_encode_small: "v < 128 \<Longrightarrow> leb_encode v = [ucast v]"
proof -
  assume "v < 128"
  then have "drop_bit 7 v = 0"
    using unat_shift7 [of v] by (simp add: word_less_nat_alt unat_eq_zero [symmetric])
  then show ?thesis
    by (simp add: leb_encode.simps [of v] low7_id)
qed

end
