(* ===== verification/Tls_Config.thy ===== *)
theory Tls_Config
  imports Core_Config
begin

text \<open>
  The TLS and QUIC configurations of the client (\<open>src/crates/voip-client/src/tls.rs\<close>): the verifier
  that accepts every certificate, the client configurations of a debug and of a release build, and
  the server configuration with a certificate made up on the spot.

  The libraries are an argument, \<open>tls_library\<close>: what they answer, and whether the crate was built with
  debug assertions.  A certificate is its encoding.
\<close>

section \<open>The verifier\<close>

type_synonym certificate = bytes

datatype SignatureScheme =
    ECDSA_NISTP256_SHA256
  | ECDSA_NISTP384_SHA384
  | ED25519
  | RSA_PSS_SHA256
  | RSA_PSS_SHA384
  | RSA_PSS_SHA512

definition verify_server_cert ::
  "certificate \<Rightarrow> certificate list \<Rightarrow> string \<Rightarrow> bytes \<Rightarrow> u64 \<Rightarrow> (unit, string) result" where
  "verify_server_cert end_entity intermediates server_name ocsp_response now = Ok ()"

definition verify_tls12_signature :: "bytes \<Rightarrow> certificate \<Rightarrow> bytes \<Rightarrow> (unit, string) result" where
  "verify_tls12_signature message cert dss = Ok ()"

definition verify_tls13_signature :: "bytes \<Rightarrow> certificate \<Rightarrow> bytes \<Rightarrow> (unit, string) result" where
  "verify_tls13_signature message cert dss = Ok ()"

definition supported_verify_schemes :: "SignatureScheme list" where
  "supported_verify_schemes =
     [ECDSA_NISTP256_SHA256, ECDSA_NISTP384_SHA384, ED25519, RSA_PSS_SHA256, RSA_PSS_SHA384, RSA_PSS_SHA512]"

section \<open>Configurations\<close>

datatype Verifier = NoVerifier | RootCertificates "certificate list"

record RustlsClientConfig =
  rc_verifier :: Verifier
  rc_client_auth :: bool
  rc_alpn_protocols :: "bytes list"

record QuinnClientConfig =
  qc_crypto :: RustlsClientConfig
  qc_datagram_receive_buffer_size :: "nat option"
  qc_datagram_send_buffer_size :: nat
  qc_max_idle_timeout_ms :: "nat option"

record QuinnServerConfig =
  qs_cert_chain :: "certificate list"
  qs_private_key :: bytes

text \<open>The native certificates with the errors met while loading them, how rustls prints a general
  error, and what the conversions and the certificate generator answer.\<close>

record tls_library =
  tl_debug_assertions :: bool
  tl_native_certs :: "certificate io list"
  tl_show_general :: "string \<Rightarrow> string"
  tl_quic_client :: "RustlsClientConfig \<Rightarrow> unit io"
  tl_idle_timeout_ok :: "nat \<Rightarrow> bool"
  tl_key_pair :: "bytes io"
  tl_self_signed :: "string list \<Rightarrow> bytes \<Rightarrow> certificate io"
  tl_private_key :: "bytes \<Rightarrow> unit io"
  tl_single_cert :: "certificate list \<Rightarrow> bytes \<Rightarrow> unit io"

text \<open>Collecting an iterator of results stops at the first error.\<close>

fun collect_io :: "'a io list \<Rightarrow> ('a list, string) result" where
  "collect_io [] = Ok []"
| "collect_io (IoOk x # xs) = res_map (\<lambda>ys. x # ys) (collect_io xs)"
| "collect_io (IoErr e # xs) = Err e"

text \<open>An error is the text of \<open>rustls::Error::General\<close>.\<close>

definition dangerous_client_config :: "(RustlsClientConfig, string) result" where
  "dangerous_client_config =
     Ok \<lparr> rc_verifier = NoVerifier, rc_client_auth = False, rc_alpn_protocols = [] \<rparr>"

definition production_client_config :: "tls_library \<Rightarrow> (RustlsClientConfig, string) result" where
  "production_client_config lib =
     (case collect_io (tl_native_certs lib) of
        Err e \<Rightarrow> Err (''failed to load native certs: '' @ e)
      | Panic \<Rightarrow> Panic
      | Ok root_store \<Rightarrow>
          Ok \<lparr> rc_verifier = RootCertificates root_store, rc_client_auth = False, rc_alpn_protocols = [] \<rparr>)"

text \<open>Which of the two a build contains, with the error as the callers print it.\<close>

definition build_client_config :: "tls_library \<Rightarrow> (RustlsClientConfig, string) result" where
  "build_client_config lib =
     res_map_err (\<lambda>e. ''TLS config: '' @ tl_show_general lib e)
       (if tl_debug_assertions lib then dangerous_client_config else production_client_config lib)"

definition dangerous_quinn_client_config :: "tls_library \<Rightarrow> (QuinnClientConfig, string) result" where
  "dangerous_quinn_client_config lib =
     res_bind (build_client_config lib) (\<lambda>rustls_config.
     res_bind (map_err (\<lambda>e. ''QuicClientConfig: '' @ e) (tl_quic_client lib rustls_config)) (\<lambda>_.
     let idle_timeout = 30 * 1000 in
     if \<not> tl_idle_timeout_ok lib idle_timeout then Panic
     else Ok \<lparr> qc_crypto = rustls_config, qc_datagram_receive_buffer_size = Some 65536,
               qc_datagram_send_buffer_size = 65536, qc_max_idle_timeout_ms = Some idle_timeout \<rparr>))"

definition dangerous_quinn_server_config :: "tls_library \<Rightarrow> (QuinnServerConfig, string) result" where
  "dangerous_quinn_server_config lib =
     res_bind (map_err (\<lambda>e. ''rcgen key pair: '' @ e) (tl_key_pair lib)) (\<lambda>key_pair.
     res_bind (map_err (\<lambda>e. ''rcgen cert: '' @ e) (tl_self_signed lib [''voip-masque-loopback''] key_pair)) (\<lambda>cert.
     res_bind (map_err (\<lambda>e. ''private key: '' @ e) (tl_private_key lib key_pair)) (\<lambda>_.
     res_bind (map_err (\<lambda>e. ''server config: '' @ e) (tl_single_cert lib [cert] key_pair)) (\<lambda>_.
     Ok \<lparr> qs_cert_chain = [cert], qs_private_key = key_pair \<rparr>))))"

section \<open>Who is let in\<close>

text \<open>Whether a client with a configuration goes on with a server that shows a certificate.  What a
  root store vouches for is the decision of rustls.\<close>

definition client_accepts ::
  "(certificate list \<Rightarrow> certificate \<Rightarrow> string \<Rightarrow> bool) \<Rightarrow> RustlsClientConfig \<Rightarrow> certificate \<Rightarrow> string \<Rightarrow> bool" where
  "client_accepts vouched cfg cert server_name =
     (case rc_verifier cfg of
        NoVerifier \<Rightarrow> is_ok (verify_server_cert cert [] server_name [] 0)
      | RootCertificates roots \<Rightarrow> vouched roots cert server_name)"

lemma build_client_config_verifier:
  assumes "build_client_config lib = Ok cfg"
  shows "rc_verifier cfg = NoVerifier \<longleftrightarrow> tl_debug_assertions lib"
    and "\<not> tl_debug_assertions lib \<Longrightarrow>
      \<exists>roots. collect_io (tl_native_certs lib) = Ok roots \<and> rc_verifier cfg = RootCertificates roots"
  using assms
  by (auto simp: build_client_config_def dangerous_client_config_def production_client_config_def
      res_ok_iffs split: if_splits result.splits)

lemma quinn_client_crypto:
  "dangerous_quinn_client_config lib = Ok cfg \<Longrightarrow> build_client_config lib = Ok (qc_crypto cfg)"
  by (auto simp: dangerous_quinn_client_config_def res_ok_iffs split: if_splits)

lemma quinn_server_self_signed:
  assumes "dangerous_quinn_server_config lib = Ok cfg"
  obtains key cert where "qs_cert_chain cfg = [cert]" "tl_key_pair lib = IoOk key"
    "tl_self_signed lib [''voip-masque-loopback''] key = IoOk cert"
  using assms by (auto simp: dangerous_quinn_server_config_def res_ok_iffs)

text \<open>In a debug build the client goes on with every server; in a release build with exactly those the
  certificates of the operating system vouch for.\<close>

lemma client_accepts_by_build:
  assumes "dangerous_quinn_client_config lib = Ok cfg"
  shows "client_accepts vouched (qc_crypto cfg) cert name \<longleftrightarrow>
    tl_debug_assertions lib \<or> (\<exists>roots. collect_io (tl_native_certs lib) = Ok roots \<and> vouched roots cert name)
      \<and> \<not> tl_debug_assertions lib"
  using build_client_config_verifier [OF quinn_client_crypto [OF assms]]
  by (cases "tl_debug_assertions lib") (auto simp: client_accepts_def verify_server_cert_def)

end
