(* ===== verification/Masque_Tunnel.thy ===== *)
theory Masque_Tunnel
  imports Leb128 Moq_Codec Core_Types Tls_Config
begin

text \<open>
  The client side of a MASQUE relay (\<open>src/crates/voip-client/src/masque.rs\<close>): datagram
  capsules, proxy addresses, the CONNECT-UDP requests, the handshakes over QUIC and over TCP, tunnel
  establishment with its fallback from HTTP/3 to HTTP/2, recovery, and the decision whether a relay
  is needed.

  The network and the HTTP libraries are arguments, one record per transport: what each call answers.
  The connection objects that a tunnel keeps alive are left out of its record.  Theory
  \<open>Masque_Bridge\<close> has the tasks that move datagrams over an HTTP/2 tunnel.
\<close>

section \<open>Capsules\<close>

datatype MasqueError =
  Http3Error string | Http2Error string | ConnectUdpRejected u16 | WaitingForPeer
| TunnelClosed | MasqueDatagramSendFailed string | MasqueDatagramRecvFailed string
| MasqueTlsError string | AllTransportsFailed

definition encode_datagram_capsule :: "bytes \<Rightarrow> bytes" where
  "encode_datagram_capsule quic_packet =
     (let quarter_stream_id = 0;
          payload_len = varint_len quarter_stream_id + of_nat (length quic_packet) in
      leb_encode 0 @ leb_encode payload_len @ leb_encode quarter_stream_id @ quic_packet)"

definition encode_h2_datagram_capsule :: "bytes \<Rightarrow> bytes" where
  "encode_h2_datagram_capsule bs =
     (let quarter_stream_id = 0;
          payload_len = of_nat (length bs) + varint_len quarter_stream_id in
      leb_encode 0 @ leb_encode payload_len @ leb_encode quarter_stream_id @ bs)"

definition decode_h2_varint :: "bytes \<Rightarrow> u64 \<times> nat" where
  "decode_h2_varint bs =
     (case bs of
        [] \<Rightarrow> (0, 0)
      | first # _ \<Rightarrow>
          let prefix = drop_bit 6 first in
          if prefix = 0 then (ucast first AND 0x3F, 1)
          else if prefix = 1 then
            (if length bs < 2 then (0, 0)
             else (ucast (of_nat (be_val (take 2 bs)) :: u16) AND 0x3FFF, 2))
          else if prefix = 2 then
            (if length bs < 4 then (0, 0)
             else (ucast (of_nat (be_val (take 4 bs)) :: u32) AND 0x3FFFFFFF, 4))
          else
            (if length bs < 8 then (0, 0)
             else ((of_nat (be_val (take 8 bs)) :: u64) AND 0x3FFFFFFFFFFFFFFF, 8)))"

text \<open>The slice \<open>data[pos..end]\<close> panics when its start lies behind its end.\<close>

definition decode_datagram_capsule :: "bytes \<Rightarrow> (bytes, MasqueError) result" where
  "decode_datagram_capsule bs =
     (let pos = 0;
          (capsule_type, ct_len) = decode_h2_varint (drop pos bs);
          pos = pos + ct_len in
      if capsule_type \<noteq> 0
      then Err (Http2Error (''expected DATAGRAM capsule type 0, got '' @ show_nat (unat capsule_type)))
      else let (capsule_len, cl_len) = decode_h2_varint (drop pos bs);
               pos = pos + cl_len;
               (quarter_stream_id, qs_len) = decode_h2_varint (drop pos bs);
               pos = pos + qs_len;
               stop = pos + unat capsule_len - qs_len in
           if stop > length bs
           then Err (Http2Error (''capsule payload truncated: expected '' @ show_nat (stop - pos)
                                 @ '' bytes, have '' @ show_nat (length bs - pos)))
           else if pos > stop then Panic
           else Ok (take (stop - pos) (drop pos bs)))"

section \<open>Proxy addresses and requests\<close>

text \<open>\<open>str::trim_start_matches\<close> strips the prefix as often as it occurs.\<close>

function trim_start_matches :: "string \<Rightarrow> string \<Rightarrow> string" where
  "trim_start_matches pat s =
     (if pat \<noteq> [] \<and> take (length pat) s = pat
      then trim_start_matches pat (drop (length pat) s) else s)"
  by pat_completeness auto

termination trim_start_matches
proof (relation "measure (length \<circ> snd)", goal_cases)
  case (2 pat s)
  then have "s \<noteq> []" by auto
  with 2 show ?case by simp
qed simp

declare trim_start_matches.simps [simp del]

text \<open>\<open>rfind\<close> and the two halves around the match.\<close>

definition rsplit_at :: "char \<Rightarrow> string \<Rightarrow> (string \<times> string) option" where
  "rsplit_at c s =
     (if c \<in> set s
      then Some (rev (tl (dropWhile (\<lambda>x. x \<noteq> c) (rev s))), rev (takeWhile (\<lambda>x. x \<noteq> c) (rev s)))
      else None)"

definition parse_proxy_url :: "string \<Rightarrow> (string \<times> u16, MasqueError) result" where
  "parse_proxy_url url =
     (let url = trim_start_matches ''http://'' (trim_start_matches ''https://'' url);
          host_port = takeWhile (\<lambda>c. c \<noteq> CHR ''/'') url in
      case rsplit_at (CHR '':'') host_port of
        Some (host, port) \<Rightarrow>
          Ok (host, case parse_u16 port of Some p \<Rightarrow> p | None \<Rightarrow> 443)
      | None \<Rightarrow> Ok (host_port, 443))"

record http_request =
  req_method :: string
  req_uri :: string
  req_headers :: "(string \<times> string) list"
  req_protocol :: string

text \<open>The HTTP library: whether it builds a request with these parts, and whether its HTTP/3 side knows
  a protocol.\<close>

record http_builder =
  hb_body :: "http_request \<Rightarrow> unit io"
  hb_h3_protocol :: "string \<Rightarrow> bool"

definition build_connect_udp_request_with_peer ::
  "http_builder \<Rightarrow> string \<Rightarrow> u16 \<Rightarrow> string \<Rightarrow> string \<Rightarrow> string option \<Rightarrow> (http_request, MasqueError) result" where
  "build_connect_udp_request_with_peer hb host port call_id peer_id proxy_token =
     (let authority = host @ '':'' @ show_nat (unat port);
          req = \<lparr> req_method = ''CONNECT'',
            req_uri = ''https://'' @ authority @ ''/masque'',
            req_headers =
              [(''host'', authority), (''connect-udp-target-host'', ''voip-relay''),
               (''connect-udp-target-port'', ''0''), (''x-voip-call-id'', call_id)]
              @ (if peer_id \<noteq> [] then [(''x-voip-peer-id'', peer_id)] else [])
              @ (case proxy_token of Some t \<Rightarrow> [(''x-voip-proxy-token'', t)] | None \<Rightarrow> []),
            req_protocol = [] \<rparr> in
      res_bind (map_err (\<lambda>e. Http3Error (''build request: '' @ e)) (hb_body hb req)) (\<lambda>_.
      if \<not> hb_h3_protocol hb ''connect-udp'' then Err (Http3Error ''invalid CONNECT-UDP protocol'')
      else Ok (req\<lparr>req_protocol := ''connect-udp''\<rparr>)))"

definition build_connect_udp_request ::
  "http_builder \<Rightarrow> string \<Rightarrow> u16 \<Rightarrow> string \<Rightarrow> string option \<Rightarrow> (http_request, MasqueError) result" where
  "build_connect_udp_request hb host port call_id proxy_token =
     build_connect_udp_request_with_peer hb host port call_id [] proxy_token"

definition build_connect_udp_request_h2 ::
  "http_builder \<Rightarrow> string \<Rightarrow> u16 \<Rightarrow> string \<Rightarrow> string option \<Rightarrow> (http_request, MasqueError) result" where
  "build_connect_udp_request_h2 hb host port call_id proxy_token =
     (let authority = host @ '':'' @ show_nat (unat port);
          req = \<lparr> req_method = ''CONNECT'',
            req_uri = ''https://'' @ authority @ ''/masque'',
            req_headers =
              [(''host'', authority), (''connect-udp-target-host'', ''voip-relay''),
               (''connect-udp-target-port'', ''0''), (''x-voip-call-id'', call_id)]
              @ (case proxy_token of Some t \<Rightarrow> [(''x-voip-proxy-token'', t)] | None \<Rightarrow> []),
            req_protocol = [] \<rparr> in
      res_bind (map_err (\<lambda>e. Http2Error (''build request: '' @ e)) (hb_body hb req)) (\<lambda>_.
      Ok (req\<lparr>req_protocol := ''connect-udp''\<rparr>)))"

section \<open>Handshakes\<close>

text \<open>The answers on the way to an HTTP/3 tunnel.  A response that did not come in time is \<open>None\<close>.\<close>

record h3_net =
  h3_tls :: tls_library
  h3_http :: http_builder
  h3_lookup_host :: "string \<Rightarrow> string list io"
  h3_endpoint :: "unit io"
  h3_connect :: "string \<Rightarrow> string \<Rightarrow> unit io"
  h3_quic_handshake :: "QuinnClientConfig \<Rightarrow> string \<Rightarrow> string \<Rightarrow> unit io"
  h3_handshake :: "unit io"
  h3_send_request :: "http_request \<Rightarrow> unit io"
  h3_finish :: "unit io"
  h3_response :: "http_request \<Rightarrow> u16 io option"

definition establish_quic_to_proxy :: "h3_net \<Rightarrow> string \<Rightarrow> u16 \<Rightarrow> (unit, MasqueError) result" where
  "establish_quic_to_proxy net host port =
     (let addr = host @ '':'' @ show_nat (unat port) in
      res_bind (map_err (\<lambda>e. Http3Error (''DNS lookup: '' @ e)) (h3_lookup_host net addr)) (\<lambda>addrs.
      case addrs of
        [] \<Rightarrow> Err (Http3Error ''no address found'')
      | sock_addr # _ \<Rightarrow>
          res_bind (res_map_err Http3Error (dangerous_quinn_client_config (h3_tls net))) (\<lambda>client_config.
          res_bind (map_err (\<lambda>e. Http3Error (''create endpoint: '' @ e)) (h3_endpoint net)) (\<lambda>_.
          res_bind (map_err (\<lambda>e. Http3Error (''connect: '' @ e)) (h3_connect net sock_addr host)) (\<lambda>_.
          map_err (\<lambda>e. Http3Error (''handshake: '' @ e)) (h3_quic_handshake net client_config sock_addr host))))))"

text \<open>The answers on the way to an HTTP/2 tunnel: the proxy connection, what the polls for extended
  CONNECT see and how many of them fit in the time, the response, and the loopback pair.\<close>

record h2_net =
  h2_tls :: tls_library
  h2_http :: http_builder
  h2_tcp_connect :: "string \<Rightarrow> u16 \<Rightarrow> unit io"
  h2_server_name :: "string \<Rightarrow> unit io"
  h2_tls_connect :: "RustlsClientConfig \<Rightarrow> string \<Rightarrow> unit io"
  h2_handshake :: "unit io"
  h2_extended :: "nat \<Rightarrow> bool"
  h2_polls :: nat
  h2_send_request :: "http_request \<Rightarrow> unit io"
  h2_response :: "http_request \<Rightarrow> u16 io option"
  lo_server :: "QuinnServerConfig \<Rightarrow> unit io"
  lo_local_addr :: "string io"
  lo_client :: "unit io"
  lo_connect :: "string \<Rightarrow> string \<Rightarrow> unit io"
  lo_handshake :: "QuinnClientConfig \<Rightarrow> QuinnServerConfig \<Rightarrow> string \<Rightarrow> unit io"

definition perform_tls_handshake :: "h2_net \<Rightarrow> string \<Rightarrow> (unit, MasqueError) result" where
  "perform_tls_handshake net host =
     res_bind (res_map_err MasqueTlsError (build_client_config (h2_tls net))) (\<lambda>rustls_config.
     let rustls_config = rustls_config\<lparr>rc_alpn_protocols := [str_bytes ''h2'']\<rparr> in
     res_bind (map_err (\<lambda>e. MasqueTlsError (''invalid server name: '' @ e)) (h2_server_name net host)) (\<lambda>_.
     map_err (\<lambda>e. MasqueTlsError (''TLS handshake: '' @ e)) (h2_tls_connect net rustls_config host)))"

text \<open>The polls every 100 milliseconds; the answer only decides about a warning.\<close>

fun poll_extended_connect :: "(nat \<Rightarrow> bool) \<Rightarrow> nat \<Rightarrow> nat \<Rightarrow> bool" where
  "poll_extended_connect enabled k 0 = False"
| "poll_extended_connect enabled k (Suc n) =
     (if enabled k then True else poll_extended_connect enabled (k + 1) n)"

definition extended_connect_ready :: "h2_net \<Rightarrow> bool" where
  "extended_connect_ready net = poll_extended_connect (h2_extended net) 0 (min 30 (h2_polls net))"

definition perform_h2_handshake :: "h2_net \<Rightarrow> http_request \<Rightarrow> (bool, MasqueError) result" where
  "perform_h2_handshake net request =
     res_bind (map_err (\<lambda>e. Http2Error (''h2 handshake: '' @ e)) (h2_handshake net)) (\<lambda>_.
     let warned = \<not> extended_connect_ready net in
     res_bind (map_err (\<lambda>e. Http2Error (''send CONNECT-UDP request: '' @ e)) (h2_send_request net request)) (\<lambda>_.
     case h2_response net request of
       None \<Rightarrow> Err (Http2Error ''CONNECT-UDP response timeout'')
     | Some response \<Rightarrow>
         res_bind (map_err (\<lambda>e. Http2Error (''CONNECT-UDP response error: '' @ e)) response) (\<lambda>status.
         if status \<noteq> 200 then Err (ConnectUdpRejected status) else Ok warned)))"

definition create_loopback_quic_pair :: "h2_net \<Rightarrow> (unit, MasqueError) result" where
  "create_loopback_quic_pair net =
     res_bind (res_map_err (\<lambda>e. Http2Error (''server config: '' @ e))
                 (dangerous_quinn_server_config (h2_tls net))) (\<lambda>server_config.
     res_bind (map_err (\<lambda>e. Http2Error (''create server endpoint: '' @ e)) (lo_server net server_config)) (\<lambda>_.
     res_bind (map_err (\<lambda>e. Http2Error (''local addr: '' @ e)) (lo_local_addr net)) (\<lambda>server_addr.
     res_bind (res_map_err (\<lambda>e. Http2Error (''client config: '' @ e))
                 (dangerous_quinn_client_config (h2_tls net))) (\<lambda>client_config.
     res_bind (map_err (\<lambda>e. Http2Error (''create client endpoint: '' @ e)) (lo_client net)) (\<lambda>_.
     res_bind (map_err (\<lambda>e. Http2Error (''loopback connect: '' @ e))
                 (lo_connect net server_addr ''voip-masque-loopback'')) (\<lambda>_.
     map_err (\<lambda>e. Http2Error (''loopback handshake: '' @ e))
       (lo_handshake net client_config server_config ''voip-masque-loopback'')))))))"

section \<open>Tunnels\<close>

record MasqueTunnel =
  mt_proxy_url :: string
  mt_transport :: MasqueTransport
  mt_call_id :: string
  mt_state :: TunnelStatus

definition connect_http3 ::
  "h3_net \<Rightarrow> string \<Rightarrow> string \<Rightarrow> string option \<Rightarrow> (MasqueTunnel, MasqueError) result" where
  "connect_http3 net proxy_url call_id proxy_token =
     res_bind (parse_proxy_url proxy_url) (\<lambda>(host, port).
     res_bind (establish_quic_to_proxy net host port) (\<lambda>_.
     res_bind (map_err (\<lambda>e. Http3Error (''h3 handshake: '' @ e)) (h3_handshake net)) (\<lambda>_.
     res_bind (build_connect_udp_request (h3_http net) host port call_id proxy_token) (\<lambda>request.
     res_bind (map_err (\<lambda>e. Http3Error (''send CONNECT-UDP: '' @ e)) (h3_send_request net request)) (\<lambda>_.
     res_bind (map_err (\<lambda>e. Http3Error (''finish request: '' @ e)) (h3_finish net)) (\<lambda>_.
     case h3_response net request of
       None \<Rightarrow> Err (Http3Error ''CONNECT-UDP response timeout'')
     | Some response \<Rightarrow>
         res_bind (map_err (\<lambda>e. Http3Error (''recv response: '' @ e)) response) (\<lambda>status.
         if status \<noteq> 200 then Err (ConnectUdpRejected status)
         else Ok \<lparr> mt_proxy_url = proxy_url, mt_transport = Http3, mt_call_id = call_id,
                   mt_state = TActive \<rparr>)))))))"

definition connect_http2 ::
  "h2_net \<Rightarrow> string \<Rightarrow> string \<Rightarrow> string option \<Rightarrow> (MasqueTunnel, MasqueError) result" where
  "connect_http2 net proxy_url call_id proxy_token =
     res_bind (parse_proxy_url proxy_url) (\<lambda>(host, port).
     res_bind (map_err (\<lambda>e. Http2Error (''TCP connect: '' @ e)) (h2_tcp_connect net host port)) (\<lambda>_.
     res_bind (perform_tls_handshake net host) (\<lambda>_.
     res_bind (build_connect_udp_request_h2 (h2_http net) host port call_id proxy_token) (\<lambda>request.
     res_bind (perform_h2_handshake net request) (\<lambda>_.
     res_bind (create_loopback_quic_pair net) (\<lambda>_.
     Ok \<lparr> mt_proxy_url = proxy_url, mt_transport = Http2, mt_call_id = call_id,
          mt_state = TActive \<rparr>))))))"

definition masque_send_datagram ::
  "unit io \<Rightarrow> MasqueTunnel \<Rightarrow> (unit, MasqueError) result" where
  "masque_send_datagram sent t =
     (case sent of IoOk _ \<Rightarrow> Ok () | IoErr e \<Rightarrow> Err (MasqueDatagramSendFailed e))"

definition masque_recv_datagram ::
  "bytes io \<Rightarrow> MasqueTunnel \<Rightarrow> (bytes, MasqueError) result" where
  "masque_recv_datagram received t =
     (case received of IoOk bs \<Rightarrow> Ok bs | IoErr e \<Rightarrow> Err (MasqueDatagramRecvFailed e))"

definition masque_close :: "MasqueTunnel \<Rightarrow> MasqueTunnel" where
  "masque_close t = t\<lparr>mt_state := TFailed\<rparr>"

fun masque_recover_from ::
  "h3_net \<Rightarrow> h2_net \<Rightarrow> string list \<Rightarrow> MasqueTunnel
     \<Rightarrow> MasqueTunnel \<times> (unit, MasqueError) result" where
  "masque_recover_from net3 net2 [] t = (t\<lparr>mt_state := TFailed\<rparr>, Err AllTransportsFailed)"
| "masque_recover_from net3 net2 (proxy_url # proxies) t =
     (case connect_http3 net3 proxy_url (mt_call_id t) None of
        Ok t' \<Rightarrow> (t', Ok ())
      | _ \<Rightarrow>
          (case connect_http2 net2 proxy_url (mt_call_id t) None of
             Ok t' \<Rightarrow> (t', Ok ())
           | _ \<Rightarrow> masque_recover_from net3 net2 proxies t))"

definition masque_recover ::
  "h3_net \<Rightarrow> h2_net \<Rightarrow> string list \<Rightarrow> MasqueTunnel
     \<Rightarrow> MasqueTunnel \<times> (unit, MasqueError) result" where
  "masque_recover net3 net2 proxies t =
     masque_recover_from net3 net2 proxies (t\<lparr>mt_state := TRecovering\<rparr>)"

definition establish_masque_tunnel_with_token ::
  "h3_net \<Rightarrow> h2_net \<Rightarrow> string \<Rightarrow> string \<Rightarrow> bool \<Rightarrow> string option
     \<Rightarrow> (MasqueTunnel, MasqueError) result" where
  "establish_masque_tunnel_with_token net3 net2 proxy_url call_id udp_blocked proxy_token =
     (let http2 = (case connect_http2 net2 proxy_url call_id proxy_token of
                     Ok t \<Rightarrow> Ok t | _ \<Rightarrow> Err AllTransportsFailed) in
      if udp_blocked then http2
      else case connect_http3 net3 proxy_url call_id proxy_token of
             Ok t \<Rightarrow> Ok t | _ \<Rightarrow> http2)"

definition establish_masque_tunnel ::
  "h3_net \<Rightarrow> h2_net \<Rightarrow> string \<Rightarrow> string \<Rightarrow> bool \<Rightarrow> (MasqueTunnel, MasqueError) result" where
  "establish_masque_tunnel net3 net2 proxy_url call_id udp_blocked =
     establish_masque_tunnel_with_token net3 net2 proxy_url call_id udp_blocked None"

definition client_detect_masque_need :: "NATType \<Rightarrow> NATType \<Rightarrow> bool \<Rightarrow> bool" where
  "client_detect_masque_need local_nat peer_nat udp_blocked =
     (if udp_blocked then True
      else if local_nat = SymmetricRandom \<and> peer_nat = SymmetricRandom then True
      else if local_nat = NATNone \<or> peer_nat = NATNone then False
      else if local_nat = Cone \<or> peer_nat = Cone then False
      else if NATType_is_predictable local_nat \<or> NATType_is_predictable peer_nat then False
      else True)"

section \<open>Facts about capsules\<close>

lemma h2_varint_eq_moq: "decode_h2_varint bs = moq_decode_varint bs"
proof -
  have m: "(0x3F :: u64) = mask 6" "(0x3FFF :: u64) = mask 14" "(0x3FFFFFFF :: u64) = mask 30"
    "(0x3FFF :: u16) = mask 14" "(0x3FFFFFFF :: u32) = mask 30"
    by (simp_all add: mask_eq_exp_minus_1)
  have one: "ucast b AND 0x3F = (ucast b :: u64)" if z: "drop_bit 6 b = 0" for b :: u8
  proof -
    have "unat b div 64 = 0"
      using z by (simp add: drop_bit_eq_div unat_div flip: unat_eq_zero)
    then have "unat b < 2 ^ 6" by simp
    then have "take_bit 6 (ucast b :: u64) = ucast b"
      by (simp add: word_unat_eq_iff unsigned_take_bit_eq unat_ucast_up take_bit_nat_eq_self_iff)
    then show ?thesis
      by (simp add: take_bit_eq_mask mask_eq_exp_minus_1)
  qed
  have two: "ucast w AND 0x3FFF = (ucast (w AND 0x3FFF) :: u64)" for w :: u16
    unfolding m by (rule bit_word_eqI) (auto simp: bit_simps)
  have four: "ucast w AND 0x3FFFFFFF = (ucast (w AND 0x3FFFFFFF) :: u64)" for w :: u32
    unfolding m by (rule bit_word_eqI) (auto simp: bit_simps)
  show ?thesis
    by (auto simp: decode_h2_varint_def moq_decode_varint_def Let_def one two four split: list.split)
qed

lemma varint_len_0 [simp]: "varint_len 0 = 1"
  by (simp add: varint_len.simps)

lemma leb_encode_0 [simp]: "leb_encode 0 = [0]"
  by (simp add: leb_encode_small)

lemma encode_capsules_agree: "encode_h2_datagram_capsule bs = encode_datagram_capsule bs"
  by (simp add: encode_h2_datagram_capsule_def encode_datagram_capsule_def add.commute)

lemma decode_varint_zero [simp]: "moq_decode_varint (0 # bs) = (0, 1)"
  by (simp add: moq_decode_varint_def)

lemma decode_varint_consumes:
  assumes "8 \<le> length bs"
  shows "1 \<le> snd (moq_decode_varint bs)"
    and "drop_bit 6 (hd bs) = 1 \<Longrightarrow> snd (moq_decode_varint bs) = 2"
    and "128 \<le> unat (hd bs) \<Longrightarrow> 4 \<le> snd (moq_decode_varint bs)"
proof -
  obtain b bs' where bs: "bs = b # bs'"
    using assms by (cases bs) auto
  show "1 \<le> snd (moq_decode_varint bs)"
    "drop_bit 6 (hd bs) = 1 \<Longrightarrow> snd (moq_decode_varint bs) = 2"
    using assms by (auto simp: moq_decode_varint_def bs Let_def)
  assume "128 \<le> unat (hd bs)"
  then have "2 \<le> unat (drop_bit 6 b)"
    by (simp add: bs drop_bit_eq_div unat_div)
  then have "drop_bit 6 b \<noteq> 0" and "drop_bit 6 b \<noteq> 1"
    by auto
  then show "4 \<le> snd (moq_decode_varint bs)"
    using assms by (auto simp: moq_decode_varint_def bs Let_def)
qed

lemma capsule_result_bound:
  assumes "decode_datagram_capsule (0 # bs) = Ok q"
  defines "cl_len \<equiv> snd (moq_decode_varint bs)"
  shows "length q + 1 + cl_len + snd (moq_decode_varint (drop cl_len bs)) \<le> length bs + 1"
  using assms
  by (auto simp: decode_datagram_capsule_def h2_varint_eq_moq Let_def split: prod.splits if_splits)

lemma capsule_decode_small:
  assumes "length p \<le> 62"
  shows "decode_datagram_capsule (encode_datagram_capsule p @ rest) = Ok p"
proof -
  let ?L = "1 + of_nat (length p) :: u64"
  have u: "unat ?L = length p + 1"
    using assms by (simp add: unat_word_ariths unat_of_nat)
  then have l: "leb_encode ?L = [ucast ?L]"
    using assms by (intro leb_encode_small) (simp add: word_less_nat_alt)
  have e: "moq_encode_varint ?L = [ucast ?L]"
    using assms u by (simp add: moq_encode_varint_def word_less_nat_alt)
  have "?L < 2 ^ 62"
    using assms u by (simp add: word_less_nat_alt)
  then have "moq_decode_varint (ucast ?L # bs) = (?L, 1)" for bs
    using moq_varint.dec_enc [of ?L bs] e by simp
  then show ?thesis
    using u l by (simp add: decode_datagram_capsule_def encode_datagram_capsule_def h2_varint_eq_moq)
qed

lemma capsule_decode_large:
  assumes "62 < length p" and "length p < 16383"
  shows "decode_datagram_capsule (encode_datagram_capsule p) \<noteq> Ok p"
proof
  assume ok: "decode_datagram_capsule (encode_datagram_capsule p) = Ok p"
  let ?L = "1 + of_nat (length p) :: u64"
  have u: "unat ?L = length p + 1"
    using assms by (simp add: unat_word_ariths unat_of_nat)
  have enc: "encode_datagram_capsule p = 0 # leb_encode ?L @ 0 # p"
    by (simp add: encode_datagram_capsule_def)
  note bound = capsule_result_bound [OF ok [unfolded enc]]
  show False
  proof (cases "length p < 127")
    case True
    then have l: "leb_encode ?L = [ucast ?L]"
      using u by (intro leb_encode_small) (simp add: word_less_nat_alt)
    have b: "unat (ucast ?L :: u8) = length p + 1"
      using True u by (subst unat_ucast_down) simp_all
    then have "unat (drop_bit 6 (ucast ?L :: u8)) = 1"
      using assms(1) True by (simp add: drop_bit_eq_div unat_div)
    then have "drop_bit 6 (ucast ?L :: u8) = 1"
      by (metis unat_1 word_unat_eq_iff)
    then have "snd (moq_decode_varint (ucast ?L # 0 # p)) = 2"
      using assms(1) by (intro decode_varint_consumes(2)) simp_all
    moreover have "1 \<le> snd (moq_decode_varint p)"
      using assms(1) by (intro decode_varint_consumes(1)) simp
    ultimately show False
      using bound l by (simp add: numeral_2_eq_2)
  next
    case False
    let ?b = "ucast (?L AND 0x7F) :: u8" and ?h = "drop_bit 7 ?L"
    have "unat ?h = (length p + 1) div 128"
      using u unat_shift7 [of ?L] by simp
    then have h: "?h \<noteq> 0" "?h < 128"
      using False assms(2) by (auto simp: word_less_nat_alt unat_eq_zero [symmetric])
    have l: "leb_encode ?L = [?b OR 0x80, ucast ?h]"
      using h leb_encode_small [OF h(2)] by (simp add: leb_encode.simps [of ?L] Let_def)
    have "unat (0x80 OR ?b) = 1 * 2 ^ 7 + unat ?b"
    proof (rule unat_or_field)
      show "unat ?b < 2 ^ 7"
      proof -
        have "?L AND 0x7F = take_bit 7 ?L"
          by (simp add: take_bit_eq_mask mask_eq_exp_minus_1)
        then have "unat (?L AND 0x7F) < 128"
          by (simp add: take_bit_eq_mod unat_mod)
        then show ?thesis by (subst unat_ucast_down) simp_all
      qed
    qed simp
    then have "128 \<le> unat (?b OR 0x80)"
      by (simp add: or.commute)
    then have "4 \<le> snd (moq_decode_varint ((?b OR 0x80) # ucast ?h # 0 # p))"
      using assms(1) by (intro decode_varint_consumes(3)) simp_all
    then show False
      using bound l by simp
  qed
qed

section \<open>Facts about proxy addresses\<close>

lemma trim_start_matches_id:
  assumes "takeWhile (\<lambda>c. c \<noteq> x) s \<noteq> takeWhile (\<lambda>c. c \<noteq> x) pat" and "x \<in> set pat"
  shows "trim_start_matches pat s = s"
proof -
  have "take (length pat) s \<noteq> pat"
  proof
    assume "take (length pat) s = pat"
    then obtain r where "s = pat @ r"
      by (metis append_take_drop_id)
    then have "takeWhile (\<lambda>c. c \<noteq> x) s = takeWhile (\<lambda>c. c \<noteq> x) pat"
      using assms(2) by (simp add: takeWhile_append1)
    with assms(1) show False ..
  qed
  then show ?thesis by (simp add: trim_start_matches.simps)
qed

lemma rsplit_at_last:
  assumes "c \<notin> set port"
  shows "rsplit_at c (host @ c # port) = Some (host, port)"
proof -
  have "takeWhile (\<lambda>x. x \<noteq> c) (rev port @ c # rev host) = rev port"
    using assms by (subst takeWhile_append2) auto
  moreover have "dropWhile (\<lambda>x. x \<noteq> c) (rev port @ c # rev host) = c # rev host"
    using assms by (subst dropWhile_append2) auto
  ultimately show ?thesis by (simp add: rsplit_at_def)
qed

lemma digit_facts:
  assumes "list_all is_digit ds"
  shows "CHR '':'' \<notin> set ds" and "CHR ''/'' \<notin> set ds"
  using assms by (auto simp: list_all_iff is_digit_def)

lemma parse_proxy_url_authority:
  assumes "CHR ''/'' \<notin> set host"
  shows "parse_proxy_url (''https://'' @ host @ '':'' @ show_nat (unat port) @ ''/'' @ path)
    = Ok (host, port)"
proof -
  let ?ds = "show_nat (unat port)"
  let ?s = "host @ '':'' @ ?ds @ ''/'' @ path"
  have ds: "?ds \<noteq> []" "list_all is_digit ?ds"
    using show_nat_digits by blast+
  note no = digit_facts [OF ds(2)]
  have tw: "takeWhile (\<lambda>c. c \<noteq> CHR ''/'') ?s = host @ '':'' @ ?ds"
    using assms no(2) by (auto simp: takeWhile_append)
  have "last (host @ '':'' @ ?ds) \<noteq> CHR '':''"
    using ds(1) no(1) by (auto simp: last_append dest: last_in_set)
  then have last: "host @ '':'' @ ?ds \<noteq> xs @ '':''" for xs
    by (metis last_snoc)
  have "trim_start_matches ''https://'' ?s = ?s"
    by (rule trim_start_matches_id [where x = "CHR ''/''"]) (use last [of "''https''"] tw in simp_all)
  moreover have "trim_start_matches ''http://'' ?s = ?s"
    by (rule trim_start_matches_id [where x = "CHR ''/''"]) (use last [of "''http''"] tw in simp_all)
  moreover have "trim_start_matches ''https://'' (''https://'' @ ?s) = trim_start_matches ''https://'' ?s"
    by (subst trim_start_matches.simps) simp
  ultimately show ?thesis
    using tw rsplit_at_last [OF no(1), of host]
    by (simp add: parse_proxy_url_def parse_u16_show_nat)
qed

section \<open>Facts about tunnels\<close>

definition proxy_accepts :: "h3_net \<Rightarrow> h2_net \<Rightarrow> string \<Rightarrow> string \<Rightarrow> bool" where
  "proxy_accepts net3 net2 call_id url \<longleftrightarrow>
     is_ok (connect_http3 net3 url call_id None) \<or> is_ok (connect_http2 net2 url call_id None)"

lemma connect_ok:
  "connect_http3 net url call_id tok = Ok t \<Longrightarrow>
     t = \<lparr> mt_proxy_url = url, mt_transport = Http3, mt_call_id = call_id, mt_state = TActive \<rparr>"
  "connect_http2 net2 url call_id tok = Ok t' \<Longrightarrow>
     t' = \<lparr> mt_proxy_url = url, mt_transport = Http2, mt_call_id = call_id, mt_state = TActive \<rparr>"
  by (auto simp: connect_http3_def connect_http2_def res_ok_iffs split: option.splits if_splits)

text \<open>Whether the proxy announces extended CONNECT is only logged: the handshake succeeds alike.\<close>

lemma h2_handshake_ignores_settings:
  "is_ok (perform_h2_handshake (net\<lparr>h2_extended := enabled, h2_polls := n\<rparr>) request)
    = is_ok (perform_h2_handshake net request)"
  by (cases "h2_handshake net"; cases "h2_send_request net request"; cases "h2_response net request";
      cases "the (h2_response net request)") (simp_all add: perform_h2_handshake_def Let_def)

lemma poll_extended_connect_iff:
  "poll_extended_connect enabled k n \<longleftrightarrow> (\<exists>i < n. enabled (k + i))"
  by (induction n arbitrary: k) (auto simp: less_Suc_eq_0_disj)

text \<open>What rustls promises for the loopback connection, and of a certificate signed by itself: a
  handshake succeeds only if the client accepts the certificate, and no root vouches for it.\<close>

definition loopback_checked :: "(certificate list \<Rightarrow> certificate \<Rightarrow> string \<Rightarrow> bool) \<Rightarrow> h2_net \<Rightarrow> bool" where
  "loopback_checked vouched net \<longleftrightarrow>
     (\<forall>cc sc name. lo_handshake net cc sc name = IoOk ()
        \<longrightarrow> client_accepts vouched (qc_crypto cc) (hd (qs_cert_chain sc)) name)"

definition self_signed_unknown ::
  "(certificate list \<Rightarrow> certificate \<Rightarrow> string \<Rightarrow> bool) \<Rightarrow> tls_library \<Rightarrow> bool" where
  "self_signed_unknown vouched lib \<longleftrightarrow>
     (\<forall>names key cert roots name. tl_self_signed lib names key = IoOk cert \<longrightarrow> \<not> vouched roots cert name)"

lemma release_loopback_fails:
  assumes "\<not> tl_debug_assertions (h2_tls net)"
    and "loopback_checked vouched net" and "self_signed_unknown vouched (h2_tls net)"
  shows "create_loopback_quic_pair net \<noteq> Ok ()"
proof
  assume "create_loopback_quic_pair net = Ok ()"
  then obtain sc cc where c: "dangerous_quinn_server_config (h2_tls net) = Ok sc"
    "dangerous_quinn_client_config (h2_tls net) = Ok cc"
    "lo_handshake net cc sc ''voip-masque-loopback'' = IoOk ()"
    by (auto simp: create_loopback_quic_pair_def res_ok_iffs)
  obtain key cert where "qs_cert_chain sc = [cert]"
    "tl_self_signed (h2_tls net) [''voip-masque-loopback''] key = IoOk cert"
    using c(1) by (rule quinn_server_self_signed)
  moreover have "client_accepts vouched (qc_crypto cc) (hd (qs_cert_chain sc)) ''voip-masque-loopback''"
    using assms(2) c(3) by (simp add: loopback_checked_def)
  ultimately show False
    using client_accepts_by_build [OF c(2)] assms(1,3) by (auto simp: self_signed_unknown_def)
qed

lemma release_http2_fails:
  assumes "\<not> tl_debug_assertions (h2_tls net)"
    and "loopback_checked vouched net" and "self_signed_unknown vouched (h2_tls net)"
  shows "connect_http2 net url call_id tok \<noteq> Ok t"
  using release_loopback_fails [OF assms] by (auto simp: connect_http2_def res_ok_iffs)

lemma connect_http2_no_panic:
  assumes "tl_idle_timeout_ok (h2_tls net) 30000"
  shows "connect_http2 net url call_id tok \<noteq> Panic"
proof -
  have c: "collect_io xs \<noteq> Panic" for xs :: "certificate io list"
    by (induction xs rule: collect_io.induct) (auto simp: no_panic)
  have "production_client_config (h2_tls net) \<noteq> Panic"
    using c by (auto simp: production_client_config_def split: result.splits)
  then have b: "build_client_config (h2_tls net) \<noteq> Panic"
    by (simp add: build_client_config_def dangerous_client_config_def no_panic)
  have "create_loopback_quic_pair net \<noteq> Panic"
    using assms b by (auto simp: create_loopback_quic_pair_def dangerous_quinn_client_config_def
        dangerous_quinn_server_config_def no_panic)
  moreover have "perform_h2_handshake net request \<noteq> Panic" for request
    by (auto simp: perform_h2_handshake_def no_panic Let_def split: option.splits)
  ultimately show ?thesis
    using b by (auto simp: connect_http2_def parse_proxy_url_def perform_tls_handshake_def
        build_connect_udp_request_h2_def no_panic Let_def split: option.splits)
qed

lemma masque_recover_from_spec:
  "case masque_recover_from net3 net2 proxies t of (t', r) \<Rightarrow>
     (case find (proxy_accepts net3 net2 (mt_call_id t)) proxies of
        Some url \<Rightarrow> r = Ok () \<and> mt_proxy_url t' = url \<and> mt_state t' = TActive
          \<and> mt_call_id t' = mt_call_id t
      | None \<Rightarrow> r = Err AllTransportsFailed \<and> t' = t\<lparr>mt_state := TFailed\<rparr>)"
proof (induction proxies)
  case Nil
  then show ?case by simp
next
  case (Cons url proxies)
  then show ?case
    by (cases "connect_http3 net3 url (mt_call_id t) None";
        cases "connect_http2 net2 url (mt_call_id t) None")
      (auto simp: proxy_accepts_def dest!: connect_ok)
qed

section \<open>Sample networks\<close>

text \<open>A build whose root store vouches for what is in it; a proxy that cannot be reached over QUIC and
  answers over TCP, where the loopback handshake checks the certificate.\<close>

definition sample_tls :: "bool \<Rightarrow> tls_library" where
  "sample_tls debug =
     \<lparr> tl_debug_assertions = debug, tl_native_certs = [IoOk [1]], tl_show_general = id,
       tl_quic_client = (\<lambda>_. IoOk ()), tl_idle_timeout_ok = (\<lambda>ms. ms < 2 ^ 62), tl_key_pair = IoOk [7],
       tl_self_signed = (\<lambda>_ _. IoOk [9]), tl_private_key = (\<lambda>_. IoOk ()), tl_single_cert = (\<lambda>_ _. IoOk ()) \<rparr>"

definition sample_vouched :: "certificate list \<Rightarrow> certificate \<Rightarrow> string \<Rightarrow> bool" where
  "sample_vouched roots cert name \<longleftrightarrow> cert \<in> set roots \<and> cert \<noteq> [9]"

definition sample_http :: http_builder where
  "sample_http = \<lparr> hb_body = (\<lambda>_. IoOk ()), hb_h3_protocol = (\<lambda>_. True) \<rparr>"

definition sample_h3_net :: h3_net where
  "sample_h3_net =
     \<lparr> h3_tls = sample_tls True, h3_http = sample_http, h3_lookup_host = (\<lambda>_. IoOk [''192.0.2.1:443'']),
       h3_endpoint = IoOk (), h3_connect = (\<lambda>_ _. IoOk ()), h3_quic_handshake = (\<lambda>_ _ _. IoErr ''timed out''),
       h3_handshake = IoOk (), h3_send_request = (\<lambda>_. IoOk ()), h3_finish = IoOk (), h3_response = (\<lambda>_. None) \<rparr>"

definition sample_h2_net :: "bool \<Rightarrow> h2_net" where
  "sample_h2_net debug =
     \<lparr> h2_tls = sample_tls debug, h2_http = sample_http, h2_tcp_connect = (\<lambda>_ _. IoOk ()),
       h2_server_name = (\<lambda>_. IoOk ()), h2_tls_connect = (\<lambda>_ _. IoOk ()), h2_handshake = IoOk (),
       h2_extended = (\<lambda>k. k = 2), h2_polls = 30, h2_send_request = (\<lambda>_. IoOk ()),
       h2_response = (\<lambda>_. Some (IoOk 200)), lo_server = (\<lambda>_. IoOk ()), lo_local_addr = IoOk ''127.0.0.1:4000'',
       lo_client = IoOk (), lo_connect = (\<lambda>_ _. IoOk ()),
       lo_handshake = (\<lambda>cc sc name. if client_accepts sample_vouched (qc_crypto cc) (hd (qs_cert_chain sc)) name
                                    then IoOk () else IoErr ''UnknownIssuer'') \<rparr>"

lemmas sample_tunnel_defs = sample_tls_def sample_http_def sample_h3_net_def sample_h2_net_def
  establish_quic_to_proxy_def perform_tls_handshake_def perform_h2_handshake_def create_loopback_quic_pair_def
  dangerous_quinn_client_config_def dangerous_quinn_server_config_def build_client_config_def
  dangerous_client_config_def build_connect_udp_request_def build_connect_udp_request_with_peer_def
  build_connect_udp_request_h2_def client_accepts_def verify_server_cert_def

lemma sample_loopback:
  "loopback_checked sample_vouched (sample_h2_net debug)"
  "self_signed_unknown sample_vouched (h2_tls (sample_h2_net debug))"
  by (simp_all add: loopback_checked_def self_signed_unknown_def sample_h2_net_def sample_tls_def sample_vouched_def)

section \<open>Properties\<close>

text \<open>The range in which the capsule code of the HTTP/2 relay round-trips.  Below 16383
  bytes, decoding an encoded packet returns the packet exactly when it has at most 62 bytes: the
  encoder writes base-128 lengths, the decoder reads QUIC variable-length integers.\<close>

lemma capsule_round_trip_range:
  assumes "length p < 16383"
  shows "decode_datagram_capsule (encode_datagram_capsule p) = Ok p \<longleftrightarrow> length p \<le> 62"
  using assms capsule_decode_small [of p "[]"] capsule_decode_large [of p]
  by (metis append_Nil2 not_le)

lemma capsule_round_trip_range_witness:
  "decode_datagram_capsule (encode_datagram_capsule [1, 2, 3]) = Ok [1, 2, 3]
   \<and> decode_datagram_capsule (encode_datagram_capsule (replicate 1200 7)) \<noteq> Ok (replicate 1200 7)"
  using capsule_round_trip_range [of "[1, 2, 3]"] capsule_round_trip_range [of "replicate 1200 7"]
  by simp

text \<open>Tunnel establishment follows the transport policy.  A tunnel is obtained exactly when
  HTTP/3 was allowed and accepted or HTTP/2 was accepted; HTTP/3 wins whenever UDP is not blocked
  and it works; the tunnel is active for the given call and proxy; and the only failure is that
  all transports failed.\<close>

lemma masque_establish_policy:
  "(let r = establish_masque_tunnel_with_token net3 net2 url call_id udp_blocked tok;
        h3 = is_ok (connect_http3 net3 url call_id tok);
        h2 = is_ok (connect_http2 net2 url call_id tok) in
    if \<not> udp_blocked \<and> h3 \<or> h2
    then r = Ok \<lparr> mt_proxy_url = url,
                  mt_transport = (if \<not> udp_blocked \<and> h3 then Http3 else Http2),
                  mt_call_id = call_id, mt_state = TActive \<rparr>
    else r = Err AllTransportsFailed)"
  by (cases "connect_http3 net3 url call_id tok"; cases "connect_http2 net2 url call_id tok")
    (auto simp: establish_masque_tunnel_with_token_def Let_def dest!: connect_ok)

text \<open>Tunnel recovery connects to the first proxy of the list that accepts the call on
  either transport and ends active there; it fails exactly when no proxy of the list accepts,
  leaving the tunnel in the failed state.\<close>

lemma masque_recover_first_accepting:
  "case masque_recover net3 net2 proxies t of (t', r) \<Rightarrow>
     (case find (proxy_accepts net3 net2 (mt_call_id t)) proxies of
        Some url \<Rightarrow> r = Ok () \<and> mt_proxy_url t' = url \<and> mt_state t' = TActive
          \<and> mt_call_id t' = mt_call_id t
      | None \<Rightarrow> r = Err AllTransportsFailed \<and> mt_state t' = TFailed)"
  using masque_recover_from_spec [where t = "t\<lparr>mt_state := TRecovering\<rparr>"
      and ?net3.0 = net3 and ?net2.0 = net2 and proxies = proxies]
  by (auto simp: masque_recover_def split: option.splits)

text \<open>A proxy URL with an explicit port parses back to its host and port, whatever path
  follows and even when the host itself contains colons.\<close>

lemma proxy_url_round_trip:
  assumes "CHR ''/'' \<notin> set host"
  shows "parse_proxy_url (''https://'' @ host @ '':'' @ show_nat (unat port) @ ''/'' @ path)
    = Ok (host, port)"
  using assms by (rule parse_proxy_url_authority)

lemma proxy_url_round_trip_witness:
  "parse_proxy_url (''https://'' @ ''proxy.example.com'' @ '':'' @ show_nat (unat (443 :: u16))
     @ ''/'' @ ''masque'') = Ok (''proxy.example.com'', 443)"
  by (rule proxy_url_round_trip) simp

text \<open>A three-byte capsule with an empty length field makes the decoder slice backwards and
  panic.\<close>

lemma decode_capsule_panic: "decode_datagram_capsule [0, 0, 0] = Panic"
  by (simp add: decode_datagram_capsule_def decode_h2_varint_def)

text \<open>A tunnel over HTTP/2 reports the status of an HTTP/3 tunnel.\<close>

lemma connect_http2_status:
  "connect_http2 net url call_id tok = Ok t \<Longrightarrow> mt_transport t = Http2 \<and> mt_state t = TActive"
  by (auto dest!: connect_ok)

end
