(* ===== verification/Masque_Bridge.thy ===== *)
theory Masque_Bridge
  imports Masque_Tunnel "HOL-Library.Sublist"
begin

text \<open>
  The bridge of an HTTP/2 tunnel (\<open>create_loopback_quic_pair\<close> of \<open>src/crates/voip-client/src/masque.rs\<close>):
  the background task that accepts the loopback connection and the two tasks that move datagrams
  between it and the HTTP/2 stream.

  A task runs over the list of answers it gets, one per turn; a task whose list is used up is still
  waiting.  Dropping the handle of a spawned task does not stop it, so each bridge runs to its own end.
\<close>

section \<open>The tasks\<close>

datatype bridge_end = BridgeWaiting | BridgeStopped | BridgePanicked

text \<open>A turn from HTTP/2 to QUIC: the next DATA frame, an error or the end of the stream, and whether the
  loopback connection takes the datagram.\<close>

fun h2_to_quic :: "(bytes io option \<times> unit io) list \<Rightarrow> bytes list \<times> bridge_end" where
  "h2_to_quic [] = ([], BridgeWaiting)"
| "h2_to_quic ((None, _) # turns) = ([], BridgeStopped)"
| "h2_to_quic ((Some (IoErr e), _) # turns) = ([], BridgeStopped)"
| "h2_to_quic ((Some (IoOk data), sent) # turns) =
     (case decode_datagram_capsule data of
        Err e \<Rightarrow> h2_to_quic turns
      | Panic \<Rightarrow> ([], BridgePanicked)
      | Ok quic_packet \<Rightarrow>
          (case sent of
             IoErr e \<Rightarrow> ([], BridgeStopped)
           | IoOk _ \<Rightarrow> (let (packets, stop) = h2_to_quic turns in (quic_packet # packets, stop))))"

text \<open>A turn from QUIC to HTTP/2: the next datagram or an error, and whether the stream takes the frame.
  The task does what it can with the stream and goes on.\<close>

datatype h2_action = SendData bytes | ReserveCapacity nat

fun quic_to_h2 :: "(bytes io \<times> unit io) list \<Rightarrow> h2_action list \<times> bridge_end" where
  "quic_to_h2 [] = ([], BridgeWaiting)"
| "quic_to_h2 ((IoErr e, _) # turns) = ([], BridgeStopped)"
| "quic_to_h2 ((IoOk data, sent) # turns) =
     (let capsule = encode_datagram_capsule data;
          (actions, stop) = quic_to_h2 turns in
      ((case sent of IoOk _ \<Rightarrow> [SendData capsule] | IoErr _ \<Rightarrow> [])
       @ ReserveCapacity (length data) # actions, stop))"

datatype loopback_accept = EndpointClosed | IncomingFailed string | IncomingConnected

text \<open>The server task: both bridges with what they did, and whether the task has ended, which it does with
  the first of them.\<close>

definition bridge_server_task ::
  "loopback_accept \<Rightarrow> (bytes io option \<times> unit io) list \<Rightarrow> (bytes io \<times> unit io) list
     \<Rightarrow> (bytes list \<times> h2_action list) \<times> bool" where
  "bridge_server_task accepted h2_turns quic_turns =
     (case accepted of
        IncomingConnected \<Rightarrow>
          (let (packets, stop1) = h2_to_quic h2_turns; (actions, stop2) = quic_to_h2 quic_turns in
           ((packets, actions), stop1 \<noteq> BridgeWaiting \<or> stop2 \<noteq> BridgeWaiting))
      | _ \<Rightarrow> (([], []), True))"

section \<open>Facts\<close>

definition frames_of :: "h2_action list \<Rightarrow> bytes list" where
  "frames_of actions = List.map_filter (\<lambda>a. case a of SendData f \<Rightarrow> Some f | _ \<Rightarrow> None) actions"

lemma frames_of_simps [simp]:
  "frames_of [] = []" "frames_of (SendData f # as) = f # frames_of as"
  "frames_of (ReserveCapacity n # as) = frames_of as"
  by (simp_all add: frames_of_def map_filter_simps)

text \<open>The datagrams a bridge reads before it stops, and the frames the other end's bridge reads.\<close>

fun datagrams_read :: "(bytes io \<times> unit io) list \<Rightarrow> bytes list" where
  "datagrams_read ((IoOk d, _) # turns) = d # datagrams_read turns"
| "datagrams_read _ = []"

fun frames_read :: "(bytes io option \<times> unit io) list \<Rightarrow> bytes list" where
  "frames_read ((Some (IoOk f), _) # turns) = f # frames_read turns"
| "frames_read _ = []"

lemma frames_are_capsules:
  "\<exists>ds. frames_of (fst (quic_to_h2 turns)) = map encode_datagram_capsule ds \<and> subseq ds (datagrams_read turns)"
proof (induction turns rule: quic_to_h2.induct)
  case (3 data sent turns)
  then obtain ds where ds: "frames_of (fst (quic_to_h2 turns)) = map encode_datagram_capsule ds"
    "subseq ds (datagrams_read turns)" by auto
  then show ?case
    by (cases sent) (auto simp: Let_def split: prod.splits intro: exI [of _ "data # ds"] exI [of _ ds])
qed auto

lemma small_frames_decoded:
  assumes "frames_read turns = map encode_datagram_capsule ds" and "\<forall>d \<in> set ds. length d \<le> 62"
  shows "prefix (fst (h2_to_quic turns)) ds"
  using assms
proof (induction turns arbitrary: ds rule: h2_to_quic.induct)
  case (4 data sent turns)
  then obtain d ds' where ds: "ds = d # ds'" "data = encode_datagram_capsule d"
    "frames_read turns = map encode_datagram_capsule ds'"
    by (cases ds) auto
  then have ok: "decode_datagram_capsule data = Ok d"
    using 4(4) capsule_decode_small [of d "[]"] by simp
  show ?case
  proof (cases sent)
    case (IoOk x)
    then have "prefix (fst (h2_to_quic turns)) ds'"
      using 4(1) [OF ok IoOk ds(3)] 4(4) ds(1) by simp
    then show ?thesis using ds(1) ok IoOk by (auto split: prod.splits)
  qed (use ok in simp)
qed auto

lemma delivered_length: "length (fst (h2_to_quic turns)) \<le> length (frames_read turns)"
  by (induction turns rule: h2_to_quic.induct) (auto split: result.splits io.splits prod.splits)

text \<open>A tunnel nothing interferes with.\<close>

definition undisturbed :: "bytes list \<Rightarrow> (bytes io \<times> unit io) list" where
  "undisturbed ds = map (\<lambda>d. (IoOk d, IoOk ())) ds"

definition arriving :: "bytes list \<Rightarrow> (bytes io option \<times> unit io) list" where
  "arriving fs = map (\<lambda>f. (Some (IoOk f), IoOk ())) fs"

lemma undisturbed_frames: "frames_of (fst (quic_to_h2 (undisturbed ds))) = map encode_datagram_capsule ds"
  by (induction ds) (auto simp: undisturbed_def Let_def split: prod.splits)

lemma arriving_simps [simp]: "arriving [] = []" "arriving (f # fs) = (Some (IoOk f), IoOk ()) # arriving fs"
  by (simp_all add: arriving_def)

lemma frames_read_arriving [simp]: "frames_read (arriving fs) = fs"
  by (induction fs) simp_all

lemma undisturbed_delivers_iff:
  assumes "\<forall>d \<in> set ds. length d < 16383"
  shows "fst (h2_to_quic (arriving (map encode_datagram_capsule ds))) = ds \<longleftrightarrow> (\<forall>d \<in> set ds. length d \<le> 62)"
  using assms
proof (induction ds)
  case Nil
  then show ?case by simp
next
  case (Cons d ds)
  let ?turns = "arriving (map encode_datagram_capsule ds)"
  have step: "h2_to_quic (arriving (map encode_datagram_capsule (d # ds))) =
      (case decode_datagram_capsule (encode_datagram_capsule d) of
         Err e \<Rightarrow> h2_to_quic ?turns | Panic \<Rightarrow> ([], BridgePanicked)
       | Ok p \<Rightarrow> (let (packets, stop) = h2_to_quic ?turns in (p # packets, stop)))"
    by (cases "decode_datagram_capsule (encode_datagram_capsule d)") simp_all
  have "length (fst (h2_to_quic ?turns)) \<le> length ds"
    using delivered_length [of ?turns] by simp
  then have shorter: "fst (h2_to_quic ?turns) \<noteq> d # ds" by auto
  show ?case
  proof (cases "length d \<le> 62")
    case True
    then have "decode_datagram_capsule (encode_datagram_capsule d) = Ok d"
      using capsule_decode_small [of d "[]"] by simp
    then show ?thesis using Cons True by (simp add: step Let_def case_prod_beta)
  next
    case False
    then have "decode_datagram_capsule (encode_datagram_capsule d) \<noteq> Ok d"
      using Cons.prems by (intro capsule_decode_large) auto
    then show ?thesis
      using False shorter by (auto simp: step Let_def case_prod_beta split: result.splits)
  qed
qed

lemma coalesced_capsule_lost:
  assumes "length p \<le> 62"
  shows "h2_to_quic [(Some (IoOk (encode_datagram_capsule p @ encode_datagram_capsule q)), IoOk ())]
    = ([p], BridgeWaiting)"
  using capsule_decode_small [OF assms] by simp

section \<open>Properties\<close>



end
