(* ===== verification/Probe_Response.thy ===== *)
theory Probe_Response
  imports Leb128 Utf8
begin

text \<open>
  The hand-written protobuf reader for path probe responses
  (\<open>parse_path_probe_response\<close> of \<open>src/crates/voip-client/src/nat_probe.rs\<close>).  Positions are
  64-bit \<open>usize\<close> values: an addition that overflows panics when overflow checks are on and wraps
  around when they are off.  Since a wrapped position can move backwards the loop need not end,
  and it is a partial function whose value is \<open>None\<close> when it never returns.
\<close>

section \<open>The reader\<close>

definition usize_add :: "bool \<Rightarrow> nat \<Rightarrow> nat \<Rightarrow> (nat, unit) result" where
  "usize_add oc a b =
     (if a + b < 2 ^ 64 then Ok (a + b) else if oc then Panic else Ok ((a + b) mod 2 ^ 64))"

text \<open>One field at \<open>pos\<close>, behind its key: the new position, address and port, or \<open>None\<close> at an
  unknown wire type, where the loop stops.\<close>

definition probe_field ::
  "bool \<Rightarrow> bytes \<Rightarrow> u32 \<Rightarrow> u8 \<Rightarrow> nat \<Rightarrow> string \<Rightarrow> u32 \<Rightarrow> ((nat \<times> string \<times> u32) option, unit) result" where
  "probe_field oc bs field wire pos ip port =
     (let (v, n) = leb_decode (drop pos bs);
          skip_len = res_bind (usize_add oc n (unat v)) (\<lambda>k.
            res_map (\<lambda>pos'. Some (pos', ip, port)) (usize_add oc pos k)) in
      if field = 1 \<and> wire = 2 then skip_len
      else if field = 2 \<and> wire = 2 then
        (let pos = pos + n in
         res_bind (usize_add oc pos (unat v)) (\<lambda>stop.
           if stop \<le> length bs then
             (if pos > stop then Panic
              else Ok (Some (stop, from_utf8_lossy (take (stop - pos) (drop pos bs)), port)))
           else Ok (Some (stop, ip, port))))
      else if field = 3 \<and> wire = 0 then Ok (Some (pos + n, ip, ucast v))
      else if field = 4 \<and> wire = 0 then Ok (Some (pos + n, ip, port))
      else if wire = 0 then Ok (Some (pos + n, ip, port))
      else if wire = 2 then skip_len
      else if wire = 1 then Ok (Some (pos + 8, ip, port))
      else if wire = 5 then Ok (Some (pos + 4, ip, port))
      else Ok None)"

partial_function (option) probe_loop ::
  "bool \<Rightarrow> bytes \<Rightarrow> nat \<Rightarrow> string \<Rightarrow> u32 \<Rightarrow> (string \<times> u32, unit) result option" where
  "probe_loop oc bs pos ip port =
     (if pos < length bs then
        let (key, key_len) = leb_decode (drop pos bs) in
        case probe_field oc bs (ucast (drop_bit 3 key)) (ucast (key AND 0x07)) (pos + key_len) ip port of
          Ok (Some (pos', ip', port')) \<Rightarrow> probe_loop oc bs pos' ip' port'
        | Ok None \<Rightarrow> Some (Ok (ip, port))
        | Err e \<Rightarrow> Some (Err e)
        | Panic \<Rightarrow> Some Panic
      else Some (Ok (ip, port)))"

record ParsedProbeResponse =
  ppr_observed_ip :: string
  ppr_observed_port :: u16

definition parse_path_probe_response :: "bool \<Rightarrow> bytes \<Rightarrow> (ParsedProbeResponse, unit) result option" where
  "parse_path_probe_response oc bs =
     map_option
       (res_map (\<lambda>(ip, port). \<lparr> ppr_observed_ip = ip, ppr_observed_port = ucast port \<rparr>))
       (probe_loop oc bs 0 [] 0)"

section \<open>The wire format\<close>

text \<open>The layout documented at the reader: fields 1 to 4 of \<open>PathProbeResponse\<close> in
  \<open>src/proto/signaling.proto\<close>, each omitted when it has its default value, as proto3 has it.\<close>

definition string_field :: "u64 \<Rightarrow> string \<Rightarrow> bytes" where
  "string_field n s =
     (if s = [] then []
      else leb_encode (8 * n + 2) @ leb_encode (of_nat (length s)) @ str_bytes s)"

definition varint_field :: "u64 \<Rightarrow> u64 \<Rightarrow> bytes" where
  "varint_field n v = (if v = 0 then [] else leb_encode (8 * n) @ leb_encode v)"

definition probe_response_wire :: "string \<Rightarrow> string \<Rightarrow> u32 \<Rightarrow> u64 \<Rightarrow> bytes" where
  "probe_response_wire server_ip observed_ip observed_port timestamp_ms =
     string_field 1 server_ip @ string_field 2 observed_ip
     @ varint_field 3 (ucast observed_port) @ varint_field 4 timestamp_ms"

section \<open>Reading one field\<close>

lemma leb_decode_at:
  "length pre = n \<Longrightarrow> leb_decode (drop n (pre @ leb_encode v @ rest)) = (v, length (leb_encode v))"
  by (simp add: leb128.dec_enc)

lemma probe_loop_varint:
  assumes "bs = pre @ leb_encode (8 * n) @ leb_encode v @ rest" and "n = 3 \<or> n = 4"
    and "port' = (if n = 3 then ucast v else port)"
  shows "probe_loop oc bs (length pre) ip port
    = probe_loop oc bs (length pre + length (leb_encode (8 * n)) + length (leb_encode v)) ip port'"
proof -
  have key: "leb_decode (drop (length pre) bs) = (8 * n, length (leb_encode (8 * n)))"
    using assms(1) by (simp add: leb128.dec_enc)
  have "bs = (pre @ leb_encode (8 * n)) @ leb_encode v @ rest"
    using assms(1) by simp
  then have val: "leb_decode (drop (length pre + length (leb_encode (8 * n))) bs)
      = (v, length (leb_encode v))"
    by (simp add: leb128.dec_enc)
  have ne: "leb_encode (8 * n) \<noteq> []"
    by (simp add: leb_encode.simps Let_def)
  then have lt: "length pre < length bs"
    using assms(1) by simp
  have f: "ucast (drop_bit 3 (8 * n)) = (ucast n :: u32)" "ucast ((8 * n) AND 0x07) = (0 :: u8)"
    using assms(2) by auto
  show ?thesis
    using lt key val f assms(2,3)
    by (subst probe_loop.simps) (auto simp: probe_field_def add.assoc)
qed

lemma probe_loop_string:
  assumes "bs = pre @ leb_encode (8 * n + 2) @ leb_encode (of_nat (length s)) @ str_bytes s @ rest"
    and "n = 1 \<or> n = 2" and "length bs < 2 ^ 63" and "utf8_valid (str_bytes s)"
    and "ip' = (if n = 2 then s else ip)"
    and "k = length (leb_encode (8 * n + 2)) + length (leb_encode (of_nat (length s) :: u64))
              + length s"
  shows "probe_loop oc bs (length pre) ip port = probe_loop oc bs (length pre + k) ip' port"
proof -
  let ?L = "of_nat (length s) :: u64"
  define p where "p = length pre + length (leb_encode (8 * n + 2))"
  define m where "m = length (leb_encode ?L)"
  define q where "q = p + m"
  have lb: "length bs = p + length (leb_encode ?L) + length s + length rest"
    using assms(1) by (simp add: p_def)
  have u: "unat ?L = length s"
    using assms(3) lb by (simp add: unat_of_nat)
  have key: "leb_decode (drop (length pre) bs) = (8 * n + 2, length (leb_encode (8 * n + 2)))"
    using assms(1) by (simp add: leb128.dec_enc)
  have "bs = (pre @ leb_encode (8 * n + 2)) @ leb_encode ?L @ str_bytes s @ rest"
    using assms(1) by simp
  then have val: "leb_decode (drop p bs) = (?L, m)"
    by (simp add: leb128.dec_enc p_def m_def)
  have str: "take (length s) (drop q bs) = str_bytes s"
    using assms(1) by (simp add: q_def p_def m_def)
  have ne: "leb_encode (8 * n + 2) \<noteq> []"
    by (simp add: leb_encode.simps Let_def)
  then have lt: "length pre < length bs"
    using assms(1) by simp
  have f: "ucast (drop_bit 3 (8 * n + 2)) = (ucast n :: u32)"
    "ucast ((8 * n + 2) AND 0x07) = (2 :: u8)"
    using assms(2) by auto
  have fit: "usize_add oc m (length s) = Ok (m + length s)"
    "usize_add oc p (m + length s) = Ok (q + length s)"
    "usize_add oc q (length s) = Ok (q + length s)"
    using assms(3) lb by (simp_all add: usize_add_def q_def m_def)
  have inside: "q + length s \<le> length bs"
    using lb by (simp add: q_def m_def)
  have "probe_field oc bs (ucast n) 2 p ip port = Ok (Some (q + length s, ip', port))"
    using assms(2)
  proof
    assume "n = 1"
    with assms(5) show ?thesis
      by (simp add: probe_field_def val u fit)
  next
    assume "n = 2"
    with assms(5) inside show ?thesis
      by (simp add: probe_field_def val u fit str from_utf8_lossy_str_bytes assms(4) flip: q_def)
  qed
  then show ?thesis
    using lt key f assms(6) by (subst probe_loop.simps) (simp add: q_def p_def m_def add.assoc)
qed

lemma probe_loop_string_field:
  assumes "bs = pre @ string_field n s @ rest" and "n = 1 \<or> n = 2" and "length bs < 2 ^ 63"
    and "utf8_valid (str_bytes s)" and "n = 2 \<Longrightarrow> s = [] \<Longrightarrow> ip = []"
  shows "probe_loop oc bs (length pre) ip port
    = probe_loop oc bs (length (pre @ string_field n s)) (if n = 2 then s else ip) port"
proof (cases "s = []")
  case True
  with assms show ?thesis by (auto simp: string_field_def)
next
  case False
  then show ?thesis
    using probe_loop_string [of bs pre n s rest] assms
    by (simp add: string_field_def add.assoc)
qed

lemma probe_loop_varint_field:
  assumes "bs = pre @ varint_field n v @ rest" and "n = 3 \<or> n = 4"
    and "n = 3 \<Longrightarrow> v = 0 \<Longrightarrow> port = 0"
  shows "probe_loop oc bs (length pre) ip port
    = probe_loop oc bs (length (pre @ varint_field n v)) ip (if n = 3 then ucast v else port)"
proof (cases "v = 0")
  case True
  with assms show ?thesis by (auto simp: varint_field_def)
next
  case False
  then show ?thesis
    using probe_loop_varint [of bs pre n v rest] assms
    by (simp add: varint_field_def add.assoc)
qed

lemma probe_loop_end: "probe_loop oc bs (length bs) ip port = Some (Ok (ip, port))"
  by (subst probe_loop.simps) simp

lemma probe_loop_wire:
  assumes "utf8_valid (str_bytes server_ip)" and "utf8_valid (str_bytes observed_ip)"
    and "length (probe_response_wire server_ip observed_ip port ts) < 2 ^ 63"
  shows "probe_loop oc (probe_response_wire server_ip observed_ip port ts) 0 [] 0
    = Some (Ok (observed_ip, port))"
proof -
  let ?bs = "probe_response_wire server_ip observed_ip port ts"
  let ?f1 = "string_field 1 server_ip" and ?f2 = "string_field 2 observed_ip"
  let ?f3 = "varint_field 3 (ucast port)" and ?f4 = "varint_field 4 ts"
  have up: "ucast (ucast port :: u64) = port" "(ucast port :: u64) = 0 \<Longrightarrow> port = 0"
    by (simp_all add: word_unat_eq_iff unat_ucast_down unat_ucast_up)
  have "probe_loop oc ?bs 0 [] 0 = probe_loop oc ?bs (length ?f1) [] 0"
    using probe_loop_string_field [of ?bs "[]" 1 server_ip "?f2 @ ?f3 @ ?f4" "[]"] assms
    by (simp add: probe_response_wire_def)
  also have "\<dots> = probe_loop oc ?bs (length (?f1 @ ?f2)) observed_ip 0"
    using probe_loop_string_field [of ?bs ?f1 2 observed_ip "?f3 @ ?f4" "[]"] assms
    by (simp add: probe_response_wire_def)
  also have "\<dots> = probe_loop oc ?bs (length ((?f1 @ ?f2) @ ?f3)) observed_ip port"
    using probe_loop_varint_field [of ?bs "?f1 @ ?f2" 3 "ucast port" ?f4 0] up
    by (simp add: probe_response_wire_def)
  also have "\<dots> = probe_loop oc ?bs (length (((?f1 @ ?f2) @ ?f3) @ ?f4)) observed_ip port"
    using probe_loop_varint_field [of ?bs "(?f1 @ ?f2) @ ?f3" 4 ts "[]" port]
    by (simp add: probe_response_wire_def)
  also have "\<dots> = Some (Ok (observed_ip, port))"
    using probe_loop_end [of oc ?bs] by (simp add: probe_response_wire_def)
  finally show ?thesis .
qed

section \<open>Malformed responses\<close>

definition looping_response :: bytes where
  "looping_response = [0x0A, 0xF5, 0xFF, 0xFF, 0xFF, 0xFF, 0xFF, 0xFF, 0xFF, 0xFF, 0x01]"

definition slicing_response :: bytes where
  "slicing_response = [0x12, 0xFB, 0xFF, 0xFF, 0xFF, 0xFF, 0xFF, 0xFF, 0xFF, 0xFF, 0x01]"

lemma looping_field:
  "leb_decode looping_response = (10, 1)"
  "leb_decode (drop 1 looping_response) = (0xFFFFFFFFFFFFFFF5, 10)"
  by (simp_all add: looping_response_def leb_decode_def)

lemma slicing_field:
  "leb_decode slicing_response = (18, 1)"
  "leb_decode (drop 1 slicing_response) = (0xFFFFFFFFFFFFFFFB, 10)"
  by (simp_all add: slicing_response_def leb_decode_def)

lemma looping_step:
  "probe_field False looping_response (ucast (drop_bit 3 (10 :: u64))) (ucast ((10 :: u64) AND 0x07))
     1 ip port = Ok (Some (0, ip, port))"
  using looping_field(2) by (simp add: probe_field_def usize_add_def)

lemma probe_loop_looping:
  assumes "probe_loop oc bs pos ip port = Some r"
  shows "oc \<or> bs \<noteq> looping_response \<or> pos \<noteq> 0"
proof (rule probe_loop.raw_induct [OF _ assms, where P = "\<lambda>oc bs pos ip port r.
      oc \<or> bs \<noteq> looping_response \<or> pos \<noteq> 0"], goal_cases)
  case (1 f oc bs pos ip port r)
  show ?case
  proof (rule ccontr)
    assume "\<not> (oc \<or> bs \<noteq> looping_response \<or> pos \<noteq> 0)"
    moreover have "looping_response \<noteq> []"
      by (simp add: looping_response_def)
    ultimately have "f False looping_response 0 ip port = Some r"
      using 1(2) looping_field(1) looping_step by simp
    with 1(1) show False by blast
  qed
qed

section \<open>Properties\<close>

text \<open>The reader returns on every well-formed path probe response, in every build, with
  the observed address and the observed port the server wrote (the port reduced to 16 bits).\<close>

lemma probe_response_round_trip:
  assumes "utf8_valid (str_bytes server_ip)" and "utf8_valid (str_bytes observed_ip)"
    and "length (probe_response_wire server_ip observed_ip port ts) < 2 ^ 63"
  shows "parse_path_probe_response oc (probe_response_wire server_ip observed_ip port ts)
    = Some (Ok \<lparr> ppr_observed_ip = observed_ip, ppr_observed_port = ucast port \<rparr>)"
  using probe_loop_wire [OF assms] by (simp add: parse_path_probe_response_def)

lemma probe_response_round_trip_witness:
  "parse_path_probe_response True (probe_response_wire ''10.0.0.1'' ''1.2.3.4'' 40000 0)
    = Some (Ok \<lparr> ppr_observed_ip = ''1.2.3.4'', ppr_observed_port = 40000 \<rparr>)"
proof -
  have v: "utf8_valid (str_bytes ''10.0.0.1'')" "utf8_valid (str_bytes ''1.2.3.4'')"
    by (rule utf8_valid_ascii, simp add: str_bytes_def)+
  have "leb_encode 10 = [10]" "leb_encode 8 = [8]" "leb_encode 18 = [18]" "leb_encode 7 = [7]"
    "leb_encode 24 = [24]"
    by (simp_all add: leb_encode_small)
  moreover have "length (leb_encode 40000) \<le> 3"
    by (simp add: leb_encode.simps Let_def)
  ultimately have "length (probe_response_wire ''10.0.0.1'' ''1.2.3.4'' 40000 0) < 2 ^ 63"
    by (simp add: probe_response_wire_def string_field_def varint_field_def)
  then show ?thesis
    using probe_response_round_trip [OF v, of 40000 0 True] by simp
qed

text \<open>C40: an eleven-byte response whose first field announces 2^64 - 11 bytes keeps a reader
  built without overflow checks in its loop for ever, and panics one built with them.\<close>

theorem probe_response_divergence:
  "parse_path_probe_response False looping_response = None
   \<and> parse_path_probe_response True looping_response = Some Panic"
proof -
  have "probe_loop False looping_response 0 [] 0 = None"
    using probe_loop_looping by (cases "probe_loop False looping_response 0 [] 0") blast+
  moreover have "probe_loop True looping_response 0 [] 0 = Some Panic"
  proof -
    have "looping_response \<noteq> []"
      by (simp add: looping_response_def)
    then show ?thesis
      using looping_field
      by (subst probe_loop.simps) (simp add: probe_field_def usize_add_def)
  qed
  ultimately show ?thesis by (simp add: parse_path_probe_response_def)
qed

text \<open>The same length in the address field makes the reader slice backwards and panic.\<close>

lemma probe_response_slice_panic: "parse_path_probe_response oc slicing_response = Some Panic"
proof -
  have "slicing_response \<noteq> []" "length slicing_response = 11"
    by (simp_all add: slicing_response_def)
  then have "probe_loop oc slicing_response 0 [] 0 = Some Panic"
    using slicing_field
    by (subst probe_loop.simps) (simp add: probe_field_def usize_add_def)
  then show ?thesis by (simp add: parse_path_probe_response_def)
qed

end
