(* ===== verification/Nat_Probe.thy ===== *)
theory Nat_Probe
  imports Probe_Response Core_Config Moq_Codec "HOL-Library.Signed_Division"
begin

text \<open>
  NAT classification by QUIC path probing (\<open>src/crates/voip-client/src/nat_probe.rs\<close>).

  Port deltas and the numbers derived from them are \<open>i32\<close> values, kept as integers; where the
  configuration can push a sum or product out of range, \<open>i32_arith\<close> panics or wraps according to
  the overflow flag.  Sums of deltas telescope and cannot overflow.  The standard deviation is
  computed in floating point by the code and truncated; for fewer than 2^16 probes the sum of
  squares is below 2^52, where the truncated floating-point root equals the integer root of the
  integer quotient, which is how it is written here.  The answers of the transport and the clock
  are arguments.
\<close>

section \<open>Integer square root\<close>

fun isqrt :: "nat \<Rightarrow> nat" where
  "isqrt n =
     (if n = 0 then 0
      else let r = 2 * isqrt (n div 4) in if (r + 1) ^ 2 \<le> n then r + 1 else r)"

declare isqrt.simps [simp del]

section \<open>Data\<close>

datatype NatProbeError =
  NotConnected | ProbeTimeout string | ProbeMigrationFailed string string
| InsufficientProbes nat nat

record NATProbeResult =
  npr_server_ip :: string
  npr_local_port :: u16
  npr_external_ip :: string
  npr_external_port :: u16
  npr_timestamp_ms :: u64
  npr_rtt_ms :: u32

record NATProbeCache =
  npc_probes :: "NATProbeResult list"
  npc_average_delta :: int
  npc_delta_variance :: int
  npc_confidence :: PredictionConfidence
  npc_cache_timestamp :: u64
  npc_cache_ttl_seconds :: u32

record NATProber =
  np_config :: VoIPConfig
  np_cache :: "NATProbeCache option"
  np_udp_blocked :: bool

definition NATProber_new :: "VoIPConfig \<Rightarrow> NATProber" where
  "NATProber_new cfg = \<lparr> np_config = cfg, np_cache = None, np_udp_blocked = False \<rparr>"

definition set_udp_blocked :: "bool \<Rightarrow> NATProber \<Rightarrow> NATProber" where
  "set_udp_blocked blocked p = p\<lparr>np_udp_blocked := blocked\<rparr>"

definition invalidate_cache :: "NATProber \<Rightarrow> NATProber" where
  "invalidate_cache p = p\<lparr>np_cache := None\<rparr>"

section \<open>Statistics\<close>

definition i32_arith :: "bool \<Rightarrow> int \<Rightarrow> (int, unit) result" where
  "i32_arith oc x =
     (if - (2 ^ 31) \<le> x \<and> x < 2 ^ 31 then Ok x
      else if oc then Panic else Ok (sint (word_of_int x :: i32)))"

definition probe_ports :: "NATProbeResult list \<Rightarrow> u16 list" where
  "probe_ports rs = map npr_external_port rs"

definition windows2 :: "'a list \<Rightarrow> ('a \<times> 'a) list" where
  "windows2 xs = zip xs (tl xs)"

definition ports_all_same :: "u16 list \<Rightarrow> bool" where
  "ports_all_same ports \<longleftrightarrow> list_all (\<lambda>(a, b). a = b) (windows2 ports)"

definition port_deltas :: "u16 list \<Rightarrow> int list" where
  "port_deltas ports = map (\<lambda>(a, b). int (unat b) - int (unat a)) (windows2 ports)"

definition average_of :: "int list \<Rightarrow> int" where
  "average_of ds = (if ds = [] then 0 else sum_list ds sdiv int (length ds))"

definition deviation_of :: "int list \<Rightarrow> int \<Rightarrow> int" where
  "deviation_of ds avg =
     (if length ds > 1
      then int (isqrt (nat (\<Sum>d\<leftarrow>ds. (d - avg) ^ 2) div (length ds - 1)))
      else 0)"

section \<open>Classification\<close>

definition compute_prediction ::
  "bool \<Rightarrow> u64 \<Rightarrow> NATProbeResult list \<Rightarrow> int \<Rightarrow> PredictionConfidence \<Rightarrow> VoIPConfig
     \<Rightarrow> (PortPredictionData, unit) result" where
  "compute_prediction oc now_secs results avg_delta conf cfg =
     (if results = [] then Panic
      else let last_result = last results;
               base = unat (npr_external_port last_result);
               margin = (case conf of
                   Sequential \<Rightarrow> sint (prediction_margin_sequential cfg)
                 | PseudoSequential \<Rightarrow> sint (prediction_margin_pseudo cfg)
                 | Random \<Rightarrow> 0) in
        res_bind (i32_arith oc (int base + avg_delta * 1)) (\<lambda>center.
        res_bind (i32_arith oc (center - margin)) (\<lambda>lo.
        res_bind (i32_arith oc (center + margin)) (\<lambda>hi.
        Ok \<lparr> external_ip = npr_external_ip last_result,
             predicted_port_start = word_of_int (max lo 1024),
             predicted_port_end = word_of_int (min hi 65535),
             confidence = conf,
             base_port = of_nat base,
             delta_pattern = word_of_int avg_delta,
             probed_at = now_secs,
             probe_method = QuicPathProbing \<rparr>))))"

definition classify_nat ::
  "bool \<Rightarrow> u64 \<Rightarrow> NATProbeResult list \<Rightarrow> VoIPConfig \<Rightarrow> (NATInfo, unit) result" where
  "classify_nat oc now_secs results cfg =
     (if results = [] then Ok \<lparr> nat_type = NATNone, prediction = None \<rparr>
      else if CHR '':'' \<in> set (npr_external_ip (hd results))
      then Ok \<lparr> nat_type = NATNone, prediction = None \<rparr>
      else let ports = probe_ports results in
        if ports_all_same ports then Ok \<lparr> nat_type = Cone, prediction = None \<rparr>
        else let deltas = port_deltas ports in
          if deltas = [] then Ok \<lparr> nat_type = SymmetricRandom, prediction = None \<rparr>
          else let avg_delta = average_of deltas;
                   variance = deviation_of deltas avg_delta;
                   threshold = sint (nat_delta_variance_threshold cfg) in
            res_bind
              (if variance = 0 \<or> variance \<le> threshold
               then Ok (SymmetricSequential, Sequential)
               else res_map (\<lambda>t3. if variance \<le> t3 then (SymmetricPseudo, PseudoSequential)
                                  else (SymmetricRandom, Random))
                      (i32_arith oc (threshold * 3)))
              (\<lambda>(nt, conf).
                 if conf \<noteq> Random
                 then res_map (\<lambda>p. \<lparr> nat_type = nt, prediction = Some p \<rparr>)
                        (compute_prediction oc now_secs results avg_delta conf cfg)
                 else Ok \<lparr> nat_type = nt, prediction = None \<rparr>))"

section \<open>Cache\<close>

definition build_cache ::
  "u64 \<Rightarrow> NATProbeResult list \<Rightarrow> NATInfo \<Rightarrow> VoIPConfig \<Rightarrow> NATProbeCache" where
  "build_cache now_ms results info cfg =
     (let deltas = port_deltas (probe_ports results);
          avg_delta = average_of deltas in
      \<lparr> npc_probes = results,
        npc_average_delta = avg_delta,
        npc_delta_variance = deviation_of deltas avg_delta,
        npc_confidence = (case prediction info of Some p \<Rightarrow> confidence p | None \<Rightarrow> Random),
        npc_cache_timestamp = now_ms,
        npc_cache_ttl_seconds = ucast (nat_cache_ttl_secs cfg) \<rparr>)"

definition cached_to_nat_info :: "bool \<Rightarrow> NATProbeCache \<Rightarrow> (NATInfo, unit) result" where
  "cached_to_nat_info oc c =
     (let nt = (case npc_confidence c of
                  Sequential \<Rightarrow> SymmetricSequential
                | PseudoSequential \<Rightarrow> SymmetricPseudo
                | Random \<Rightarrow> SymmetricRandom) in
      if ports_all_same (probe_ports (npc_probes c))
      then Ok \<lparr> nat_type = Cone, prediction = None \<rparr>
      else if npc_confidence c = Random
      then Ok \<lparr> nat_type = SymmetricRandom, prediction = None \<rparr>
      else if npc_probes c = [] then Ok \<lparr> nat_type = nt, prediction = None \<rparr>
      else let l = last (npc_probes c);
               margin = (case npc_confidence c of
                   Sequential \<Rightarrow> 3 | PseudoSequential \<Rightarrow> 8 | Random \<Rightarrow> 0) in
        res_bind (i32_arith oc (int (unat (npr_external_port l)) + npc_average_delta c)) (\<lambda>center.
        res_bind (i32_arith oc (center - margin)) (\<lambda>lo.
        res_bind (i32_arith oc (center + margin)) (\<lambda>hi.
        Ok \<lparr> nat_type = nt,
             prediction = Some
               \<lparr> external_ip = npr_external_ip l,
                 predicted_port_start = word_of_int (max lo 1024),
                 predicted_port_end = word_of_int (min hi 65535),
                 confidence = npc_confidence c,
                 base_port = ucast (npr_external_port l),
                 delta_pattern = word_of_int (npc_average_delta c),
                 probed_at = npr_timestamp_ms l div 1000,
                 probe_method = QuicPathProbing \<rparr> \<rparr>))))"

definition cached_nat_info :: "bool \<Rightarrow> u64 \<Rightarrow> NATProber \<Rightarrow> (NATInfo option, unit) result" where
  "cached_nat_info oc now_ms p =
     (case np_cache p of
        None \<Rightarrow> Ok None
      | Some c \<Rightarrow>
          let age_ms = saturating_sub now_ms (npc_cache_timestamp c);
              ttl_ms = ucast (npc_cache_ttl_seconds c) * 1000 in
          if age_ms < ttl_ms then res_map Some (cached_to_nat_info oc c) else Ok None)"

definition has_valid_cache :: "bool \<Rightarrow> u64 \<Rightarrow> NATProber \<Rightarrow> (bool, unit) result" where
  "has_valid_cache oc now_ms p = res_map (\<lambda>i. i \<noteq> None) (cached_nat_info oc now_ms p)"

section \<open>Probing\<close>

text \<open>What the transport and the clock answer during one probe; opening the stream and reading
  run under the probe timeout.\<close>

datatype open_outcome = OpenTimeout | OpenError string | OpenOk

record probe_answer =
  pa_open :: open_outcome
  pa_write :: "unit io"
  pa_read :: read_outcome
  pa_rtt_ms :: u32
  pa_now_ms :: u64

definition probe_single_path ::
  "bool \<Rightarrow> probe_answer \<Rightarrow> string \<Rightarrow> (NATProbeResult, NatProbeError) result option" where
  "probe_single_path oc a server_ip =
     (case pa_open a of
        OpenTimeout \<Rightarrow> Some (Err (ProbeTimeout server_ip))
      | OpenError e \<Rightarrow> Some (Err (ProbeMigrationFailed server_ip e))
      | OpenOk \<Rightarrow>
        (case pa_write a of
           IoErr e \<Rightarrow> Some (Err (ProbeMigrationFailed server_ip e))
         | IoOk _ \<Rightarrow>
           (case pa_read a of
              ReadTimeout \<Rightarrow> Some (Err (ProbeTimeout server_ip))
            | ReadError e \<Rightarrow> Some (Err (ProbeMigrationFailed server_ip e))
            | ReadClosed \<Rightarrow> Some (Err (ProbeMigrationFailed server_ip ''response too short''))
            | ReadBytes buf \<Rightarrow>
              if length buf < 2
              then Some (Err (ProbeMigrationFailed server_ip ''response too short''))
              else if (of_nat (be_val (take 2 buf)) :: u16) \<noteq> 0x0200
              then Some (Err (ProbeMigrationFailed server_ip ''unexpected response type''))
              else map_option
                (\<lambda>r. case r of
                   Ok pr \<Rightarrow>
                     Ok \<lparr> npr_server_ip = server_ip, npr_local_port = 0,
                          npr_external_ip = ppr_observed_ip pr,
                          npr_external_port = ppr_observed_port pr,
                          npr_timestamp_ms = pa_now_ms a, npr_rtt_ms = pa_rtt_ms a \<rparr>
                 | Err _ \<Rightarrow> Panic
                 | Panic \<Rightarrow> Panic)
                (parse_path_probe_response oc (drop 2 buf)))))"

fun collect_probes ::
  "bool \<Rightarrow> (nat \<Rightarrow> probe_answer) \<Rightarrow> nat \<Rightarrow> string list
     \<Rightarrow> (NATProbeResult list, unit) result option" where
  "collect_probes oc ans i [] = Some (Ok [])"
| "collect_probes oc ans i (ip # ips) =
     Option.bind (probe_single_path oc (ans i) ip) (\<lambda>r.
       case r of
         Panic \<Rightarrow> Some Panic
       | Err _ \<Rightarrow> collect_probes oc ans (i + 1) ips
       | Ok pr \<Rightarrow> map_option (res_map ((#) pr)) (collect_probes oc ans (i + 1) ips))"

definition nat_probe ::
  "bool \<Rightarrow> (nat \<Rightarrow> probe_answer) \<Rightarrow> u64 \<Rightarrow> u64 \<Rightarrow> NATProber
     \<Rightarrow> (NATProber \<times> (NATInfo, NatProbeError) result) option" where
  "nat_probe oc ans now_secs now_ms p =
     (let cfg = np_config p;
          ips = take (unat (path_probe_count cfg)) (signaling_server_ips cfg) in
      if ips = [] then Some (p, Err NotConnected)
      else map_option
        (\<lambda>c. case c of
           Panic \<Rightarrow> (p, Panic)
         | Err _ \<Rightarrow> (p, Panic)
         | Ok results \<Rightarrow>
             if length results < 3 then (p, Err (InsufficientProbes (length results) 3))
             else (case classify_nat oc now_secs results cfg of
                     Ok info \<Rightarrow>
                       (p\<lparr>np_cache := Some (build_cache now_ms results info cfg)\<rparr>, Ok info)
                   | _ \<Rightarrow> (p, Panic)))
        (collect_probes oc ans 0 ips))"

text \<open>The cache lock.  A task that asks for the read side while it holds the write side waits for
  itself and never continues.\<close>

datatype guard = Unlocked | WriteGuard

fun acquire_read :: "guard \<Rightarrow> unit option" where
  "acquire_read Unlocked = Some ()"
| "acquire_read WriteGuard = None"

definition quick_refresh ::
  "bool \<Rightarrow> (nat \<Rightarrow> probe_answer) \<Rightarrow> (nat \<Rightarrow> probe_answer) \<Rightarrow> u64 \<Rightarrow> u64 \<Rightarrow> NATProber
     \<Rightarrow> (NATProber \<times> (NATInfo, NatProbeError) result) option" where
  "quick_refresh oc ans ans_full now_secs now_ms p =
     (let cfg = np_config p;
          ips = take (unat (path_refresh_count cfg)) (signaling_server_ips cfg);
          full = nat_probe oc ans_full now_secs now_ms in
      if ips = [] then full p
      else Option.bind (collect_probes oc ans 0 ips) (\<lambda>c.
        case c of
          Panic \<Rightarrow> Some (p, Panic)
        | Err _ \<Rightarrow> Some (p, Panic)
        | Ok results \<Rightarrow>
            if length results < 2 then full p
            else case np_cache p of
              None \<Rightarrow> full p
            | Some cache \<Rightarrow>
                let deltas = port_deltas (probe_ports results) in
                if deltas \<noteq> []
                   \<and> \<bar>average_of deltas - npc_average_delta cache\<bar>
                        \<le> sint (nat_delta_variance_threshold cfg)
                then let guard = WriteGuard;
                         p = p\<lparr>np_cache := Some (cache\<lparr>npc_cache_timestamp := now_ms\<rparr>)\<rparr> in
                     Option.bind (acquire_read guard) (\<lambda>_.
                       case cached_nat_info oc now_ms p of
                         Ok (Some info) \<Rightarrow> Some (p, Ok info)
                       | Ok None \<Rightarrow>
                           map_option (\<lambda>(p, r). (p, case r of Ok i \<Rightarrow> Ok i | Err _ \<Rightarrow> Ok no_nat
                                                          | Panic \<Rightarrow> Panic)) (full p)
                       | _ \<Rightarrow> Some (p, Panic))
                else full p))"

section \<open>Facts about the statistics\<close>

lemma isqrt_bounds: "isqrt n ^ 2 \<le> n \<and> n < (isqrt n + 1) ^ 2"
proof (induction n rule: isqrt.induct)
  case (1 n)
  show ?case
  proof (cases "n = 0")
    case True
    then show ?thesis by (simp add: isqrt.simps)
  next
    case False
    define q where "q = isqrt (n div 4)"
    have q: "q ^ 2 \<le> n div 4" "n div 4 < (q + 1) ^ 2"
      using 1 [OF False] by (simp_all add: q_def)
    have "4 * q ^ 2 \<le> n"
      using q(1) by linarith
    then have lo: "(2 * q) ^ 2 \<le> n"
      by (simp add: power2_eq_square algebra_simps)
    have "n < 4 * (q + 1) ^ 2"
      using q(2) by linarith
    then have hi: "n < (2 * q + 2) ^ 2"
      by (simp add: power2_eq_square algebra_simps)
    show ?thesis
      using lo hi False by (simp add: isqrt.simps [of n] q_def [symmetric] Let_def)
  qed
qed

lemma isqrt_0 [simp]: "isqrt 0 = 0"
  by (simp add: isqrt.simps)

lemma windows2_simps [simp]:
  "windows2 [] = []" "windows2 [x] = []" "windows2 (x # y # xs) = (x, y) # windows2 (y # xs)"
  by (simp_all add: windows2_def)

lemma port_deltas_simps [simp]:
  "port_deltas [] = []" "port_deltas [a] = []"
  "port_deltas (a # b # ps) = (int (unat b) - int (unat a)) # port_deltas (b # ps)"
  by (simp_all add: port_deltas_def)

lemma length_port_deltas [simp]: "length (port_deltas ports) = length ports - 1"
  by (simp add: port_deltas_def windows2_def)

text \<open>Partial sums of the deltas telescope, so the \<open>i32\<close> sum stays within a port number.\<close>

lemma deltas_telescope:
  assumes "ports \<noteq> []" and "k < length ports"
  shows "sum_list (take k (port_deltas ports)) = int (unat (ports ! k)) - int (unat (hd ports))"
  using assms
proof (induction ports arbitrary: k rule: induct_list012)
  case (3 a b ps)
  then show ?case by (cases k) auto
qed simp_all

lemma deltas_sum_bound: "\<bar>sum_list (take k (port_deltas ports))\<bar> \<le> 65535"
proof (cases "ports = []")
  case False
  define j where "j = min k (length ports - 1)"
  have j: "j < length ports"
    using False by (cases ports) (auto simp: j_def min_less_iff_disj)
  have "take k (port_deltas ports) = take j (port_deltas ports)"
    by (simp add: j_def min_def)
  then have "sum_list (take k (port_deltas ports)) = int (unat (ports ! j)) - int (unat (hd ports))"
    using deltas_telescope [OF False j] by simp
  moreover have "unat (ports ! j) < 65536" "unat (hd ports) < 65536"
    by simp_all
  ultimately show ?thesis by linarith
qed simp

lemma abs_sdiv_le:
  fixes s n :: int
  assumes "1 \<le> n"
  shows "\<bar>s sdiv n\<bar> \<le> \<bar>s\<bar>"
proof -
  have "0 \<le> \<bar>s\<bar> div n"
    using assms by (simp add: pos_imp_zdiv_nonneg_iff)
  then have "\<bar>s sdiv n\<bar> \<le> \<bar>s\<bar> div n"
    using assms by (auto simp: signed_divide_int_def abs_mult abs_sgn_eq)
  also have "\<dots> \<le> \<bar>s\<bar> div 1"
    using assms by (intro zdiv_mono2) simp_all
  finally show ?thesis by simp
qed

lemma average_bound: "\<bar>average_of (port_deltas ports)\<bar> \<le> 65535"
proof (cases "port_deltas ports = []")
  case False
  then have "1 \<le> int (length (port_deltas ports))"
    by (cases "port_deltas ports") auto
  then have "\<bar>average_of (port_deltas ports)\<bar> \<le> \<bar>sum_list (port_deltas ports)\<bar>"
    unfolding average_of_def using False by (simp only: if_False abs_sdiv_le)
  also have "\<dots> \<le> 65535"
    using deltas_sum_bound [of "length (port_deltas ports)" ports] by simp
  finally show ?thesis .
qed (simp add: average_of_def)

lemma average_constant:
  assumes "ds = replicate n d" and "0 < n"
  shows "average_of ds = d"
proof -
  have "sum_list ds = d * int n"
    using assms(1) by (simp add: sum_list_replicate)
  moreover have "(d * int n) sdiv int n = d"
    using assms(2) by (simp add: signed_divide_int_def abs_mult sgn_mult abs_mult_sgn mult.commute)
  ultimately show ?thesis
    using assms by (simp add: average_of_def)
qed

lemma deviation_constant: "ds = replicate n d \<Longrightarrow> deviation_of ds d = 0"
  by (auto simp: deviation_of_def sum_list_replicate)

lemma ports_all_same_iff: "ports_all_same ports \<longleftrightarrow> (\<forall>p \<in> set ports. p = hd ports)"
proof (induction ports rule: induct_list012)
  case (3 a b ps)
  then show ?case by (auto simp: ports_all_same_def)
qed (simp_all add: ports_all_same_def)

section \<open>Facts about the classification\<close>

definition small_config :: "VoIPConfig \<Rightarrow> bool" where
  "small_config cfg \<longleftrightarrow>
     unat (nat_delta_variance_threshold cfg) < 2 ^ 29
     \<and> unat (prediction_margin_sequential cfg) < 2 ^ 30
     \<and> unat (prediction_margin_pseudo cfg) < 2 ^ 30"

lemma int_less_power: "k < 2 ^ n \<Longrightarrow> int k < 2 ^ n"
  by (metis of_nat_less_iff of_nat_numeral of_nat_power)

lemma sint_small:
  fixes w :: i32
  assumes "unat w < 2 ^ 31"
  shows "sint w = int (unat w)"
proof -
  have u: "uint w = int (unat w)" by simp
  have "int (unat w) < 2 ^ 31"
    using assms by (rule int_less_power)
  moreover have "- (2 ^ 31) \<le> int (unat w)"
    by (rule order_trans [of _ 0]) simp_all
  ultimately have "signed_take_bit 31 (int (unat w)) = int (unat w)"
    by (intro signed_take_bit_int_eq_self)
  moreover have "sint w = signed_take_bit 31 (uint w)"
    by (simp add: sint_uint)
  ultimately show ?thesis
    by (simp only: u)
qed

lemma i32_arith_fits: "- (2 ^ 31) \<le> x \<Longrightarrow> x < 2 ^ 31 \<Longrightarrow> i32_arith oc x = Ok x"
  by (simp add: i32_arith_def)

definition margin_of :: "VoIPConfig \<Rightarrow> PredictionConfidence \<Rightarrow> nat" where
  "margin_of cfg conf =
     (case conf of
        Sequential \<Rightarrow> unat (prediction_margin_sequential cfg)
      | PseudoSequential \<Rightarrow> unat (prediction_margin_pseudo cfg)
      | Random \<Rightarrow> 0)"

definition predicted_around ::
  "u64 \<Rightarrow> NATProbeResult \<Rightarrow> int \<Rightarrow> PredictionConfidence \<Rightarrow> int \<Rightarrow> PortPredictionData" where
  "predicted_around now_secs l avg conf margin =
     (let center = int (unat (npr_external_port l)) + avg in
      \<lparr> external_ip = npr_external_ip l,
        predicted_port_start = word_of_int (max (center - margin) 1024),
        predicted_port_end = word_of_int (min (center + margin) 65535),
        confidence = conf,
        base_port = of_nat (unat (npr_external_port l)),
        delta_pattern = word_of_int avg,
        probed_at = now_secs,
        probe_method = QuicPathProbing \<rparr>)"

lemma margin_small: "small_config cfg \<Longrightarrow> margin_of cfg conf < 2 ^ 30"
  by (cases conf) (simp_all add: small_config_def margin_of_def)

lemma margin_sint:
  assumes "small_config cfg"
  shows "(case conf of
       Sequential \<Rightarrow> sint (prediction_margin_sequential cfg)
     | PseudoSequential \<Rightarrow> sint (prediction_margin_pseudo cfg)
     | Random \<Rightarrow> 0) = int (margin_of cfg conf)"
  using assms by (cases conf) (simp_all add: small_config_def margin_of_def sint_small)

lemma center_bound:
  assumes "\<bar>avg\<bar> \<le> 65535"
  shows "\<bar>int (unat (p :: u16)) + avg\<bar> \<le> 131070"
proof -
  have "unat p < 65536" by simp
  with assms show ?thesis by linarith
qed

lemma compute_prediction_fits:
  assumes "small_config cfg" and "results \<noteq> []" and "\<bar>avg\<bar> \<le> 65535"
  shows "compute_prediction oc now_secs results avg conf cfg
    = Ok (predicted_around now_secs (last results) avg conf (int (margin_of cfg conf)))"
proof -
  let ?c = "int (unat (npr_external_port (last results))) + avg"
  note b = center_bound [OF assms(3), of "npr_external_port (last results)"]
  have m: "int (margin_of cfg conf) < 2 ^ 30"
    using margin_small [OF assms(1), of conf] by simp
  have "i32_arith oc ?c = Ok ?c"
    "i32_arith oc (?c - int (margin_of cfg conf)) = Ok (?c - int (margin_of cfg conf))"
    "i32_arith oc (?c + int (margin_of cfg conf)) = Ok (?c + int (margin_of cfg conf))"
    using b m by (auto intro!: i32_arith_fits)
  then show ?thesis
    using assms(2) margin_sint [OF assms(1), of conf]
    by (simp add: compute_prediction_def predicted_around_def Let_def)
qed

lemma classify_symmetric:
  assumes "small_config cfg" and "results \<noteq> []"
    and "CHR '':'' \<notin> set (npr_external_ip (hd results))"
    and "\<not> ports_all_same (probe_ports results)"
  defines "avg \<equiv> average_of (port_deltas (probe_ports results))"
  defines "dev \<equiv> deviation_of (port_deltas (probe_ports results)) avg"
  defines "thr \<equiv> int (unat (nat_delta_variance_threshold cfg))"
  shows "classify_nat oc now_secs results cfg =
    Ok (if dev \<le> thr
        then \<lparr> nat_type = SymmetricSequential, prediction =
               Some (predicted_around now_secs (last results) avg Sequential
                       (int (margin_of cfg Sequential))) \<rparr>
        else if dev \<le> 3 * thr
        then \<lparr> nat_type = SymmetricPseudo, prediction =
               Some (predicted_around now_secs (last results) avg PseudoSequential
                       (int (margin_of cfg PseudoSequential))) \<rparr>
        else \<lparr> nat_type = SymmetricRandom, prediction = None \<rparr>)"
proof -
  have d: "port_deltas (probe_ports results) \<noteq> []"
  proof
    assume "port_deltas (probe_ports results) = []"
    then have "windows2 (probe_ports results) = []"
      by (simp add: port_deltas_def)
    with assms(4) show False by (simp add: ports_all_same_def)
  qed
  have t: "sint (nat_delta_variance_threshold cfg) = thr"
    using assms(1) by (simp add: thr_def small_config_def sint_small)
  have nn: "0 \<le> thr" by (simp add: thr_def)
  have "thr < 2 ^ 29"
    unfolding thr_def by (rule int_less_power) (use assms(1) in \<open>simp add: small_config_def\<close>)
  with nn have t3: "i32_arith oc (thr * 3) = Ok (thr * 3)"
    by (intro i32_arith_fits) simp_all
  have cp: "compute_prediction oc now_secs results avg conf cfg
      = Ok (predicted_around now_secs (last results) avg conf (int (margin_of cfg conf)))" for conf
    using assms(1,2) by (rule compute_prediction_fits) (simp add: avg_def average_bound)
  show ?thesis
    using assms(2-4) d nn
    by (simp add: classify_nat_def Let_def t t3 cp mult.commute flip: avg_def dev_def)
qed

lemma classify_cone:
  assumes "results \<noteq> []" and "CHR '':'' \<notin> set (npr_external_ip (hd results))"
    and "ports_all_same (probe_ports results)"
  shows "classify_nat oc now_secs results cfg = Ok cone_nat"
  using assms by (simp add: classify_nat_def cone_nat_def)

lemma predicted_range:
  assumes "c = int (unat (npr_external_port l)) + avg" and "1024 \<le> c" and "c \<le> 65535"
    and "p = predicted_around now_secs l avg conf (int m)"
  shows "1024 \<le> unat (predicted_port_start p)"
    and "int (unat (predicted_port_start p)) \<le> c"
    and "c \<le> int (unat (predicted_port_end p))"
    and "unat (predicted_port_end p) \<le> 65535"
    and "unat (predicted_port_end p) - unat (predicted_port_start p) \<le> 2 * m"
proof -
  have s: "unat (predicted_port_start p) = nat (max (c - int m) 1024)"
  proof -
    have "predicted_port_start p = of_nat (nat (max (c - int m) 1024))"
      by (simp add: assms(4) predicted_around_def assms(1) Let_def)
    moreover have "nat (max (c - int m) 1024) < 2 ^ 32"
      using assms(3) by simp
    ultimately show ?thesis by (simp only: unat_of_nat) simp
  qed
  have e: "unat (predicted_port_end p) = nat (min (c + int m) 65535)"
  proof -
    have "0 \<le> min (c + int m) 65535"
      using assms(2) by simp
    then have "predicted_port_end p = of_nat (nat (min (c + int m) 65535))"
      by (simp add: assms(4) predicted_around_def assms(1) Let_def)
    moreover have "nat (min (c + int m) 65535) < 2 ^ 32"
      by simp
    ultimately show ?thesis by (simp only: unat_of_nat) simp
  qed
  show "1024 \<le> unat (predicted_port_start p)" "int (unat (predicted_port_start p)) \<le> c"
    "c \<le> int (unat (predicted_port_end p))" "unat (predicted_port_end p) \<le> 65535"
    "unat (predicted_port_end p) - unat (predicted_port_start p) \<le> 2 * m"
    unfolding s e using assms(2,3) by auto
qed

section \<open>Facts about the cache\<close>

definition same_but_time :: "NATInfo \<Rightarrow> NATInfo \<Rightarrow> bool" where
  "same_but_time a b \<longleftrightarrow>
     nat_type a = nat_type b
     \<and> map_option (\<lambda>p. p\<lparr>probed_at := 0\<rparr>) (prediction a)
         = map_option (\<lambda>p. p\<lparr>probed_at := 0\<rparr>) (prediction b)"

lemma cached_prediction:
  assumes "npc_confidence c = conf" and "conf \<noteq> Random" and "npc_probes c \<noteq> []"
    and "\<not> ports_all_same (probe_ports (npc_probes c))" and "\<bar>npc_average_delta c\<bar> \<le> 65535"
  shows "cached_to_nat_info oc c = Ok
    \<lparr> nat_type = (if conf = Sequential then SymmetricSequential else SymmetricPseudo),
      prediction = Some (predicted_around (npr_timestamp_ms (last (npc_probes c)) div 1000)
        (last (npc_probes c)) (npc_average_delta c) conf (if conf = Sequential then 3 else 8)) \<rparr>"
proof -
  let ?c = "int (unat (npr_external_port (last (npc_probes c)))) + npc_average_delta c"
  let ?m = "if conf = Sequential then 3 else 8 :: int"
  note b = center_bound [OF assms(5), of "npr_external_port (last (npc_probes c))"]
  have "i32_arith oc ?c = Ok ?c" "i32_arith oc (?c - ?m) = Ok (?c - ?m)"
    "i32_arith oc (?c + ?m) = Ok (?c + ?m)"
    using b by (auto intro!: i32_arith_fits)
  then show ?thesis
    using assms
    by (cases conf) (simp_all add: cached_to_nat_info_def predicted_around_def Let_def)
qed

lemma predicted_around_time:
  "(predicted_around t l avg conf m)\<lparr>probed_at := 0\<rparr> = predicted_around 0 l avg conf m"
  by (simp add: predicted_around_def Let_def)

lemma cache_agrees:
  assumes "small_config cfg" and "results \<noteq> []"
    and "CHR '':'' \<notin> set (npr_external_ip (hd results))"
    and "prediction_margin_sequential cfg = 3" and "prediction_margin_pseudo cfg = 8"
    and "classify_nat oc now_secs results cfg = Ok info"
  shows "\<exists>info'. cached_to_nat_info oc (build_cache now_ms results info cfg) = Ok info'
    \<and> same_but_time info' info"
proof (cases "ports_all_same (probe_ports results)")
  case True
  then have "info = cone_nat"
    using classify_cone [OF assms(2,3)] assms(6) by simp
  with True show ?thesis
    by (simp add: cached_to_nat_info_def build_cache_def cone_nat_def same_but_time_def Let_def)
next
  case False
  let ?avg = "average_of (port_deltas (probe_ports results))"
  let ?c = "build_cache now_ms results info cfg"
  have c: "npc_probes ?c = results" "npc_average_delta ?c = ?avg"
    "npc_confidence ?c = (case prediction info of Some p \<Rightarrow> confidence p | None \<Rightarrow> Random)"
    by (simp_all add: build_cache_def Let_def)
  have m: "int (margin_of cfg Sequential) = 3" "int (margin_of cfg PseudoSequential) = 8"
    using assms(4,5) by (simp_all add: margin_of_def)
  have conf: "confidence (predicted_around t l avg conf k) = conf" for t l avg conf k
    by (simp add: predicted_around_def Let_def)
  consider
      (seq) "info = \<lparr> nat_type = SymmetricSequential,
        prediction = Some (predicted_around now_secs (last results) ?avg Sequential 3) \<rparr>"
    | (pseudo) "info = \<lparr> nat_type = SymmetricPseudo,
        prediction = Some (predicted_around now_secs (last results) ?avg PseudoSequential 8) \<rparr>"
    | (random) "info = \<lparr> nat_type = SymmetricRandom, prediction = None \<rparr>"
    using classify_symmetric [OF assms(1-3) False, of oc now_secs] assms(6) m
    by (auto split: if_splits)
  then show ?thesis
  proof cases
    case seq
    then show ?thesis
      using cached_prediction [of ?c Sequential oc] c assms(2) False average_bound
      by (simp add: conf same_but_time_def predicted_around_time)
  next
    case pseudo
    then show ?thesis
      using cached_prediction [of ?c PseudoSequential oc] c assms(2) False average_bound
      by (simp add: conf same_but_time_def predicted_around_time)
  next
    case random
    then show ?thesis
      using False c by (simp add: cached_to_nat_info_def same_but_time_def Let_def)
  qed
qed

section \<open>Properties\<close>

definition sample_probe :: "u16 \<Rightarrow> NATProbeResult" where
  "sample_probe port =
     \<lparr> npr_server_ip = ''198.51.100.1'', npr_local_port = 0, npr_external_ip = ''203.0.113.7'',
       npr_external_port = port, npr_timestamp_ms = 1000, npr_rtt_ms = 20 \<rparr>"

lemma small_default: "small_config VoIPConfig_default"
  by (simp add: small_config_def VoIPConfig_default_def)

lemma sample_probe_simps [simp]:
  "npr_external_ip (sample_probe port) = ''203.0.113.7''"
  "npr_external_port (sample_probe port) = port"
  by (simp_all add: sample_probe_def)

lemma default_settings [simp]:
  "prediction_margin_sequential VoIPConfig_default = 3"
  "prediction_margin_pseudo VoIPConfig_default = 8"
  "nat_cache_ttl_secs VoIPConfig_default = 300"
  "nat_delta_variance_threshold VoIPConfig_default = 3"
  by (simp_all add: VoIPConfig_default_def)

lemma cone_classification_iff:
  assumes "small_config cfg" and "results \<noteq> []"
    and "CHR '':'' \<notin> set (npr_external_ip (hd results))"
  shows "classify_nat oc now_secs results cfg = Ok cone_nat \<longleftrightarrow> ports_all_same (probe_ports results)"
proof (cases "ports_all_same (probe_ports results)")
  case True
  then show ?thesis using classify_cone [OF assms(2,3)] by simp
next
  case False
  then show ?thesis
    using classify_symmetric [OF assms False, of oc now_secs]
    by (simp add: cone_nat_def)
qed

lemma classify_constant_step:
  assumes "small_config cfg" and "results \<noteq> []"
    and "CHR '':'' \<notin> set (npr_external_ip (hd results))"
    and "d \<noteq> 0" "2 \<le> length results"
    and "port_deltas (probe_ports results) = replicate (length results - 1) d"
  shows "classify_nat oc now_secs results cfg = Ok
      \<lparr> nat_type = SymmetricSequential, prediction =
          Some (predicted_around now_secs (last results) d Sequential
                  (int (margin_of cfg Sequential))) \<rparr>"
proof -
  have "\<not> ports_all_same (probe_ports results)"
  proof
    assume "ports_all_same (probe_ports results)"
    then have "set (port_deltas (probe_ports results)) \<subseteq> {0}"
      by (auto simp: ports_all_same_def port_deltas_def list_all_iff)
    with assms(4-6) show False by simp
  qed
  then show ?thesis
    using classify_symmetric [OF assms(1-3), of oc now_secs] assms(4-6)
      average_constant [of "port_deltas (probe_ports results)" "length results - 1" d]
      deviation_constant [of "port_deltas (probe_ports results)" "length results - 1" d]
    by simp
qed



text \<open>A predicted port range is sound whenever the predicted centre is a port a peer may
  use.  If the last port plus the average step lies in 1024 to 65535, the announced range lies in
  1024 to 65535, contains that centre, spans at most twice the configured margin and counts as
  usable.\<close>

lemma prediction_range_sound:
  assumes "small_config cfg" and "results \<noteq> []"
    and "CHR '':'' \<notin> set (npr_external_ip (hd results))"
    and "classify_nat oc now_secs results cfg = Ok info" and "prediction info = Some p"
    and "c = int (unat (npr_external_port (last results)))
               + average_of (port_deltas (probe_ports results))"
    and "1024 \<le> c" and "c \<le> 65535"
  shows "1024 \<le> unat (predicted_port_start p)
    \<and> int (unat (predicted_port_start p)) \<le> c \<and> c \<le> int (unat (predicted_port_end p))
    \<and> unat (predicted_port_end p) \<le> 65535
    \<and> unat (predicted_port_end p) - unat (predicted_port_start p)
        \<le> 2 * margin_of cfg (confidence p)
    \<and> is_usable p"
proof -
  let ?avg = "average_of (port_deltas (probe_ports results))"
  have "\<not> ports_all_same (probe_ports results)"
    using classify_cone [OF assms(2,3), of oc now_secs cfg] assms(4,5)
    by (auto simp: cone_nat_def)
  from classify_symmetric [OF assms(1-3) this, of oc now_secs]
  obtain conf where conf: "conf \<noteq> Random"
    and p: "p = predicted_around now_secs (last results) ?avg conf (int (margin_of cfg conf))"
    using assms(4,5) by (auto split: if_splits)
  have pc: "confidence p = conf"
    by (simp add: p predicted_around_def Let_def)
  note r = predicted_range [OF assms(6-8) p]
  have "unat (predicted_port_start p) \<le> unat (predicted_port_end p)"
    using r(2,3) by linarith
  moreover have "0 < unat (predicted_port_start p)"
    using r(1) by linarith
  ultimately have "is_usable p"
    using conf pc by (cases conf) (simp_all add: is_usable_def word_le_nat_alt word_less_nat_alt)
  with r pc show ?thesis by simp
qed

lemma prediction_range_sound_witness:
  "\<exists>info p. classify_nat True 7 (map sample_probe [40000, 40002, 40004]) VoIPConfig_default = Ok info
     \<and> prediction info = Some p \<and> is_usable p"
proof -
  let ?rs = "map sample_probe [40000, 40002, 40004]"
  let ?p = "predicted_around 7 (sample_probe 40004) 2 Sequential 3"
  have "port_deltas (probe_ports ?rs) = [2, 2]"
    by (simp add: probe_ports_def)
  then have d: "port_deltas (probe_ports ?rs) = replicate 2 2"
    by (simp add: numeral_2_eq_2)
  have avg: "average_of (port_deltas (probe_ports ?rs)) = 2"
    using d by (rule average_constant) simp
  have ns: "\<not> ports_all_same (probe_ports ?rs)"
    by (simp add: ports_all_same_def probe_ports_def)
  have cl: "classify_nat True 7 ?rs VoIPConfig_default
      = Ok \<lparr> nat_type = SymmetricSequential, prediction = Some ?p \<rparr>"
    using classify_symmetric [OF small_default _ _ ns, of True 7] avg deviation_constant [OF d]
    by (simp add: margin_of_def)
  have "is_usable ?p"
    using prediction_range_sound [OF small_default _ _ cl, of ?p 40006] avg
    by simp
  with cl show ?thesis by simp
qed

text \<open>The cache answers like the probe that filled it.  For IPv4 results and the default
  margins, the cached information read back before the time to live has run out equals the
  classification, apart from the time stamp of the prediction.\<close>

lemma nat_cache_agrees:
  assumes "small_config cfg" and "results \<noteq> []"
    and "CHR '':'' \<notin> set (npr_external_ip (hd results))"
    and "prediction_margin_sequential cfg = 3" and "prediction_margin_pseudo cfg = 8"
    and "classify_nat oc now_secs results cfg = Ok info"
    and "np_cache p = Some (build_cache t0 results info cfg)"
    and "saturating_sub now_ms t0 < ucast (ucast (nat_cache_ttl_secs cfg) :: u32) * 1000"
  shows "\<exists>info'. cached_nat_info oc now_ms p = Ok (Some info') \<and> same_but_time info' info"
proof -
  obtain info' where "cached_to_nat_info oc (build_cache t0 results info cfg) = Ok info'"
    and "same_but_time info' info"
    using cache_agrees [OF assms(1-6)] by blast
  with assms(7,8) show ?thesis
    by (simp add: cached_nat_info_def build_cache_def Let_def)
qed

lemma nat_cache_agrees_witness:
  "\<exists>info'. cached_nat_info True 5000
      ((NATProber_new VoIPConfig_default)\<lparr>np_cache :=
         Some (build_cache 1000 (map sample_probe [40000, 40000, 40000]) cone_nat
                 VoIPConfig_default)\<rparr>) = Ok (Some info') \<and> same_but_time info' cone_nat"
proof (rule nat_cache_agrees)
  show "classify_nat True 7 (map sample_probe [40000, 40000, 40000]) VoIPConfig_default
      = Ok cone_nat"
    by (rule classify_cone) (simp_all add: ports_all_same_def probe_ports_def)
  show "saturating_sub (5000 :: u64) 1000
      < ucast (ucast (nat_cache_ttl_secs VoIPConfig_default) :: u32) * 1000"
    by (simp add: saturating_sub_def)
qed (simp_all add: small_default)

text \<open>When the predicted centre leaves the port range below, the announced end is a negative
  number reinterpreted as \<open>u32\<close>, and the prediction still counts as usable.\<close>

lemma prediction_range_wraps:
  "is_usable (predicted_around 0 (sample_probe 1) (- 30000) Sequential 3)
   \<and> predicted_port_end (predicted_around 0 (sample_probe 1) (- 30000) Sequential 3) = 0xFFFF8AD4"
  by (simp add: predicted_around_def is_usable_def sample_probe_def)

text \<open>The cache forgets that a peer has IPv6: the probe reports no NAT, the cache a cone.\<close>

lemma cache_forgets_ipv6:
  assumes "results = [(sample_probe 5)\<lparr>npr_external_ip := ''2001:db8::1''\<rparr>]"
  shows "classify_nat oc now_secs results cfg = Ok no_nat"
    and "cached_to_nat_info oc (build_cache now_ms results no_nat cfg) = Ok cone_nat"
  using assms
  by (simp_all add: classify_nat_def no_nat_def cone_nat_def cached_to_nat_info_def build_cache_def
      ports_all_same_def probe_ports_def Let_def)

text \<open>A refresh that finds the cached pattern still valid never returns: it asks for the read side
  of the cache lock while it holds the write side.\<close>

lemma quick_refresh_deadlock:
  assumes "take (unat (path_refresh_count (np_config p))) (signaling_server_ips (np_config p)) = ips"
    and "ips \<noteq> []" and "collect_probes oc ans 0 ips = Some (Ok results)" and "2 \<le> length results"
    and "np_cache p = Some cache"
    and "\<bar>average_of (port_deltas (probe_ports results)) - npc_average_delta cache\<bar>
           \<le> sint (nat_delta_variance_threshold (np_config p))"
  shows "quick_refresh oc ans ans_full now_secs now_ms p = None"
proof -
  have "port_deltas (probe_ports results) \<noteq> []"
    using assms(4) by (simp add: probe_ports_def flip: length_0_conv)
  moreover have "take (unat (path_refresh_count (np_config p)))
      (signaling_server_ips (np_config p)) \<noteq> []"
    using assms(1,2) by simp
  ultimately show ?thesis
    using assms(2-6) unfolding quick_refresh_def Let_def assms(1) by simp
qed

end
