(* ===== verification/Rate_Limit.thy ===== *)
theory Rate_Limit
  imports Voip_Prelude "HOL-Library.AList"
begin

text \<open>
  The token-bucket rate limiter of the signaling server
  (\<open>src/crates/voip-signaling/src/rate_limit.rs\<close>).

  An \<open>Instant\<close> is a number of nanoseconds; every check reads the clock once and the reading is an
  argument.  The source keeps its tokens in an \<open>f64\<close>: they start as a \<open>u32\<close>, change by whole
  amounts and never exceed the \<open>u32\<close> maximum, so they are exact and a natural number here.  A hash
  map is an association list; which key its iterator yields first is an argument.
\<close>

section \<open>Buckets\<close>

record BucketConfig =
  max_tokens :: u32
  refill_amount :: u32
  refill_interval_ms :: u64

definition BucketConfig_CALLS :: BucketConfig where
  "BucketConfig_CALLS = \<lparr> max_tokens = 10, refill_amount = 10, refill_interval_ms = 60000 \<rparr>"

definition BucketConfig_REGISTRATIONS :: BucketConfig where
  "BucketConfig_REGISTRATIONS =
     \<lparr> max_tokens = 6, refill_amount = 6, refill_interval_ms = 60000 \<rparr>"

definition BucketConfig_WS_MESSAGES :: BucketConfig where
  "BucketConfig_WS_MESSAGES = \<lparr> max_tokens = 30, refill_amount = 30, refill_interval_ms = 1000 \<rparr>"

record Bucket =
  bk_tokens :: nat
  bk_last_refill :: nat
  bk_config :: BucketConfig

definition Bucket_new :: "nat \<Rightarrow> BucketConfig \<Rightarrow> Bucket" where
  "Bucket_new now cfg =
     \<lparr> bk_tokens = unat (max_tokens cfg), bk_last_refill = now, bk_config = cfg \<rparr>"

definition elapsed_ms :: "nat \<Rightarrow> nat \<Rightarrow> u64" where
  "elapsed_ms now before = of_nat ((now - before) div 1000000)"

definition refill :: "nat \<Rightarrow> Bucket \<Rightarrow> (Bucket, unit) result" where
  "refill now b =
     (let cfg = bk_config b;
          elapsed = elapsed_ms now (bk_last_refill b) in
      if refill_interval_ms cfg \<le> elapsed then
        (if refill_interval_ms cfg = 0 then Panic
         else let intervals = elapsed div refill_interval_ms cfg;
                  added = unat intervals * unat (refill_amount cfg) in
              Ok (b\<lparr> bk_tokens := min (bk_tokens b + added) (unat (max_tokens cfg)),
                     bk_last_refill := now \<rparr>))
      else Ok b)"

definition try_consume :: "nat \<Rightarrow> u32 \<Rightarrow> Bucket \<Rightarrow> (Bucket \<times> bool, unit) result" where
  "try_consume now count b =
     res_map (\<lambda>b. if unat count \<le> bk_tokens b
                  then (b\<lparr>bk_tokens := bk_tokens b - unat count\<rparr>, True) else (b, False))
       (refill now b)"

section \<open>The limiter\<close>

record RateLimitConfig =
  rlc_calls :: BucketConfig
  rlc_registrations :: BucketConfig
  rlc_ws_messages :: BucketConfig
  rlc_max_entries :: nat

definition RateLimitConfig_default :: RateLimitConfig where
  "RateLimitConfig_default =
     \<lparr> rlc_calls = BucketConfig_CALLS, rlc_registrations = BucketConfig_REGISTRATIONS,
       rlc_ws_messages = BucketConfig_WS_MESSAGES, rlc_max_entries = 50000 \<rparr>"

type_synonym buckets = "(string \<times> Bucket) list"

record RateLimiter =
  rl_calls :: buckets
  rl_registrations :: buckets
  rl_ws_messages :: buckets
  rl_config :: RateLimitConfig
  rl_max_entries :: nat

datatype Action = Call | Registration | WsMessage

definition RateLimiter_new :: "RateLimitConfig \<Rightarrow> RateLimiter" where
  "RateLimiter_new cfg =
     \<lparr> rl_calls = [], rl_registrations = [], rl_ws_messages = [], rl_config = cfg,
       rl_max_entries = rlc_max_entries cfg \<rparr>"

definition entry_or_insert :: "nat \<Rightarrow> BucketConfig \<Rightarrow> buckets \<Rightarrow> string \<Rightarrow> Bucket" where
  "entry_or_insert now cfg m p =
     (case map_of m p of Some b \<Rightarrow> b | None \<Rightarrow> Bucket_new now cfg)"

definition check_call :: "nat \<Rightarrow> string \<Rightarrow> RateLimiter \<Rightarrow> (RateLimiter \<times> bool, unit) result" where
  "check_call now p r =
     res_map (\<lambda>(b, allowed). (r\<lparr>rl_calls := AList.update p b (rl_calls r)\<rparr>, allowed))
       (try_consume now 1 (entry_or_insert now (rlc_calls (rl_config r)) (rl_calls r) p))"

definition check_registration ::
  "nat \<Rightarrow> string \<Rightarrow> RateLimiter \<Rightarrow> (RateLimiter \<times> bool, unit) result" where
  "check_registration now p r =
     res_map (\<lambda>(b, allowed). (r\<lparr>rl_registrations := AList.update p b (rl_registrations r)\<rparr>, allowed))
       (try_consume now 1
          (entry_or_insert now (rlc_registrations (rl_config r)) (rl_registrations r) p))"

definition check_ws_message ::
  "nat \<Rightarrow> string \<Rightarrow> RateLimiter \<Rightarrow> (RateLimiter \<times> bool, unit) result" where
  "check_ws_message now p r =
     res_map (\<lambda>(b, allowed). (r\<lparr>rl_ws_messages := AList.update p b (rl_ws_messages r)\<rparr>, allowed))
       (try_consume now 1
          (entry_or_insert now (rlc_ws_messages (rl_config r)) (rl_ws_messages r) p))"

fun rate_check :: "Action \<Rightarrow> nat \<Rightarrow> string \<Rightarrow> RateLimiter \<Rightarrow> (RateLimiter \<times> bool, unit) result" where
  "rate_check Call = check_call"
| "rate_check Registration = check_registration"
| "rate_check WsMessage = check_ws_message"

definition remove_peer :: "string \<Rightarrow> RateLimiter \<Rightarrow> RateLimiter" where
  "remove_peer p r =
     r\<lparr> rl_calls := AList.delete p (rl_calls r),
        rl_registrations := AList.delete p (rl_registrations r),
        rl_ws_messages := AList.delete p (rl_ws_messages r) \<rparr>"

text \<open>The overflow loop of \<open>cleanup_map\<close>; \<open>pick\<close> is the position of the key the hash map yields.\<close>

function evict_overflow :: "(buckets \<Rightarrow> nat) \<Rightarrow> nat \<Rightarrow> buckets \<Rightarrow> buckets" where
  "evict_overflow pick limit m =
     (if limit < length m
      then evict_overflow pick limit (AList.delete (fst (m ! (pick m mod length m))) m) else m)"
  by pat_completeness auto

termination evict_overflow
proof (relation "measure (length \<circ> snd \<circ> snd)", goal_cases)
  case (2 pick limit m)
  let ?k = "fst (m ! (pick m mod length m))"
  have "m ! (pick m mod length m) \<in> set m"
    using 2 by (intro nth_mem mod_less_divisor) auto
  then have "length (filter (\<lambda>(k, _). ?k \<noteq> k) m) < length m"
    by (intro length_filter_less [of "m ! (pick m mod length m)"]) auto
  then show ?case
    by (simp add: AList.delete_eq)
qed simp

declare evict_overflow.simps [simp del]

definition stale :: "nat \<Rightarrow> Bucket \<Rightarrow> bool" where
  "stale now b \<longleftrightarrow> \<not> elapsed_ms now (bk_last_refill b) < refill_interval_ms (bk_config b) * 2"

definition cleanup_map ::
  "bool \<Rightarrow> nat \<Rightarrow> (buckets \<Rightarrow> nat) \<Rightarrow> nat \<Rightarrow> buckets \<Rightarrow> (buckets, unit) result" where
  "cleanup_map oc now pick limit m =
     (if oc \<and> list_ex (\<lambda>(_, b). \<not> unat (refill_interval_ms (bk_config b)) * 2 < 2 ^ 64) m then Panic
      else Ok (evict_overflow pick limit (filter (\<lambda>(_, b). \<not> stale now b) m)))"

definition cleanup :: "bool \<Rightarrow> nat \<Rightarrow> (buckets \<Rightarrow> nat) \<Rightarrow> RateLimiter \<Rightarrow> (RateLimiter, unit) result" where
  "cleanup oc now pick r =
     (let limit = rlc_max_entries (rl_config r) in
      res_bind (cleanup_map oc now pick limit (rl_calls r)) (\<lambda>c.
      res_bind (cleanup_map oc now pick limit (rl_registrations r)) (\<lambda>g.
      res_bind (cleanup_map oc now pick limit (rl_ws_messages r)) (\<lambda>w.
      Ok (r\<lparr>rl_calls := c, rl_registrations := g, rl_ws_messages := w\<rparr>)))))"

section \<open>One bucket\<close>

definition intervals_between :: "BucketConfig \<Rightarrow> nat \<Rightarrow> nat \<Rightarrow> nat" where
  "intervals_between cfg t0 t1 = (t1 - t0) div (1000000 * unat (refill_interval_ms cfg))"

lemma elapsed_ms_le: "unat (elapsed_ms now before) \<le> (now - before) div 1000000"
  by (simp add: elapsed_ms_def unat_of_nat)

lemma elapsed_ms_exact:
  "(now - before) div 1000000 < 2 ^ 64 \<Longrightarrow> unat (elapsed_ms now before) = (now - before) div 1000000"
  by (simp add: elapsed_ms_def unat_of_nat)

lemma intervals_between_add:
  assumes "t0 \<le> t1" and "t1 \<le> t2"
  shows "intervals_between cfg t0 t1 + intervals_between cfg t1 t2 \<le> intervals_between cfg t0 t2"
proof (cases "unat (refill_interval_ms cfg) = 0")
  case True
  then show ?thesis by (simp add: intervals_between_def)
next
  case False
  define k where "k = 1000000 * unat (refill_interval_ms cfg)"
  have "0 < k" using False by (simp add: k_def)
  have "((t1 - t0) div k + (t2 - t1) div k) * k \<le> (t1 - t0) + (t2 - t1)"
    by (metis add_mono add_mult_distrib div_times_less_eq_dividend)
  also have "\<dots> = t2 - t0" using assms by simp
  finally show ?thesis
    using \<open>0 < k\<close> by (simp add: intervals_between_def less_eq_div_iff_mult_less_eq flip: k_def)
qed

lemma refill_cases:
  assumes "refill now b = Ok b'" and "bk_last_refill b \<le> now"
  shows "bk_config b' = bk_config b" and "bk_last_refill b \<le> bk_last_refill b'"
    and "bk_last_refill b' \<le> now"
    and "bk_tokens b' \<le> bk_tokens b
       + unat (refill_amount (bk_config b))
         * intervals_between (bk_config b) (bk_last_refill b) (bk_last_refill b')"
proof -
  let ?I = "refill_interval_ms (bk_config b)"
  let ?e = "elapsed_ms now (bk_last_refill b)"
  have "unat (?e div ?I) \<le> intervals_between (bk_config b) (bk_last_refill b) now"
    using elapsed_ms_le [of now "bk_last_refill b"]
    by (simp add: unat_div intervals_between_def div_le_mono div_mult2_eq)
  then have "unat (?e div ?I) * unat (refill_amount (bk_config b))
      \<le> unat (refill_amount (bk_config b))
          * intervals_between (bk_config b) (bk_last_refill b) now"
    by (simp add: mult.commute)
  then have "min (bk_tokens b + unat (?e div ?I) * unat (refill_amount (bk_config b)))
        (unat (max_tokens (bk_config b)))
      \<le> bk_tokens b + unat (refill_amount (bk_config b))
          * intervals_between (bk_config b) (bk_last_refill b) now"
    by (intro min.coboundedI1 add_left_mono)
  then show "bk_tokens b' \<le> bk_tokens b + unat (refill_amount (bk_config b))
      * intervals_between (bk_config b) (bk_last_refill b) (bk_last_refill b')"
    using assms(1) unfolding refill_def Let_def by (auto simp del: mult_le_cancel1 split: if_splits)
  show "bk_config b' = bk_config b" "bk_last_refill b \<le> bk_last_refill b'"
    "bk_last_refill b' \<le> now"
    using assms by (auto simp: refill_def Let_def split: if_splits)
qed

lemma try_consume_cases:
  assumes "try_consume now 1 b = Ok (b', a)" and "bk_last_refill b \<le> now"
  shows "bk_config b' = bk_config b" and "bk_last_refill b \<le> bk_last_refill b'"
    and "bk_last_refill b' \<le> now"
    and "bk_tokens b' + of_bool a \<le> bk_tokens b
       + unat (refill_amount (bk_config b))
         * intervals_between (bk_config b) (bk_last_refill b) (bk_last_refill b')"
proof -
  obtain c where c: "refill now b = Ok c"
    and b': "(b', a) = (if 1 \<le> bk_tokens c then (c\<lparr>bk_tokens := bk_tokens c - 1\<rparr>, True)
                        else (c, False))"
    using assms(1) by (auto simp: try_consume_def res_map_eq_Ok_iff)
  note r = refill_cases [OF c assms(2)]
  show "bk_config b' = bk_config b" "bk_last_refill b \<le> bk_last_refill b'"
    "bk_last_refill b' \<le> now"
    using b' r by (auto split: if_splits)
  show "bk_tokens b' + of_bool a \<le> bk_tokens b + unat (refill_amount (bk_config b))
      * intervals_between (bk_config b) (bk_last_refill b) (bk_last_refill b')"
    using b' r(4) by (auto split: if_splits)
qed

lemma Bucket_new_simps [simp]:
  "bk_tokens (Bucket_new now cfg) = unat (max_tokens cfg)"
  "bk_last_refill (Bucket_new now cfg) = now" "bk_config (Bucket_new now cfg) = cfg"
  by (simp_all add: Bucket_new_def)

lemma elapsed_ms_self [simp]: "elapsed_ms now now = 0"
  by (simp add: elapsed_ms_def)

text \<open>A new bucket and one left alone for at least two intervals answer alike, when two refills
  fill the bucket.\<close>

lemma stale_like_new:
  assumes "stale t b" and "t \<le> now" and "bk_config b = cfg"
    and "0 < refill_interval_ms cfg" and "unat (refill_interval_ms cfg) * 2 < 2 ^ 64"
    and "unat (max_tokens cfg) \<le> 2 * unat (refill_amount cfg)"
    and "(now - bk_last_refill b) div 1000000 < 2 ^ 64"
  shows "refill now b = refill now (Bucket_new now cfg)"
proof -
  define I where "I = unat (refill_interval_ms cfg)"
  have I: "0 < I" using assms(4) by (simp add: I_def word_less_nat_alt)
  have "unat (refill_interval_ms cfg * 2) = I * 2"
    using assms(5) by (simp add: I_def unat_word_ariths)
  then have "I * 2 \<le> unat (elapsed_ms t (bk_last_refill b))"
    using assms(1,3) by (simp add: stale_def not_less word_le_nat_alt)
  also have "\<dots> \<le> (t - bk_last_refill b) div 1000000" by (rule elapsed_ms_le)
  also have "\<dots> \<le> (now - bk_last_refill b) div 1000000"
    using assms(2) by (intro div_le_mono) simp
  finally have e: "I * 2 \<le> unat (elapsed_ms now (bk_last_refill b))"
    using elapsed_ms_exact [OF assms(7)] by simp
  then have "I \<le> unat (elapsed_ms now (bk_last_refill b))" by simp
  then have ge: "refill_interval_ms cfg \<le> elapsed_ms now (bk_last_refill b)"
    by (simp add: word_le_nat_alt I_def)
  have two: "2 \<le> unat (elapsed_ms now (bk_last_refill b) div refill_interval_ms cfg)"
    using e I by (simp add: unat_div less_eq_div_iff_mult_less_eq mult.commute flip: I_def)
  have "2 * unat (refill_amount cfg)
      \<le> unat (elapsed_ms now (bk_last_refill b) div refill_interval_ms cfg)
          * unat (refill_amount cfg)"
    using two by (rule mult_le_mono1)
  then have "unat (max_tokens cfg) \<le> bk_tokens b
      + unat (elapsed_ms now (bk_last_refill b) div refill_interval_ms cfg)
          * unat (refill_amount cfg)"
    using assms(6) by linarith
  then have "refill now b = Ok (b\<lparr>bk_tokens := unat (max_tokens cfg), bk_last_refill := now\<rparr>)"
    using ge assms(3,4) by (simp add: refill_def Let_def min_absorb2)
  moreover have "refill now (Bucket_new now cfg) = Ok (Bucket_new now cfg)"
    using assms(4) by (simp add: refill_def Let_def not_le)
  moreover have "b\<lparr>bk_tokens := unat (max_tokens cfg), bk_last_refill := now\<rparr> = Bucket_new now cfg"
    using assms(3) by (simp add: Bucket_new_def)
  ultimately show ?thesis by simp
qed

section \<open>Limiting a family of peers\<close>

text \<open>A sequence of checks, each a clock reading and a peer; the answers in order.\<close>

fun run_checks ::
  "(nat \<Rightarrow> string \<Rightarrow> 'r \<Rightarrow> ('r \<times> bool, unit) result) \<Rightarrow> (nat \<times> string) list \<Rightarrow> 'r
     \<Rightarrow> ('r \<times> bool list, unit) result" where
  "run_checks chk [] r = Ok (r, [])"
| "run_checks chk ((now, p) # evs) r =
     res_bind (chk now p r) (\<lambda>(r', a).
       res_map (\<lambda>(r'', as). (r'', a # as)) (run_checks chk evs r'))"

definition allowed_for :: "string \<Rightarrow> (nat \<times> string) list \<Rightarrow> bool list \<Rightarrow> nat" where
  "allowed_for p evs as = length (filter (\<lambda>((_, q), a). q = p \<and> a) (zip evs as))"

lemma allowed_for_simps [simp]:
  "allowed_for p [] as = 0"
  "allowed_for p ((t, q) # evs) (a # as) = of_bool (q = p \<and> a) + allowed_for p evs as"
  by (simp_all add: allowed_for_def)

text \<open>What the three checks have in common: each keeps one bucket per peer, created on first use.\<close>

locale bucket_family =
  fixes chk :: "nat \<Rightarrow> string \<Rightarrow> RateLimiter \<Rightarrow> (RateLimiter \<times> bool, unit) result"
    and bucket :: "RateLimiter \<Rightarrow> string \<Rightarrow> Bucket option"
    and conf :: "RateLimiter \<Rightarrow> BucketConfig"
  assumes chk_ok: "chk now p r = Ok (r', a) \<Longrightarrow>
      \<exists>b'. try_consume now 1 (case bucket r p of None \<Rightarrow> Bucket_new now (conf r) | Some b \<Rightarrow> b)
             = Ok (b', a)
         \<and> bucket r' = (bucket r)(p \<mapsto> b') \<and> conf r' = conf r"
    and chk_answer: "res_map snd (chk now p r) = res_map snd
      (try_consume now 1 (case bucket r p of None \<Rightarrow> Bucket_new now (conf r) | Some b \<Rightarrow> b))"
begin

lemma bounded_from_bucket:
  assumes "run_checks chk evs r = Ok (r', as)" and "bucket r p = Some b"
    and "sorted (map fst evs)" and "\<forall>e \<in> set evs. bk_last_refill b \<le> fst e \<and> fst e \<le> stop"
    and "bk_last_refill b \<le> stop"
  shows "allowed_for p evs as \<le> bk_tokens b
    + unat (refill_amount (bk_config b)) * intervals_between (bk_config b) (bk_last_refill b) stop"
  using assms
proof (induction evs arbitrary: r as b)
  case Nil
  then show ?case by simp
next
  case (Cons e evs)
  obtain now q where e: "e = (now, q)" by (cases e)
  obtain r1 a as' where c: "chk now q r = Ok (r1, a)" and as: "as = a # as'"
    and rest: "run_checks chk evs r1 = Ok (r', as')"
    using Cons.prems(1) by (auto simp: e res_bind_eq_Ok_iff res_map_eq_Ok_iff)
  obtain b' where t: "try_consume now 1 (case bucket r q of None \<Rightarrow> Bucket_new now (conf r) | Some b \<Rightarrow> b)
      = Ok (b', a)" and upd: "bucket r1 = (bucket r)(q \<mapsto> b')"
    using chk_ok [OF c] by blast
  have later: "sorted (map fst evs)" "\<forall>e \<in> set evs. now \<le> fst e"
    using Cons.prems(3) by (auto simp: e)
  show ?case
  proof (cases "q = p")
    case False
    then have "bucket r1 p = Some b" using upd Cons.prems(2) by simp
    from Cons.IH [OF rest this later(1)] show ?thesis
      using Cons.prems(4,5) False by (simp add: e as)
  next
    case True
    have tc: "try_consume now 1 b = Ok (b', a)" using t True Cons.prems(2) by simp
    have "bk_last_refill b \<le> now" "now \<le> stop" using Cons.prems(4) by (simp_all add: e)
    note s = try_consume_cases [OF tc this(1)]
    have b': "bucket r1 p = Some b'" using upd True by simp
    have "allowed_for p evs as' \<le> bk_tokens b' + unat (refill_amount (bk_config b'))
        * intervals_between (bk_config b') (bk_last_refill b') stop"
      using Cons.prems(4) later s(3) \<open>now \<le> stop\<close>
      by (intro Cons.IH [OF rest b']) (auto simp: e intro: order_trans)
    moreover have "unat (refill_amount (bk_config b))
          * intervals_between (bk_config b) (bk_last_refill b) (bk_last_refill b')
        + unat (refill_amount (bk_config b))
          * intervals_between (bk_config b) (bk_last_refill b') stop
        \<le> unat (refill_amount (bk_config b))
          * intervals_between (bk_config b) (bk_last_refill b) stop"
      using intervals_between_add [OF s(2) order_trans [OF s(3) \<open>now \<le> stop\<close>], of "bk_config b"]
      by (simp add: mult_le_mono2 flip: add_mult_distrib2)
    ultimately show ?thesis
      using s(1,4) True by (simp add: e as)
  qed
qed

lemma bounded_from_start:
  assumes "run_checks chk evs r = Ok (r', as)" and "bucket r p = None"
    and "sorted (map fst evs)" and "\<forall>e \<in> set evs. start \<le> fst e \<and> fst e \<le> stop"
  shows "allowed_for p evs as \<le> unat (max_tokens (conf r))
    + unat (refill_amount (conf r)) * intervals_between (conf r) start stop"
  using assms
proof (induction evs arbitrary: r as)
  case Nil
  then show ?case by simp
next
  case (Cons e evs)
  obtain now q where e: "e = (now, q)" by (cases e)
  obtain r1 a as' where c: "chk now q r = Ok (r1, a)" and as: "as = a # as'"
    and rest: "run_checks chk evs r1 = Ok (r', as')"
    using Cons.prems(1) by (auto simp: e res_bind_eq_Ok_iff res_map_eq_Ok_iff)
  obtain b' where t: "try_consume now 1 (case bucket r q of None \<Rightarrow> Bucket_new now (conf r) | Some b \<Rightarrow> b)
      = Ok (b', a)" and upd: "bucket r1 = (bucket r)(q \<mapsto> b')" "conf r1 = conf r"
    using chk_ok [OF c] by blast
  have later: "sorted (map fst evs)" "\<forall>e \<in> set evs. now \<le> fst e"
    and now: "start \<le> now" "now \<le> stop"
    using Cons.prems(3,4) by (auto simp: e)
  show ?case
  proof (cases "q = p")
    case False
    then have "bucket r1 p = None" using upd Cons.prems(2) by simp
    from Cons.IH [OF rest this later(1)] show ?thesis
      using Cons.prems(4) False upd(2) by (simp add: e as)
  next
    case True
    have tc: "try_consume now 1 (Bucket_new now (conf r)) = Ok (b', a)"
      using t True Cons.prems(2) by simp
    note s = try_consume_cases [OF tc, simplified]
    have b': "bucket r1 p = Some b'" using upd True by simp
    have at: "bk_last_refill b' = now" using s(2,3) by simp
    have "allowed_for p evs as' \<le> bk_tokens b' + unat (refill_amount (bk_config b'))
        * intervals_between (bk_config b') (bk_last_refill b') stop"
      using Cons.prems(4) later now at
      by (intro bounded_from_bucket [OF rest b']) (auto simp: e)
    moreover have "intervals_between (conf r) now stop \<le> intervals_between (conf r) start stop"
      using now by (simp add: intervals_between_def div_le_mono)
    then have "unat (refill_amount (conf r)) * intervals_between (conf r) now stop
        \<le> unat (refill_amount (conf r)) * intervals_between (conf r) start stop"
      by (rule mult_le_mono2)
    moreover have "bk_tokens b' + of_bool a \<le> unat (max_tokens (conf r))"
      using s(4) by (simp add: at intervals_between_def)
    ultimately have "of_bool a + allowed_for p evs as' \<le> unat (max_tokens (conf r))
        + unat (refill_amount (conf r)) * intervals_between (conf r) start stop"
      unfolding s(1) at by linarith
    then show ?thesis
      using True by (simp add: e as)
  qed
qed

lemma answer_after_eviction:
  assumes "bucket r' p = None" and "bucket r p = Some b" and "conf r' = conf r"
    and "bk_config b = conf r" and "stale t b" and "t \<le> now"
    and "0 < refill_interval_ms (conf r)" and "unat (refill_interval_ms (conf r)) * 2 < 2 ^ 64"
    and "unat (max_tokens (conf r)) \<le> 2 * unat (refill_amount (conf r))"
    and "(now - bk_last_refill b) div 1000000 < 2 ^ 64"
  shows "res_map snd (chk now p r') = res_map snd (chk now p r)"
  using stale_like_new [OF assms(5,6,4,7-10)] assms(1-3)
  by (simp add: chk_answer try_consume_def)

end

lemmas check_defs = check_call_def check_registration_def check_ws_message_def entry_or_insert_def

lemma res_map_snd_pair: "res_map snd (res_map (\<lambda>(b, a). (f b, a)) x) = res_map snd x"
  by (cases x) auto

interpretation calls: bucket_family check_call "\<lambda>r. map_of (rl_calls r)" "\<lambda>r. rlc_calls (rl_config r)"
  by unfold_locales
    (force simp: check_defs res_map_eq_Ok_iff update_conv', simp add: check_defs res_map_snd_pair)

interpretation registrations: bucket_family check_registration "\<lambda>r. map_of (rl_registrations r)"
    "\<lambda>r. rlc_registrations (rl_config r)"
  by unfold_locales
    (force simp: check_defs res_map_eq_Ok_iff update_conv', simp add: check_defs res_map_snd_pair)

interpretation ws_messages: bucket_family check_ws_message "\<lambda>r. map_of (rl_ws_messages r)"
    "\<lambda>r. rlc_ws_messages (rl_config r)"
  by unfold_locales
    (force simp: check_defs res_map_eq_Ok_iff update_conv', simp add: check_defs res_map_snd_pair)

section \<open>Well-formed limiters\<close>

fun action_buckets :: "Action \<Rightarrow> RateLimiter \<Rightarrow> buckets" where
  "action_buckets Call = rl_calls"
| "action_buckets Registration = rl_registrations"
| "action_buckets WsMessage = rl_ws_messages"

fun action_config :: "Action \<Rightarrow> RateLimiter \<Rightarrow> BucketConfig" where
  "action_config Call r = rlc_calls (rl_config r)"
| "action_config Registration r = rlc_registrations (rl_config r)"
| "action_config WsMessage r = rlc_ws_messages (rl_config r)"

text \<open>A bucket configuration that refills within two intervals and whose doubled interval fits.\<close>

definition bucket_config_ok :: "BucketConfig \<Rightarrow> bool" where
  "bucket_config_ok cfg \<longleftrightarrow> 0 < refill_interval_ms cfg \<and> unat (refill_interval_ms cfg) * 2 < 2 ^ 64
     \<and> unat (max_tokens cfg) \<le> 2 * unat (refill_amount cfg)"

definition family_ok :: "BucketConfig \<Rightarrow> buckets \<Rightarrow> bool" where
  "family_ok cfg m \<longleftrightarrow> bucket_config_ok cfg \<and> distinct (map fst m)
     \<and> list_all (\<lambda>(_, b). bk_config b = cfg \<and> bk_tokens b \<le> unat (max_tokens cfg)) m"

definition limiter_ok :: "RateLimiter \<Rightarrow> bool" where
  "limiter_ok r \<longleftrightarrow>
     list_all (\<lambda>act. family_ok (action_config act r) (action_buckets act r))
       [Call, Registration, WsMessage]"

lemma limiter_okD: "limiter_ok r \<Longrightarrow> family_ok (action_config act r) (action_buckets act r)"
  by (cases act) (simp_all add: limiter_ok_def)

lemma limiter_ok_new:
  "limiter_ok (RateLimiter_new cfg) \<longleftrightarrow> bucket_config_ok (rlc_calls cfg)
     \<and> bucket_config_ok (rlc_registrations cfg) \<and> bucket_config_ok (rlc_ws_messages cfg)"
  by (auto simp: limiter_ok_def RateLimiter_new_def family_ok_def)

lemma try_consume_ok:
  assumes "bucket_config_ok (bk_config b)" and "bk_tokens b \<le> unat (max_tokens (bk_config b))"
  shows "\<exists>b' a. try_consume now n b = Ok (b', a) \<and> bk_config b' = bk_config b
    \<and> bk_tokens b' \<le> unat (max_tokens (bk_config b))"
  using assms
  by (auto simp: try_consume_def refill_def bucket_config_ok_def Let_def)

lemma mem_alist_update:
  "(q, c) \<in> set (AList.update p b m) \<Longrightarrow> (q, c) = (p, b) \<or> (q, c) \<in> set m"
  by (induction m) (auto split: if_splits)

lemma family_ok_update:
  "family_ok cfg m \<Longrightarrow> bk_config b = cfg \<Longrightarrow> bk_tokens b \<le> unat (max_tokens cfg)
    \<Longrightarrow> family_ok cfg (AList.update p b m)"
  by (auto simp: family_ok_def distinct_update list_all_iff dest!: mem_alist_update)

lemma family_ok_filter: "family_ok cfg m \<Longrightarrow> family_ok cfg (filter P m)"
  by (auto simp: family_ok_def list_all_iff distinct_map_filter)

lemma family_ok_delete: "family_ok cfg m \<Longrightarrow> family_ok cfg (AList.delete p m)"
  by (simp add: AList.delete_eq family_ok_filter)

lemma family_ok_evict: "family_ok cfg m \<Longrightarrow> family_ok cfg (evict_overflow pick limit m)"
proof (induction pick limit m rule: evict_overflow.induct)
  case (1 pick limit m)
  then show ?case
    by (subst evict_overflow.simps) (simp add: family_ok_delete)
qed

lemma length_evict_overflow: "length (evict_overflow pick limit m) \<le> max limit (length m)"
proof (induction pick limit m rule: evict_overflow.induct)
  case (1 pick limit m)
  show ?case
  proof (cases "limit < length m")
    case True
    then show ?thesis
      using 1 [OF True] length_delete_le [of "fst (m ! (pick m mod length m))" m]
      by (subst evict_overflow.simps) simp
  qed (subst evict_overflow.simps, simp)
qed

lemma family_ok_entry:
  "family_ok cfg m \<Longrightarrow> bk_config (entry_or_insert now cfg m p) = cfg
     \<and> bk_tokens (entry_or_insert now cfg m p) \<le> unat (max_tokens cfg)"
  by (auto simp: entry_or_insert_def family_ok_def list_all_iff split: option.splits
      dest!: map_of_SomeD)

lemma limiter_ok_check:
  assumes "limiter_ok r"
  shows "\<exists>r' a. rate_check act now p r = Ok (r', a) \<and> limiter_ok r'"
proof -
  let ?b = "entry_or_insert now (action_config act r) (action_buckets act r) p"
  have fam: "family_ok (action_config act r) (action_buckets act r)"
    using assms by (rule limiter_okD)
  have b: "bk_config ?b = action_config act r" "bk_tokens ?b \<le> unat (max_tokens (bk_config ?b))"
    using family_ok_entry [OF fam] by auto
  have "bucket_config_ok (bk_config ?b)"
    using fam b by (simp add: family_ok_def)
  from try_consume_ok [OF this b(2), of now 1]
  obtain b' a where t: "try_consume now 1 ?b = Ok (b', a)" "bk_config b' = action_config act r"
    "bk_tokens b' \<le> unat (max_tokens (action_config act r))"
    using b(1) by auto
  note upd = family_ok_update [OF fam t(2,3), of p]
  show ?thesis
    using assms t(1) upd by (cases act) (auto simp: check_call_def check_registration_def
        check_ws_message_def limiter_ok_def)
qed

lemma limiter_ok_remove_peer: "limiter_ok r \<Longrightarrow> limiter_ok (remove_peer p r)"
  by (simp add: limiter_ok_def remove_peer_def family_ok_delete)

lemma cleanup_map_ok:
  assumes "family_ok cfg m"
  shows "cleanup_map oc now pick limit m
    = Ok (evict_overflow pick limit (filter (\<lambda>(_, b). \<not> stale now b) m))"
  using assms
  by (auto simp: cleanup_map_def family_ok_def bucket_config_ok_def list_all_iff list_ex_iff)

lemma limiter_ok_cleanup:
  assumes "limiter_ok r"
  shows "\<exists>r'. cleanup oc now pick r = Ok r' \<and> limiter_ok r' \<and> rl_config r' = rl_config r
    \<and> (\<forall>act. action_buckets act r' = evict_overflow pick (rlc_max_entries (rl_config r))
              (filter (\<lambda>(_, b). \<not> stale now b) (action_buckets act r)))"
proof -
  note ok = limiter_okD [OF assms, of Call] limiter_okD [OF assms, of Registration]
    limiter_okD [OF assms, of WsMessage]
  show ?thesis
    using ok
    by (auto simp: cleanup_def Let_def cleanup_map_ok limiter_ok_def family_ok_evict family_ok_filter
        intro: Action.induct)
qed

lemma map_of_filter_value:
  assumes "distinct (map fst m)"
  shows "map_of (filter (\<lambda>(_, v). P v) m) k
    = (case map_of m k of Some v \<Rightarrow> if P v then Some v else None | None \<Rightarrow> None)"
  using assms
  by (induction m) (auto split: option.splits dest: map_of_SomeD intro: rev_image_eqI)

lemma run_checks_ok:
  "limiter_ok r \<Longrightarrow> \<exists>r' as. run_checks (rate_check act) evs r = Ok (r', as) \<and> limiter_ok r'
     \<and> length as = length evs"
proof (induction evs arbitrary: r)
  case Nil
  then show ?case by simp
next
  case (Cons e evs)
  obtain now q where e: "e = (now, q)" by (cases e)
  obtain r1 a where c: "rate_check act now q r = Ok (r1, a)" "limiter_ok r1"
    using limiter_ok_check [OF Cons.prems] by blast
  from Cons.IH [OF this(2)] c(1) show ?case by (auto simp: e)
qed

text \<open>The check selected by an action keeps the contract of its family.\<close>

interpretation acts: bucket_family "rate_check act" "\<lambda>r. map_of (action_buckets act r)"
    "action_config act" for act
proof
  fix now p r r' a
  assume "rate_check act now p r = Ok (r', a)"
  then show "\<exists>b'. try_consume now 1 (case map_of (action_buckets act r) p of
        None \<Rightarrow> Bucket_new now (action_config act r) | Some b \<Rightarrow> b) = Ok (b', a)
      \<and> map_of (action_buckets act r') = (map_of (action_buckets act r))(p \<mapsto> b')
      \<and> action_config act r' = action_config act r"
    using calls.chk_ok [of now p r r' a] registrations.chk_ok [of now p r r' a]
      ws_messages.chk_ok [of now p r r' a]
    by (cases act) (simp_all cong: option.case_cong)
next
  fix now p r
  show "res_map snd (rate_check act now p r) = res_map snd (try_consume now 1
      (case map_of (action_buckets act r) p of
        None \<Rightarrow> Bucket_new now (action_config act r) | Some b \<Rightarrow> b))"
    using calls.chk_answer registrations.chk_answer ws_messages.chk_answer
    by (cases act) (simp_all cong: option.case_cong)
qed

text \<open>Whether an action is allowed depends on its own buckets only.\<close>

lemma checks_independent:
  "check_ws_message now p l = Ok (l1, b) \<Longrightarrow>
     res_map snd (check_registration now' q l1) = res_map snd (check_registration now' q l)"
  "check_ws_message now p l = Ok (l1, b) \<Longrightarrow>
     res_map snd (check_call now' q l1) = res_map snd (check_call now' q l)"
  "check_registration now p l = Ok (l1, b) \<Longrightarrow>
     res_map snd (check_call now' q l1) = res_map snd (check_call now' q l)"
  by (auto simp: check_ws_message_def check_registration_def check_call_def res_map_eq_Ok_iff res_map_snd)

section \<open>Properties\<close>




definition worn_limiter :: RateLimiter where
  "worn_limiter = (RateLimiter_new RateLimitConfig_default)
     \<lparr>rl_calls := [(''a'', (Bucket_new 0 BucketConfig_CALLS)\<lparr>bk_tokens := 0\<rparr>)]\<rparr>"


text \<open>Removing a peer forgets its spent budget: a client that unregisters or reconnects starts
  with a full bucket.\<close>

lemma remove_peer_resets_budget:
  assumes "limiter_ok r" and "0 < unat (max_tokens (action_config act r))"
  shows "res_map snd (rate_check act now p (remove_peer p r)) = Ok True"
proof -
  have "map_of (action_buckets act (remove_peer p r)) p = None"
    and "action_config act (remove_peer p r) = action_config act r"
    by (cases act; simp add: remove_peer_def delete_conv')+
  then show ?thesis
    using assms limiter_okD [OF assms(1), of act]
    by (auto simp: acts.chk_answer try_consume_def refill_def family_ok_def bucket_config_ok_def Let_def)
qed

end
