(* ===== verification/Lru_Cache.thy ===== *)
theory Lru_Cache
  imports Voip_Prelude "HOL-Library.AList"
begin

text \<open>
  The interface of the third-party \<open>lru::LruCache\<close> with string keys, as the signaling server uses
  it (\<open>src/crates/voip-signaling/src/state.rs\<close>): the record \<open>lru_ops\<close> of its operations, which is
  an argument of the server model, and the locale \<open>lru_cache\<close> of its documented laws.  \<open>get\<close> and
  \<open>get_mut\<close> only change the recency order; \<open>get_mut\<close> yields the value and how to write it back;
  \<open>put\<close> may evict other entries.  A recency list implements the interface.
\<close>

record ('c, 'v) lru_ops =
  lru_new :: "nat \<Rightarrow> 'c"
  lru_get :: "'c \<Rightarrow> string \<Rightarrow> 'c \<times> 'v option"
  lru_get_mut :: "'c \<Rightarrow> string \<Rightarrow> ('v \<times> ('v \<Rightarrow> 'c)) option"
  lru_contains :: "'c \<Rightarrow> string \<Rightarrow> bool"
  lru_put :: "'c \<Rightarrow> string \<Rightarrow> 'v \<Rightarrow> 'c"
  lru_pop :: "'c \<Rightarrow> string \<Rightarrow> 'c \<times> 'v option"

locale lru_cache =
  fixes ops :: "('c, 'v) lru_ops" and lookup :: "'c \<Rightarrow> string \<Rightarrow> 'v option"
  assumes new_empty: "0 < n \<Longrightarrow> lookup (lru_new ops n) k = None"
    and get_value: "snd (lru_get ops c k) = lookup c k"
    and get_keeps: "lookup (fst (lru_get ops c k)) = lookup c"
    and get_mut_none: "lru_get_mut ops c k = None \<longleftrightarrow> lookup c k = None"
    and get_mut_some: "lru_get_mut ops c k = Some (v, w) \<Longrightarrow>
      lookup c k = Some v \<and> (\<forall>v'. lookup (w v') = (lookup c)(k \<mapsto> v'))"
    and contains_iff: "lru_contains ops c k \<longleftrightarrow> lookup c k \<noteq> None"
    and put_same: "lookup (lru_put ops c k v) k = Some v"
    and put_other: "k' \<noteq> k \<Longrightarrow> lookup (lru_put ops c k v) k' = lookup c k'
      \<or> lookup (lru_put ops c k v) k' = None"
    and pop_value: "snd (lru_pop ops c k) = lookup c k"
    and pop_keeps: "lookup (fst (lru_pop ops c k)) = (lookup c)(k := None)"
begin

lemma get_cases: "lru_get ops c k = (c', r) \<Longrightarrow> r = lookup c k \<and> lookup c' = lookup c"
  using get_value [of c k] get_keeps [of c k] by simp

lemma pop_cases:
  "lru_pop ops c k = (c', r) \<Longrightarrow> r = lookup c k \<and> lookup c' = (lookup c)(k := None)"
  using pop_value [of c k] pop_keeps [of c k] by simp

lemma put_found:
  "lookup (lru_put ops c k v) k' = Some v' \<Longrightarrow> k' = k \<and> v' = v \<or> lookup c k' = Some v'"
  using put_same [of c k v] put_other [of k' k c v] by (cases "k' = k") auto

end

section \<open>A recency list\<close>

type_synonym 'v lru_list = "nat \<times> (string \<times> 'v) list"

definition touch :: "string \<Rightarrow> 'v \<Rightarrow> (string \<times> 'v) list \<Rightarrow> (string \<times> 'v) list" where
  "touch k v xs = (k, v) # AList.delete k xs"

definition lru_list_ops :: "('v lru_list, 'v) lru_ops" where
  "lru_list_ops =
     \<lparr> lru_new = (\<lambda>n. (n, [])),
       lru_get = (\<lambda>(n, xs) k. case map_of xs k of
           Some v \<Rightarrow> ((n, touch k v xs), Some v) | None \<Rightarrow> ((n, xs), None)),
       lru_get_mut = (\<lambda>(n, xs) k. case map_of xs k of
           Some v \<Rightarrow> Some (v, \<lambda>v'. (n, touch k v' xs)) | None \<Rightarrow> None),
       lru_contains = (\<lambda>(n, xs) k. map_of xs k \<noteq> None),
       lru_put = (\<lambda>(n, xs) k v. (n, take (max 1 n) (touch k v xs))),
       lru_pop = (\<lambda>(n, xs) k. ((n, AList.delete k xs), map_of xs k)) \<rparr>"

definition lru_list_lookup :: "'v lru_list \<Rightarrow> string \<Rightarrow> 'v option" where
  "lru_list_lookup c = map_of (snd c)"

lemma map_of_touch [simp]: "map_of (touch k v xs) = (map_of xs)(k \<mapsto> v)"
  by (auto simp: touch_def delete_conv' fun_eq_iff)

lemma map_of_take_cases: "map_of (take n xs) k = map_of xs k \<or> map_of (take n xs) k = None"
proof (induction xs arbitrary: n)
  case Nil
  then show ?case by simp
next
  case (Cons x xs)
  show ?case using Cons [of "n - 1"] by (cases n) auto
qed

interpretation lru_list: lru_cache lru_list_ops lru_list_lookup
proof
  fix c :: "'v lru_list" and k k' :: string and v v' :: 'v and w
  obtain n xs where c: "c = (n, xs)" by (cases c)
  show "lru_list_lookup (lru_put lru_list_ops c k v) k = Some v"
    by (simp add: c lru_list_ops_def lru_list_lookup_def touch_def take_Cons' max_def)
  show "lru_list_lookup (lru_put lru_list_ops c k v) k' = lru_list_lookup c k'
      \<or> lru_list_lookup (lru_put lru_list_ops c k v) k' = None" if "k' \<noteq> k"
    using map_of_take_cases [of "max 1 n" "touch k v xs" k'] that
    by (simp add: c lru_list_ops_def lru_list_lookup_def)
  show "lru_list_lookup c k = Some v \<and> (\<forall>v'. lru_list_lookup (w v') = (lru_list_lookup c)(k \<mapsto> v'))"
    if "lru_get_mut lru_list_ops c k = Some (v, w)"
    using that by (auto simp: c lru_list_ops_def lru_list_lookup_def split: option.splits)
  show "lru_list_lookup (fst (lru_get lru_list_ops c k)) = lru_list_lookup c"
    by (auto simp: c lru_list_ops_def lru_list_lookup_def fun_eq_iff split: option.splits)
qed (auto simp: lru_list_ops_def lru_list_lookup_def delete_conv' split: option.splits)

end
