(* ===== verification/Sig_Frame.thy ===== *)
theory Sig_Frame
  imports Core_Types
begin

text \<open>
  Framing and errors of the signaling protocol: the type identifiers, \<open>FramedMessage\<close> and the
  framing functions of \<open>src/crates/voip-signaling/src/state.rs\<close>, the error type of
  \<open>src/crates/voip-signaling/src/error.rs\<close>, and the messages of \<open>src/proto/signaling.proto\<close>
  that the server reads and writes.

  The protobuf code is generated by the build; the record \<open>sig_codec\<close> of its encoders and
  decoders is an argument of every definition that uses it.
\<close>

section \<open>Errors\<close>

datatype SignalingError =
    UnknownPeer string
  | PeerOffline string
  | InvalidCallId string
  | CallAlreadyExists string
  | NotCallParticipant string
  | PeerAlreadyRegistered string
  | RateLimited
  | InvalidJwt string
  | InvalidMessage string
  | Unauthorized string
  | MasqueNoProxy
  | MasqueProxyTimeout
  | MasqueCoordinationFailed
  | ProxyTokenInvalid string
  | ProxyTokenExpired string
  | Internal string

fun SignalingError_code :: "SignalingError \<Rightarrow> u32" where
  "SignalingError_code (UnknownPeer _) = 1001"
| "SignalingError_code (PeerOffline _) = 1002"
| "SignalingError_code (InvalidCallId _) = 1003"
| "SignalingError_code (CallAlreadyExists _) = 1004"
| "SignalingError_code (NotCallParticipant _) = 1005"
| "SignalingError_code (PeerAlreadyRegistered _) = 1006"
| "SignalingError_code RateLimited = 2001"
| "SignalingError_code (InvalidJwt _) = 2002"
| "SignalingError_code (InvalidMessage _) = 2003"
| "SignalingError_code (Unauthorized _) = 2004"
| "SignalingError_code MasqueNoProxy = 3001"
| "SignalingError_code MasqueProxyTimeout = 3002"
| "SignalingError_code MasqueCoordinationFailed = 3003"
| "SignalingError_code (ProxyTokenInvalid _) = 3004"
| "SignalingError_code (ProxyTokenExpired _) = 3005"
| "SignalingError_code (Internal _) = 9999"

fun http_status :: "SignalingError \<Rightarrow> u16" where
  "http_status (UnknownPeer _) = 404"
| "http_status (PeerOffline _) = 404"
| "http_status (InvalidCallId _) = 400"
| "http_status (InvalidMessage _) = 400"
| "http_status (CallAlreadyExists _) = 409"
| "http_status (PeerAlreadyRegistered _) = 409"
| "http_status (NotCallParticipant _) = 403"
| "http_status RateLimited = 429"
| "http_status (InvalidJwt _) = 401"
| "http_status (Unauthorized _) = 401"
| "http_status MasqueNoProxy = 503"
| "http_status MasqueProxyTimeout = 503"
| "http_status MasqueCoordinationFailed = 503"
| "http_status (ProxyTokenInvalid _) = 400"
| "http_status (ProxyTokenExpired _) = 401"
| "http_status (Internal _) = 500"

text \<open>The \<open>Display\<close> text derived from the \<open>#[error]\<close> attributes.\<close>

fun SignalingError_to_string :: "SignalingError \<Rightarrow> string" where
  "SignalingError_to_string (UnknownPeer s) = ''unknown peer: '' @ s"
| "SignalingError_to_string (PeerOffline s) = ''peer offline: '' @ s"
| "SignalingError_to_string (InvalidCallId s) = ''invalid call ID: '' @ s"
| "SignalingError_to_string (CallAlreadyExists s) = ''call already exists: '' @ s"
| "SignalingError_to_string (NotCallParticipant s) = ''not a call participant: '' @ s"
| "SignalingError_to_string (PeerAlreadyRegistered s) = ''peer already registered: '' @ s"
| "SignalingError_to_string RateLimited = ''rate limited''"
| "SignalingError_to_string (InvalidJwt s) = ''invalid JWT: '' @ s"
| "SignalingError_to_string (InvalidMessage s) = ''invalid message: '' @ s"
| "SignalingError_to_string (Unauthorized s) = ''unauthorized: '' @ s"
| "SignalingError_to_string MasqueNoProxy = ''MASQUE no proxy available''"
| "SignalingError_to_string MasqueProxyTimeout = ''MASQUE proxy timeout''"
| "SignalingError_to_string MasqueCoordinationFailed = ''MASQUE coordination failed''"
| "SignalingError_to_string (ProxyTokenInvalid s) = ''proxy token invalid: '' @ s"
| "SignalingError_to_string (ProxyTokenExpired s) = ''proxy token expired: '' @ s"
| "SignalingError_to_string (Internal s) = ''internal error: '' @ s"

record ErrorResponse =
  er_code :: u32
  er_message :: string

definition into_response :: "SignalingError \<Rightarrow> u16 \<times> ErrorResponse" where
  "into_response e =
     (http_status e, \<lparr> er_code = SignalingError_code e, er_message = SignalingError_to_string e \<rparr>)"

section \<open>Frames\<close>

definition CALL_REQUEST_CS :: u16 where [simp]: "CALL_REQUEST_CS = 0x0001"
definition CALL_REQUEST_SC :: u16 where [simp]: "CALL_REQUEST_SC = 0x0002"
definition CALL_ACCEPT_CS :: u16 where [simp]: "CALL_ACCEPT_CS = 0x0003"
definition CALL_ACCEPT_SC :: u16 where [simp]: "CALL_ACCEPT_SC = 0x0004"
definition CALL_REJECT_CS :: u16 where [simp]: "CALL_REJECT_CS = 0x0005"
definition CALL_REJECT_SC :: u16 where [simp]: "CALL_REJECT_SC = 0x0006"
definition CALL_FAILED :: u16 where [simp]: "CALL_FAILED = 0x0007"
definition CALL_ENDED :: u16 where [simp]: "CALL_ENDED = 0x0008"
definition PUSH_RETRY :: u16 where [simp]: "PUSH_RETRY = 0x0009"
definition PEER_REGISTER :: u16 where [simp]: "PEER_REGISTER = 0x0100"
definition PEER_UNREGISTER :: u16 where [simp]: "PEER_UNREGISTER = 0x0101"
definition PATH_PROBE_RESPONSE :: u16 where [simp]: "PATH_PROBE_RESPONSE = 0x0200"
definition MASQUE_RELAY_NEEDED :: u16 where [simp]: "MASQUE_RELAY_NEEDED = 0x0300"
definition ERROR_MESSAGE :: u16 where [simp]: "ERROR_MESSAGE = 0x8001"

record FramedMessage =
  fm_type_id :: u16
  fm_payload :: bytes

definition encode_message :: "u16 \<Rightarrow> bytes \<Rightarrow> bytes" where
  "encode_message type_id payload = be_bytes 2 (unat type_id) @ payload"

definition decode_message :: "bytes \<Rightarrow> (u16 \<times> bytes, SignalingError) result" where
  "decode_message bs =
     (if length bs < 2
      then Err (InvalidMessage ''message too short: need at least 2 bytes for type ID'')
      else Ok (of_nat (be_val (take 2 bs)), drop 2 bs))"

definition FramedMessage_to_bytes :: "FramedMessage \<Rightarrow> bytes" where
  "FramedMessage_to_bytes m = encode_message (fm_type_id m) (fm_payload m)"

definition FramedMessage_from_bytes :: "bytes \<Rightarrow> FramedMessage option" where
  "FramedMessage_from_bytes bs =
     (case decode_message bs of
        Ok (t, p) \<Rightarrow> Some \<lparr> fm_type_id = t, fm_payload = p \<rparr>
      | _ \<Rightarrow> None)"

section \<open>Messages\<close>

record PeerRegister =
  rg_peer_id :: string
  rg_display_name :: string
  rg_ipv6_addresses :: "string list"
  rg_ipv4_reflexive :: "string list"
  rg_nat_info :: "NatInfo_proto option"
  rg_tracks :: "TrackAnnouncement_proto list"
  rg_status :: i32
  rg_fcm_token :: string

record PeerUnregister =
  ur_peer_id :: string

record CallRequest =
  cr_call_id :: string
  cr_caller_id :: string
  cr_callee_id :: string
  cr_ipv6_addresses :: "string list"
  cr_ipv4_reflexive :: "string list"
  cr_nat_info :: "NatInfo_proto option"
  cr_tracks :: "TrackAnnouncement_proto list"
  cr_discovery_method :: i32
  cr_timestamp :: u64
  cr_connection_id :: bytes

record CallAccept =
  ca_call_id :: string
  ca_ipv6_addresses :: "string list"
  ca_ipv4_reflexive :: "string list"
  ca_nat_info :: "NatInfo_proto option"
  ca_tracks :: "TrackAnnouncement_proto list"
  ca_subscriptions :: "(string \<times> u32) list"
  ca_timestamp :: u64

record CallReject =
  cj_call_id :: string
  cj_reason :: string
  cj_end_reason :: i32

record CallFailed =
  cf_call_id :: string
  cf_reason :: i32
  cf_description :: string
  cf_timestamp :: u64

record CallEnded =
  ce_call_id :: string
  ce_reason :: i32
  ce_duration_seconds :: u64
  ce_method :: i32
  ce_discovery_method :: i32
  ce_timestamp :: u64

record PushRetry =
  pr_call_id :: string
  pr_caller_id :: string
  pr_callee_id :: string
  pr_reason :: i32
  pr_retry_attempt :: u32
  pr_retry_after_ms :: u64

record ProxyToken_proto =
  pt_peer_id :: string
  pt_target_peer_id :: string
  pt_issued_at :: u64
  pt_ttl_seconds :: u32
  pt_signature :: bytes

record MasqueRelayNeeded =
  mr_call_id :: string
  mr_proxy_url :: string
  mr_wait_timeout_ms :: u32
  mr_proxy_token :: "ProxyToken_proto option"

text \<open>The generated encoders and decoders the server uses.\<close>

record sig_codec =
  dec_PeerRegister :: "bytes \<Rightarrow> PeerRegister option"
  dec_PeerUnregister :: "bytes \<Rightarrow> PeerUnregister option"
  dec_CallRequest :: "bytes \<Rightarrow> CallRequest option"
  dec_CallAccept :: "bytes \<Rightarrow> CallAccept option"
  dec_CallReject :: "bytes \<Rightarrow> CallReject option"
  dec_CallFailed :: "bytes \<Rightarrow> CallFailed option"
  dec_CallEnded :: "bytes \<Rightarrow> CallEnded option"
  enc_Error :: "u32 \<Rightarrow> string \<Rightarrow> bytes"
  enc_PushRetry :: "PushRetry \<Rightarrow> bytes"
  enc_MasqueRelayNeeded :: "MasqueRelayNeeded \<Rightarrow> bytes"
  enc_ProxyToken :: "ProxyToken_proto \<Rightarrow> bytes"

definition FramedMessage_error :: "sig_codec \<Rightarrow> u32 \<Rightarrow> string \<Rightarrow> FramedMessage" where
  "FramedMessage_error cd code msg =
     \<lparr> fm_type_id = ERROR_MESSAGE, fm_payload = enc_Error cd code msg \<rparr>"

text \<open>A simple codec for concrete runs: identifiers in plain text, separated by commas.\<close>

definition comma_part :: "nat \<Rightarrow> bytes \<Rightarrow> string" where
  "comma_part n bs =
     takeWhile (\<lambda>c. c \<noteq> CHR '','')
       (((\<lambda>s. drop 1 (dropWhile (\<lambda>c. c \<noteq> CHR '','') s)) ^^ n) (bytes_str bs))"

definition plain_codec :: sig_codec where
  "plain_codec =
     \<lparr> dec_PeerRegister = (\<lambda>bs. Some \<lparr> rg_peer_id = comma_part 0 bs, rg_display_name = comma_part 1 bs,
         rg_ipv6_addresses = [], rg_ipv4_reflexive = [], rg_nat_info = None, rg_tracks = [],
         rg_status = 0, rg_fcm_token = comma_part 2 bs \<rparr>),
       dec_PeerUnregister = (\<lambda>bs. Some \<lparr> ur_peer_id = comma_part 0 bs \<rparr>),
       dec_CallRequest = (\<lambda>bs. Some \<lparr> cr_call_id = comma_part 0 bs, cr_caller_id = comma_part 1 bs,
         cr_callee_id = comma_part 2 bs, cr_ipv6_addresses = [], cr_ipv4_reflexive = [],
         cr_nat_info = None, cr_tracks = [], cr_discovery_method = 0, cr_timestamp = 0,
         cr_connection_id = [] \<rparr>),
       dec_CallAccept = (\<lambda>bs. Some \<lparr> ca_call_id = comma_part 0 bs, ca_ipv6_addresses = [],
         ca_ipv4_reflexive = [], ca_nat_info = None, ca_tracks = [], ca_subscriptions = [],
         ca_timestamp = 0 \<rparr>),
       dec_CallReject = (\<lambda>bs. Some \<lparr> cj_call_id = comma_part 0 bs, cj_reason = comma_part 1 bs,
         cj_end_reason = 0 \<rparr>),
       dec_CallFailed = (\<lambda>bs. Some \<lparr> cf_call_id = comma_part 0 bs,
         cf_reason = of_nat (length (comma_part 1 bs)), cf_description = comma_part 2 bs,
         cf_timestamp = 0 \<rparr>),
       dec_CallEnded = (\<lambda>bs. Some \<lparr> ce_call_id = comma_part 0 bs, ce_reason = 0,
         ce_duration_seconds = 0, ce_method = 0, ce_discovery_method = 0, ce_timestamp = 0 \<rparr>),
       enc_Error = (\<lambda>code msg. be_bytes 4 (unat code) @ str_bytes msg),
       enc_PushRetry = (\<lambda>m. be_bytes 4 (unat (pr_retry_attempt m)) @ str_bytes (pr_call_id m)),
       enc_MasqueRelayNeeded = (\<lambda>m. str_bytes (mr_call_id m @ '','' @ mr_proxy_url m)
         @ (case mr_proxy_token m of Some t \<Rightarrow> pt_signature t | None \<Rightarrow> [])),
       enc_ProxyToken = (\<lambda>t. str_bytes (pt_peer_id t @ '','' @ pt_target_peer_id t)
         @ pt_signature t) \<rparr>"

section \<open>Properties\<close>

lemma decode_encode_message [wire_simps]: "decode_message (encode_message t p) = Ok (t, p)"
proof -
  have "be_val (be_bytes 2 (unat t)) = unat t"
    by (rule be_val_be_bytes_id) simp
  then show ?thesis
    by (simp add: decode_message_def encode_message_def)
qed

lemma framed_bytes: "FramedMessage_from_bytes (FramedMessage_to_bytes m) = Some m"
  "\<not> length (FramedMessage_to_bytes m) < 2"
proof -
  show "FramedMessage_from_bytes (FramedMessage_to_bytes m) = Some m"
    by (simp add: FramedMessage_from_bytes_def FramedMessage_to_bytes_def wire_simps)
  show "\<not> length (FramedMessage_to_bytes m) < 2"
    by (simp add: FramedMessage_to_bytes_def encode_message_def)
qed

lemma encode_decode_message:
  assumes "decode_message bs = Ok (t, p)"
  shows "encode_message t p = bs"
proof -
  have l: "2 \<le> length bs" and t: "t = of_nat (be_val (take 2 bs))" and p: "p = drop 2 bs"
    using assms by (auto simp: decode_message_def split: if_splits)
  have len: "length (take 2 bs) = 2"
    using l by simp
  then have "be_val (take 2 bs) < 256 ^ 2"
    using be_val_bound [of "take 2 bs"] by simp
  then have "unat t = be_val (take 2 bs)"
    by (simp add: t unat_of_nat)
  then show ?thesis
    using be_bytes_be_val [of "take 2 bs"] len by (simp add: encode_message_def p)
qed

text \<open>An error answered over HTTP and over the WebSocket is the same error: the wire code
  determines the status of the response.\<close>

lemma http_status_from_code:
  "SignalingError_code e = SignalingError_code e' \<Longrightarrow> http_status e = http_status e'"
  by (cases e; cases e') simp_all

text \<open>Framing is a bijection between frames and the byte strings of at least two bytes.  A
  frame reads back from its wire form, every accepted byte string is the wire form of the frame
  read from it, and the only refused ones are too short.\<close>

lemma frame_round_trip:
  "FramedMessage_from_bytes (FramedMessage_to_bytes m) = Some m
   \<and> (case FramedMessage_from_bytes bs of
        Some m' \<Rightarrow> FramedMessage_to_bytes m' = bs
      | None \<Rightarrow> length bs < 2)"
proof -
  have "FramedMessage_from_bytes (FramedMessage_to_bytes m) = Some m"
    by (rule framed_bytes(1))
  moreover have "case FramedMessage_from_bytes bs of
      Some m' \<Rightarrow> FramedMessage_to_bytes m' = bs | None \<Rightarrow> length bs < 2"
  proof (cases "decode_message bs")
    case (Ok tp)
    then show ?thesis
      by (cases tp) (simp add: FramedMessage_from_bytes_def FramedMessage_to_bytes_def
          encode_decode_message)
  qed (auto simp: FramedMessage_from_bytes_def decode_message_def split: if_splits)
  ultimately show ?thesis ..
qed

end
