(* ===== verification/Sig_State.thy ===== *)
theory Sig_State
  imports Core_Config Rate_Limit Lru_Cache Sig_Frame
begin

text \<open>
  The shared state of the signaling server and its operations (\<open>AppState\<close> of
  \<open>src/crates/voip-signaling/src/state.rs\<close>).

  The peer and call registries are \<open>LruCache\<close>s, reached through the operations in \<open>server_env\<close>.
  A session's channel is a session number; \<open>outbox\<close> is the sequence of frames put into all
  channels, and \<open>mo_alive\<close> tells whether a session still receives.  Every operation runs under
  the lock of what it changes, so it is one atomic step; clock readings come from the \<open>moment\<close>.
\<close>

section \<open>State\<close>

record PeerInfo =
  pi_peer_id :: string
  pi_display_name :: string
  pi_ipv6_addresses :: "string list"
  pi_ipv4_reflexive :: "string list"
  pi_nat_type :: i32
  pi_status :: i32
  pi_fcm_token :: "string option"
  pi_last_seen :: u64

type_synonym session = nat

record PeerEntry =
  pe_info :: PeerInfo
  pe_sender :: "session option"

record CallEntry =
  cl_call_id :: string
  cl_caller_id :: string
  cl_callee_id :: string
  cl_state :: i32
  cl_connection_method :: i32
  cl_discovery_method :: i32
  cl_created_at :: u64
  cl_connected_at :: "u64 option"
  cl_ended_at :: "u64 option"
  cl_failure_reason :: "string option"
  cl_retry_count :: u32

record ProxyInfo =
  px_node_id :: string
  px_proxy_url :: string
  px_capacity :: u32
  px_region :: string
  px_latency_hint_ms :: u32

record ('p, 'c) AppState =
  as_peers :: 'p
  as_calls :: 'c
  as_rate_limiter :: RateLimiter
  as_proxies :: "ProxyInfo list"
  as_server_ips :: "string list"
  as_config :: VoIPConfig
  as_dht_bootstrap :: "string list"
  as_outbox :: "(session \<times> FramedMessage) list"

text \<open>The libraries: the two caches, the protobuf code and the server's Ed25519 signature; and
  whether the build checks for overflow.\<close>

record ('p, 'c) server_env =
  se_peers :: "('p, PeerEntry) lru_ops"
  se_calls :: "('c, CallEntry) lru_ops"
  se_codec :: sig_codec
  se_sign :: "bytes \<Rightarrow> bytes"
  se_oc :: bool

record moment =
  mo_now_secs :: u64
  mo_instant :: nat
  mo_alive :: "session \<Rightarrow> bool"

definition AppState_new ::
  "('p, 'c) server_env \<Rightarrow> RateLimitConfig \<Rightarrow> string list \<Rightarrow> VoIPConfig \<Rightarrow> ('p, 'c) AppState" where
  "AppState_new E rate_limit_config server_ips cfg =
     \<lparr> as_peers = lru_new (se_peers E) 10000, as_calls = lru_new (se_calls E) 1000,
       as_rate_limiter = RateLimiter_new rate_limit_config, as_proxies = [],
       as_server_ips = server_ips, as_config = cfg,
       as_dht_bootstrap = dht_bootstrap_nodes cfg, as_outbox = [] \<rparr>"

section \<open>Peers\<close>

definition register_peer ::
  "('p, 'c) server_env \<Rightarrow> PeerInfo \<Rightarrow> session option \<Rightarrow> ('p, 'c) AppState
     \<Rightarrow> ('p, 'c) AppState \<times> (unit, SignalingError) result" where
  "register_peer E info sender st =
     (case lru_get_mut (se_peers E) (as_peers st) (pi_peer_id info) of
        Some (existing, write) \<Rightarrow>
          (st\<lparr>as_peers := write (existing\<lparr> pe_info := info,
              pe_sender := (if sender \<noteq> None then sender else pe_sender existing) \<rparr>)\<rparr>, Ok ())
      | None \<Rightarrow>
          (st\<lparr>as_peers := lru_put (se_peers E) (as_peers st) (pi_peer_id info)
                            \<lparr> pe_info = info, pe_sender = sender \<rparr>\<rparr>, Ok ()))"

definition unregister_peer ::
  "('p, 'c) server_env \<Rightarrow> string \<Rightarrow> ('p, 'c) AppState
     \<Rightarrow> ('p, 'c) AppState \<times> (unit, SignalingError) result" where
  "unregister_peer E peer_id st =
     (case lru_pop (se_peers E) (as_peers st) peer_id of
        (peers, Some _) \<Rightarrow>
          (st\<lparr>as_peers := peers, as_rate_limiter := remove_peer peer_id (as_rate_limiter st)\<rparr>, Ok ())
      | (peers, None) \<Rightarrow> (st\<lparr>as_peers := peers\<rparr>, Ok ()))"

definition disconnect_peer ::
  "('p, 'c) server_env \<Rightarrow> string \<Rightarrow> ('p, 'c) AppState \<Rightarrow> ('p, 'c) AppState" where
  "disconnect_peer E peer_id st =
     (case lru_get_mut (se_peers E) (as_peers st) peer_id of
        Some (entry, write) \<Rightarrow>
          if pe_sender entry = None \<and> pi_status (pe_info entry) = 1
          then st\<lparr>as_peers := write entry\<rparr>
          else st\<lparr>as_peers := write (entry\<lparr> pe_sender := None,
                      pe_info := (pe_info entry)\<lparr>pi_status := 1\<rparr> \<rparr>),
                  as_rate_limiter := remove_peer peer_id (as_rate_limiter st)\<rparr>
      | None \<Rightarrow> st\<lparr>as_rate_limiter := remove_peer peer_id (as_rate_limiter st)\<rparr>)"

definition get_peer ::
  "('p, 'c) server_env \<Rightarrow> string \<Rightarrow> ('p, 'c) AppState \<Rightarrow> ('p, 'c) AppState \<times> PeerInfo option" where
  "get_peer E peer_id st =
     (case lru_get (se_peers E) (as_peers st) peer_id of
        (peers, r) \<Rightarrow> (st\<lparr>as_peers := peers\<rparr>, map_option pe_info r))"

text \<open>\<open>sender.send(msg).await\<close>: the frame enters the channel unless the session has ended.\<close>

definition channel_send ::
  "moment \<Rightarrow> session \<Rightarrow> FramedMessage \<Rightarrow> ('p, 'c) AppState \<Rightarrow> ('p, 'c) AppState \<times> bool" where
  "channel_send M s msg st =
     (if mo_alive M s then (st\<lparr>as_outbox := as_outbox st @ [(s, msg)]\<rparr>, True) else (st, False))"

definition send_to_peer ::
  "('p, 'c) server_env \<Rightarrow> moment \<Rightarrow> string \<Rightarrow> FramedMessage \<Rightarrow> ('p, 'c) AppState
     \<Rightarrow> ('p, 'c) AppState \<times> (unit, SignalingError) result" where
  "send_to_peer E M peer_id msg st =
     (case lru_get (se_peers E) (as_peers st) peer_id of
        (peers, r) \<Rightarrow>
          let st = st\<lparr>as_peers := peers\<rparr> in
          case r of
            None \<Rightarrow> (st, Err (UnknownPeer peer_id))
          | Some entry \<Rightarrow>
              (case pe_sender entry of
                 None \<Rightarrow> (st, Err (PeerOffline peer_id))
               | Some s \<Rightarrow>
                   (case channel_send M s msg st of
                      (st, True) \<Rightarrow> (st, Ok ())
                    | (st, False) \<Rightarrow> (st, Err (PeerOffline peer_id)))))"

section \<open>Calls\<close>

definition create_call ::
  "('p, 'c) server_env \<Rightarrow> CallEntry \<Rightarrow> ('p, 'c) AppState
     \<Rightarrow> ('p, 'c) AppState \<times> (unit, SignalingError) result" where
  "create_call E call st =
     (if \<not> lru_contains (se_peers E) (as_peers st) (cl_caller_id call)
      then (st, Err (UnknownPeer (cl_caller_id call)))
      else if \<not> lru_contains (se_peers E) (as_peers st) (cl_callee_id call)
      then (st, Err (UnknownPeer (cl_callee_id call)))
      else if lru_contains (se_calls E) (as_calls st) (cl_call_id call)
      then (st, Err (CallAlreadyExists (cl_call_id call)))
      else (st\<lparr>as_calls := lru_put (se_calls E) (as_calls st) (cl_call_id call) call\<rparr>, Ok ()))"

definition update_call_state ::
  "('p, 'c) server_env \<Rightarrow> string \<Rightarrow> i32 \<Rightarrow> ('p, 'c) AppState
     \<Rightarrow> ('p, 'c) AppState \<times> (unit, SignalingError) result" where
  "update_call_state E call_id new_state st =
     (case lru_get_mut (se_calls E) (as_calls st) call_id of
        None \<Rightarrow> (st, Err (InvalidCallId call_id))
      | Some (call, write) \<Rightarrow>
          (st\<lparr>as_calls := write (call\<lparr>cl_state := new_state\<rparr>)\<rparr>, Ok ()))"

definition end_call ::
  "('p, 'c) server_env \<Rightarrow> moment \<Rightarrow> string \<Rightarrow> string option \<Rightarrow> ('p, 'c) AppState
     \<Rightarrow> ('p, 'c) AppState \<times> (unit, SignalingError) result" where
  "end_call E M call_id reason st =
     (case lru_get_mut (se_calls E) (as_calls st) call_id of
        None \<Rightarrow> (st, Err (InvalidCallId call_id))
      | Some (call, write) \<Rightarrow>
          (st\<lparr>as_calls := write (call\<lparr> cl_state := 4, cl_ended_at := Some (mo_now_secs M),
                                      cl_failure_reason := reason \<rparr>)\<rparr>, Ok ()))"

definition remove_call ::
  "('p, 'c) server_env \<Rightarrow> string \<Rightarrow> ('p, 'c) AppState \<Rightarrow> ('p, 'c) AppState" where
  "remove_call E call_id st = st\<lparr>as_calls := fst (lru_pop (se_calls E) (as_calls st) call_id)\<rparr>"

definition get_call ::
  "('p, 'c) server_env \<Rightarrow> string \<Rightarrow> ('p, 'c) AppState \<Rightarrow> ('p, 'c) AppState \<times> CallEntry option" where
  "get_call E call_id st =
     (case lru_get (se_calls E) (as_calls st) call_id of (calls, r) \<Rightarrow> (st\<lparr>as_calls := calls\<rparr>, r))"

section \<open>Proxies and bootstrap nodes\<close>

definition get_proxies :: "('p, 'c) AppState \<Rightarrow> ProxyInfo list" where
  "get_proxies st = as_proxies st"

definition add_proxy :: "ProxyInfo \<Rightarrow> ('p, 'c) AppState \<Rightarrow> ('p, 'c) AppState" where
  "add_proxy proxy st = st\<lparr>as_proxies := as_proxies st @ [proxy]\<rparr>"

definition get_dht_bootstrap :: "('p, 'c) AppState \<Rightarrow> string list" where
  "get_dht_bootstrap st = as_dht_bootstrap st"

lemmas app_state_ops = register_peer_def unregister_peer_def disconnect_peer_def get_peer_def
  send_to_peer_def channel_send_def create_call_def update_call_state_def end_call_def
  remove_call_def get_call_def get_proxies_def add_proxy_def

section \<open>Operations as maps\<close>

text \<open>Seen through the laws of the caches, every operation is a change of two finite maps: peers
  by peer id and calls by call id.\<close>

locale registries =
  peers: lru_cache "se_peers E" plook + calls: lru_cache "se_calls E" clook
  for E :: "('p, 'c) server_env" and plook clook
begin

lemma register_peer_maps:
  assumes "register_peer E info sender st = (st', r)"
  shows "r = Ok ()"
    and "plook (as_peers st') (pi_peer_id info) = Some \<lparr> pe_info = info, pe_sender =
      (if sender \<noteq> None then sender
       else Option.bind (plook (as_peers st) (pi_peer_id info)) pe_sender) \<rparr>"
    and "q \<noteq> pi_peer_id info \<Longrightarrow> plook (as_peers st') q = Some e \<Longrightarrow> plook (as_peers st) q = Some e"
    and "st' = st\<lparr>as_peers := as_peers st'\<rparr>"
  using assms peers.get_mut_none [of "as_peers st" "pi_peer_id info"]
  by (auto simp: register_peer_def peers.put_same split: option.splits prod.splits
      dest!: peers.get_mut_some dest: peers.put_found)

lemma register_present:
  assumes "register_peer E info sender st = (st', r)"
    and "plook (as_peers st) (pi_peer_id info) = Some e"
  shows "plook (as_peers st') = (plook (as_peers st))(pi_peer_id info \<mapsto>
      \<lparr> pe_info = info, pe_sender = (if sender \<noteq> None then sender else pe_sender e) \<rparr>)"
  using assms peers.get_mut_none [of "as_peers st" "pi_peer_id info"]
  by (auto simp: register_peer_def split: option.splits prod.splits dest!: peers.get_mut_some)

lemma unregister_peer_maps:
  assumes "unregister_peer E p st = (st', r)"
  shows "r = Ok ()" and "plook (as_peers st') = (plook (as_peers st))(p := None)"
    and "st' = st\<lparr>as_peers := as_peers st', as_rate_limiter := as_rate_limiter st'\<rparr>"
    and "as_rate_limiter st' = as_rate_limiter st
      \<or> as_rate_limiter st' = remove_peer p (as_rate_limiter st)"
  using assms
  by (auto simp: unregister_peer_def split: option.splits prod.splits dest!: peers.pop_cases)

lemma disconnect_peer_maps:
  assumes "disconnect_peer E p st = st'"
  shows "plook (as_peers st') = (case plook (as_peers st) p of None \<Rightarrow> plook (as_peers st)
      | Some e \<Rightarrow> (plook (as_peers st))(p \<mapsto> e\<lparr> pe_sender := None,
                    pe_info := (pe_info e)\<lparr>pi_status := 1\<rparr> \<rparr>))"
    and "st' = st\<lparr>as_peers := as_peers st', as_rate_limiter := as_rate_limiter st'\<rparr>"
    and "as_rate_limiter st' = as_rate_limiter st
      \<or> as_rate_limiter st' = remove_peer p (as_rate_limiter st)"
proof -
  have same: "e\<lparr>pe_sender := None, pe_info := (pe_info e)\<lparr>pi_status := 1\<rparr>\<rparr> = e"
    if "pe_sender e = None" "pi_status (pe_info e) = 1" for e :: PeerEntry
    using that by (cases e; cases "pe_info e") auto
  show "plook (as_peers st') = (case plook (as_peers st) p of None \<Rightarrow> plook (as_peers st)
      | Some e \<Rightarrow> (plook (as_peers st))(p \<mapsto> e\<lparr> pe_sender := None,
                    pe_info := (pe_info e)\<lparr>pi_status := 1\<rparr> \<rparr>))"
    using assms peers.get_mut_none [of "as_peers st" p] same
    by (auto simp: disconnect_peer_def split: option.splits if_splits dest!: peers.get_mut_some)
  show "st' = st\<lparr>as_peers := as_peers st', as_rate_limiter := as_rate_limiter st'\<rparr>"
    "as_rate_limiter st' = as_rate_limiter st
      \<or> as_rate_limiter st' = remove_peer p (as_rate_limiter st)"
    using assms by (auto simp: disconnect_peer_def split: option.splits if_splits)
qed

lemma get_peer_maps:
  assumes "get_peer E p st = (st', r)"
  shows "r = map_option pe_info (plook (as_peers st) p)"
    and "plook (as_peers st') = plook (as_peers st)" and "st' = st\<lparr>as_peers := as_peers st'\<rparr>"
  using assms by (auto simp: get_peer_def split: prod.splits dest!: peers.get_cases)

lemma send_to_peer_maps:
  assumes "send_to_peer E M p msg st = (st', r)"
  shows "plook (as_peers st') = plook (as_peers st)"
    and "st' = st\<lparr>as_peers := as_peers st', as_outbox := as_outbox st'\<rparr>"
    and "case plook (as_peers st) p of
        None \<Rightarrow> r = Err (UnknownPeer p) \<and> as_outbox st' = as_outbox st
      | Some e \<Rightarrow> (case pe_sender e of
          Some s \<Rightarrow> if mo_alive M s then r = Ok () \<and> as_outbox st' = as_outbox st @ [(s, msg)]
                   else r = Err (PeerOffline p) \<and> as_outbox st' = as_outbox st
        | None \<Rightarrow> r = Err (PeerOffline p) \<and> as_outbox st' = as_outbox st)"
  using assms
  by (auto simp: send_to_peer_def channel_send_def Let_def split: prod.splits option.splits
      if_splits dest!: peers.get_cases)

lemma create_call_maps:
  assumes "create_call E call st = (st', r)"
  shows "if plook (as_peers st) (cl_caller_id call) \<noteq> None
        \<and> plook (as_peers st) (cl_callee_id call) \<noteq> None
        \<and> clook (as_calls st) (cl_call_id call) = None
      then r = Ok () \<and> clook (as_calls st') (cl_call_id call) = Some call
        \<and> (\<forall>k e. clook (as_calls st') k = Some e \<longrightarrow>
             k = cl_call_id call \<and> e = call \<or> clook (as_calls st) k = Some e)
      else \<not> is_ok r \<and> st' = st"
    and "st' = st\<lparr>as_calls := as_calls st'\<rparr>"
  using assms calls.put_same [of "as_calls st" "cl_call_id call" call]
  by (auto simp: create_call_def peers.contains_iff calls.contains_iff split: if_splits
      dest: calls.put_found)

lemma update_call_state_maps:
  assumes "update_call_state E k v st = (st', r)"
  shows "case clook (as_calls st) k of
      None \<Rightarrow> r = Err (InvalidCallId k) \<and> st' = st
    | Some e \<Rightarrow> r = Ok () \<and> clook (as_calls st') = (clook (as_calls st))(k \<mapsto> e\<lparr>cl_state := v\<rparr>)"
    and "st' = st\<lparr>as_calls := as_calls st'\<rparr>"
  using assms calls.get_mut_none [of "as_calls st" k]
  by (auto simp: update_call_state_def split: option.splits dest!: calls.get_mut_some)

lemma end_call_maps:
  assumes "end_call E M k reason st = (st', r)"
  shows "case clook (as_calls st) k of
      None \<Rightarrow> r = Err (InvalidCallId k) \<and> st' = st
    | Some e \<Rightarrow> r = Ok () \<and> clook (as_calls st') = (clook (as_calls st))(k \<mapsto> e\<lparr> cl_state := 4,
        cl_ended_at := Some (mo_now_secs M), cl_failure_reason := reason \<rparr>)"
    and "st' = st\<lparr>as_calls := as_calls st'\<rparr>"
  using assms calls.get_mut_none [of "as_calls st" k]
  by (auto simp: end_call_def split: option.splits dest!: calls.get_mut_some)

lemma remove_call_maps:
  "clook (as_calls (remove_call E k st)) = (clook (as_calls st))(k := None)"
  "remove_call E k st = st\<lparr>as_calls := as_calls (remove_call E k st)\<rparr>"
  by (simp_all add: remove_call_def calls.pop_keeps)

lemma get_call_maps:
  assumes "get_call E k st = (st', r)"
  shows "r = clook (as_calls st) k" and "clook (as_calls st') = clook (as_calls st)"
    and "st' = st\<lparr>as_calls := as_calls st'\<rparr>"
  using assms by (auto simp: get_call_def split: prod.splits dest!: calls.get_cases)

end

section \<open>The server with recency lists\<close>

definition list_env ::
  "sig_codec \<Rightarrow> (bytes \<Rightarrow> bytes) \<Rightarrow> bool \<Rightarrow> (PeerEntry lru_list, CallEntry lru_list) server_env" where
  "list_env cd sg oc =
     \<lparr> se_peers = lru_list_ops, se_calls = lru_list_ops, se_codec = cd, se_sign = sg, se_oc = oc \<rparr>"

interpretation list_server: registries "list_env cd sg oc" lru_list_lookup lru_list_lookup
  for cd sg oc
  by (unfold_locales)
    (auto simp: list_env_def lru_list.new_empty lru_list.get_value lru_list.get_keeps
      lru_list.get_mut_none lru_list.contains_iff lru_list.put_same lru_list.pop_value
      lru_list.pop_keeps dest: lru_list.get_mut_some lru_list.put_other)

definition sample_info :: "string \<Rightarrow> PeerInfo" where
  "sample_info p = \<lparr> pi_peer_id = p, pi_display_name = p, pi_ipv6_addresses = [],
     pi_ipv4_reflexive = [], pi_nat_type = 0, pi_status = 0, pi_fcm_token = None, pi_last_seen = 0 \<rparr>"

section \<open>Properties\<close>

text \<open>The life of a registration.  A registered peer is found with exactly the registered
  information, and a registration without a channel keeps the channel of an earlier one; once
  disconnected it is still found, marked offline, and nothing can be sent to it; once
  unregistered it is unknown.\<close>

lemma registration_lifecycle:
  assumes "registries E plook clook" and "register_peer E info sender st = (st1, r)"
    and "p = pi_peer_id info"
  shows "r = Ok () \<and> snd (get_peer E p st1) = Some info
    \<and> (\<exists>e. plook (as_peers st1) p = Some e \<and> pe_sender e =
         (if sender \<noteq> None then sender else Option.bind (plook (as_peers st) p) pe_sender))
    \<and> snd (get_peer E p (disconnect_peer E p st1)) = Some (info\<lparr>pi_status := 1\<rparr>)
    \<and> snd (send_to_peer E M p msg (disconnect_peer E p st1)) = Err (PeerOffline p)
    \<and> snd (get_peer E p (fst (unregister_peer E p st1))) = None
    \<and> snd (send_to_peer E M p msg (fst (unregister_peer E p st1))) = Err (UnknownPeer p)"
proof -
  note laws = registries.get_peer_maps [OF assms(1)] registries.send_to_peer_maps [OF assms(1)]
  note reg = registries.register_peer_maps [OF assms(1,2), folded assms(3)]
  let ?d = "disconnect_peer E p st1" and ?u = "fst (unregister_peer E p st1)"
  have d: "plook (as_peers ?d) p = Some \<lparr> pe_info = info\<lparr>pi_status := 1\<rparr>, pe_sender = None \<rparr>"
    using registries.disconnect_peer_maps(1) [OF assms(1) refl, of p st1] reg(2) by simp
  have u: "plook (as_peers ?u) p = None"
    using registries.unregister_peer_maps(2) [OF assms(1), of p st1] by (metis fun_upd_same prod.collapse)
  have get: "snd (get_peer E p s) = map_option pe_info (plook (as_peers s) p)" for s
    using laws(1) [of p s] by (metis prod.collapse)
  have send: "snd (send_to_peer E M p msg s) = Err (if plook (as_peers s) p = None
      then UnknownPeer p else PeerOffline p)"
    if "plook (as_peers s) p = None \<or> (\<exists>e. plook (as_peers s) p = Some e \<and> pe_sender e = None)"
    for s
    using laws(6) [of M p msg s "fst (send_to_peer E M p msg s)" "snd (send_to_peer E M p msg s)"] that
    by auto
  show ?thesis
    using reg(1,2) d u by (simp add: get send)
qed

definition sample_moment :: moment where
  "sample_moment = \<lparr> mo_now_secs = 1000, mo_instant = 0, mo_alive = (\<lambda>_. True) \<rparr>"

definition sample_env :: "(PeerEntry lru_list, CallEntry lru_list) server_env" where
  "sample_env = list_env plain_codec (\<lambda>bs. rev bs) True"

lemmas sample_registries = list_server.registries_axioms
  [of plain_codec "\<lambda>bs. rev bs" True, folded sample_env_def]

definition sample_server :: "(PeerEntry lru_list, CallEntry lru_list) AppState" where
  "sample_server = AppState_new sample_env RateLimitConfig_default [] VoIPConfig_default"

lemma registration_lifecycle_witness:
  "let st1 = fst (register_peer sample_env (sample_info ''alice'') (Some 3) sample_server) in
   snd (get_peer sample_env ''alice'' st1) = Some (sample_info ''alice'')
   \<and> snd (send_to_peer sample_env sample_moment ''alice'' \<lparr> fm_type_id = 1, fm_payload = [] \<rparr>
        (disconnect_peer sample_env ''alice'' st1)) = Err (PeerOffline ''alice'')"
  using registration_lifecycle [OF sample_registries, of "sample_info ''alice''" "Some 3" sample_server
      "fst (register_peer sample_env (sample_info ''alice'') (Some 3) sample_server)"
      "snd (register_peer sample_env (sample_info ''alice'') (Some 3) sample_server)" "''alice''"]
  by (simp add: Let_def sample_info_def)

end
