(* ===== verification/Sig_Relay.thy ===== *)
theory Sig_Relay
  imports Sig_State
begin

text \<open>
  Relay coordination (\<open>src/crates/voip-signaling/src/masque.rs\<close>) and retry notifications
  (\<open>src/crates/voip-signaling/src/push.rs\<close>) of the signaling server.  The push notifier only logs
  in the source; its \<open>send\<close> always succeeds.
\<close>

section \<open>Relay coordination\<close>

definition detect_masque_need :: "NATType \<Rightarrow> NATType \<Rightarrow> bool \<Rightarrow> bool" where
  "detect_masque_need caller_nat callee_nat udp_blocked \<longleftrightarrow>
     caller_nat = SymmetricRandom \<and> callee_nat = SymmetricRandom \<or> udp_blocked"

definition select_proxy :: "('p, 'c) AppState \<Rightarrow> ProxyInfo option" where
  "select_proxy st = (case get_proxies st of [] \<Rightarrow> None | p # _ \<Rightarrow> Some p)"

definition issue_proxy_token ::
  "('p, 'c) server_env \<Rightarrow> moment \<Rightarrow> string \<Rightarrow> string \<Rightarrow> ProxyToken_proto" where
  "issue_proxy_token E M peer_id target_peer_id =
     (let proxy_token = \<lparr> pt_peer_id = peer_id, pt_target_peer_id = target_peer_id,
            pt_issued_at = mo_now_secs M, pt_ttl_seconds = 60, pt_signature = [] \<rparr>;
          token_for_signing = proxy_token\<lparr>pt_signature := []\<rparr>;
          signature = se_sign E (enc_ProxyToken (se_codec E) token_for_signing) in
      proxy_token\<lparr>pt_signature := signature\<rparr>)"

definition relay_needed_message ::
  "('p, 'c) server_env \<Rightarrow> moment \<Rightarrow> string \<Rightarrow> ProxyInfo \<Rightarrow> string \<Rightarrow> string \<Rightarrow> FramedMessage" where
  "relay_needed_message E M call_id proxy peer_id target_peer_id =
     \<lparr> fm_type_id = MASQUE_RELAY_NEEDED,
       fm_payload = enc_MasqueRelayNeeded (se_codec E)
         \<lparr> mr_call_id = call_id, mr_proxy_url = px_proxy_url proxy, mr_wait_timeout_ms = 10000,
           mr_proxy_token = Some (issue_proxy_token E M peer_id target_peer_id) \<rparr> \<rparr>"

definition send_relay_needed ::
  "('p, 'c) server_env \<Rightarrow> moment \<Rightarrow> string \<Rightarrow> string \<Rightarrow> string \<Rightarrow> ('p, 'c) AppState
     \<Rightarrow> ('p, 'c) AppState \<times> (unit, SignalingError) result" where
  "send_relay_needed E M call_id caller_id callee_id st =
     (case select_proxy st of
        None \<Rightarrow> (st, Err MasqueNoProxy)
      | Some proxy \<Rightarrow>
          (case send_to_peer E M caller_id
                  (relay_needed_message E M call_id proxy caller_id callee_id) st of
             (st, Ok _) \<Rightarrow> send_to_peer E M callee_id
                  (relay_needed_message E M call_id proxy callee_id caller_id) st
           | (st, r) \<Rightarrow> (st, r)))"

definition coordinate_masque_relay ::
  "('p, 'c) server_env \<Rightarrow> moment \<Rightarrow> string \<Rightarrow> string \<Rightarrow> string \<Rightarrow> ('p, 'c) AppState
     \<Rightarrow> ('p, 'c) AppState \<times> (unit, SignalingError) result" where
  "coordinate_masque_relay = send_relay_needed"

section \<open>Retry notifications\<close>

definition RETRYABLE_REASONS :: "i32 list" where
  "RETRYABLE_REASONS = [3, 4, 7]"

definition is_retryable_reason :: "i32 \<Rightarrow> bool" where
  "is_retryable_reason reason \<longleftrightarrow> reason \<in> set RETRYABLE_REASONS"

record PushNotification =
  pn_fcm_token :: string
  pn_call_id :: string
  pn_caller_id :: string
  pn_callee_id :: string
  pn_reason :: i32
  pn_retry_attempt :: u32
  pn_retry_after_ms :: u64

datatype PushError = NoFcmToken string | SendFailed string | PushDisabled

record PushNotifier =
  pn_enabled :: bool

definition PushNotifier_new_stub :: PushNotifier where
  "PushNotifier_new_stub = \<lparr> pn_enabled = False \<rparr>"

definition PushNotifier_send :: "PushNotifier \<Rightarrow> PushNotification \<Rightarrow> (unit, PushError) result" where
  "PushNotifier_send p n = (if \<not> pn_enabled p then Ok () else Ok ())"

definition build_push_retry_message ::
  "sig_codec \<Rightarrow> string \<Rightarrow> string \<Rightarrow> string \<Rightarrow> i32 \<Rightarrow> u32 \<Rightarrow> u64 \<Rightarrow> FramedMessage" where
  "build_push_retry_message cd call_id caller_id callee_id reason retry_attempt retry_after_ms =
     \<lparr> fm_type_id = PUSH_RETRY,
       fm_payload = enc_PushRetry cd
         \<lparr> pr_call_id = call_id, pr_caller_id = caller_id, pr_callee_id = callee_id,
           pr_reason = reason, pr_retry_attempt = retry_attempt,
           pr_retry_after_ms = retry_after_ms \<rparr> \<rparr>"

definition handle_retryable_failure ::
  "('p, 'c) server_env \<Rightarrow> moment \<Rightarrow> string \<Rightarrow> string \<Rightarrow> string \<Rightarrow> i32 \<Rightarrow> string \<Rightarrow> u32 \<Rightarrow> ('p, 'c) AppState
     \<Rightarrow> ('p, 'c) AppState \<times> (unit, unit) result" where
  "handle_retryable_failure E M call_id caller_id callee_id reason other_peer_id retry_count st =
     (let cfg = as_config st in
      if push_retry_max_attempts cfg \<le> retry_count then (st, Ok ())
      else let next_attempt = retry_count + 1 in
        case res_bind (retry_delay_secs (se_oc E) cfg next_attempt)
               (\<lambda>d. checked_mul (se_oc E) d 1000) of
          Ok retry_after_ms \<Rightarrow>
            let push_msg = build_push_retry_message (se_codec E) call_id caller_id callee_id reason
                  next_attempt retry_after_ms;
                (st, _) = send_to_peer E M other_peer_id push_msg st;
                (st, peer_info) = get_peer E other_peer_id st in
            (case peer_info of
               Some info \<Rightarrow>
                 (case pi_fcm_token info of
                    Some fcm_token \<Rightarrow>
                      let notification = \<lparr> pn_fcm_token = fcm_token, pn_call_id = call_id,
                            pn_caller_id = caller_id, pn_callee_id = callee_id, pn_reason = reason,
                            pn_retry_attempt = next_attempt, pn_retry_after_ms = retry_after_ms \<rparr>;
                          _ = PushNotifier_send PushNotifier_new_stub notification in
                      (st, Ok ())
                  | None \<Rightarrow> (st, Ok ()))
             | None \<Rightarrow> (st, Ok ()))
        | _ \<Rightarrow> (st, Panic))"

end
