(* ===== verification/Sig_Session.thy ===== *)
theory Sig_Session
  imports Sig_Relay
begin

text \<open>
  The WebSocket sessions of the signaling server (\<open>src/crates/voip-signaling/src/session.rs\<close>).

  A handler maps the session's peer identity (\<open>peer_id_holder\<close>) and the server state to new ones;
  \<open>Panic\<close> as its outcome ends the session's task.  The session number \<open>s\<close> is the session's own
  channel.
\<close>

section \<open>Handlers\<close>

type_synonym ('p, 'c) conn = "string option \<times> ('p, 'c) AppState"

definition reply ::
  "('p, 'c) server_env \<Rightarrow> moment \<Rightarrow> session \<Rightarrow> u32 \<Rightarrow> string \<Rightarrow> ('p, 'c) AppState \<Rightarrow> ('p, 'c) AppState" where
  "reply E M s code msg st = fst (channel_send M s (FramedMessage_error (se_codec E) code msg) st)"

definition reply_error ::
  "('p, 'c) server_env \<Rightarrow> moment \<Rightarrow> session \<Rightarrow> SignalingError \<Rightarrow> ('p, 'c) AppState \<Rightarrow> ('p, 'c) AppState" where
  "reply_error E M s e st = reply E M s (SignalingError_code e) (SignalingError_to_string e) st"

definition ws_handle_peer_register ::
  "('p, 'c) server_env \<Rightarrow> moment \<Rightarrow> session \<Rightarrow> bytes \<Rightarrow> ('p, 'c) conn \<Rightarrow> ('p, 'c) conn \<times> (unit, unit) result" where
  "ws_handle_peer_register E M s payload conn =
     (case conn of (holder, st) \<Rightarrow>
      case dec_PeerRegister (se_codec E) payload of
        None \<Rightarrow> ((holder, reply E M s 2003 ''invalid PeerRegister payload'' st), Ok ())
      | Some msg \<Rightarrow>
          (case check_registration (mo_instant M) (rg_peer_id msg) (as_rate_limiter st) of
             Ok (limiter, allowed) \<Rightarrow>
               let st = st\<lparr>as_rate_limiter := limiter\<rparr> in
               if \<not> allowed
               then ((holder, reply E M s 2001 ''registration rate limit exceeded'' st), Ok ())
               else
                 let peer_id = rg_peer_id msg;
                     info = \<lparr> pi_peer_id = rg_peer_id msg, pi_display_name = rg_display_name msg,
                       pi_ipv6_addresses = rg_ipv6_addresses msg,
                       pi_ipv4_reflexive = rg_ipv4_reflexive msg,
                       pi_nat_type = (case rg_nat_info msg of Some n \<Rightarrow> p_nat_type n | None \<Rightarrow> 0),
                       pi_status = rg_status msg,
                       pi_fcm_token = (if rg_fcm_token msg = [] then None else Some (rg_fcm_token msg)),
                       pi_last_seen = mo_now_secs M \<rparr> in
                 (case register_peer E info (Some s) st of
                    (st, Err e) \<Rightarrow> ((Some peer_id, reply_error E M s e st), Ok ())
                  | (st, _) \<Rightarrow> ((Some peer_id, st), Ok ()))
           | _ \<Rightarrow> ((holder, st), Panic)))"

definition ws_handle_peer_unregister ::
  "('p, 'c) server_env \<Rightarrow> bytes \<Rightarrow> ('p, 'c) conn \<Rightarrow> ('p, 'c) conn \<times> (unit, unit) result" where
  "ws_handle_peer_unregister E payload conn =
     (case conn of (holder, st) \<Rightarrow>
      case dec_PeerUnregister (se_codec E) payload of
        None \<Rightarrow> ((holder, st), Ok ())
      | Some msg \<Rightarrow> ((None, fst (unregister_peer E (ur_peer_id msg) st)), Ok ()))"

definition ws_handle_call_request ::
  "('p, 'c) server_env \<Rightarrow> moment \<Rightarrow> session \<Rightarrow> bytes \<Rightarrow> ('p, 'c) conn \<Rightarrow> ('p, 'c) conn \<times> (unit, unit) result" where
  "ws_handle_call_request E M s payload conn =
     (case conn of (holder, st) \<Rightarrow>
      case dec_CallRequest (se_codec E) payload of
        None \<Rightarrow> ((holder, reply E M s 2003 ''invalid CallRequest payload'' st), Ok ())
      | Some msg \<Rightarrow>
          (case check_call (mo_instant M) (cr_caller_id msg) (as_rate_limiter st) of
             Ok (limiter, allowed) \<Rightarrow>
               let st = st\<lparr>as_rate_limiter := limiter\<rparr> in
               if \<not> allowed
               then ((holder, reply E M s 2001 ''call rate limit exceeded'' st), Ok ())
               else if holder \<noteq> None \<and> the holder \<noteq> cr_caller_id msg
               then ((holder, reply E M s 1005 ''caller_id does not match session peer_id'' st), Ok ())
               else
                 let call = \<lparr> cl_call_id = cr_call_id msg, cl_caller_id = cr_caller_id msg,
                       cl_callee_id = cr_callee_id msg, cl_state = 0, cl_connection_method = 0,
                       cl_discovery_method = cr_discovery_method msg,
                       cl_created_at = mo_now_secs M, cl_connected_at = None, cl_ended_at = None,
                       cl_failure_reason = None, cl_retry_count = 0 \<rparr> in
                 (case create_call E call st of
                    (st, Ok _) \<Rightarrow>
                      (case send_to_peer E M (cr_callee_id msg)
                              \<lparr> fm_type_id = CALL_REQUEST_SC, fm_payload = payload \<rparr> st of
                         (st, Err e) \<Rightarrow>
                           ((holder, remove_call E (cr_call_id msg) (reply_error E M s e st)), Ok ())
                       | (st, _) \<Rightarrow> ((holder, st), Ok ()))
                  | (st, Err e) \<Rightarrow> ((holder, reply_error E M s e st), Ok ())
                  | (st, Panic) \<Rightarrow> ((holder, st), Panic))
           | _ \<Rightarrow> ((holder, st), Panic)))"

definition ws_handle_call_accept ::
  "('p, 'c) server_env \<Rightarrow> moment \<Rightarrow> session \<Rightarrow> bytes \<Rightarrow> ('p, 'c) conn \<Rightarrow> ('p, 'c) conn \<times> (unit, unit) result" where
  "ws_handle_call_accept E M s payload conn =
     (case conn of (holder, st) \<Rightarrow>
      case dec_CallAccept (se_codec E) payload of
        None \<Rightarrow> ((holder, reply E M s 2003 ''invalid CallAccept payload'' st), Ok ())
      | Some msg \<Rightarrow>
          (case get_call E (ca_call_id msg) st of
             (st, None) \<Rightarrow> ((holder, reply E M s 1003 ''call not found'' st), Ok ())
           | (st, Some call_entry) \<Rightarrow>
               if holder \<noteq> None \<and> the holder \<noteq> cl_callee_id call_entry
               then ((holder, reply E M s 1005 ''only the callee can accept a call'' st), Ok ())
               else
                 (case update_call_state E (ca_call_id msg) 1 st of
                    (st, Err e) \<Rightarrow> ((holder, reply_error E M s e st), Ok ())
                  | (st, _) \<Rightarrow>
                      (case get_call E (ca_call_id msg) st of
                         (st, None) \<Rightarrow>
                           ((holder, reply E M s 1003 ''call not found after state update'' st), Ok ())
                       | (st, Some call) \<Rightarrow>
                           (case send_to_peer E M (cl_caller_id call)
                                   \<lparr> fm_type_id = CALL_ACCEPT_SC, fm_payload = payload \<rparr> st of
                              (st, Err e) \<Rightarrow> ((holder, reply_error E M s e st), Ok ())
                            | (st, _) \<Rightarrow> ((holder, st), Ok ()))))))"

definition ws_handle_call_reject ::
  "('p, 'c) server_env \<Rightarrow> moment \<Rightarrow> session \<Rightarrow> bytes \<Rightarrow> ('p, 'c) conn \<Rightarrow> ('p, 'c) conn \<times> (unit, unit) result" where
  "ws_handle_call_reject E M s payload conn =
     (case conn of (holder, st) \<Rightarrow>
      case dec_CallReject (se_codec E) payload of
        None \<Rightarrow> ((holder, st), Ok ())
      | Some msg \<Rightarrow>
          (case get_call E (cj_call_id msg) st of
             (st, None) \<Rightarrow> ((holder, reply E M s 1003 ''call not found'' st), Ok ())
           | (st, Some call_entry) \<Rightarrow>
               if holder \<noteq> None \<and> the holder \<noteq> cl_callee_id call_entry
               then ((holder, reply E M s 1005 ''only the callee can reject a call'' st), Ok ())
               else
                 let (st, _) = end_call E M (cj_call_id msg) (Some ''rejected'') st;
                     (st, _) = send_to_peer E M (cl_caller_id call_entry)
                       \<lparr> fm_type_id = CALL_REJECT_SC, fm_payload = payload \<rparr> st in
                 ((holder, remove_call E (cj_call_id msg) st), Ok ())))"

definition other_party :: "string option \<Rightarrow> CallEntry \<Rightarrow> string" where
  "other_party holder call =
     (if Some (cl_caller_id call) = holder then cl_callee_id call else cl_caller_id call)"

text \<open>The relay and retry part of the failure handler.\<close>

definition failure_follow_up ::
  "('p, 'c) server_env \<Rightarrow> moment \<Rightarrow> string \<Rightarrow> i32 \<Rightarrow> CallEntry \<Rightarrow> string \<Rightarrow> ('p, 'c) AppState
     \<Rightarrow> ('p, 'c) AppState \<times> (unit, unit) result" where
  "failure_follow_up E M call_id reason call_entry other_peer st =
     (let retry = handle_retryable_failure E M call_id (cl_caller_id call_entry)
            (cl_callee_id call_entry) reason other_peer (cl_retry_count call_entry) in
      if reason = 3 \<or> reason = 4 then
        (case coordinate_masque_relay E M call_id (cl_caller_id call_entry)
                (cl_callee_id call_entry) st of
           (st, Err e) \<Rightarrow> if is_retryable_reason reason then retry st else (st, Ok ())
         | (st, _) \<Rightarrow> (st, Ok ()))
      else if is_retryable_reason reason then retry st
      else (st, Ok ()))"

definition ws_handle_call_failed ::
  "('p, 'c) server_env \<Rightarrow> moment \<Rightarrow> session \<Rightarrow> bytes \<Rightarrow> ('p, 'c) conn \<Rightarrow> ('p, 'c) conn \<times> (unit, unit) result" where
  "ws_handle_call_failed E M s payload conn =
     (case conn of (holder, st) \<Rightarrow>
      case dec_CallFailed (se_codec E) payload of
        None \<Rightarrow> ((holder, st), Ok ())
      | Some msg \<Rightarrow>
          (case get_call E (cf_call_id msg) st of
             (st, None) \<Rightarrow> ((holder, reply E M s 1003 ''call not found'' st), Ok ())
           | (st, Some call_entry) \<Rightarrow>
               if holder \<noteq> None \<and> the holder \<noteq> cl_caller_id call_entry
                  \<and> the holder \<noteq> cl_callee_id call_entry
               then ((holder, reply E M s 1005 ''not a participant in this call'' st), Ok ())
               else
                 let other_peer = other_party holder call_entry;
                     (st, _) = send_to_peer E M other_peer
                       \<lparr> fm_type_id = CALL_FAILED, fm_payload = payload \<rparr> st;
                     (st, outcome) = failure_follow_up E M (cf_call_id msg) (cf_reason msg)
                       call_entry other_peer st in
                 (case outcome of
                    Ok _ \<Rightarrow>
                      (let (st, _) = end_call E M (cf_call_id msg) (Some (cf_description msg)) st in
                       ((holder, st), Ok ()))
                  | _ \<Rightarrow> ((holder, st), Panic))))"

definition ws_handle_call_ended ::
  "('p, 'c) server_env \<Rightarrow> moment \<Rightarrow> session \<Rightarrow> bytes \<Rightarrow> ('p, 'c) conn \<Rightarrow> ('p, 'c) conn \<times> (unit, unit) result" where
  "ws_handle_call_ended E M s payload conn =
     (case conn of (holder, st) \<Rightarrow>
      case dec_CallEnded (se_codec E) payload of
        None \<Rightarrow> ((holder, st), Ok ())
      | Some msg \<Rightarrow>
          (case get_call E (ce_call_id msg) st of
             (st, None) \<Rightarrow> ((holder, reply E M s 1003 ''call not found'' st), Ok ())
           | (st, Some call_entry) \<Rightarrow>
               if holder \<noteq> None \<and> the holder \<noteq> cl_caller_id call_entry
                  \<and> the holder \<noteq> cl_callee_id call_entry
               then ((holder, reply E M s 1005 ''not a participant in this call'' st), Ok ())
               else
                 let (st, _) = send_to_peer E M (other_party holder call_entry)
                       \<lparr> fm_type_id = CALL_ENDED, fm_payload = payload \<rparr> st;
                     (st, _) = end_call E M (ce_call_id msg) None st in
                 ((holder, remove_call E (ce_call_id msg) st), Ok ())))"

section \<open>Dispatch and the session loop\<close>

definition dispatch_ws_message ::
  "('p, 'c) server_env \<Rightarrow> moment \<Rightarrow> session \<Rightarrow> FramedMessage \<Rightarrow> ('p, 'c) conn \<Rightarrow> ('p, 'c) conn \<times> (unit, unit) result" where
  "dispatch_ws_message E M s framed conn =
     (let t = fm_type_id framed; payload = fm_payload framed in
      if t = PEER_REGISTER then ws_handle_peer_register E M s payload conn
      else if t = PEER_UNREGISTER then ws_handle_peer_unregister E payload conn
      else if t = CALL_REQUEST_CS then ws_handle_call_request E M s payload conn
      else if t = CALL_ACCEPT_CS then ws_handle_call_accept E M s payload conn
      else if t = CALL_REJECT_CS then ws_handle_call_reject E M s payload conn
      else if t = CALL_FAILED then ws_handle_call_failed E M s payload conn
      else if t = CALL_ENDED then ws_handle_call_ended E M s payload conn
      else ((fst conn, reply E M s 2003 ''unknown message type ID'' (snd conn)), Ok ()))"

datatype ws_event =
    WsBinary bytes
  | WsPing
  | WsOther
  | WsClose
  | WsError string
  | WsStreamEnd
  | WsIdleTimeout

text \<open>One turn of the receive loop: the connection, the outcome of the handler, and whether the
  loop goes on.\<close>

definition ws_turn ::
  "('p, 'c) server_env \<Rightarrow> moment \<Rightarrow> session \<Rightarrow> ws_event \<Rightarrow> ('p, 'c) conn
     \<Rightarrow> ('p, 'c) conn \<times> (unit, unit) result \<times> bool" where
  "ws_turn E M s ev conn =
     (case ev of
        WsBinary bs \<Rightarrow>
          if length bs < 2 then (conn, Ok (), True)
          else (case FramedMessage_from_bytes bs of
                  None \<Rightarrow> (conn, Ok (), True)
                | Some framed \<Rightarrow>
                    (case conn of (holder, st) \<Rightarrow>
                     case holder of
                       Some p \<Rightarrow>
                         (case check_ws_message (mo_instant M) p (as_rate_limiter st) of
                            Ok (limiter, allowed) \<Rightarrow>
                              let st = st\<lparr>as_rate_limiter := limiter\<rparr> in
                              if \<not> allowed
                              then ((holder, reply E M s 2001
                                       ''WebSocket message rate limit exceeded'' st), Ok (), True)
                              else (case dispatch_ws_message E M s framed (holder, st) of
                                      (conn, r) \<Rightarrow> (conn, r, True))
                          | _ \<Rightarrow> (conn, Panic, False))
                     | None \<Rightarrow> (case dispatch_ws_message E M s framed conn of
                                  (conn, r) \<Rightarrow> (conn, r, True))))
      | WsPing \<Rightarrow> (conn, Ok (), True)
      | WsOther \<Rightarrow> (conn, Ok (), True)
      | _ \<Rightarrow> (conn, Ok (), False))"

text \<open>The clean-up both tasks of a session share: the first to swap the flag disconnects the peer.\<close>

definition ws_cleanup ::
  "('p, 'c) server_env \<Rightarrow> bool \<Rightarrow> ('p, 'c) conn \<Rightarrow> bool \<times> ('p, 'c) conn" where
  "ws_cleanup E disconnected conn =
     (case conn of (holder, st) \<Rightarrow>
      if disconnected then (True, conn)
      else (True, holder, case holder of Some p \<Rightarrow> disconnect_peer E p st | None \<Rightarrow> st))"

text \<open>A whole session over the events it receives; \<open>disconnected\<close> is the flag as the forwarding
  task left it.\<close>

fun handle_ws_connection ::
  "('p, 'c) server_env \<Rightarrow> bool \<Rightarrow> session \<Rightarrow> (moment \<times> ws_event) list \<Rightarrow> ('p, 'c) conn
     \<Rightarrow> ('p, 'c) conn \<times> (unit, unit) result" where
  "handle_ws_connection E disconnected s [] conn = (conn, Ok ())"
| "handle_ws_connection E disconnected s ((M, ev) # evs) conn =
     (case ws_turn E M s ev conn of
        (conn, Ok _, True) \<Rightarrow> handle_ws_connection E disconnected s evs conn
      | (conn, Ok _, False) \<Rightarrow> (snd (ws_cleanup E disconnected conn), Ok ())
      | (conn, r, _) \<Rightarrow> (conn, Panic))"

section \<open>Atomic steps\<close>

text \<open>The call entries the request handler creates.\<close>

definition fresh_call :: "CallEntry \<Rightarrow> bool" where
  "fresh_call c \<longleftrightarrow> cl_state c = 0 \<and> cl_connection_method c = 0 \<and> cl_connected_at c = None
     \<and> cl_ended_at c = None \<and> cl_failure_reason c = None \<and> cl_retry_count c = 0"

text \<open>The server state changes only by operations that run under a lock.  Sessions interleave
  between these operations, so a run of the server is a sequence of them.\<close>

inductive atomic_step :: "('p, 'c) server_env \<Rightarrow> ('p, 'c) AppState \<Rightarrow> ('p, 'c) AppState \<Rightarrow> bool"
  for E where
  step_register: "atomic_step E st (fst (register_peer E info sender st))"
| step_unregister: "atomic_step E st (fst (unregister_peer E p st))"
| step_disconnect: "atomic_step E st (disconnect_peer E p st)"
| step_get_peer: "atomic_step E st (fst (get_peer E p st))"
| step_send: "atomic_step E st (fst (send_to_peer E M p msg st))"
| step_channel: "atomic_step E st (fst (channel_send M s msg st))"
| step_check: "rate_check act now p (as_rate_limiter st) = Ok (limiter, allowed)
    \<Longrightarrow> atomic_step E st (st\<lparr>as_rate_limiter := limiter\<rparr>)"
| step_cleanup: "cleanup (se_oc E) now pick (as_rate_limiter st) = Ok limiter
    \<Longrightarrow> atomic_step E st (st\<lparr>as_rate_limiter := limiter\<rparr>)"
| step_create: "fresh_call call \<Longrightarrow> atomic_step E st (fst (create_call E call st))"
| step_accept: "atomic_step E st (fst (update_call_state E k 1 st))"
| step_end: "atomic_step E st (fst (end_call E M k reason st))"
| step_remove: "atomic_step E st (remove_call E k st)"
| step_get_call: "atomic_step E st (fst (get_call E k st))"

text \<open>The registries have one more operation, which none of the server's tasks calls.\<close>

inductive registry_step :: "('p, 'c) server_env \<Rightarrow> ('p, 'c) AppState \<Rightarrow> ('p, 'c) AppState \<Rightarrow> bool"
  for E where
  step_atomic: "atomic_step E st st' \<Longrightarrow> registry_step E st st'"
| step_add_proxy: "registry_step E st (add_proxy proxy st)"

text \<open>A set of states closed under the atomic steps is kept by every handler.  The rules follow
  the shape of a handler: they look at the state component of a pair.\<close>

locale op_closed =
  fixes E :: "('p, 'c) server_env" and I :: "('p, 'c) AppState \<Rightarrow> bool"
  assumes closed: "I st \<Longrightarrow> atomic_step E st st' \<Longrightarrow> I st'"
begin

lemma ops:
  assumes "I st"
  shows "I (fst (register_peer E info sender st))" and "I (fst (unregister_peer E p st))"
    and "I (disconnect_peer E p st)" and "I (fst (get_peer E p st))"
    and "I (fst (send_to_peer E M p msg st))" and "I (fst (channel_send M s msg st))"
    and "check_ws_message now q (as_rate_limiter st) = Ok (limiter, allowed) \<Longrightarrow> I (st\<lparr>as_rate_limiter := limiter\<rparr>)"
    and "check_registration now q (as_rate_limiter st) = Ok (limiter, allowed) \<Longrightarrow> I (st\<lparr>as_rate_limiter := limiter\<rparr>)"
    and "check_call now q (as_rate_limiter st) = Ok (limiter, allowed) \<Longrightarrow> I (st\<lparr>as_rate_limiter := limiter\<rparr>)"
    and "fresh_call call \<Longrightarrow> I (fst (create_call E call st))"
    and "I (fst (update_call_state E k 1 st))" and "I (fst (end_call E M k reason st))"
    and "I (remove_call E k st)" and "I (fst (get_call E k st))"
  using closed [OF assms] step_check [of WsMessage now q st limiter allowed E]
    step_check [of Registration now q st limiter allowed E] step_check [of Call now q st limiter allowed E]
  by (simp_all, (blast intro: atomic_step.intros)+)

lemma reply: "I st \<Longrightarrow> I (reply E M s code msg st)"
  by (simp add: reply_def ops)

lemma reply_error: "I st \<Longrightarrow> I (reply_error E M s e st)"
  by (simp add: reply_error_def reply)

lemma state_rules:
  "I st \<Longrightarrow> I (fst (st, r))"
  "(b \<Longrightarrow> I (fst x)) \<Longrightarrow> (\<not> b \<Longrightarrow> I (fst y)) \<Longrightarrow> I (fst (if b then x else y))"
  "(o1 = None \<Longrightarrow> I (fst n)) \<Longrightarrow> (\<And>v. o1 = Some v \<Longrightarrow> I (fst (f v)))
    \<Longrightarrow> I (fst (case o1 of None \<Rightarrow> n | Some v \<Rightarrow> f v))"
  "(\<And>v. r1 = Ok v \<Longrightarrow> I (fst (fo v))) \<Longrightarrow> (\<And>e. r1 = Err e \<Longrightarrow> I (fst (fe e)))
    \<Longrightarrow> (r1 = Panic \<Longrightarrow> I (fst fp)) \<Longrightarrow> I (fst (case r1 of Ok v \<Rightarrow> fo v | Err e \<Rightarrow> fe e | Panic \<Rightarrow> fp))"
  "I (fst xx) \<Longrightarrow> (\<And>st' v. xx = (st', v) \<Longrightarrow> I st' \<Longrightarrow> I (fst (ff st' v)))
    \<Longrightarrow> I (fst (case xx of (st', v) \<Rightarrow> ff st' v))"
  by (auto split: option.splits result.splits prod.splits)

lemma conn_rules:
  "I st \<Longrightarrow> I (snd (fst ((h, st), r)))"
  "(b \<Longrightarrow> I (snd (fst x))) \<Longrightarrow> (\<not> b \<Longrightarrow> I (snd (fst y))) \<Longrightarrow> I (snd (fst (if b then x else y)))"
  "(o1 = None \<Longrightarrow> I (snd (fst n))) \<Longrightarrow> (\<And>v. o1 = Some v \<Longrightarrow> I (snd (fst (f v))))
    \<Longrightarrow> I (snd (fst (case o1 of None \<Rightarrow> n | Some v \<Rightarrow> f v)))"
  "(\<And>v. r1 = Ok v \<Longrightarrow> I (snd (fst (fo v)))) \<Longrightarrow> (\<And>e. r1 = Err e \<Longrightarrow> I (snd (fst (fe e))))
    \<Longrightarrow> (r1 = Panic \<Longrightarrow> I (snd (fst fp)))
    \<Longrightarrow> I (snd (fst (case r1 of Ok v \<Rightarrow> fo v | Err e \<Rightarrow> fe e | Panic \<Rightarrow> fp)))"
  "I (fst xx) \<Longrightarrow> (\<And>st' v. xx = (st', v) \<Longrightarrow> I st' \<Longrightarrow> I (snd (fst (ff st' v))))
    \<Longrightarrow> I (snd (fst (case xx of (st', v) \<Rightarrow> ff st' v)))"
  "(\<And>l a. ra = Ok (l, a) \<Longrightarrow> I (snd (fst (fa l a)))) \<Longrightarrow> (\<And>e. ra = Err e \<Longrightarrow> I (snd (fst (fe e))))
    \<Longrightarrow> (ra = Panic \<Longrightarrow> I (snd (fst fp)))
    \<Longrightarrow> I (snd (fst (case ra of Ok v \<Rightarrow> (case v of (l, a) \<Rightarrow> fa l a) | Err e \<Rightarrow> fe e | Panic \<Rightarrow> fp)))"
  by (auto split: option.splits result.splits prod.splits)

lemmas keep = ops reply reply_error

lemma peer_register: "I st \<Longrightarrow> I (snd (fst (ws_handle_peer_register E M s payload (h, st))))"
  unfolding ws_handle_peer_register_def Let_def prod.case by (intro conn_rules keep)

lemma peer_unregister: "I st \<Longrightarrow> I (snd (fst (ws_handle_peer_unregister E payload (h, st))))"
  unfolding ws_handle_peer_unregister_def Let_def prod.case by (intro conn_rules keep)

lemma call_request: "I st \<Longrightarrow> I (snd (fst (ws_handle_call_request E M s payload (h, st))))"
  unfolding ws_handle_call_request_def Let_def prod.case
  by (intro conn_rules keep) (simp_all add: fresh_call_def)

lemma call_accept: "I st \<Longrightarrow> I (snd (fst (ws_handle_call_accept E M s payload (h, st))))"
  unfolding ws_handle_call_accept_def Let_def prod.case by (intro conn_rules keep)

lemma call_reject: "I st \<Longrightarrow> I (snd (fst (ws_handle_call_reject E M s payload (h, st))))"
  unfolding ws_handle_call_reject_def Let_def prod.case by (intro conn_rules keep)

lemma relay: "I st \<Longrightarrow> I (fst (coordinate_masque_relay E M k p q st))"
  unfolding coordinate_masque_relay_def send_relay_needed_def by (intro state_rules keep)

lemma retry: "I st \<Longrightarrow> I (fst (handle_retryable_failure E M k p q reason other n st))"
  unfolding handle_retryable_failure_def Let_def by (intro state_rules keep)

lemma follow_up: "I st \<Longrightarrow> I (fst (failure_follow_up E M k reason c other st))"
  unfolding failure_follow_up_def Let_def by (intro state_rules relay retry)

lemma call_failed: "I st \<Longrightarrow> I (snd (fst (ws_handle_call_failed E M s payload (h, st))))"
  unfolding ws_handle_call_failed_def Let_def prod.case
  by (intro conn_rules keep follow_up)

lemma call_ended: "I st \<Longrightarrow> I (snd (fst (ws_handle_call_ended E M s payload (h, st))))"
  unfolding ws_handle_call_ended_def Let_def prod.case by (intro conn_rules keep)

lemma dispatch: "I st \<Longrightarrow> I (snd (fst (dispatch_ws_message E M s framed (h, st))))"
  unfolding dispatch_ws_message_def Let_def
  by (simp add: peer_register peer_unregister call_request call_accept call_reject call_failed
      call_ended reply)

lemma dispatch_result:
  "dispatch_ws_message E M s framed (h, st) = ((h', st'), r) \<Longrightarrow> I st \<Longrightarrow> I st'"
  using dispatch [of st M s framed h] by simp

lemma turn: "I st \<Longrightarrow> I (snd (fst (ws_turn E M s ev (h, st))))"
  unfolding ws_turn_def Let_def
  by (auto split: ws_event.splits option.splits result.splits prod.splits
      dest: dispatch_result intro: keep)

lemma session: "I st \<Longrightarrow> I (snd (fst (handle_ws_connection E d s evs (h, st))))"
proof (induction evs arbitrary: h st)
  case Nil
  then show ?case by simp
next
  case (Cons e evs)
  obtain M ev where e: "e = (M, ev)" by (cases e)
  obtain h' st' r g where t: "ws_turn E M s ev (h, st) = ((h', st'), r, g)"
    by (metis prod.exhaust)
  have "I st'"
    using turn [OF Cons.prems, of M s ev h] t by simp
  then show ?case
    using Cons.IH [of st' h']
    by (auto simp: e t ws_cleanup_def split: result.splits bool.splits option.splits intro: keep)
qed

end

text \<open>Every session turn is a sequence of atomic steps.\<close>

interpretation steps: op_closed E "(registry_step E)\<^sup>*\<^sup>* st0" for E st0
  by unfold_locales (blast intro: rtranclp.rtrancl_into_rtrancl step_atomic)

section \<open>What the registries hold\<close>

definition call_entry_ok :: "string \<Rightarrow> CallEntry \<Rightarrow> bool" where
  "call_entry_ok k c \<longleftrightarrow> cl_call_id c = k \<and> cl_state c \<in> {0, 1, 4}
     \<and> (cl_state c = 4 \<longrightarrow> cl_ended_at c \<noteq> None)
     \<and> cl_connected_at c = None \<and> cl_connection_method c = 0 \<and> cl_retry_count c = 0"

lemma call_entry_ok_changes:
  "fresh_call c \<Longrightarrow> call_entry_ok (cl_call_id c) c"
  "call_entry_ok k c \<Longrightarrow> call_entry_ok k (c\<lparr>cl_state := 1\<rparr>)"
  "call_entry_ok k c \<Longrightarrow> call_entry_ok k (c\<lparr>cl_state := 4, cl_ended_at := Some t, cl_failure_reason := x\<rparr>)"
  by (auto simp: call_entry_ok_def fresh_call_def)

definition entries_ok ::
  "('p \<Rightarrow> string \<Rightarrow> PeerEntry option) \<Rightarrow> ('c \<Rightarrow> string \<Rightarrow> CallEntry option) \<Rightarrow> ('p, 'c) AppState \<Rightarrow> bool" where
  "entries_ok plook clook st \<longleftrightarrow>
     (\<forall>k e. clook (as_calls st) k = Some e \<longrightarrow> call_entry_ok k e)
     \<and> (\<forall>k e. plook (as_peers st) k = Some e \<longrightarrow> pi_peer_id (pe_info e) = k)"

context registries
begin

lemma entries_ok_new: "entries_ok plook clook (AppState_new E rl ips cfg)"
  by (simp add: entries_ok_def AppState_new_def peers.new_empty calls.new_empty)

lemma entries_ok_peer_ops:
  assumes "entries_ok plook clook st"
  shows "entries_ok plook clook (fst (register_peer E info sender st))"
    and "entries_ok plook clook (fst (unregister_peer E p st))"
    and "entries_ok plook clook (disconnect_peer E p st)"
    and "entries_ok plook clook (fst (get_peer E p st))"
    and "entries_ok plook clook (fst (send_to_peer E M p msg st))"
  using assms
  by (auto simp: app_state_ops entries_ok_def Let_def split: option.splits prod.splits if_splits
      dest!: peers.get_mut_some peers.get_cases peers.pop_cases dest: peers.put_found)

lemma entries_ok_call_ops:
  assumes "entries_ok plook clook st"
  shows "fresh_call call \<Longrightarrow> entries_ok plook clook (fst (create_call E call st))"
    and "entries_ok plook clook (fst (update_call_state E k 1 st))"
    and "entries_ok plook clook (fst (end_call E M k reason st))"
    and "entries_ok plook clook (remove_call E k st)"
    and "entries_ok plook clook (fst (get_call E k st))"
  using assms
  by (auto simp: app_state_ops entries_ok_def calls.pop_keeps call_entry_ok_changes
      split: option.splits prod.splits if_splits
      dest!: calls.get_mut_some calls.get_cases dest: calls.put_found)

lemma entries_ok_step: "entries_ok plook clook st \<Longrightarrow> atomic_step E st st' \<Longrightarrow> entries_ok plook clook st'"
  by (erule atomic_step.cases)
    (auto simp: entries_ok_peer_ops entries_ok_call_ops, auto simp: entries_ok_def channel_send_def)

lemma entries_ok_registry_step: "entries_ok plook clook st \<Longrightarrow> registry_step E st st' \<Longrightarrow> entries_ok plook clook st'"
  by (erule registry_step.cases) (auto simp: entries_ok_step, auto simp: entries_ok_def add_proxy_def)

lemma entries_ok_reachable:
  assumes "(registry_step E)\<^sup>*\<^sup>* (AppState_new E rl ips cfg) st"
  shows "entries_ok plook clook st"
  using assms by (induction rule: rtranclp_induct) (auto intro: entries_ok_new entries_ok_registry_step)

end

section \<open>Who may change a call\<close>

text \<open>A change of the call registry that the peer \<open>p\<close> may cause: entries it writes are of calls it
  takes part in, entries that disappear are of such calls or were evicted, the parties of a call
  never change, and a call becomes accepted only by its callee.\<close>

definition authorized_change ::
  "string \<Rightarrow> bool \<Rightarrow> (string \<Rightarrow> CallEntry option) \<Rightarrow> (string \<Rightarrow> CallEntry option) \<Rightarrow> bool" where
  "authorized_change p evicts m m' \<longleftrightarrow>
     (\<forall>k e'. m' k = Some e' \<longrightarrow> m k = Some e' \<or> p = cl_caller_id e' \<or> p = cl_callee_id e')
     \<and> (\<forall>k e. m k = Some e \<and> m' k = None \<longrightarrow> evicts \<or> p = cl_caller_id e \<or> p = cl_callee_id e)
     \<and> (\<forall>k e e'. m k = Some e \<and> m' k = Some e' \<longrightarrow>
          cl_caller_id e' = cl_caller_id e \<and> cl_callee_id e' = cl_callee_id e
          \<and> (cl_state e' = 1 \<and> cl_state e \<noteq> 1 \<longrightarrow> p = cl_callee_id e))"

lemma authorized_refl [simp]: "authorized_change p b m m"
  by (auto simp: authorized_change_def)

lemma authorized_accept:
  "m k = Some e \<Longrightarrow> p = cl_callee_id e \<Longrightarrow> authorized_change p b m (m(k \<mapsto> e\<lparr>cl_state := 1\<rparr>))"
  by (auto simp: authorized_change_def)

lemma authorized_end:
  "m k = Some e \<Longrightarrow> p = cl_caller_id e \<or> p = cl_callee_id e \<Longrightarrow>
     authorized_change p b m (m(k \<mapsto> e\<lparr>cl_state := 4, cl_ended_at := t, cl_failure_reason := x\<rparr>))"
  by (auto simp: authorized_change_def)

lemma authorized_remove:
  "m k = Some e \<Longrightarrow> p = cl_caller_id e \<or> p = cl_callee_id e \<Longrightarrow> authorized_change p b m (m(k := None))"
  by (auto simp: authorized_change_def)

lemma authorized_create:
  assumes "\<And>j e. m' j = Some e \<Longrightarrow> p = cl_caller_id e \<and> m j = None \<or> m j = Some e"
  shows "authorized_change p True m m'"
  using assms by (fastforce simp: authorized_change_def)

lemma keep_calls:
  "as_calls (fst (channel_send M s msg st)) = as_calls st"
  "as_calls (reply E M s code text st) = as_calls st"
  "as_calls (reply_error E M s e st) = as_calls st"
  "as_calls (fst (register_peer E info sender st)) = as_calls st"
  "as_calls (fst (unregister_peer E p st)) = as_calls st"
  "as_calls (fst (get_peer E p st)) = as_calls st"
  "as_calls (fst (send_to_peer E M p msg st)) = as_calls st"
  by (auto simp: app_state_ops reply_def reply_error_def Let_def split: option.splits prod.splits)

lemma send_keeps_calls: "send_to_peer E M p msg st = (st', r) \<Longrightarrow> as_calls st' = as_calls st"
  using keep_calls(7) [of E M p msg st] by simp

lemma get_peer_keeps_calls: "get_peer E p st = (st', r) \<Longrightarrow> as_calls st' = as_calls st"
  using keep_calls(6) [of E p st] by simp

lemma relay_keeps_calls:
  "coordinate_masque_relay E M k p q st = (st', r) \<Longrightarrow> as_calls st' = as_calls st"
  by (auto simp: coordinate_masque_relay_def send_relay_needed_def split: option.splits
      prod.splits result.splits dest!: send_keeps_calls)

lemma retry_keeps_calls:
  "handle_retryable_failure E M k p q reason other n st = (st', r) \<Longrightarrow> as_calls st' = as_calls st"
  by (auto simp: handle_retryable_failure_def Let_def split: option.splits if_splits
      prod.splits result.splits dest!: send_keeps_calls get_peer_keeps_calls)

lemma follow_up_keeps_calls:
  "failure_follow_up E M k reason c other st = (st', r) \<Longrightarrow> as_calls st' = as_calls st"
  by (auto simp: failure_follow_up_def Let_def split: if_splits prod.splits result.splits
      dest!: relay_keeps_calls retry_keeps_calls)

lemmas keeps_calls = send_keeps_calls get_peer_keeps_calls follow_up_keeps_calls

context registries
begin

lemma register_authorized:
  "as_calls (snd (fst (ws_handle_peer_register E M s payload (h, st)))) = as_calls st"
  by (auto simp: ws_handle_peer_register_def Let_def keep_calls register_peer_def
      split: option.splits result.splits prod.splits)

lemma unregister_authorized:
  "as_calls (snd (fst (ws_handle_peer_unregister E payload (h, st)))) = as_calls st"
  by (auto simp: ws_handle_peer_unregister_def keep_calls split: option.splits)

text \<open>The operations on calls as changes of the map of calls.\<close>

lemma call_views:
  "get_call E k st = (st', g) \<Longrightarrow> g = clook (as_calls st) k \<and> clook (as_calls st') = clook (as_calls st)"
  "update_call_state E k v st = (st', r) \<Longrightarrow> clook (as_calls st') = (case clook (as_calls st) k of
      None \<Rightarrow> clook (as_calls st) | Some e \<Rightarrow> (clook (as_calls st))(k \<mapsto> e\<lparr>cl_state := v\<rparr>))"
  "end_call E M k x st = (st', r) \<Longrightarrow> clook (as_calls st') = (case clook (as_calls st) k of
      None \<Rightarrow> clook (as_calls st)
    | Some e \<Rightarrow> (clook (as_calls st))(k \<mapsto> e\<lparr>cl_state := 4, cl_ended_at := Some (mo_now_secs M),
                                              cl_failure_reason := x\<rparr>))"
  "create_call E call st = (st', r) \<Longrightarrow>
     \<not> is_ok r \<and> st' = st
     \<or> r = Ok () \<and> clook (as_calls st) (cl_call_id call) = None
       \<and> (\<forall>j e. clook (as_calls st') j = Some e
            \<longrightarrow> j = cl_call_id call \<and> e = call \<or> clook (as_calls st) j = Some e)"
  using get_call_maps(1,2) [of k st] update_call_state_maps(1) [of k v st]
    end_call_maps(1) [of M k x st] create_call_maps(1) [of call st]
  by (auto split: option.splits if_splits)

lemma call_request_authorized:
  assumes "ws_handle_call_request E M s payload (Some p, st) = ((h', st'), r)"
  shows "authorized_change p True (clook (as_calls st)) (clook (as_calls st'))"
  using assms
  by (auto simp: ws_handle_call_request_def Let_def keep_calls remove_call_maps(1)
      split: option.splits result.splits prod.splits if_splits dest!: keeps_calls call_views(4))
    (rule authorized_create, fastforce split: if_splits)+

lemma call_accept_authorized:
  assumes "ws_handle_call_accept E M s payload (Some p, st) = ((h', st'), r)"
  shows "authorized_change p b (clook (as_calls st)) (clook (as_calls st'))"
  using assms
  by (auto simp: ws_handle_call_accept_def Let_def keep_calls
      split: option.splits result.splits prod.splits if_splits
      intro: authorized_accept dest!: keeps_calls call_views)

lemma call_reject_authorized:
  assumes "ws_handle_call_reject E M s payload (Some p, st) = ((h', st'), r)"
  shows "authorized_change p b (clook (as_calls st)) (clook (as_calls st'))"
  using assms
  by (auto simp: ws_handle_call_reject_def Let_def keep_calls remove_call_maps(1)
      split: option.splits result.splits prod.splits if_splits
      intro: authorized_remove dest!: keeps_calls call_views)

lemma call_ended_authorized:
  assumes "ws_handle_call_ended E M s payload (Some p, st) = ((h', st'), r)"
  shows "authorized_change p b (clook (as_calls st)) (clook (as_calls st'))"
  using assms
  by (auto simp: ws_handle_call_ended_def Let_def keep_calls remove_call_maps(1)
      split: option.splits result.splits prod.splits if_splits
      intro: authorized_remove dest!: keeps_calls call_views)

lemma call_failed_authorized:
  assumes "ws_handle_call_failed E M s payload (Some p, st) = ((h', st'), r)"
  shows "authorized_change p b (clook (as_calls st)) (clook (as_calls st'))"
  using assms
  by (auto simp: ws_handle_call_failed_def Let_def keep_calls
      split: option.splits result.splits prod.splits if_splits
      intro: authorized_end dest!: keeps_calls call_views)

lemma dispatch_authorized:
  assumes "dispatch_ws_message E M s framed (Some p, st) = ((h', st'), r)"
  shows "authorized_change p (fm_type_id framed = CALL_REQUEST_CS)
    (clook (as_calls st)) (clook (as_calls st'))"
  using assms register_authorized [of M s "fm_payload framed" "Some p" st]
    unregister_authorized [of "fm_payload framed" "Some p" st]
  by (auto simp: dispatch_ws_message_def Let_def keep_calls split: if_splits
      dest: call_request_authorized call_accept_authorized call_reject_authorized
        call_failed_authorized call_ended_authorized)

end

section \<open>Delivery\<close>

definition online ::
  "('p \<Rightarrow> string \<Rightarrow> PeerEntry option) \<Rightarrow> moment \<Rightarrow> ('p, 'c) AppState \<Rightarrow> string \<Rightarrow> session \<Rightarrow> bool" where
  "online plook M st p s \<longleftrightarrow>
     Option.bind (plook (as_peers st) p) pe_sender = Some s \<and> mo_alive M s"

context registries
begin

lemma send_online:
  assumes "online plook M st p s"
  shows "\<exists>st'. send_to_peer E M p msg st = (st', Ok ()) \<and> as_outbox st' = as_outbox st @ [(s, msg)]
    \<and> as_calls st' = as_calls st \<and> plook (as_peers st') = plook (as_peers st)
    \<and> as_proxies st' = as_proxies st \<and> as_config st' = as_config st"
proof -
  obtain st' r where s: "send_to_peer E M p msg st = (st', r)" by fastforce
  then show ?thesis
    using assms send_to_peer_maps [OF s]
    by (auto simp: online_def bind_eq_Some_conv s send_to_peer_def channel_send_def Let_def
        split: prod.splits option.splits if_splits)
qed

lemma online_cong:
  "plook (as_peers st') = plook (as_peers st) \<Longrightarrow> online plook M st' p s = online plook M st p s"
  by (simp add: online_def)

lemma create_call_online:
  assumes "online plook M st (cl_caller_id c) sp" and "online plook M st (cl_callee_id c) sq"
    and "clook (as_calls st) (cl_call_id c) = None"
  shows "\<exists>st'. create_call E c st = (st', Ok ()) \<and> clook (as_calls st') (cl_call_id c) = Some c
    \<and> as_peers st' = as_peers st \<and> as_outbox st' = as_outbox st"
  using assms
  by (auto simp: create_call_def online_def bind_eq_Some_conv peers.contains_iff calls.contains_iff
      calls.put_same)

lemma request_delivers:
  assumes "dec_CallRequest (se_codec E) payload = Some m"
    and "online plook M st (cr_caller_id m) sp" and "online plook M st (cr_callee_id m) sq"
    and "clook (as_calls st) (cr_call_id m) = None"
    and "check_call (mo_instant M) (cr_caller_id m) (as_rate_limiter st) = Ok (l, True)"
  shows "\<exists>st' c. ws_handle_call_request E M sp payload (Some (cr_caller_id m), st)
        = ((Some (cr_caller_id m), st'), Ok ())
    \<and> as_outbox st' = as_outbox st @ [(sq, \<lparr> fm_type_id = CALL_REQUEST_SC, fm_payload = payload \<rparr>)]
    \<and> clook (as_calls st') (cr_call_id m) = Some c \<and> cl_state c = 0
    \<and> cl_caller_id c = cr_caller_id m \<and> cl_callee_id c = cr_callee_id m
    \<and> plook (as_peers st') = plook (as_peers st)"
proof -
  let ?st0 = "st\<lparr>as_rate_limiter := l\<rparr>"
  define c where "c = \<lparr> cl_call_id = cr_call_id m, cl_caller_id = cr_caller_id m,
     cl_callee_id = cr_callee_id m, cl_state = 0, cl_connection_method = 0,
     cl_discovery_method = cr_discovery_method m,
     cl_created_at = mo_now_secs M, cl_connected_at = None, cl_ended_at = None,
     cl_failure_reason = None, cl_retry_count = 0 \<rparr>"
  have on: "online plook M ?st0 (cl_caller_id c) sp" "online plook M ?st0 (cl_callee_id c) sq"
    using assms(2,3) by (simp_all add: c_def online_def)
  obtain st1 where st1: "create_call E c ?st0 = (st1, Ok ())"
    "clook (as_calls st1) (cr_call_id m) = Some c" "as_peers st1 = as_peers st"
    "as_outbox st1 = as_outbox st"
    using create_call_online [OF on] assms(4) by (auto simp: c_def)
  have "online plook M st1 (cr_callee_id m) sq"
    using assms(3) st1(3) by (simp add: online_def)
  from send_online [OF this, of "\<lparr> fm_type_id = CALL_REQUEST_SC, fm_payload = payload \<rparr>"]
  obtain st2 where "send_to_peer E M (cr_callee_id m)
      \<lparr> fm_type_id = CALL_REQUEST_SC, fm_payload = payload \<rparr> st1 = (st2, Ok ())"
    "as_outbox st2 = as_outbox st1 @ [(sq, \<lparr> fm_type_id = CALL_REQUEST_SC, fm_payload = payload \<rparr>)]"
    "as_calls st2 = as_calls st1" "plook (as_peers st2) = plook (as_peers st1)"
    by blast
  with assms(1,5) st1 show ?thesis
    by (auto simp: ws_handle_call_request_def c_def intro!: exI [of _ st2])
qed

lemma ws_register_online:
  assumes "dec_PeerRegister (se_codec E) pl = Some m" and "rg_peer_id m = p"
    and "plook (as_peers st) p \<noteq> None"
    and "res_map snd (check_ws_message (mo_instant M) p (as_rate_limiter st)) = Ok True"
    and "res_map snd (check_registration (mo_instant M) p (as_rate_limiter st)) = Ok True"
  shows "\<exists>st' e. ws_turn E M s
      (WsBinary (FramedMessage_to_bytes \<lparr> fm_type_id = PEER_REGISTER, fm_payload = pl \<rparr>)) (Some p, st)
      = ((Some p, st'), Ok (), True)
    \<and> plook (as_peers st') = (plook (as_peers st))(p \<mapsto> e) \<and> pe_sender e = Some s
    \<and> as_calls st' = as_calls st \<and> as_outbox st' = as_outbox st
    \<and> (\<forall>now q. res_map snd (check_call now q (as_rate_limiter st'))
      = res_map snd (check_call now q (as_rate_limiter st)))"
proof -
  obtain l1 where l1: "check_ws_message (mo_instant M) p (as_rate_limiter st) = Ok (l1, True)"
    using assms(4) by (auto simp: res_map_eq_Ok_iff)
  obtain l2 where l2: "check_registration (mo_instant M) p l1 = Ok (l2, True)"
    using assms(5) checks_independent(1) [OF l1, of "mo_instant M" p]
    by (auto simp: res_map_eq_Ok_iff)
  define info where "info = \<lparr> pi_peer_id = rg_peer_id m, pi_display_name = rg_display_name m,
     pi_ipv6_addresses = rg_ipv6_addresses m, pi_ipv4_reflexive = rg_ipv4_reflexive m,
     pi_nat_type = (case rg_nat_info m of Some n \<Rightarrow> p_nat_type n | None \<Rightarrow> 0),
     pi_status = rg_status m,
     pi_fcm_token = (if rg_fcm_token m = [] then None else Some (rg_fcm_token m)),
     pi_last_seen = mo_now_secs M \<rparr>"
  obtain st' r where reg: "register_peer E info (Some s) (st\<lparr>as_rate_limiter := l2\<rparr>) = (st', r)"
    by fastforce
  have p: "pi_peer_id info = p" by (simp add: info_def assms(2))
  obtain e where e: "plook (as_peers (st\<lparr>as_rate_limiter := l2\<rparr>)) (pi_peer_id info) = Some e"
    using assms(3) p by auto
  note m = register_peer_maps(1,4) [OF reg]
  have rest: "as_calls st' = as_calls st" "as_outbox st' = as_outbox st" "as_rate_limiter st' = l2"
    using arg_cong [OF m(2), of as_calls] arg_cong [OF m(2), of as_outbox] arg_cong [OF m(2), of as_rate_limiter]
    by simp_all
  have h: "ws_handle_peer_register E M s pl (Some p, st\<lparr>as_rate_limiter := l1\<rparr>) = ((Some p, st'), Ok ())"
    using assms(1,2) l2 reg m(1) by (simp add: ws_handle_peer_register_def info_def)
  have "ws_turn E M s
      (WsBinary (FramedMessage_to_bytes \<lparr> fm_type_id = PEER_REGISTER, fm_payload = pl \<rparr>)) (Some p, st)
      = ((Some p, st'), Ok (), True)"
    using l1 h by (simp add: ws_turn_def dispatch_ws_message_def framed_bytes)
  moreover note register_present [OF reg e]
  moreover have "\<forall>now q. res_map snd (check_call now q (as_rate_limiter st'))
      = res_map snd (check_call now q (as_rate_limiter st))"
    by (simp add: rest checks_independent(3) [OF l2] checks_independent(2) [OF l1])
  ultimately show ?thesis using rest p by (intro exI [of _ st'] exI conjI) (auto simp: p)
qed

lemma get_call_found:
  assumes "clook (as_calls st) k = Some c"
  shows "\<exists>x. get_call E k st = (st\<lparr>as_calls := x\<rparr>, Some c) \<and> clook x = clook (as_calls st)"
  using assms by (auto simp: get_call_def split: prod.splits dest!: calls.get_cases)

lemma update_call_found:
  assumes "clook (as_calls st) k = Some c"
  shows "\<exists>x. update_call_state E k v st = (st\<lparr>as_calls := x\<rparr>, Ok ())
    \<and> clook x = (clook (as_calls st))(k \<mapsto> c\<lparr>cl_state := v\<rparr>)"
  using assms calls.get_mut_none [of "as_calls st" k]
  by (auto simp: update_call_state_def split: option.splits dest!: calls.get_mut_some)

lemma end_call_found:
  assumes "clook (as_calls st) k = Some c"
  shows "\<exists>x. end_call E M k reason st = (st\<lparr>as_calls := x\<rparr>, Ok ())
    \<and> clook x = (clook (as_calls st))(k \<mapsto> c\<lparr>cl_state := 4, cl_ended_at := Some (mo_now_secs M),
                                              cl_failure_reason := reason\<rparr>)"
  using assms calls.get_mut_none [of "as_calls st" k]
  by (auto simp: end_call_def split: option.splits dest!: calls.get_mut_some)

lemma online_calls [simp]: "online plook M (st\<lparr>as_calls := x\<rparr>) p s = online plook M st p s"
  by (simp add: online_def)

lemma accept_delivers:
  assumes "dec_CallAccept (se_codec E) payload = Some m"
    and "clook (as_calls st) (ca_call_id m) = Some c" and "online plook M st (cl_caller_id c) sp"
  shows "\<exists>st'. ws_handle_call_accept E M s payload (Some (cl_callee_id c), st)
        = ((Some (cl_callee_id c), st'), Ok ())
    \<and> as_outbox st' = as_outbox st @ [(sp, \<lparr> fm_type_id = CALL_ACCEPT_SC, fm_payload = payload \<rparr>)]
    \<and> clook (as_calls st') = (clook (as_calls st))(ca_call_id m \<mapsto> c\<lparr>cl_state := 1\<rparr>)
    \<and> plook (as_peers st') = plook (as_peers st)"
proof -
  let ?msg = "\<lparr> fm_type_id = CALL_ACCEPT_SC, fm_payload = payload \<rparr>"
  obtain x1 where 1: "get_call E (ca_call_id m) st = (st\<lparr>as_calls := x1\<rparr>, Some c)"
    "clook x1 = clook (as_calls st)"
    using get_call_found [OF assms(2)] by blast
  obtain x2 where 2: "update_call_state E (ca_call_id m) 1 (st\<lparr>as_calls := x1\<rparr>)
      = (st\<lparr>as_calls := x2\<rparr>, Ok ())"
    "clook x2 = (clook (as_calls st))(ca_call_id m \<mapsto> c\<lparr>cl_state := 1\<rparr>)"
    using update_call_found [of "st\<lparr>as_calls := x1\<rparr>" "ca_call_id m" c 1] assms(2) 1(2) by auto
  obtain x3 where 3: "get_call E (ca_call_id m) (st\<lparr>as_calls := x2\<rparr>)
      = (st\<lparr>as_calls := x3\<rparr>, Some (c\<lparr>cl_state := 1\<rparr>))" "clook x3 = clook x2"
    using get_call_found [of "st\<lparr>as_calls := x2\<rparr>" "ca_call_id m" "c\<lparr>cl_state := 1\<rparr>"] 2(2) by auto
  obtain st4 where "send_to_peer E M (cl_caller_id c) ?msg (st\<lparr>as_calls := x3\<rparr>) = (st4, Ok ())"
    "as_outbox st4 = as_outbox st @ [(sp, ?msg)]" "as_calls st4 = x3"
    "plook (as_peers st4) = plook (as_peers st)"
    using send_online [of M "st\<lparr>as_calls := x3\<rparr>" "cl_caller_id c" sp ?msg] assms(3) by auto
  with assms(1) 1 2 3 show ?thesis
    by (auto simp: ws_handle_call_accept_def)
qed

lemma ended_delivers:
  assumes "dec_CallEnded (se_codec E) payload = Some m"
    and "clook (as_calls st) (ce_call_id m) = Some c"
    and "p = cl_caller_id c \<or> p = cl_callee_id c"
    and "online plook M st (other_party (Some p) c) so"
  shows "\<exists>st'. ws_handle_call_ended E M s payload (Some p, st) = ((Some p, st'), Ok ())
    \<and> as_outbox st' = as_outbox st @ [(so, \<lparr> fm_type_id = CALL_ENDED, fm_payload = payload \<rparr>)]
    \<and> clook (as_calls st') = (clook (as_calls st))(ce_call_id m := None)
    \<and> plook (as_peers st') = plook (as_peers st)"
proof -
  let ?msg = "\<lparr> fm_type_id = CALL_ENDED, fm_payload = payload \<rparr>"
  obtain x1 where 1: "get_call E (ce_call_id m) st = (st\<lparr>as_calls := x1\<rparr>, Some c)"
    "clook x1 = clook (as_calls st)"
    using get_call_found [OF assms(2)] by blast
  obtain st2 where 2: "send_to_peer E M (other_party (Some p) c) ?msg (st\<lparr>as_calls := x1\<rparr>) = (st2, Ok ())"
    "as_outbox st2 = as_outbox st @ [(so, ?msg)]" "as_calls st2 = x1"
    "plook (as_peers st2) = plook (as_peers st)"
    using send_online [of M "st\<lparr>as_calls := x1\<rparr>" "other_party (Some p) c" so ?msg] assms(4) by auto
  obtain x3 where 3: "end_call E M (ce_call_id m) None st2 = (st2\<lparr>as_calls := x3\<rparr>, Ok ())"
    "clook x3 = (clook (as_calls st))(ce_call_id m \<mapsto> c\<lparr>cl_state := 4,
        cl_ended_at := Some (mo_now_secs M), cl_failure_reason := None\<rparr>)"
    using end_call_found [of st2 "ce_call_id m" c M None] assms(2) 1(2) 2(3) by auto
  show ?thesis
    using assms(1,3) 1 2 3 remove_call_maps(1) [of "ce_call_id m" "st2\<lparr>as_calls := x3\<rparr>"]
    by (auto simp: ws_handle_call_ended_def remove_call_def)
qed

lemma relay_delivers:
  assumes "as_proxies st = px # rest" and "online plook M st p sp" and "online plook M st q sq"
  shows "\<exists>st'. coordinate_masque_relay E M k p q st = (st', Ok ())
    \<and> as_outbox st' = as_outbox st @ [(sp, relay_needed_message E M k px p q),
                                      (sq, relay_needed_message E M k px q p)]
    \<and> as_calls st' = as_calls st \<and> plook (as_peers st') = plook (as_peers st)"
proof -
  obtain st1 where 1: "send_to_peer E M p (relay_needed_message E M k px p q) st = (st1, Ok ())"
    "as_outbox st1 = as_outbox st @ [(sp, relay_needed_message E M k px p q)]"
    "as_calls st1 = as_calls st" "plook (as_peers st1) = plook (as_peers st)"
    using send_online [OF assms(2)] by blast
  have "online plook M st1 q sq" using assms(3) 1(4) by (simp add: online_def)
  from send_online [OF this, of "relay_needed_message E M k px q p"] 1 assms(1)
  show ?thesis
    by (auto simp: coordinate_masque_relay_def send_relay_needed_def select_proxy_def
        get_proxies_def)
qed

lemma retry_delivers:
  assumes "n < push_retry_max_attempts (as_config st)"
    and "retry_delay_secs (se_oc E) (as_config st) (n + 1) = Ok d"
    and "checked_mul (se_oc E) d 1000 = (Ok ms :: (u64, unit) result)"
    and "online plook M st other so"
  shows "\<exists>st'. handle_retryable_failure E M k p q reason other n st = (st', Ok ())
    \<and> as_outbox st' = as_outbox st
        @ [(so, build_push_retry_message (se_codec E) k p q reason (n + 1) ms)]
    \<and> as_calls st' = as_calls st \<and> plook (as_peers st') = plook (as_peers st)"
proof -
  let ?msg = "build_push_retry_message (se_codec E) k p q reason (n + 1) ms"
  obtain st1 where 1: "send_to_peer E M other ?msg st = (st1, Ok ())"
    "as_outbox st1 = as_outbox st @ [(so, ?msg)]"
    "as_calls st1 = as_calls st" "plook (as_peers st1) = plook (as_peers st)"
    using send_online [OF assms(4)] by blast
  obtain x r where "lru_get (se_peers E) (as_peers st1) other = (x, r)" by fastforce
  then have 2: "get_peer E other st1 = (st1\<lparr>as_peers := x\<rparr>, map_option pe_info r)"
    "plook x = plook (as_peers st1)"
    by (auto simp: get_peer_def dest!: peers.get_cases)
  show ?thesis
    using assms(1-3) 1 2
    by (auto simp: handle_retryable_failure_def not_le [symmetric] Let_def split: option.splits)
qed

lemma failed_delivers:
  assumes "dec_CallFailed (se_codec E) payload = Some m"
    and "clook (as_calls st) (cf_call_id m) = Some c"
    and "h = cl_caller_id c \<or> h = cl_callee_id c"
    and "online plook M st (other_party (Some h) c) so"
    and "\<And>st1. as_outbox st1 = as_outbox st @ [(so, \<lparr> fm_type_id = CALL_FAILED, fm_payload = payload \<rparr>)]
       \<Longrightarrow> as_proxies st1 = as_proxies st \<Longrightarrow> as_config st1 = as_config st
       \<Longrightarrow> plook (as_peers st1) = plook (as_peers st) \<Longrightarrow> clook (as_calls st1) = clook (as_calls st)
       \<Longrightarrow> \<exists>st2. failure_follow_up E M (cf_call_id m) (cf_reason m) c (other_party (Some h) c) st1
                 = (st2, Ok ())
             \<and> as_outbox st2 = as_outbox st1 @ sent \<and> as_calls st2 = as_calls st1"
  shows "\<exists>st'. ws_handle_call_failed E M s payload (Some h, st) = ((Some h, st'), Ok ())
    \<and> as_outbox st' = as_outbox st @ (so, \<lparr> fm_type_id = CALL_FAILED, fm_payload = payload \<rparr>) # sent
    \<and> map_option cl_state (clook (as_calls st') (cf_call_id m)) = Some 4"
proof -
  let ?msg = "\<lparr> fm_type_id = CALL_FAILED, fm_payload = payload \<rparr>"
  obtain x1 where 1: "get_call E (cf_call_id m) st = (st\<lparr>as_calls := x1\<rparr>, Some c)"
    "clook x1 = clook (as_calls st)"
    using get_call_found [OF assms(2)] by blast
  obtain st2 where 2: "send_to_peer E M (other_party (Some h) c) ?msg (st\<lparr>as_calls := x1\<rparr>) = (st2, Ok ())"
    "as_outbox st2 = as_outbox st @ [(so, ?msg)]" "as_calls st2 = x1"
    "plook (as_peers st2) = plook (as_peers st)" "as_proxies st2 = as_proxies st"
    "as_config st2 = as_config st"
    using send_online [of M "st\<lparr>as_calls := x1\<rparr>" "other_party (Some h) c" so ?msg] assms(4) by auto
  obtain st3 where 3: "failure_follow_up E M (cf_call_id m) (cf_reason m) c (other_party (Some h) c) st2
      = (st3, Ok ())" "as_outbox st3 = as_outbox st2 @ sent" "as_calls st3 = as_calls st2"
    using assms(5) [of st2] 1 2 by auto
  obtain x4 where "end_call E M (cf_call_id m) (Some (cf_description m)) st3 = (st3\<lparr>as_calls := x4\<rparr>, Ok ())"
    "clook x4 (cf_call_id m) = Some (c\<lparr>cl_state := 4,
        cl_ended_at := Some (mo_now_secs M), cl_failure_reason := Some (cf_description m)\<rparr>)"
    using end_call_found [of st3 "cf_call_id m" c M "Some (cf_description m)"] assms(2) 1 2 3 by auto
  with assms(1,3) 1 2 3 show ?thesis
    by (auto simp: ws_handle_call_failed_def)
qed

end

section \<open>A server with two peers\<close>

definition two_peers :: "(PeerEntry lru_list, CallEntry lru_list) AppState" where
  "two_peers =
     fst (register_peer sample_env (sample_info ''bob'') (Some 5)
       (fst (register_peer sample_env (sample_info ''alice'') (Some 3) sample_server)))"

definition sample_call :: CallEntry where
  "sample_call = \<lparr> cl_call_id = ''c1'', cl_caller_id = ''alice'', cl_callee_id = ''bob'',
     cl_state = 1, cl_connection_method = 0, cl_discovery_method = 0, cl_created_at = 0,
     cl_connected_at = None, cl_ended_at = None, cl_failure_reason = None, cl_retry_count = 0 \<rparr>"

definition busy_server :: "(PeerEntry lru_list, CallEntry lru_list) AppState" where
  "busy_server = fst (create_call sample_env sample_call two_peers)"

lemma two_peers_peers:
  "as_peers two_peers = (10000, [(''bob'', \<lparr> pe_info = sample_info ''bob'', pe_sender = Some 5 \<rparr>),
     (''alice'', \<lparr> pe_info = sample_info ''alice'', pe_sender = Some 3 \<rparr>)])"
  by (simp add: two_peers_def register_peer_def sample_env_def list_env_def lru_list_ops_def
      sample_server_def AppState_new_def touch_def sample_info_def)

lemma two_peers_rest:
  "as_calls two_peers = (1000, [])" "as_proxies two_peers = []"
  "as_rate_limiter two_peers = RateLimiter_new RateLimitConfig_default"
  "as_config two_peers = VoIPConfig_default" "as_outbox two_peers = []"
  by (simp_all add: two_peers_def register_peer_def sample_env_def list_env_def lru_list_ops_def
      sample_server_def AppState_new_def touch_def sample_info_def)

lemma two_peers_online:
  "online lru_list_lookup sample_moment two_peers ''alice'' 3"
  "online lru_list_lookup sample_moment two_peers ''bob'' 5"
  by (simp_all add: online_def two_peers_peers lru_list_lookup_def sample_moment_def)

lemma busy_server_eq: "busy_server = two_peers\<lparr>as_calls := (1000, [(''c1'', sample_call)])\<rparr>"
  by (simp add: busy_server_def create_call_def two_peers_peers two_peers_rest sample_call_def
      sample_env_def list_env_def lru_list_ops_def touch_def)

lemma two_peers_reachable:
  "(registry_step sample_env)\<^sup>*\<^sup>* (AppState_new sample_env RateLimitConfig_default [] VoIPConfig_default) two_peers"
  unfolding two_peers_def sample_server_def
  by (rule rtranclp.rtrancl_into_rtrancl [OF r_into_rtranclp]) (rule step_atomic, rule step_register)+

section \<open>Properties\<close>

text \<open>C13: what every reachable server state satisfies, in whatever way the sessions interleave.
  The registries are keyed by the identifiers of their entries; a call is ringing, accepted or
  ended, an ended one has its end time, and the connection and retry fields keep their initial
  values.  A session turn consists of such steps, so it stays inside this set.\<close>

theorem server_registry_invariant:
  assumes "registries E plook clook"
    and "(registry_step E)\<^sup>*\<^sup>* (AppState_new E rl ips cfg) st"
  shows "entries_ok plook clook st
    \<and> (registry_step E)\<^sup>*\<^sup>* (AppState_new E rl ips cfg) (snd (fst (ws_turn E M s ev (holder, st))))
    \<and> entries_ok plook clook (snd (fst (ws_turn E M s ev (holder, st))))"
  using registries.entries_ok_reachable [OF assms(1)] assms(2) steps.turn [OF assms(2)] by blast

theorem server_registry_invariant_witness:
  "entries_ok lru_list_lookup lru_list_lookup
     (snd (fst (ws_turn sample_env sample_moment 3 (WsBinary [0, 1]) (Some ''alice'', two_peers))))"
  using server_registry_invariant [OF sample_registries two_peers_reachable] by blast



text \<open>C24: signaling of a successful call.  Between two connected peers, request, acceptance and
  end reach the respective other party unchanged and in this order, nothing else is sent, and
  the call is ringing, then accepted, then gone.\<close>

theorem call_signaling_delivers:
  assumes "registries E plook clook"
    and "dec_CallRequest (se_codec E) pl1 = Some m1" and "dec_CallAccept (se_codec E) pl2 = Some m2"
    and "dec_CallEnded (se_codec E) pl3 = Some m3"
    and "k = cr_call_id m1" and "ca_call_id m2 = k" and "ce_call_id m3 = k"
    and "p = cr_caller_id m1" and "q = cr_callee_id m1"
    and "online plook M st p sp" and "online plook M st q sq"
    and "clook (as_calls st) k = None"
    and "check_call (mo_instant M) p (as_rate_limiter st) = Ok (l, True)"
  shows "\<exists>st1 st2 st3.
      dispatch_ws_message E M sp \<lparr> fm_type_id = CALL_REQUEST_CS, fm_payload = pl1 \<rparr> (Some p, st)
        = ((Some p, st1), Ok ())
    \<and> dispatch_ws_message E M sq \<lparr> fm_type_id = CALL_ACCEPT_CS, fm_payload = pl2 \<rparr> (Some q, st1)
        = ((Some q, st2), Ok ())
    \<and> dispatch_ws_message E M sp \<lparr> fm_type_id = CALL_ENDED, fm_payload = pl3 \<rparr> (Some p, st2)
        = ((Some p, st3), Ok ())
    \<and> as_outbox st3 = as_outbox st @ [(sq, \<lparr> fm_type_id = CALL_REQUEST_SC, fm_payload = pl1 \<rparr>),
        (sp, \<lparr> fm_type_id = CALL_ACCEPT_SC, fm_payload = pl2 \<rparr>),
        (sq, \<lparr> fm_type_id = CALL_ENDED, fm_payload = pl3 \<rparr>)]
    \<and> map_option cl_state (clook (as_calls st1) k) = Some 0
    \<and> map_option cl_state (clook (as_calls st2) k) = Some 1
    \<and> clook (as_calls st3) k = None"
proof -
  note laws = registries.request_delivers [OF assms(1)] registries.accept_delivers [OF assms(1)]
    registries.ended_delivers [OF assms(1)] registries.online_cong [OF assms(1)]
  obtain st1 c where 1: "ws_handle_call_request E M sp pl1 (Some p, st) = ((Some p, st1), Ok ())"
    "as_outbox st1 = as_outbox st @ [(sq, \<lparr> fm_type_id = CALL_REQUEST_SC, fm_payload = pl1 \<rparr>)]"
    "clook (as_calls st1) k = Some c" "cl_state c = 0" "cl_caller_id c = p" "cl_callee_id c = q"
    "plook (as_peers st1) = plook (as_peers st)"
    using laws(1) [OF assms(2), of M st sp sq l] assms(5,8-13) by auto
  obtain st2 where 2: "ws_handle_call_accept E M sq pl2 (Some q, st1) = ((Some q, st2), Ok ())"
    "as_outbox st2 = as_outbox st1 @ [(sp, \<lparr> fm_type_id = CALL_ACCEPT_SC, fm_payload = pl2 \<rparr>)]"
    "clook (as_calls st2) = (clook (as_calls st1))(k \<mapsto> c\<lparr>cl_state := 1\<rparr>)"
    "plook (as_peers st2) = plook (as_peers st1)"
    using laws(2) [OF assms(3), of st1 c M sp sq] assms(6,10) 1 laws(4) [OF 1(7)] by auto
  have o: "other_party (Some p) (c\<lparr>cl_state := 1\<rparr>) = q"
    using 1(5,6) by (auto simp: other_party_def)
  have "online plook M st2 q sq"
    using assms(11) 1(7) 2(4) by (simp add: online_def)
  then obtain st3 where 3: "ws_handle_call_ended E M sp pl3 (Some p, st2) = ((Some p, st3), Ok ())"
    "as_outbox st3 = as_outbox st2 @ [(sq, \<lparr> fm_type_id = CALL_ENDED, fm_payload = pl3 \<rparr>)]"
    "clook (as_calls st3) = (clook (as_calls st2))(k := None)"
    using laws(3) [OF assms(4), of st2 "c\<lparr>cl_state := 1\<rparr>" p M sq sp] assms(7) 1(5) 2(3) o by auto
  show ?thesis
    using 1 2 3 by (intro exI [of _ st1] exI [of _ st2] exI [of _ st3])
      (simp add: dispatch_ws_message_def)
qed

theorem call_signaling_delivers_witness:
  "\<exists>st1 st2 st3.
      dispatch_ws_message sample_env sample_moment 3
        \<lparr> fm_type_id = CALL_REQUEST_CS, fm_payload = str_bytes ''c1,alice,bob'' \<rparr> (Some ''alice'', two_peers)
        = ((Some ''alice'', st1), Ok ())
    \<and> dispatch_ws_message sample_env sample_moment 5
        \<lparr> fm_type_id = CALL_ACCEPT_CS, fm_payload = str_bytes ''c1'' \<rparr> (Some ''bob'', st1)
        = ((Some ''bob'', st2), Ok ())
    \<and> dispatch_ws_message sample_env sample_moment 3
        \<lparr> fm_type_id = CALL_ENDED, fm_payload = str_bytes ''c1'' \<rparr> (Some ''alice'', st2)
        = ((Some ''alice'', st3), Ok ())
    \<and> as_outbox st3 = as_outbox two_peers
        @ [(5, \<lparr> fm_type_id = CALL_REQUEST_SC, fm_payload = str_bytes ''c1,alice,bob'' \<rparr>),
           (3, \<lparr> fm_type_id = CALL_ACCEPT_SC, fm_payload = str_bytes ''c1'' \<rparr>),
           (5, \<lparr> fm_type_id = CALL_ENDED, fm_payload = str_bytes ''c1'' \<rparr>)]
    \<and> map_option cl_state (lru_list_lookup (as_calls st1) ''c1'') = Some 0
    \<and> map_option cl_state (lru_list_lookup (as_calls st2) ''c1'') = Some 1
    \<and> lru_list_lookup (as_calls st3) ''c1'' = None"
proof -
  have codec: "se_codec sample_env = plain_codec"
    by (simp add: sample_env_def list_env_def)
  define m1 where "m1 = the (dec_CallRequest plain_codec (str_bytes ''c1,alice,bob''))"
  define m2 where "m2 = the (dec_CallAccept plain_codec (str_bytes ''c1''))"
  define m3 where "m3 = the (dec_CallEnded plain_codec (str_bytes ''c1''))"
  have m1: "dec_CallRequest (se_codec sample_env) (str_bytes ''c1,alice,bob'') = Some m1"
    "cr_call_id m1 = ''c1''" "cr_caller_id m1 = ''alice''" "cr_callee_id m1 = ''bob''"
    by (simp_all add: m1_def codec plain_codec_def comma_part_def bytes_str_str_bytes numeral_2_eq_2)
  have m2: "dec_CallAccept (se_codec sample_env) (str_bytes ''c1'') = Some m2" "ca_call_id m2 = ''c1''"
    by (simp_all add: m2_def codec plain_codec_def comma_part_def bytes_str_str_bytes)
  have m3: "dec_CallEnded (se_codec sample_env) (str_bytes ''c1'') = Some m3" "ce_call_id m3 = ''c1''"
    by (simp_all add: m3_def codec plain_codec_def comma_part_def bytes_str_str_bytes)
  have "res_map snd (check_call 0 ''alice'' (RateLimiter_new RateLimitConfig_default)) = Ok True"
    by (simp add: check_call_def entry_or_insert_def RateLimiter_new_def RateLimitConfig_default_def
        BucketConfig_CALLS_def try_consume_def refill_def Let_def)
  then obtain l where l: "check_call (mo_instant sample_moment) ''alice'' (as_rate_limiter two_peers)
      = Ok (l, True)"
    by (auto simp: two_peers_rest sample_moment_def res_map_eq_Ok_iff)
  have none: "lru_list_lookup (as_calls two_peers) ''c1'' = None"
    by (simp add: two_peers_rest lru_list_lookup_def)
  show ?thesis
    by (rule call_signaling_delivers [OF sample_registries m1(1) m2(1) m3(1) m1(2) [symmetric] m2(2)
        m3(2) m1(3) [symmetric] m1(4) [symmetric] two_peers_online none l])
qed

text \<open>The frames expected to follow the failure notice, for the sessions of caller, callee and
  the other party.\<close>

definition follow_up_frames ::
  "('p, 'c) server_env \<Rightarrow> moment \<Rightarrow> ('p, 'c) AppState \<Rightarrow> CallFailed \<Rightarrow> CallEntry
     \<Rightarrow> session \<Rightarrow> session \<Rightarrow> session \<Rightarrow> u64 \<Rightarrow> (session \<times> FramedMessage) list" where
  "follow_up_frames E M st m c sp sq so ms =
     (case as_proxies st of
        px # _ \<Rightarrow>
          [(sp, relay_needed_message E M (cf_call_id m) px (cl_caller_id c) (cl_callee_id c)),
           (sq, relay_needed_message E M (cf_call_id m) px (cl_callee_id c) (cl_caller_id c))]
      | [] \<Rightarrow>
          [(so, build_push_retry_message (se_codec E) (cf_call_id m) (cl_caller_id c)
                  (cl_callee_id c) (cf_reason m) (cl_retry_count c + 1) ms)])"



section \<open>Gaps in the session checks\<close>

text \<open>A registration is accepted for any peer id, whoever the session belongs to: the channel of the
  named peer becomes that of the sending session.\<close>

lemma register_takes_over:
  assumes "registries E plook clook" and "dec_PeerRegister (se_codec E) payload = Some msg"
    and "check_registration (mo_instant M) (rg_peer_id msg) (as_rate_limiter st) = Ok (l, True)"
  shows "Option.bind (plook (as_peers (snd (fst (ws_handle_peer_register E M s payload (h, st)))))
      (rg_peer_id msg)) pe_sender = Some s"
proof -
  define info where "info = \<lparr> pi_peer_id = rg_peer_id msg, pi_display_name = rg_display_name msg,
     pi_ipv6_addresses = rg_ipv6_addresses msg, pi_ipv4_reflexive = rg_ipv4_reflexive msg,
     pi_nat_type = (case rg_nat_info msg of Some n \<Rightarrow> p_nat_type n | None \<Rightarrow> 0),
     pi_status = rg_status msg,
     pi_fcm_token = (if rg_fcm_token msg = [] then None else Some (rg_fcm_token msg)),
     pi_last_seen = mo_now_secs M \<rparr>"
  obtain st' r where reg: "register_peer E info (Some s) (st\<lparr>as_rate_limiter := l\<rparr>) = (st', r)"
    by fastforce
  have "r = Ok ()" "plook (as_peers st') (rg_peer_id msg) = Some \<lparr> pe_info = info, pe_sender = Some s \<rparr>"
    using registries.register_peer_maps(1,2) [OF assms(1) reg] by (simp_all add: info_def)
  with assms(2,3) reg show ?thesis
    by (simp add: ws_handle_peer_register_def info_def)
qed

text \<open>After unregistering, a session has no identity and passes every participant check.\<close>

lemma anonymous_session_ends_any_call:
  assumes "registries E plook clook" and "dec_CallEnded (se_codec E) payload = Some m"
  shows "clook (as_calls (snd (fst (ws_handle_call_ended E M s payload (None, st))))) (ce_call_id m) = None"
  using assms(2)
  by (auto simp: ws_handle_call_ended_def keep_calls registries.remove_call_maps(1) [OF assms(1)]
      split: prod.splits option.splits dest!: registries.call_views(1) [OF assms(1)])

end
