(* ===== verification/Base64.thy ===== *)
theory Base64
  imports Utf8
begin

text \<open>
  The base64 codec of the proxy tokens (\<open>src/crates/voip-client/src/proxy.rs\<close>,
  \<open>base64_encode\<close> and \<open>base64_decode\<close>).

  The decoder's bit buffer is a 32-bit word: \<open>buffer << 6\<close> drops the bits that leave it.  A
  character of the input that is not in the alphabet is reported with its position, as the source
  does; it is one UTF-8 sequence.
\<close>

section \<open>The codec\<close>

definition CHARSET :: string where
  "CHARSET = ''ABCDEFGHIJKLMNOPQRSTUVWXYZabcdefghijklmnopqrstuvwxyz0123456789+/''"

definition base64_char :: "u32 \<Rightarrow> char" where
  "base64_char w = CHARSET ! unat (w AND 0x3F)"

definition base64_chunk :: "bytes \<Rightarrow> string" where
  "base64_chunk chunk =
     (let b0 = ucast (chunk ! 0) :: u32;
          b1 = (if length chunk > 1 then ucast (chunk ! 1) else 0) :: u32;
          b2 = (if length chunk > 2 then ucast (chunk ! 2) else 0) :: u32;
          triple = push_bit 16 b0 OR push_bit 8 b1 OR b2
      in [base64_char (drop_bit 18 triple),
          base64_char (drop_bit 12 triple),
          if length chunk > 1 then base64_char (drop_bit 6 triple) else CHR ''='',
          if length chunk > 2 then base64_char triple else CHR ''=''])"

function base64_encode :: "bytes \<Rightarrow> string" where
  "base64_encode data =
     (if data = [] then [] else base64_chunk (take 3 data) @ base64_encode (drop 3 data))"
  by pat_completeness auto

termination base64_encode
  by (relation "measure length") auto

declare base64_encode.simps [simp del]

definition trim_end_matches :: "char \<Rightarrow> string \<Rightarrow> string" where
  "trim_end_matches c s = rev (dropWhile (\<lambda>x. x = c) (rev s))"

definition charset_position :: "char \<Rightarrow> nat option" where
  "charset_position c =
     (let i = length (takeWhile (\<lambda>b. b \<noteq> c) CHARSET) in if i < length CHARSET then Some i else None)"

definition invalid_base64 :: "nat \<Rightarrow> string \<Rightarrow> string" where
  "invalid_base64 i s =
     ''Invalid base64 character at position '' @ show_nat i @ '': '' @ [CHR 0x27]
     @ take (snd (utf8_chunk (str_bytes s))) s @ [CHR 0x27]"

fun base64_loop :: "nat \<Rightarrow> u32 \<Rightarrow> nat \<Rightarrow> bytes \<Rightarrow> string \<Rightarrow> (bytes, string) result" where
  "base64_loop i buffer bits result [] = Ok result"
| "base64_loop i buffer bits result (c # rest) =
     (case charset_position c of
        None \<Rightarrow> Err (invalid_base64 i (c # rest))
      | Some val \<Rightarrow>
          let buffer = push_bit 6 buffer OR of_nat val; bits = bits + 6 in
          if bits \<ge> 8
          then base64_loop (i + 1) buffer (bits - 8)
                 (result @ [ucast (drop_bit (bits - 8) buffer)]) rest
          else base64_loop (i + 1) buffer bits result rest)"

definition base64_decode :: "string \<Rightarrow> (bytes, string) result" where
  "base64_decode input = base64_loop 0 0 0 [] (trim_end_matches CHR ''='' input)"

section \<open>Facts\<close>

lemma length_CHARSET [simp]: "length CHARSET = 64"
  by (simp add: CHARSET_def)

lemma distinct_CHARSET: "distinct CHARSET"
  by (simp add: CHARSET_def)

lemma pad_not_CHARSET: "CHR ''='' \<notin> set CHARSET"
  by (simp add: CHARSET_def)

lemma charset_position_iff: "charset_position c = Some i \<longleftrightarrow> i < 64 \<and> CHARSET ! i = c"
proof (cases "c \<in> set CHARSET")
  case True
  then obtain k where k: "k < 64" "CHARSET ! k = c" by (auto simp: in_set_conv_nth)
  have "takeWhile (\<lambda>b. b \<noteq> c) CHARSET = take k CHARSET"
    using k distinct_CHARSET by (intro takeWhile_eq_take_P_nth) (auto simp: nth_eq_iff_index_eq)
  then show ?thesis
    using k distinct_CHARSET by (auto simp: charset_position_def nth_eq_iff_index_eq)
next
  case False
  then have "length (takeWhile (\<lambda>b. b \<noteq> c) CHARSET) = 64"
    unfolding length_CHARSET [symmetric] by (intro arg_cong [of _ _ length]) (simp add: takeWhile_eq_all_conv, blast)
  then have "charset_position c = None" by (simp add: charset_position_def)
  with False show ?thesis by auto
qed

lemma unat_low6: "unat (w AND 0x3F :: u32) < 64"
proof -
  have "unat (w AND 0x3F :: u32) = unat w mod 64"
    using and_field_nat [of "unat w" 6] by (simp add: unsigned_and_eq)
  then show ?thesis by simp
qed

lemma charset_position_char: "charset_position (base64_char w) = Some (unat (w AND 0x3F))"
  using unat_low6 by (simp add: charset_position_iff base64_char_def)

lemma base64_char_not_pad: "base64_char w \<noteq> CHR ''=''"
  using pad_not_CHARSET unat_low6 [of w] by (metis base64_char_def length_CHARSET nth_mem)

text \<open>The three bytes that four characters carry, whatever the buffer held before.\<close>

lemma mask6: "(0x3F :: u32) = mask 6"
  by (simp add: mask_eq_exp_minus_1)

lemma byte_eqI:
  fixes a b :: u8
  assumes "bit a 0 = bit b 0" "bit a 1 = bit b 1" "bit a 2 = bit b 2" "bit a 3 = bit b 3"
    "bit a 4 = bit b 4" "bit a 5 = bit b 5" "bit a 6 = bit b 6" "bit a 7 = bit b 7"
  shows "a = b"
proof (rule bit_word_eqI)
  fix n assume "n < LENGTH(8)"
  then have "n = 0 \<or> n = 1 \<or> n = 2 \<or> n = 3 \<or> n = 4 \<or> n = 5 \<or> n = 6 \<or> n = 7"
    by (simp add: less_Suc_eq numeral_eq_Suc)
  then show "bit a n = bit b n" by (elim disjE) (simp_all only: assms)
qed

lemma byte_bit_high: "8 \<le> n \<Longrightarrow> \<not> bit (b :: u8) n"
  using bit_imp_le_length [of b n] by auto

lemma bit_buffer_step:
  "bit (push_bit 6 w OR (v AND 0x3F) :: u32) n
   \<longleftrightarrow> (if n < 6 then bit v n else n < 32 \<and> bit w (n - 6))"
  unfolding mask6 by (cases "n < 6") (simp_all add: bit_simps)

lemma bit_triple:
  fixes b0 b1 b2 :: u8
  shows "bit (push_bit 16 (ucast b0) OR push_bit 8 (ucast b1) OR ucast b2 :: u32) n
   \<longleftrightarrow> (if n < 8 then bit b2 n else if n < 16 then bit b1 (n - 8) else bit b0 (n - 16))"
  by (cases "n < 8"; cases "n < 16"; cases "n < 24") (auto simp: bit_simps byte_bit_high)

lemma triple_bytes:
  fixes b0 b1 b2 :: u8 and buffer :: u32
  defines "t \<equiv> push_bit 16 (ucast b0) OR push_bit 8 (ucast b1) OR ucast b2 :: u32"
  defines "w0 \<equiv> push_bit 6 buffer OR (drop_bit 18 t AND 0x3F)"
  defines "w1 \<equiv> push_bit 6 w0 OR (drop_bit 12 t AND 0x3F)"
  defines "w2 \<equiv> push_bit 6 w1 OR (drop_bit 6 t AND 0x3F)"
  defines "w3 \<equiv> push_bit 6 w2 OR (t AND 0x3F)"
  shows "ucast (drop_bit 4 w1) = b0" and "ucast (drop_bit 2 w2) = b1" and "ucast w3 = b2"
proof -
  note b = bit_triple [of b0 b1 b2, folded t_def]
  have w0: "bit w0 n \<longleftrightarrow> (if n < 6 then bit t (18 + n) else n < 32 \<and> bit buffer (n - 6))" for n
    unfolding w0_def bit_buffer_step bit_drop_bit_eq comp_def ..
  have w1: "bit w1 n \<longleftrightarrow> (if n < 6 then bit t (12 + n) else n < 32 \<and> bit w0 (n - 6))" for n
    unfolding w1_def bit_buffer_step bit_drop_bit_eq comp_def ..
  have w2: "bit w2 n \<longleftrightarrow> (if n < 6 then bit t (6 + n) else n < 32 \<and> bit w1 (n - 6))" for n
    unfolding w2_def bit_buffer_step bit_drop_bit_eq comp_def ..
  have w3: "bit w3 n \<longleftrightarrow> (if n < 6 then bit t n else n < 32 \<and> bit w2 (n - 6))" for n
    unfolding w3_def bit_buffer_step ..
  show "ucast (drop_bit 4 w1) = b0" 
    by (rule byte_eqI; simp add: bit_unsigned_iff bit_drop_bit_eq w1 w0 b)
  show "ucast (drop_bit 2 w2) = b1"
    by (rule byte_eqI; simp add: bit_unsigned_iff bit_drop_bit_eq w2 w1 b)
  show "ucast w3 = b2"
    by (rule byte_eqI; simp add: bit_unsigned_iff w3 w2 b)
qed

lemma base64_loop_char:
  "base64_loop i buffer bits result (base64_char w # rest) =
     (let buffer = push_bit 6 buffer OR (w AND 0x3F); bits = bits + 6 in
      if bits \<ge> 8
      then base64_loop (i + 1) buffer (bits - 8) (result @ [ucast (drop_bit (bits - 8) buffer)]) rest
      else base64_loop (i + 1) buffer bits result rest)"
  by (simp add: charset_position_char)

lemma trim_end_pads:
  assumes "CHR ''='' \<notin> set s"
  shows "trim_end_matches CHR ''='' (s @ replicate n CHR ''='') = s"
proof -
  have "dropWhile (\<lambda>x. x = CHR ''='') (rev s) = rev s"
    using assms by (cases "rev s") (auto simp: rev_eq_Cons_iff)
  then show ?thesis
    by (simp add: trim_end_matches_def dropWhile_append)
qed

definition triple :: "u8 \<Rightarrow> u8 \<Rightarrow> u8 \<Rightarrow> u32" where
  "triple b0 b1 b2 = push_bit 16 (ucast b0) OR push_bit 8 (ucast b1) OR ucast b2"

lemma base64_encode_eqs:
  "base64_encode [] = []"
  "base64_encode [a] = [base64_char (drop_bit 18 (triple a 0 0)),
     base64_char (drop_bit 12 (triple a 0 0))] @ replicate 2 CHR ''=''"
  "base64_encode [a, b] = [base64_char (drop_bit 18 (triple a b 0)),
     base64_char (drop_bit 12 (triple a b 0)), base64_char (drop_bit 6 (triple a b 0))] @ replicate 1 CHR ''=''"
  "base64_encode (a # b # c # rest) = [base64_char (drop_bit 18 (triple a b c)),
     base64_char (drop_bit 12 (triple a b c)), base64_char (drop_bit 6 (triple a b c)),
     base64_char (triple a b c)] @ base64_encode rest"
  by (simp_all add: base64_encode.simps [of "[]"] base64_encode.simps [of "_ # _"] base64_chunk_def
      triple_def numeral_2_eq_2 Let_def)

lemma base64_loop_eqs:
  fixes a b c :: u8
  shows "base64_loop i buffer 0 acc [base64_char (drop_bit 18 (triple a b c)),
      base64_char (drop_bit 12 (triple a b c))] = Ok (acc @ [a])"
    and "base64_loop i buffer 0 acc [base64_char (drop_bit 18 (triple a b c)),
      base64_char (drop_bit 12 (triple a b c)), base64_char (drop_bit 6 (triple a b c))] = Ok (acc @ [a, b])"
    and "\<exists>buffer'. base64_loop i buffer 0 acc (base64_char (drop_bit 18 (triple a b c))
      # base64_char (drop_bit 12 (triple a b c)) # base64_char (drop_bit 6 (triple a b c))
      # base64_char (triple a b c) # rest) = base64_loop (i + 4) buffer' 0 (acc @ [a, b, c]) rest"
  using triple_bytes [of buffer a b c]
  unfolding base64_loop_char Let_def triple_def [symmetric] by (auto simp: numeral_eq_Suc)

lemma base64_encode_split:
  "\<exists>core n. base64_encode data = core @ replicate n CHR ''='' \<and> CHR ''='' \<notin> set core
     \<and> (\<forall>i buffer acc. base64_loop i buffer 0 acc core = Ok (acc @ data))"
proof (induction data rule: base64_encode.induct)
  case (1 data)
  note np = base64_char_not_pad base64_char_not_pad [symmetric]
  consider "data = []" | a where "data = [a]" | a b where "data = [a, b]"
    | a b c rest where "data = a # b # c # rest"
    by (metis list.exhaust)
  then show ?case
  proof cases
    case 1
    then show ?thesis by (simp add: base64_encode_eqs)
  next
    case (2 a)
    show ?thesis
      unfolding 2 base64_encode_eqs
      by (intro exI conjI, rule refl) (simp_all add: np base64_loop_eqs del: base64_loop.simps)
  next
    case (3 a b)
    show ?thesis
      unfolding 3 base64_encode_eqs
      by (intro exI conjI, rule refl) (simp_all add: np base64_loop_eqs del: base64_loop.simps)
  next
    case (4 a b c rest)
    with 1 obtain core n where ih: "base64_encode rest = core @ replicate n CHR ''=''"
      "CHR ''='' \<notin> set core" "\<And>i buffer acc. base64_loop i buffer 0 acc core = Ok (acc @ rest)"
      by (auto simp: eval_nat_numeral)
    let ?cs = "[base64_char (drop_bit 18 (triple a b c)), base64_char (drop_bit 12 (triple a b c)),
      base64_char (drop_bit 6 (triple a b c)), base64_char (triple a b c)]"
    have "base64_loop i buffer 0 acc (?cs @ core) = Ok (acc @ data)" for i buffer acc
      using base64_loop_eqs(3) [of i buffer acc a b c core] ih(3) 4 by auto
    moreover have "base64_encode data = (?cs @ core) @ replicate n CHR ''=''"
      using ih(1) 4 by (simp add: base64_encode_eqs)
    moreover have "CHR ''='' \<notin> set (?cs @ core)"
      using ih(2) by (simp add: np)
    ultimately show ?thesis by blast
  qed
qed

theorem base64_decode_encode: "base64_decode (base64_encode data) = Ok data"
proof -
  obtain core n where "base64_encode data = core @ replicate n CHR ''=''" "CHR ''='' \<notin> set core"
    "\<And>i buffer acc. base64_loop i buffer 0 acc core = Ok (acc @ data)"
    using base64_encode_split by blast
  then show ?thesis by (simp add: base64_decode_def trim_end_pads)
qed

text \<open>The decoder accepts exactly the strings over the alphabet, and reports the first other
  character.\<close>

lemma charset_position_None: "charset_position c = None \<longleftrightarrow> c \<notin> set CHARSET"
proof -
  have "charset_position c \<noteq> None \<longleftrightarrow> c \<in> set CHARSET"
    unfolding in_set_conv_nth length_CHARSET by (simp add: charset_position_iff)
  then show ?thesis by blast
qed

lemma base64_loop_ok:
  assumes "set s \<subseteq> set CHARSET" and "bits < 8"
  shows "\<exists>out. base64_loop i buffer bits acc s = Ok (acc @ out) \<and> length out = (bits + 6 * length s) div 8"
  using assms
proof (induction s arbitrary: i buffer bits acc)
  case Nil
  then show ?case by simp
next
  case (Cons c s)
  then obtain v where v: "charset_position c = Some v"
    using charset_position_None [of c] by (cases "charset_position c") auto
  let ?buffer = "push_bit 6 buffer OR of_nat v"
  show ?case
  proof (cases "bits + 6 \<ge> 8")
    case True
    then have "bits - 2 < 8" using Cons.prems(2) by simp
    with Cons.IH [of "bits - 2" "i + 1" ?buffer "acc @ [ucast (drop_bit (bits - 2) ?buffer)]"]
      Cons.prems True v show ?thesis by (auto simp: div_add_self1)
  next
    case False
    then show ?thesis
      using Cons.IH [of "bits + 6" "i + 1" ?buffer acc] Cons.prems v by (auto simp: algebra_simps)
  qed
qed

lemma base64_loop_err:
  assumes "set pre \<subseteq> set CHARSET" and "c \<notin> set CHARSET"
  shows "base64_loop i buffer bits acc (pre @ c # rest) = Err (invalid_base64 (i + length pre) (c # rest))"
  using assms
proof (induction pre arbitrary: i buffer bits acc)
  case Nil
  then show ?case by (simp add: charset_position_None [THEN iffD2])
next
  case (Cons p pre)
  then obtain v where "charset_position p = Some v"
    using charset_position_None [of p] by (cases "charset_position p") auto
  with Cons show ?case by (simp add: Let_def)
qed

end
