(* ===== verification/Jwt.thy ===== *)
theory Jwt
  imports Base64 Sig_Frame
begin

text \<open>
  The server's JSON web tokens (\<open>src/crates/voip-signaling/src/jwt.rs\<close>): the unpadded base64url
  codec, the creation and the verification of a token.

  Ed25519 and \<open>serde_json\<close> are arguments: \<open>ed_sign\<close> is \<open>signing_key.sign(..).to_bytes()\<close>,
  \<open>ed_verify\<close> is \<open>verifying_key.verify(..).is_ok()\<close>, \<open>to_json\<close> is \<open>serde_json::to_string\<close> of the
  claims and \<open>from_json\<close> is \<open>serde_json::from_slice\<close>.  The clock reading is \<open>now\<close>, in seconds.
\<close>

section \<open>Base64url\<close>

definition URL_CHARSET :: string where
  "URL_CHARSET = ''ABCDEFGHIJKLMNOPQRSTUVWXYZabcdefghijklmnopqrstuvwxyz0123456789-_''"

function base64url_encode :: "bytes \<Rightarrow> string" where
  "base64url_encode data =
     (if data = [] then []
      else
        let b0 = ucast (data ! 0) :: u32;
            b1 = (if length data > 1 then ucast (data ! 1) else 0) :: u32;
            b2 = (if length data > 2 then ucast (data ! 2) else 0) :: u32
        in URL_CHARSET ! unat (drop_bit 2 b0 AND 0x3F) #
           (if length data > 1
            then URL_CHARSET ! unat (push_bit 4 (b0 AND 0x03) OR (drop_bit 4 b1 AND 0x0F)) #
                 (if length data > 2
                  then URL_CHARSET ! unat (push_bit 2 (b1 AND 0x0F) OR (drop_bit 6 b2 AND 0x03)) #
                       URL_CHARSET ! unat (b2 AND 0x3F) # base64url_encode (drop 3 data)
                  else [URL_CHARSET ! unat (push_bit 2 (b1 AND 0x0F))])
            else [URL_CHARSET ! unat (push_bit 4 (b0 AND 0x03))]))"
  by pat_completeness auto

termination base64url_encode
  by (relation "measure length") auto

declare base64url_encode.simps [simp del]

definition DECODE_TABLE :: "u8 \<Rightarrow> int" where
  "DECODE_TABLE i =
     (if 65 \<le> i \<and> i \<le> 90 then uint (i - 65)
      else if 97 \<le> i \<and> i \<le> 122 then uint (i - 97 + 26)
      else if 48 \<le> i \<and> i \<le> 57 then uint (i - 48 + 52)
      else if i = 45 then 62
      else if i = 95 then 63
      else - 1)"

text \<open>\<open>format!("{:?}", byte as char)\<close>: the character of that code point in quotes, escaped when it
  is a quote, a backslash or not printable.\<close>

definition hex_lower :: "nat \<Rightarrow> string" where
  "hex_lower n =
     (let digit = (\<lambda>d. ''0123456789abcdef'' ! d) in
      if n < 16 then [digit n] else [digit (n div 16), digit (n mod 16)])"

definition debug_char :: "u8 \<Rightarrow> string" where
  "debug_char b =
     (let n = unat b; quote = CHR 0x27; backslash = CHR 0x5C in
      [quote] @
      (if n = 0 then [backslash, CHR ''0'']
       else if n = 9 then [backslash, CHR ''t'']
       else if n = 10 then [backslash, CHR ''n'']
       else if n = 13 then [backslash, CHR ''r'']
       else if n = 0x27 \<or> n = 0x5C then [backslash, char_of n]
       else if 0x20 \<le> n \<and> n < 0x7F then [char_of n]
       else if 0xA0 < n \<and> n \<noteq> 0xAD then [char_of (0xC0 + n div 64), char_of (0x80 + n mod 64)]
       else [backslash] @ ''u{'' @ hex_lower n @ ''}'')
      @ [quote])"

fun base64url_loop :: "u32 \<Rightarrow> nat \<Rightarrow> bytes \<Rightarrow> bytes \<Rightarrow> (bytes, string) result" where
  "base64url_loop buffer bits result [] = Ok result"
| "base64url_loop buffer bits result (byte # rest) =
     (let val = DECODE_TABLE byte in
      if val < 0 then Err (''invalid base64url character: '' @ debug_char byte)
      else
        let buffer = push_bit 6 buffer OR of_int val; bits = bits + 6 in
        if bits \<ge> 8
        then base64url_loop buffer (bits - 8) (result @ [ucast (drop_bit (bits - 8) buffer)]) rest
        else base64url_loop buffer bits result rest)"

definition base64url_decode :: "string \<Rightarrow> (bytes, string) result" where
  "base64url_decode input = base64url_loop 0 0 [] (str_bytes (trim_end_matches CHR ''='' input))"

section \<open>Tokens\<close>

record JwtClaims =
  jc_sub :: string
  jc_iat :: u64
  jc_exp :: u64
  jc_nbf :: u64
  jc_pub_key :: string

definition JWT_HEADER :: string where
  "JWT_HEADER = ''eyJhbGciOiJFZERTQSIsInR5cCI6IkpXVCJ9''"

definition create_jwt ::
  "bool \<Rightarrow> (JwtClaims \<Rightarrow> (string, string) result) \<Rightarrow> (bytes \<Rightarrow> bytes) \<Rightarrow> u64 \<Rightarrow> string \<Rightarrow> u64
     \<Rightarrow> (string, SignalingError) result" where
  "create_jwt oc to_json ed_sign now peer_id expiry_secs =
     res_bind (checked_add oc now expiry_secs) (\<lambda>exp.
     let claims = \<lparr>jc_sub = peer_id, jc_iat = now, jc_exp = exp, jc_nbf = now, jc_pub_key = peer_id\<rparr> in
     case to_json claims of
       Err e \<Rightarrow> Err (Internal (''failed to serialize claims: '' @ e))
     | Panic \<Rightarrow> Panic
     | Ok payload_json \<Rightarrow>
         let payload_b64 = base64url_encode (str_bytes payload_json);
             signing_input = JWT_HEADER @ ''.'' @ payload_b64;
             sig_b64 = base64url_encode (ed_sign (str_bytes signing_input))
         in Ok (JWT_HEADER @ ''.'' @ payload_b64 @ ''.'' @ sig_b64))"

fun split_char :: "char \<Rightarrow> string \<Rightarrow> string list" where
  "split_char c [] = [[]]"
| "split_char c (x # xs) =
     (if x = c then [] # split_char c xs
      else case split_char c xs of p # ps \<Rightarrow> (x # p) # ps | [] \<Rightarrow> [[x]])"

definition verify_jwt ::
  "(bytes \<Rightarrow> (JwtClaims, string) result) \<Rightarrow> (bytes \<Rightarrow> bytes \<Rightarrow> bool) \<Rightarrow> u64 \<Rightarrow> string
     \<Rightarrow> (JwtClaims, SignalingError) result" where
  "verify_jwt from_json ed_verify now token =
     (case split_char CHR ''.'' token of
        [header, payload_b64, sig_b64] \<Rightarrow>
          if header \<noteq> JWT_HEADER then Err (InvalidJwt ''invalid JWT header'')
          else
            (case base64url_decode sig_b64 of
               Err e \<Rightarrow> Err (InvalidJwt (''invalid signature encoding: '' @ e))
             | Panic \<Rightarrow> Panic
             | Ok signature \<Rightarrow>
                 if length signature \<noteq> 64 then Err (InvalidJwt ''invalid signature length'')
                 else if \<not> ed_verify (str_bytes (header @ ''.'' @ payload_b64)) signature
                 then Err (InvalidJwt ''invalid JWT signature'')
                 else
                   (case base64url_decode payload_b64 of
                      Err e \<Rightarrow> Err (InvalidJwt (''invalid payload encoding: '' @ e))
                    | Panic \<Rightarrow> Panic
                    | Ok payload_bytes \<Rightarrow>
                        (case from_json payload_bytes of
                           Err e \<Rightarrow> Err (InvalidJwt (''invalid claims JSON: '' @ e))
                         | Panic \<Rightarrow> Panic
                         | Ok claims \<Rightarrow>
                             if jc_exp claims < now then Err (InvalidJwt ''token expired'')
                             else if jc_sub claims \<noteq> jc_pub_key claims
                             then Err (InvalidJwt ''sub claim does not match pub_key claim'')
                             else if jc_nbf claims > now
                             then Err (InvalidJwt ''token not yet valid'')
                             else Ok claims)))
      | _ \<Rightarrow> Err (InvalidJwt ''invalid JWT format''))"

section \<open>The codec\<close>

text \<open>The alphabet is the standard one with \<open>-\<close> and \<open>_\<close> for \<open>+\<close> and \<open>/\<close>.\<close>

definition url_char :: "char \<Rightarrow> char" where
  "url_char c = (if c = CHR ''+'' then CHR ''-'' else if c = CHR ''/'' then CHR ''_'' else c)"

lemma URL_CHARSET_eq: "URL_CHARSET = map url_char CHARSET"
  by (simp add: URL_CHARSET_def CHARSET_def url_char_def)

lemma url_nth: "unat (w AND 0x3F :: u32) = k \<Longrightarrow> URL_CHARSET ! k = url_char (base64_char w)"
  using unat_low6 [of w] by (auto simp: URL_CHARSET_eq base64_char_def)

lemma sextets:
  fixes a b c :: u8
  shows "drop_bit 2 (ucast a :: u32) AND 0x3F = drop_bit 18 (triple a b c) AND 0x3F"
    and "push_bit 4 (ucast a AND 0x03) OR (drop_bit 4 (ucast b :: u32) AND 0x0F)
      = drop_bit 12 (triple a b c) AND 0x3F"
    and "push_bit 2 (ucast b AND 0x0F) OR (drop_bit 6 (ucast c :: u32) AND 0x03)
      = drop_bit 6 (triple a b c) AND 0x3F"
    and "(ucast c :: u32) AND 0x3F = triple a b c AND 0x3F"
    and "push_bit 4 ((ucast a :: u32) AND 0x03) = drop_bit 12 (triple a 0 0) AND 0x3F"
    and "push_bit 2 ((ucast b :: u32) AND 0x0F) = drop_bit 6 (triple a b 0) AND 0x3F"
proof -
  have m: "(0x3F :: u32) = mask 6" "(0x0F :: u32) = mask 4" "(0x03 :: u32) = mask 2"
    by (simp_all add: mask_eq_exp_minus_1)
  note t = triple_def m
  show "drop_bit 2 (ucast a :: u32) AND 0x3F = drop_bit 18 (triple a b c) AND 0x3F"
    by (rule bit_word_eqI) (auto simp: t bit_simps byte_bit_high)
  show "push_bit 4 (ucast a AND 0x03) OR (drop_bit 4 (ucast b :: u32) AND 0x0F)
      = drop_bit 12 (triple a b c) AND 0x3F"
    by (rule bit_word_eqI) (auto simp: t bit_simps byte_bit_high)
  show "push_bit 2 (ucast b AND 0x0F) OR (drop_bit 6 (ucast c :: u32) AND 0x03)
      = drop_bit 6 (triple a b c) AND 0x3F"
    by (rule bit_word_eqI) (auto simp: t bit_simps byte_bit_high)
  show "(ucast c :: u32) AND 0x3F = triple a b c AND 0x3F"
    by (rule bit_word_eqI) (auto simp: t bit_simps byte_bit_high)
  show "push_bit 4 ((ucast a :: u32) AND 0x03) = drop_bit 12 (triple a 0 0) AND 0x3F"
    by (rule bit_word_eqI) (auto simp: t bit_simps byte_bit_high)
  show "push_bit 2 ((ucast b :: u32) AND 0x0F) = drop_bit 6 (triple a b 0) AND 0x3F"
    by (rule bit_word_eqI) (auto simp: t bit_simps byte_bit_high)
qed

lemma url_sextet: "w = v AND 0x3F \<Longrightarrow> URL_CHARSET ! unat w = url_char (base64_char v)"
  using url_nth [of v] by simp

lemma base64url_encode_raw:
  fixes a b c :: u8
  shows "base64url_encode [] = []"
    and "base64url_encode [a] = [URL_CHARSET ! unat (drop_bit 2 (ucast a :: u32) AND 0x3F),
      URL_CHARSET ! unat (push_bit 4 ((ucast a :: u32) AND 0x03))]"
    and "base64url_encode [a, b] = [URL_CHARSET ! unat (drop_bit 2 (ucast a :: u32) AND 0x3F),
      URL_CHARSET ! unat (push_bit 4 (ucast a AND 0x03) OR (drop_bit 4 (ucast b :: u32) AND 0x0F)),
      URL_CHARSET ! unat (push_bit 2 ((ucast b :: u32) AND 0x0F))]"
    and "base64url_encode (a # b # c # rest) =
      [URL_CHARSET ! unat (drop_bit 2 (ucast a :: u32) AND 0x3F),
       URL_CHARSET ! unat (push_bit 4 (ucast a AND 0x03) OR (drop_bit 4 (ucast b :: u32) AND 0x0F)),
       URL_CHARSET ! unat (push_bit 2 (ucast b AND 0x0F) OR (drop_bit 6 (ucast c :: u32) AND 0x03)),
       URL_CHARSET ! unat ((ucast c :: u32) AND 0x3F)] @ base64url_encode rest"
  by (simp_all add: base64url_encode.simps [of "[]"] base64url_encode.simps [of "_ # _"] Let_def
      numeral_2_eq_2)

lemma base64url_encode_eqs:
  fixes a b c :: u8
  shows "base64url_encode [] = []"
    and "base64url_encode [a] = map url_char [base64_char (drop_bit 18 (triple a 0 0)),
      base64_char (drop_bit 12 (triple a 0 0))]"
    and "base64url_encode [a, b] = map url_char [base64_char (drop_bit 18 (triple a b 0)),
      base64_char (drop_bit 12 (triple a b 0)), base64_char (drop_bit 6 (triple a b 0))]"
    and "base64url_encode (a # b # c # rest) = map url_char [base64_char (drop_bit 18 (triple a b c)),
      base64_char (drop_bit 12 (triple a b c)), base64_char (drop_bit 6 (triple a b c)),
      base64_char (triple a b c)] @ base64url_encode rest"
  unfolding base64url_encode_raw list.map
  by (simp,
      simp only: url_sextet [OF sextets(1) [of a 0 0]] url_sextet [OF sextets(5) [of a]],
      simp only: url_sextet [OF sextets(1) [of a b 0]] url_sextet [OF sextets(2) [of a b 0]]
        url_sextet [OF sextets(6) [of b a]],
      simp only: url_sextet [OF sextets(1) [of a b c]] url_sextet [OF sextets(2) [of a b c]]
        url_sextet [OF sextets(3) [of b c a]] url_sextet [OF sextets(4) [of c a b]])

lemma base64url_encode_core:
  "\<exists>core n. base64_encode data = core @ replicate n CHR ''='' \<and> CHR ''='' \<notin> set core
     \<and> base64url_encode data = map url_char core"
proof (induction data rule: base64_encode.induct)
  case (1 data)
  note np = base64_char_not_pad base64_char_not_pad [symmetric]
  consider "data = []" | a where "data = [a]" | a b where "data = [a, b]"
    | a b c rest where "data = a # b # c # rest"
    by (metis list.exhaust)
  then show ?case
  proof cases
    case 1
    then show ?thesis by (simp add: base64_encode_eqs base64url_encode_eqs)
  next
    case (2 a)
    show ?thesis
      unfolding 2 base64_encode_eqs base64url_encode_eqs
      by (intro exI conjI, rule refl) (simp_all add: np)
  next
    case (3 a b)
    show ?thesis
      unfolding 3 base64_encode_eqs base64url_encode_eqs
      by (intro exI conjI, rule refl) (simp_all add: np)
  next
    case (4 a b c rest)
    with 1 obtain core n where ih: "base64_encode rest = core @ replicate n CHR ''=''"
      "CHR ''='' \<notin> set core" "base64url_encode rest = map url_char core"
      by (auto simp: eval_nat_numeral)
    let ?cs = "[base64_char (drop_bit 18 (triple a b c)), base64_char (drop_bit 12 (triple a b c)),
      base64_char (drop_bit 6 (triple a b c)), base64_char (triple a b c)]"
    have "base64_encode data = (?cs @ core) @ replicate n CHR ''=''"
      and "CHR ''='' \<notin> set (?cs @ core)" and "base64url_encode data = map url_char (?cs @ core)"
      using ih 4 by (simp_all add: base64_encode_eqs base64url_encode_eqs np)
    then show ?thesis by blast
  qed
qed

text \<open>The unpadded encoding is the padded one of \<open>Base64\<close> in the other alphabet, without its
  padding.\<close>

lemma base64url_encode_eq:
  "base64url_encode data = map url_char (trim_end_matches CHR ''='' (base64_encode data))"
proof -
  obtain core n where "base64_encode data = core @ replicate n CHR ''=''" "CHR ''='' \<notin> set core"
    "base64url_encode data = map url_char core"
    using base64url_encode_core by blast
  then show ?thesis by (simp add: trim_end_pads)
qed

lemma table_all: "list_all2 (\<lambda>c i. DECODE_TABLE (of_nat (of_char c)) = i) URL_CHARSET (map int [0..<64])"
  by (simp add: URL_CHARSET_def DECODE_TABLE_def upt_rec of_char_def)

lemma table_position:
  assumes "charset_position c = Some i"
  shows "DECODE_TABLE (of_nat (of_char (url_char c))) = int i"
proof -
  have i: "i < 64" "url_char c = URL_CHARSET ! i"
    using assms by (auto simp: charset_position_iff URL_CHARSET_eq)
  then show ?thesis using list_all2_nthD [OF table_all, of i] by (simp add: URL_CHARSET_eq)
qed

lemma base64url_loop_eq:
  assumes "set s \<subseteq> set CHARSET"
  shows "base64url_loop buffer bits acc (str_bytes (map url_char s)) = base64_loop i buffer bits acc s"
  using assms
proof (induction s arbitrary: i buffer bits acc)
  case Nil
  then show ?case by simp
next
  case (Cons c s)
  then obtain v where v: "charset_position c = Some v"
    using charset_position_None [of c] by (cases "charset_position c") auto
  show ?case
    using Cons.IH [of _ _ _ "i + 1"] Cons.prems table_position [OF v] v
    by (simp add: str_bytes_def Let_def)
qed

lemma core_in_CHARSET:
  assumes "base64_loop i buffer bits acc s = Ok out"
  shows "set s \<subseteq> set CHARSET"
  using assms
proof (induction s arbitrary: i buffer bits acc)
  case Nil
  then show ?case by simp
next
  case (Cons c s)
  show ?case
  proof (cases "charset_position c")
    case None
    then show ?thesis using Cons.prems by simp
  next
    case (Some v)
    then have "c \<in> set CHARSET" using charset_position_None [of c] by auto
    moreover have "set s \<subseteq> set CHARSET"
      using Cons.prems Some by (auto simp: Let_def split: if_splits dest!: Cons.IH)
    ultimately show ?thesis by simp
  qed
qed

lemma url_char_charset:
  assumes "c \<in> set CHARSET"
  shows "url_char c \<noteq> CHR ''=''" and "url_char c \<noteq> CHR ''.''"
proof -
  have "list_all (\<lambda>c. url_char c \<noteq> CHR ''='' \<and> url_char c \<noteq> CHR ''.'') CHARSET"
    by (simp add: CHARSET_def url_char_def)
  then show "url_char c \<noteq> CHR ''=''" and "url_char c \<noteq> CHR ''.''"
    using assms by (auto simp: list_all_iff)
qed

lemma base64url_parts:
  "\<exists>core. base64url_encode data = map url_char core \<and> set core \<subseteq> set CHARSET
     \<and> (\<forall>i. base64_loop i 0 0 [] core = Ok data)"
proof -
  obtain core n where c: "base64_encode data = core @ replicate n CHR ''=''" "CHR ''='' \<notin> set core"
    "\<And>i buffer acc. base64_loop i buffer 0 acc core = Ok (acc @ data)"
    using base64_encode_split by blast
  then have "base64url_encode data = map url_char core"
    by (simp add: base64url_encode_eq trim_end_pads)
  moreover have "set core \<subseteq> set CHARSET" using c(3) core_in_CHARSET by blast
  ultimately show ?thesis using c(3) by auto
qed

lemma base64url_decode_encode: "base64url_decode (base64url_encode data) = Ok data"
proof -
  obtain core where c: "base64url_encode data = map url_char core" "set core \<subseteq> set CHARSET"
    "\<And>i. base64_loop i 0 0 [] core = Ok data"
    using base64url_parts by blast
  have "CHR ''='' \<notin> set (map url_char core)" using c(2) url_char_charset(1) by fastforce
  from trim_end_pads [OF this, of 0] show ?thesis
    using c(3) base64url_loop_eq [OF c(2)] by (simp add: base64url_decode_def c(1))
qed

lemma base64url_no_dot: "CHR ''.'' \<notin> set (base64url_encode data)"
proof -
  obtain core where "base64url_encode data = map url_char core" "set core \<subseteq> set CHARSET"
    using base64url_parts by blast
  then show ?thesis using url_char_charset(2) by fastforce
qed

text \<open>Tokens consist of characters a header may carry.\<close>

definition visible_ascii :: "string \<Rightarrow> bool" where
  "visible_ascii s \<longleftrightarrow> (\<forall>c \<in> set s. 32 \<le> (of_char c :: nat) \<and> (of_char c :: nat) < 127)"

lemma visible_ascii_append [simp]: "visible_ascii (s @ t) \<longleftrightarrow> visible_ascii s \<and> visible_ascii t"
  by (auto simp: visible_ascii_def)

lemma visible_ascii_Cons [simp]:
  "visible_ascii (c # s) \<longleftrightarrow> 32 \<le> (of_char c :: nat) \<and> (of_char c :: nat) < 127 \<and> visible_ascii s"
  by (auto simp: visible_ascii_def)

lemma url_char_visible: "\<forall>c \<in> set CHARSET. 32 \<le> (of_char (url_char c) :: nat) \<and> (of_char (url_char c) :: nat) < 127"
  by (simp add: CHARSET_def url_char_def)

lemma base64url_visible: "visible_ascii (base64url_encode data)"
proof -
  obtain core where "base64url_encode data = map url_char core" "set core \<subseteq> set CHARSET"
    using base64url_parts by blast
  then show ?thesis using url_char_visible by (auto simp: visible_ascii_def)
qed

section \<open>Facts on tokens\<close>

lemma split_char_last: "c \<notin> set s \<Longrightarrow> split_char c s = [s]"
  by (induction s) auto

lemma split_char_part: "c \<notin> set p \<Longrightarrow> split_char c (p @ c # rest) = p # split_char c rest"
  by (induction p) auto

lemma header_no_dot: "CHR ''.'' \<notin> set JWT_HEADER"
  by (simp add: JWT_HEADER_def)

text \<open>What the server puts into a token and what it signs.\<close>

type_synonym jwt_grant = "u64 \<times> string \<times> u64"

definition jwt_claims :: "jwt_grant \<Rightarrow> JwtClaims" where
  "jwt_claims = (\<lambda>(now, peer_id, expiry_secs).
     \<lparr>jc_sub = peer_id, jc_iat = now, jc_exp = now + expiry_secs, jc_nbf = now, jc_pub_key = peer_id\<rparr>)"

definition jwt_input :: "(JwtClaims \<Rightarrow> (string, string) result) \<Rightarrow> jwt_grant \<Rightarrow> string" where
  "jwt_input to_json g =
     (case to_json (jwt_claims g) of
        Ok s \<Rightarrow> JWT_HEADER @ ''.'' @ base64url_encode (str_bytes s) | _ \<Rightarrow> [])"

text \<open>\<open>serde_json\<close> on the claims of a grant: it writes them and reads back what it wrote.\<close>

definition json_faithful ::
  "(JwtClaims \<Rightarrow> (string, string) result) \<Rightarrow> (bytes \<Rightarrow> (JwtClaims, string) result) \<Rightarrow> jwt_grant \<Rightarrow> bool" where
  "json_faithful to_json from_json g =
     (case to_json (jwt_claims g) of
        Ok s \<Rightarrow> from_json (str_bytes s) = Ok (jwt_claims g) | _ \<Rightarrow> False)"

text \<open>The signature bytes a token presents.\<close>

definition presented_signature :: "string \<Rightarrow> (bytes, string) result" where
  "presented_signature token = base64url_decode (last (split_char CHR ''.'' token))"

lemma split_token:
  "split_char CHR ''.'' (JWT_HEADER @ ''.'' @ base64url_encode p @ ''.'' @ base64url_encode s)
   = [JWT_HEADER, base64url_encode p, base64url_encode s]"
  by (simp add: split_char_part split_char_last header_no_dot base64url_no_dot)

lemma create_jwt_visible:
  assumes "create_jwt oc to_json ed_sign now p ttl = Ok t"
  shows "visible_ascii t"
proof -
  have header: "visible_ascii JWT_HEADER" by (simp add: visible_ascii_def JWT_HEADER_def)
  obtain exp where exp: "(case to_json \<lparr>jc_sub = p, jc_iat = now, jc_exp = exp, jc_nbf = now, jc_pub_key = p\<rparr> of
       Err e \<Rightarrow> Err (Internal (''failed to serialize claims: '' @ e))
     | Panic \<Rightarrow> Panic
     | Ok payload_json \<Rightarrow>
         let payload_b64 = base64url_encode (str_bytes payload_json);
             signing_input = JWT_HEADER @ ''.'' @ payload_b64;
             sig_b64 = base64url_encode (ed_sign (str_bytes signing_input))
         in Ok (JWT_HEADER @ ''.'' @ payload_b64 @ ''.'' @ sig_b64)) = Ok t"
    using assms unfolding create_jwt_def res_bind_eq_Ok_iff Let_def by blast
  then show ?thesis
    using header base64url_visible
    by (cases "to_json \<lparr>jc_sub = p, jc_iat = now, jc_exp = exp, jc_nbf = now, jc_pub_key = p\<rparr>") (auto simp: Let_def)
qed

lemma create_jwt_input:
  assumes "json_faithful to_json from_json (now, p, ttl)" and "unat now + unat ttl < 2 ^ 64"
  shows "create_jwt oc to_json ed_sign now p ttl =
    Ok (jwt_input to_json (now, p, ttl) @ ''.''
        @ base64url_encode (ed_sign (str_bytes (jwt_input to_json (now, p, ttl)))))"
  using assms
  by (auto simp: create_jwt_def json_faithful_def jwt_input_def jwt_claims_def checked_add_fits
      Let_def split: result.splits)

lemma verify_jwt_created:
  assumes "json_faithful to_json from_json (now, p, ttl)" and "unat now + unat ttl < 2 ^ 64"
    and "ed_verify (str_bytes (jwt_input to_json (now, p, ttl))) sig" and "length sig = 64"
  shows "verify_jwt from_json ed_verify later (jwt_input to_json (now, p, ttl) @ ''.'' @ base64url_encode sig)
    = (if now + ttl < later then Err (InvalidJwt ''token expired'')
       else if later < now then Err (InvalidJwt ''token not yet valid'')
       else Ok (jwt_claims (now, p, ttl)))"
proof -
  obtain s where s: "to_json (jwt_claims (now, p, ttl)) = Ok s"
    "from_json (str_bytes s) = Ok (jwt_claims (now, p, ttl))"
    using assms(1) by (auto simp: json_faithful_def split: result.splits)
  have i: "jwt_input to_json (now, p, ttl) = JWT_HEADER @ ''.'' @ base64url_encode (str_bytes s)"
    by (simp add: jwt_input_def s)
  show ?thesis
    unfolding i verify_jwt_def append_assoc split_token
    using assms(3,4) [unfolded i] s(2)
    by (simp add: base64url_decode_encode jwt_claims_def)
qed


lemma verify_jwt_OkD:
  assumes "verify_jwt from_json ed_verify now token = Ok claims"
  shows "\<exists>payload sig j. presented_signature token = Ok sig
      \<and> ed_verify (str_bytes (JWT_HEADER @ ''.'' @ payload)) sig
      \<and> base64url_decode payload = Ok j \<and> from_json j = Ok claims
      \<and> jc_nbf claims \<le> now \<and> now \<le> jc_exp claims \<and> jc_sub claims = jc_pub_key claims"
proof -
  obtain header payload sig_b64 where parts: "split_char CHR ''.'' token = [header, payload, sig_b64]"
    using assms by (auto simp: verify_jwt_def split: list.splits)
  then show ?thesis
    using assms
    by (auto simp: verify_jwt_def presented_signature_def not_less
        split: result.splits if_splits intro!: exI [of _ payload])
qed

lemma accepted_jwt_granted:
  assumes "verify_jwt from_json ed_verify later token = Ok claims"
    and "\<And>m sig. presented_signature token = Ok sig \<Longrightarrow> ed_verify m sig \<Longrightarrow>
      \<exists>g \<in> set grants. m = str_bytes (jwt_input to_json g)"
    and "list_all (json_faithful to_json from_json) grants"
  shows "\<exists>g \<in> set grants. claims = jwt_claims g"
proof -
  obtain payload sig j where v: "presented_signature token = Ok sig"
    "ed_verify (str_bytes (JWT_HEADER @ ''.'' @ payload)) sig"
    "base64url_decode payload = Ok j" "from_json j = Ok claims"
    using verify_jwt_OkD [OF assms(1)] by blast
  from assms(2) [OF v(1,2)] obtain g where g: "g \<in> set grants"
    "str_bytes (JWT_HEADER @ ''.'' @ payload) = str_bytes (jwt_input to_json g)" ..
  have "json_faithful to_json from_json g" using g(1) assms(3) by (simp add: list_all_iff)
  then obtain s where s: "to_json (jwt_claims g) = Ok s" "from_json (str_bytes s) = Ok (jwt_claims g)"
    by (auto simp: json_faithful_def split: result.splits)
  have "payload = base64url_encode (str_bytes s)"
    using str_bytes_inj [OF g(2)] by (simp add: jwt_input_def s)
  with v(3,4) s(2) have "claims = jwt_claims g" by (simp add: base64url_decode_encode)
  with g(1) show ?thesis ..
qed

section \<open>Properties\<close>

text \<open>C3: A token the server issued is accepted at exactly the seconds from its issue to its
  expiry, both included, and yields the claims it was issued with.  Conversely, if nobody but the
  server can produce a signature, as far as the presented token's signature goes, then an accepted
  token carries the claims of a grant of the server and is inside that grant's window.\<close>

theorem jwt_authentic:
  assumes "\<forall>m. ed_verify m (ed_sign m) \<and> length (ed_sign m) = 64"
    and "list_all (json_faithful to_json from_json) grants"
    and "(now, p, ttl) \<in> set grants" and "unat now + unat ttl < 2 ^ 64"
    and "\<forall>m sig. presented_signature token = Ok sig \<longrightarrow> ed_verify m sig \<longrightarrow>
      (\<exists>g \<in> set grants. m = str_bytes (jwt_input to_json g))"
  shows "(\<exists>t. create_jwt oc to_json ed_sign now p ttl = Ok t
      \<and> (\<forall>later. verify_jwt from_json ed_verify later t =
           (if now + ttl < later then Err (InvalidJwt ''token expired'')
            else if later < now then Err (InvalidJwt ''token not yet valid'')
            else Ok \<lparr>jc_sub = p, jc_iat = now, jc_exp = now + ttl, jc_nbf = now, jc_pub_key = p\<rparr>)))
    \<and> (\<forall>later claims. verify_jwt from_json ed_verify later token = Ok claims \<longrightarrow>
         (\<exists>now' p' ttl'. (now', p', ttl') \<in> set grants \<and> claims = jwt_claims (now', p', ttl')
            \<and> jc_sub claims = p' \<and> now' \<le> later \<and> later \<le> now' + ttl'))"
proof -
  have faithful: "json_faithful to_json from_json (now, p, ttl)"
    using assms(2,3) by (simp add: list_all_iff)
  let ?input = "jwt_input to_json (now, p, ttl)"
  have sig: "ed_verify (str_bytes ?input) (ed_sign (str_bytes ?input))"
    "length (ed_sign (str_bytes ?input)) = 64"
    using assms(1) by simp_all
  have issued: "\<exists>t. create_jwt oc to_json ed_sign now p ttl = Ok t
      \<and> (\<forall>later. verify_jwt from_json ed_verify later t =
           (if now + ttl < later then Err (InvalidJwt ''token expired'')
            else if later < now then Err (InvalidJwt ''token not yet valid'')
            else Ok (jwt_claims (now, p, ttl))))"
    using create_jwt_input [OF faithful assms(4)]
      verify_jwt_created [where ed_verify = ed_verify, OF faithful assms(4) sig]
    by (intro exI conjI allI)
  have accepted: "\<exists>now' p' ttl'. (now', p', ttl') \<in> set grants \<and> claims = jwt_claims (now', p', ttl')
      \<and> jc_sub claims = p' \<and> now' \<le> later \<and> later \<le> now' + ttl'"
    if ok: "verify_jwt from_json ed_verify later token = Ok claims" for later claims
  proof -
    obtain now' p' ttl' where "(now', p', ttl') \<in> set grants" "claims = jwt_claims (now', p', ttl')"
      using accepted_jwt_granted [OF ok _ assms(2)] assms(5) by (metis prod_cases3)
    moreover have "jc_nbf claims \<le> later" "later \<le> jc_exp claims"
      using verify_jwt_OkD [OF ok] by blast+
    ultimately show ?thesis by (intro exI conjI) (simp_all add: jwt_claims_def)
  qed
  show ?thesis
    using issued [unfolded jwt_claims_def prod.case] accepted by (intro conjI allI impI)
qed

definition sample_claims :: JwtClaims where
  "sample_claims = \<lparr>jc_sub = ''alice'', jc_iat = 100, jc_exp = 160, jc_nbf = 100, jc_pub_key = ''alice''\<rparr>"

definition sample_to_json :: "JwtClaims \<Rightarrow> (string, string) result" where
  "sample_to_json c = (if c = sample_claims then Ok ''alice'' else Err ''key must be a string'')"

definition sample_from_json :: "bytes \<Rightarrow> (JwtClaims, string) result" where
  "sample_from_json b = (if b = str_bytes ''alice'' then Ok sample_claims else Err ''expected value'')"

theorem jwt_authentic_witness:
  "let sign = (\<lambda>m. replicate 64 (if m = str_bytes (jwt_input sample_to_json (100, ''alice'', 60)) then 1 else 0));
       verify = (\<lambda>m s. s = sign m)
   in \<exists>t. create_jwt True sample_to_json sign 100 ''alice'' 60 = Ok t
      \<and> verify_jwt sample_from_json verify 160 t = Ok sample_claims
      \<and> verify_jwt sample_from_json verify 161 t = Err (InvalidJwt ''token expired'')"
proof -
  define sign :: "bytes \<Rightarrow> bytes" where
    "sign = (\<lambda>m. replicate 64 (if m = str_bytes (jwt_input sample_to_json (100, ''alice'', 60)) then 1 else 0))"
  define verify where "verify = (\<lambda>m s. s = sign m)"
  have ok: "\<forall>m. verify m (sign m) \<and> length (sign m) = 64"
    by (simp add: verify_def sign_def)
  have json: "list_all (json_faithful sample_to_json sample_from_json) [(100, ''alice'', 60)]"
    by (simp add: json_faithful_def sample_to_json_def sample_from_json_def jwt_claims_def sample_claims_def)
  have "\<not> (\<exists>sig. presented_signature ''.'' = Ok sig \<and> verify m sig)" for m
    by (simp add: presented_signature_def base64url_decode_def trim_end_matches_def verify_def sign_def)
  then have "\<forall>m sig. presented_signature ''.'' = Ok sig \<longrightarrow> verify m sig \<longrightarrow>
      (\<exists>g \<in> set [(100, ''alice'', 60)]. m = str_bytes (jwt_input sample_to_json g))"
    by blast
  from jwt_authentic [OF ok json _ _ this, of 100 "''alice''" 60 True]
  show ?thesis
    unfolding Let_def sign_def [symmetric] verify_def [symmetric] sample_claims_def by auto
qed


end
