(* ===== verification/Proxy_Token.thy ===== *)
theory Proxy_Token
  imports Base64
begin

text \<open>
  Proxy tokens (\<open>src/crates/voip-client/src/proxy.rs\<close>, \<open>ProxyToken\<close> and \<open>TokenVerifier\<close>): signing,
  the header encoding, its parser and the verifier of a proxy node.

  Ed25519 is an argument: \<open>ed_sign\<close> is \<open>signing_key.sign(..).to_bytes()\<close> and \<open>ed_verify\<close> is
  \<open>verifying_key.verify(..).is_ok()\<close>.  The system clock, in seconds since the epoch, is an
  argument of the operations that read it.
\<close>

section \<open>Tokens\<close>

datatype ProxyTokenError =
    InvalidSignature
  | Expired u64
  | Base64DecodeError string
  | SerializationError string
  | DeserializationError string
  | MissingField string
  | SigningError string
  | VerificationError string

record ProxyToken =
  tok_peer_id :: string
  tok_proxy_url :: string
  tok_expires_at :: u64
  tok_issued_at :: u64
  tok_signature :: bytes

definition signing_message :: "string \<Rightarrow> string \<Rightarrow> u64 \<Rightarrow> u64 \<Rightarrow> bytes" where
  "signing_message peer_id proxy_url expires_at issued_at =
     be_bytes 4 (unat (of_nat (length (str_bytes peer_id)) :: u32)) @ str_bytes peer_id
     @ be_bytes 4 (unat (of_nat (length (str_bytes proxy_url)) :: u32)) @ str_bytes proxy_url
     @ be_bytes 8 (unat expires_at) @ be_bytes 8 (unat issued_at)"

definition ProxyToken_sign ::
  "(bytes \<Rightarrow> bytes) \<Rightarrow> u64 \<Rightarrow> string \<Rightarrow> string \<Rightarrow> u64 \<Rightarrow> ProxyToken" where
  "ProxyToken_sign ed_sign now peer_id proxy_url ttl_secs =
     (let issued_at = now;
          expires_at = saturating_add now ttl_secs;
          message = signing_message peer_id proxy_url expires_at issued_at
      in \<lparr>tok_peer_id = peer_id, tok_proxy_url = proxy_url, tok_expires_at = expires_at,
          tok_issued_at = issued_at, tok_signature = ed_sign message\<rparr>)"

definition ProxyToken_verify :: "('vk \<Rightarrow> bytes \<Rightarrow> bytes \<Rightarrow> bool) \<Rightarrow> 'vk \<Rightarrow> ProxyToken \<Rightarrow> bool" where
  "ProxyToken_verify ed_verify verifying_key t =
     (let message = signing_message (tok_peer_id t) (tok_proxy_url t) (tok_expires_at t) (tok_issued_at t)
      in if length (tok_signature t) \<noteq> 64 then False
         else ed_verify verifying_key message (tok_signature t))"

definition ProxyToken_is_expired :: "u64 \<Rightarrow> ProxyToken \<Rightarrow> bool" where
  "ProxyToken_is_expired now t \<longleftrightarrow> tok_expires_at t \<le> now"

definition ProxyToken_encode :: "ProxyToken \<Rightarrow> string" where
  "ProxyToken_encode t =
     base64_encode
       (be_bytes 2 (unat (of_nat (length (str_bytes (tok_peer_id t))) :: u16)) @ str_bytes (tok_peer_id t)
        @ be_bytes 2 (unat (of_nat (length (str_bytes (tok_proxy_url t))) :: u16)) @ str_bytes (tok_proxy_url t)
        @ be_bytes 8 (unat (tok_expires_at t)) @ be_bytes 8 (unat (tok_issued_at t))
        @ tok_signature t)"

definition read_u16_be :: "bytes \<Rightarrow> nat \<Rightarrow> (u16 \<times> nat, ProxyTokenError) result" where
  "read_u16_be buf pos =
     (if length buf < pos + 2 then Err (DeserializationError ''Buffer underflow reading u16'')
      else Ok (of_nat (be_val (take 2 (drop pos buf))), pos + 2))"

definition read_u64_be :: "bytes \<Rightarrow> nat \<Rightarrow> (u64 \<times> nat, ProxyTokenError) result" where
  "read_u64_be buf pos =
     (if length buf < pos + 8 then Err (DeserializationError ''Buffer underflow reading u64'')
      else Ok (of_nat (be_val (take 8 (drop pos buf))), pos + 8))"

text \<open>The text of a \<open>FromUtf8Error\<close>: a sequence cut off by the end of the input is incomplete, any
  other ill-formed part invalid.\<close>

function utf8_error :: "nat \<Rightarrow> bytes \<Rightarrow> string" where
  "utf8_error valid_up_to bs =
     (if bs = [] then []
      else let (ok, n) = utf8_chunk bs in
        if ok then utf8_error (valid_up_to + n) (drop n bs)
        else if n = length bs \<and> utf8_width (hd bs) \<noteq> 0
        then ''incomplete utf-8 byte sequence from index '' @ show_nat valid_up_to
        else ''invalid utf-8 sequence of '' @ show_nat n @ '' bytes from index '' @ show_nat valid_up_to)"
  by pat_completeness auto

termination utf8_error
  by (relation "measure (length \<circ> snd)") (auto intro: utf8_chunk_shrinks)

declare utf8_error.simps [simp del]

definition read_string :: "bytes \<Rightarrow> nat \<Rightarrow> nat \<Rightarrow> (string \<times> nat, ProxyTokenError) result" where
  "read_string buf pos len =
     (if length buf < pos + len
      then Err (DeserializationError (''Buffer underflow reading string: need '' @ show_nat len
             @ '' bytes at position '' @ show_nat pos))
      else case from_utf8 (take len (drop pos buf)) of
             None \<Rightarrow> Err (DeserializationError (''Invalid UTF-8: '' @ utf8_error 0 (take len (drop pos buf))))
           | Some s \<Rightarrow> Ok (s, pos + len))"

definition ProxyToken_decode :: "string \<Rightarrow> (ProxyToken, ProxyTokenError) result" where
  "ProxyToken_decode encoded =
     (case base64_decode encoded of
        Err e \<Rightarrow> Err (Base64DecodeError e)
      | Panic \<Rightarrow> Panic
      | Ok buf \<Rightarrow>
          res_bind (read_u16_be buf 0) (\<lambda>(peer_id_len, pos).
          res_bind (read_string buf pos (unat peer_id_len)) (\<lambda>(peer_id, pos).
          res_bind (read_u16_be buf pos) (\<lambda>(url_len, pos).
          res_bind (read_string buf pos (unat url_len)) (\<lambda>(proxy_url, pos).
          res_bind (read_u64_be buf pos) (\<lambda>(expires_at, pos).
          res_bind (read_u64_be buf pos) (\<lambda>(issued_at, pos).
          let remaining = length buf - pos in
          if remaining \<noteq> 64
          then Err (DeserializationError (''Invalid signature length: expected 64, got '' @ show_nat remaining))
          else Ok \<lparr>tok_peer_id = peer_id, tok_proxy_url = proxy_url, tok_expires_at = expires_at,
                   tok_issued_at = issued_at, tok_signature = drop pos buf\<rparr>)))))))"

record 'vk TokenVerifier =
  tv_verifying_key :: 'vk

definition TokenVerifier_verify ::
  "('vk \<Rightarrow> bytes \<Rightarrow> bytes \<Rightarrow> bool) \<Rightarrow> u64 \<Rightarrow> 'vk TokenVerifier \<Rightarrow> ProxyToken \<Rightarrow> (unit, ProxyTokenError) result" where
  "TokenVerifier_verify ed_verify now v t =
     (if ProxyToken_is_expired now t then Err (Expired (tok_expires_at t))
      else if \<not> ProxyToken_verify ed_verify (tv_verifying_key v) t then Err InvalidSignature
      else Ok ())"

section \<open>Length-prefixed strings\<close>

text \<open>A string after its length in \<open>n\<close> bytes is a self-delimiting code.\<close>

definition len_prefixed :: "nat \<Rightarrow> string \<Rightarrow> bytes" where
  "len_prefixed n s = be_bytes n (length s) @ str_bytes s"

definition take_len_prefixed :: "nat \<Rightarrow> bytes \<Rightarrow> string \<times> nat" where
  "take_len_prefixed n bs =
     (let l = be_val (take n bs) in (bytes_str (take l (drop n bs)), n + l))"

lemma take_len_prefixed_enc:
  assumes "length s < 256 ^ n"
  shows "take_len_prefixed n (len_prefixed n s @ rest) = (s, length (len_prefixed n s))"
  using assms
  by (simp add: take_len_prefixed_def len_prefixed_def be_val_be_bytes_id bytes_str_str_bytes)

interpretation len32: prefix_codec "len_prefixed 4" "take_len_prefixed 4" "\<lambda>s. length s < 2 ^ 32"
  by unfold_locales (rule take_len_prefixed_enc, simp)

interpretation len16: prefix_codec "len_prefixed 2" "take_len_prefixed 2" "\<lambda>s. length s < 2 ^ 16"
  by unfold_locales (rule take_len_prefixed_enc, simp)

lemma be_bytes_mod: "be_bytes n (k mod 256 ^ n) = be_bytes n k"
proof -
  have "be_val (be_bytes n (k mod 256 ^ n)) = be_val (be_bytes n k)"
    by (simp add: be_val_be_bytes)
  then show ?thesis
    by (metis be_bytes_be_val length_be_bytes)
qed

lemma signing_message_parts:
  "signing_message p u e i = len_prefixed 4 p @ len_prefixed 4 u @ be_bytes 8 (unat e) @ be_bytes 8 (unat i)"
  using be_bytes_mod [of 4]
  by (simp add: signing_message_def len_prefixed_def unat_of_nat)

lemma ProxyToken_encode_parts:
  "ProxyToken_encode t = base64_encode (len_prefixed 2 (tok_peer_id t) @ len_prefixed 2 (tok_proxy_url t)
     @ be_bytes 8 (unat (tok_expires_at t)) @ be_bytes 8 (unat (tok_issued_at t)) @ tok_signature t)"
  using be_bytes_mod [of 2]
  by (simp add: ProxyToken_encode_def len_prefixed_def unat_of_nat)

lemma be_bytes_u64_inj: "be_bytes 8 (unat (a :: u64)) = be_bytes 8 (unat b) \<Longrightarrow> a = b"
  using be_bytes_inj [of 8 "unat a" "unat b"] by (simp add: word_unat_eq_iff)

lemma signing_message_inj:
  assumes "signing_message p u e i = signing_message p' u' e' i'"
    and "length p < 2 ^ 32" "length u < 2 ^ 32" "length p' < 2 ^ 32" "length u' < 2 ^ 32"
  shows "p = p' \<and> u = u' \<and> e = e' \<and> i = i'"
proof -
  note m = assms(1) [unfolded signing_message_parts]
  note a = len32.enc_prefix_free [OF assms(2,4) m]
  note b = len32.enc_prefix_free [OF assms(3,5) a [THEN conjunct2]]
  have "be_bytes 8 (unat e) = be_bytes 8 (unat e')" "be_bytes 8 (unat i) = be_bytes 8 (unat i')"
    using append_eq_split [OF b [THEN conjunct2]] by simp_all
  with a b show ?thesis by (auto dest: be_bytes_u64_inj)
qed

section \<open>Parsing\<close>

lemma drop_prefix:
  assumes "drop pos buf = xs @ rest" and "xs \<noteq> []"
  shows "take (length xs) (drop pos buf) = xs" and "drop (pos + length xs) buf = rest"
    and "pos + length xs \<le> length buf"
proof -
  have "length (drop pos buf) = length xs + length rest" using assms(1) by simp
  moreover have "0 < length xs" using assms(2) by simp
  ultimately show "pos + length xs \<le> length buf" unfolding length_drop by linarith
  show "take (length xs) (drop pos buf) = xs" using assms(1) by simp
  have "drop (pos + length xs) buf = drop (length xs) (drop pos buf)" by (simp add: add.commute)
  then show "drop (pos + length xs) buf = rest" using assms(1) by simp
qed

lemma read_u16_be_at:
  assumes "drop pos buf = be_bytes 2 k @ rest" and "k < 65536"
  shows "read_u16_be buf pos = Ok (of_nat k, pos + 2)" and "drop (pos + 2) buf = rest"
  using drop_prefix [OF assms(1)] assms(2)
  by (simp_all add: read_u16_be_def be_val_be_bytes_id)

lemma read_u64_be_at:
  assumes "drop pos buf = be_bytes 8 (unat (v :: u64)) @ rest"
  shows "read_u64_be buf pos = Ok (v, pos + 8)" and "drop (pos + 8) buf = rest"
  using drop_prefix [OF assms(1)]
  by (simp_all add: read_u64_be_def be_val_be_bytes_id)

lemma read_string_at:
  assumes "drop pos buf = str_bytes s @ rest" and "pos \<le> length buf" and "utf8_valid (str_bytes s)"
  shows "read_string buf pos (length s) = Ok (s, pos + length s)"
    and "drop (pos + length s) buf = rest"
proof -
  have "length buf = pos + length s + length rest"
    using arg_cong [OF assms(1), of length] assms(2) by simp
  then show "read_string buf pos (length s) = Ok (s, pos + length s)"
    using assms by (simp add: read_string_def from_utf8_str_bytes)
  have "drop (pos + length s) buf = drop (length s) (drop pos buf)" by (simp add: add.commute)
  then show "drop (pos + length s) buf = rest" using assms(1) by simp
qed

definition token_wf :: "ProxyToken \<Rightarrow> bool" where
  "token_wf t \<longleftrightarrow> utf8_valid (str_bytes (tok_peer_id t)) \<and> length (tok_peer_id t) < 65536
     \<and> utf8_valid (str_bytes (tok_proxy_url t)) \<and> length (tok_proxy_url t) < 65536
     \<and> length (tok_signature t) = 64"

lemma decode_encode_wf:
  assumes "token_wf t"
  shows "ProxyToken_decode (ProxyToken_encode t) = Ok t"
proof -
  let ?p = "tok_peer_id t" and ?u = "tok_proxy_url t" and ?e = "tok_expires_at t"
    and ?i = "tok_issued_at t" and ?s = "tok_signature t"
  define buf where "buf = be_bytes 2 (length ?p) @ str_bytes ?p @ be_bytes 2 (length ?u) @ str_bytes ?u
    @ be_bytes 8 (unat ?e) @ be_bytes 8 (unat ?i) @ ?s"
  have b: "base64_decode (ProxyToken_encode t) = Ok buf"
    by (simp add: ProxyToken_encode_parts base64_decode_encode buf_def len_prefixed_def)
  have w: "length ?p < 65536" "length ?u < 65536" "utf8_valid (str_bytes ?p)" "utf8_valid (str_bytes ?u)"
    "length ?s = 64" using assms by (simp_all add: token_wf_def)
  have "drop 0 buf = be_bytes 2 (length ?p) @ str_bytes ?p @ be_bytes 2 (length ?u) @ str_bytes ?u
    @ be_bytes 8 (unat ?e) @ be_bytes 8 (unat ?i) @ ?s" by (simp add: buf_def)
  note r1 = read_u16_be_at [OF this w(1)]
  note r2 = read_string_at [OF r1(2) _ w(3)]
  note r3 = read_u16_be_at [OF r2(2) w(2)]
  note r4 = read_string_at [OF r3(2) _ w(4)]
  note r5 = read_u64_be_at [OF r4(2)]
  note r6 = read_u64_be_at [OF r5(2)]
  have l: "length buf = length ?p + length ?u + 84" using w(5) by (simp add: buf_def)
  have u: "unat (of_nat (length ?p) :: u16) = length ?p" "unat (of_nat (length ?u) :: u16) = length ?u"
    using w(1,2) by (simp_all add: unat_of_nat)
  show ?thesis
    using r1(1) r2(1) r3(1) r4(1) r5(1) r6
    by (simp add: ProxyToken_decode_def b u l)
qed

lemma read_u16_beD: "read_u16_be buf pos = Ok (v, p) \<Longrightarrow> p = pos + 2 \<and> p \<le> length buf"
  by (auto simp: read_u16_be_def split: if_splits)

lemma read_u64_beD: "read_u64_be buf pos = Ok (v, p) \<Longrightarrow> p = pos + 8 \<and> p \<le> length buf"
  by (auto simp: read_u64_be_def split: if_splits)

lemma read_stringD:
  "read_string buf pos n = Ok (s, p) \<Longrightarrow> utf8_valid (str_bytes s) \<and> length s = n \<and> p = pos + n"
  by (auto simp: read_string_def from_utf8_def str_bytes_bytes_str split: if_splits)
     (simp add: bytes_str_def)

lemma decode_wf:
  assumes "ProxyToken_decode h = Ok t"
  shows "token_wf t"
  using assms
  by (auto simp: ProxyToken_decode_def res_bind_eq_Ok_iff token_wf_def Let_def
      dest!: read_stringD split: result.splits if_splits)

lemma base64_decode_cases:
  fixes h :: string
  defines "body \<equiv> trim_end_matches CHR ''='' h"
  shows "(\<exists>buf. base64_decode h = Ok buf \<and> set body \<subseteq> set CHARSET)
    \<or> (\<exists>pre c rest. base64_decode h = Err (invalid_base64 (length pre) (c # rest))
         \<and> body = pre @ c # rest \<and> set pre \<subseteq> set CHARSET \<and> c \<notin> set CHARSET)"
proof (cases "set body \<subseteq> set CHARSET")
  case True
  then show ?thesis
    using base64_loop_ok [OF True, of 0 0 0 "[]"] by (auto simp: base64_decode_def body_def)
next
  case False
  then obtain pre c rest where s: "body = pre @ c # rest" "c \<notin> set CHARSET" "set pre \<subseteq> set CHARSET"
    using split_list_first_prop [of body "\<lambda>c. c \<notin> set CHARSET"] by fastforce
  then have "base64_decode h = Err (invalid_base64 (length pre) (c # rest))"
    using base64_loop_err [of pre c 0 0 0 "[]" rest] by (simp add: base64_decode_def body_def)
  with s show ?thesis by blast
qed

lemma read_u16_be_cases:
  "(\<exists>v. read_u16_be buf pos = Ok v) \<or> (\<exists>e. read_u16_be buf pos = Err (DeserializationError e))"
  by (simp add: read_u16_be_def)

lemma read_u64_be_cases:
  "(\<exists>v. read_u64_be buf pos = Ok v) \<or> (\<exists>e. read_u64_be buf pos = Err (DeserializationError e))"
  by (simp add: read_u64_be_def)

lemma read_string_cases:
  "(\<exists>v. read_string buf pos n = Ok v) \<or> (\<exists>e. read_string buf pos n = Err (DeserializationError e))"
  by (simp add: read_string_def split: option.split)

text \<open>Outcomes of a chain of readers.\<close>

definition reader_outcome :: "('a, ProxyTokenError) result \<Rightarrow> bool" where
  "reader_outcome r \<longleftrightarrow> (case r of Ok _ \<Rightarrow> True | Err (DeserializationError _) \<Rightarrow> True | _ \<Rightarrow> False)"

lemma reader_outcome_bind:
  assumes "(\<exists>v. r = Ok v) \<or> (\<exists>e. r = Err (DeserializationError e))" and "\<And>v. reader_outcome (f v)"
  shows "reader_outcome (res_bind r f)"
  using assms by (auto simp: reader_outcome_def)

text \<open>What the signaling server signs: the date, the peer, the proxy and the time to live.\<close>

type_synonym grant = "u64 \<times> string \<times> string \<times> u64"

fun grant_ok :: "grant \<Rightarrow> bool" where
  "grant_ok (now, peer, url, ttl) \<longleftrightarrow> utf8_valid (str_bytes peer) \<and> length peer < 65536
     \<and> utf8_valid (str_bytes url) \<and> length url < 65536"

fun grant_message :: "grant \<Rightarrow> bytes" where
  "grant_message (now, peer, url, ttl) = signing_message peer url (saturating_add now ttl) now"

fun grants :: "grant \<Rightarrow> ProxyToken \<Rightarrow> bool" where
  "grants (now, peer, url, ttl) t \<longleftrightarrow> tok_peer_id t = peer \<and> tok_proxy_url t = url
     \<and> tok_issued_at t = now \<and> tok_expires_at t = saturating_add now ttl"

lemma signed_token_wf:
  assumes "grant_ok (now, peer, url, ttl)" and "\<forall>m. length (ed_sign m) = 64"
  shows "token_wf (ProxyToken_sign ed_sign now peer url ttl)"
  using assms by (simp add: token_wf_def ProxyToken_sign_def Let_def)

lemma verifier_accepts_iff:
  "TokenVerifier_verify ed_verify later v t = Ok () \<longleftrightarrow> later < tok_expires_at t \<and> length (tok_signature t) = 64
     \<and> ed_verify (tv_verifying_key v)
         (signing_message (tok_peer_id t) (tok_proxy_url t) (tok_expires_at t) (tok_issued_at t)) (tok_signature t)"
  by (auto simp: TokenVerifier_verify_def ProxyToken_is_expired_def ProxyToken_verify_def Let_def)

lemma accepted_was_granted:
  assumes "token_wf t" and "grant_ok g"
    and "signing_message (tok_peer_id t) (tok_proxy_url t) (tok_expires_at t) (tok_issued_at t) = grant_message g"
  shows "grants g t"
proof -
  obtain now peer url ttl where g: "g = (now, peer, url, ttl)" by (cases g)
  show ?thesis
    using signing_message_inj [of "tok_peer_id t" "tok_proxy_url t" "tok_expires_at t" "tok_issued_at t"
        peer url "saturating_add now ttl" now] assms
    by (simp add: g token_wf_def)
qed

section \<open>Properties\<close>

text \<open>C38: the token parser and printer fit together.  A token survives the header encoding exactly
  if it is well formed - both strings UTF-8 and short enough for their two-byte lengths, the
  signature 64 bytes long - and the well-formed tokens are exactly those the parser can return.\<close>

theorem token_round_trip:
  "(ProxyToken_decode (ProxyToken_encode t) = Ok t \<longleftrightarrow> token_wf t)
   \<and> ((\<exists>h. ProxyToken_decode h = Ok t) \<longleftrightarrow> token_wf t)"
  using decode_encode_wf decode_wf by blast

text \<open>Every header gets a definite answer.  The parser never panics; it complains about base64
  exactly at the first character outside the alphabet, and everything else it refuses is reported
  as a deserialization error.\<close>

lemma token_decode_outcomes:
  "case ProxyToken_decode h of
     Ok t \<Rightarrow> token_wf t
   | Err (Base64DecodeError e) \<Rightarrow>
       (\<exists>pre c rest. trim_end_matches CHR ''='' h = pre @ c # rest \<and> set pre \<subseteq> set CHARSET
          \<and> c \<notin> set CHARSET \<and> e = invalid_base64 (length pre) (c # rest))
   | Err (DeserializationError e) \<Rightarrow> set (trim_end_matches CHR ''='' h) \<subseteq> set CHARSET
   | _ \<Rightarrow> False"
proof (cases "base64_decode h")
  case (Ok buf)
  have "reader_outcome (ProxyToken_decode h)"
    unfolding ProxyToken_decode_def Ok result.case
    by (intro reader_outcome_bind read_u16_be_cases read_u64_be_cases read_string_cases prod.case_eq_if
        | simp only: split_beta)+
       (simp add: reader_outcome_def Let_def)
  moreover have "set (trim_end_matches CHR ''='' h) \<subseteq> set CHARSET"
    using base64_decode_cases [of h] Ok by auto
  ultimately show ?thesis
    using decode_wf [of h]
    by (auto simp: reader_outcome_def split: result.splits ProxyTokenError.splits)
next
  case (Err e)
  then show ?thesis
    using base64_decode_cases [of h] by (auto simp: ProxyToken_decode_def)
next
  case Panic
  then show ?thesis
    using base64_decode_cases [of h] by auto
qed

text \<open>C15: what a proxy can rely on.  If the signature scheme accepts its own signatures, a signed
  token that travels through the header is accepted by the verifier at every moment before its
  expiry and refused as expired from then on.  And whatever header a peer presents, if its
  signature is one that verifies only for messages the server has signed, an accepted token is one
  the server granted - same peer, same proxy, same dates - and has not expired.\<close>

theorem token_authentic:
  fixes ed_verify :: "'vk \<Rightarrow> bytes \<Rightarrow> bytes \<Rightarrow> bool"
  assumes "\<forall>m. ed_verify vk m (ed_sign m) \<and> length (ed_sign m) = 64"
    and "list_all grant_ok issued" and "(now, peer, url, ttl) \<in> set issued"
    and "ProxyToken_decode h = Ok t"
    and "\<forall>m. ed_verify vk m (tok_signature t) \<longrightarrow> m \<in> grant_message ` set issued"
  shows "(\<exists>t'. ProxyToken_decode (ProxyToken_encode (ProxyToken_sign ed_sign now peer url ttl)) = Ok t'
       \<and> grants (now, peer, url, ttl) t'
       \<and> (\<forall>later. TokenVerifier_verify ed_verify later \<lparr>tv_verifying_key = vk\<rparr> t'
            = (if later < tok_expires_at t' then Ok () else Err (Expired (tok_expires_at t')))))
    \<and> (TokenVerifier_verify ed_verify later \<lparr>tv_verifying_key = vk\<rparr> t = Ok () \<longrightarrow>
        later < tok_expires_at t \<and> (\<exists>g \<in> set issued. grants g t))"
proof
  let ?t = "ProxyToken_sign ed_sign now peer url ttl"
  have "token_wf ?t"
    using assms(1-3) by (intro signed_token_wf) (auto simp: list_all_iff)
  moreover have "grants (now, peer, url, ttl) ?t"
    by (simp add: ProxyToken_sign_def Let_def)
  moreover have "TokenVerifier_verify ed_verify later \<lparr>tv_verifying_key = vk\<rparr> ?t
      = (if later < tok_expires_at ?t then Ok () else Err (Expired (tok_expires_at ?t)))" for later
    using assms(1)
    by (auto simp: TokenVerifier_verify_def ProxyToken_is_expired_def ProxyToken_verify_def
        ProxyToken_sign_def Let_def)
  ultimately show "\<exists>t'. ProxyToken_decode (ProxyToken_encode ?t) = Ok t' \<and> grants (now, peer, url, ttl) t'
       \<and> (\<forall>later. TokenVerifier_verify ed_verify later \<lparr>tv_verifying_key = vk\<rparr> t'
            = (if later < tok_expires_at t' then Ok () else Err (Expired (tok_expires_at t'))))"
    using decode_encode_wf by blast
  show "TokenVerifier_verify ed_verify later \<lparr>tv_verifying_key = vk\<rparr> t = Ok () \<longrightarrow>
        later < tok_expires_at t \<and> (\<exists>g \<in> set issued. grants g t)"
  proof
    assume "TokenVerifier_verify ed_verify later \<lparr>tv_verifying_key = vk\<rparr> t = Ok ()"
    then have l: "later < tok_expires_at t" and v: "ed_verify vk (signing_message (tok_peer_id t)
        (tok_proxy_url t) (tok_expires_at t) (tok_issued_at t)) (tok_signature t)"
      by (simp_all add: verifier_accepts_iff)
    from v assms(5) obtain g where "g \<in> set issued"
      "signing_message (tok_peer_id t) (tok_proxy_url t) (tok_expires_at t) (tok_issued_at t) = grant_message g"
      by (blast elim: imageE)
    with accepted_was_granted [OF decode_wf [OF assms(4)]] assms(2) l
    show "later < tok_expires_at t \<and> (\<exists>g \<in> set issued. grants g t)"
      unfolding list_all_iff by blast
  qed
qed

theorem token_authentic_witness:
  "let sign = (\<lambda>m. replicate 64 (if m = grant_message (100, ''alice'', ''proxy'', 60) then 1 else 0));
       verify = (\<lambda>vk m s. s = sign m)
   in \<exists>t. ProxyToken_decode (ProxyToken_encode (ProxyToken_sign sign 100 ''alice'' ''proxy'' 60)) = Ok t
     \<and> TokenVerifier_verify verify 159 \<lparr>tv_verifying_key = ()\<rparr> t = Ok ()
     \<and> TokenVerifier_verify verify 160 \<lparr>tv_verifying_key = ()\<rparr> t = Err (Expired 160)
     \<and> grants (100, ''alice'', ''proxy'', 60) t"
proof -
  define sign :: "bytes \<Rightarrow> bytes" where
    "sign = (\<lambda>m. replicate 64 (if m = grant_message (100, ''alice'', ''proxy'', 60) then 1 else 0))"
  define verify where "verify = (\<lambda>(vk :: unit) m s. s = sign m)"
  let ?t = "ProxyToken_sign sign 100 ''alice'' ''proxy'' 60"
  have ok: "\<forall>m. verify () m (sign m) \<and> length (sign m) = 64"
    by (simp add: verify_def sign_def)
  have g: "list_all grant_ok [(100, ''alice'', ''proxy'', 60)]"
    by (simp add: utf8_valid_ascii str_bytes_def)
  then have d: "ProxyToken_decode (ProxyToken_encode ?t) = Ok ?t"
    using ok by (intro decode_encode_wf signed_token_wf) simp_all
  have "\<forall>m. verify () m (tok_signature ?t) \<longrightarrow> m \<in> grant_message ` set [(100, ''alice'', ''proxy'', 60)]"
    by (simp add: verify_def sign_def ProxyToken_sign_def Let_def replicate_eq_replicate)
  from token_authentic [of verify "()" sign "[(100, ''alice'', ''proxy'', 60)]" 100 "''alice''" "''proxy''" 60
      _ ?t 159, OF ok g _ d this]
  have "TokenVerifier_verify verify later \<lparr>tv_verifying_key = ()\<rparr> ?t
      = (if later < tok_expires_at ?t then Ok () else Err (Expired (tok_expires_at ?t)))"
    and "grants (100, ''alice'', ''proxy'', 60) ?t" for later
    unfolding d by simp_all
  moreover have "tok_expires_at ?t = 160"
    by (simp add: ProxyToken_sign_def saturating_add_def Let_def)
  ultimately show ?thesis
    unfolding Let_def sign_def [symmetric] verify_def [symmetric] using d by simp
qed

end
