(* ===== verification/Sig_Rest.thy ===== *)
theory Sig_Rest
  imports Sig_Relay Jwt Core_Crypto Proxy_Token
begin

text \<open>
  The REST interface of the signaling server: the authentication middleware
  (\<open>src/crates/voip-signaling/src/auth.rs\<close>), the handlers (\<open>handlers.rs\<close>) and the routing table
  (\<open>server.rs\<close>).

  A request comes with what the extractors of \<open>axum\<close> made of its body and query: \<open>None\<close> where the
  extraction failed, in which case \<open>axum\<close> answers and no handler runs.  The record \<open>rest_env\<close> holds
  the other library code: the iteration order of the peer cache, \<open>str::to_lowercase\<close> (the Unicode
  tables), \<open>HeaderValue::to_str\<close>, the decoding of a path segment, \<open>serde_json\<close> on the claims and the
  Ed25519 key operations.  One request reads the clock at one moment.  A panic of a handler loses
  the response and keeps the state changed so far.
\<close>

section \<open>Requests and responses\<close>

datatype Method = GET | HEAD | POST | PUT | DELETE | OtherMethod string

record SocketAddr =
  sa_ip :: string
  sa_port :: u16
  sa_is_ipv6 :: bool

record PeerResponse =
  pr_peer_id :: string
  pr_display_name :: string
  pr_ipv6_addresses :: "string list"
  pr_ipv4_reflexive :: "string list"
  pr_nat_type :: string
  pr_status :: string
  pr_last_seen :: u64

record RegisterPeerRequest =
  rp_peer_id :: string
  rp_display_name :: string
  rp_ipv6_addresses :: "string list"
  rp_ipv4_reflexive :: "string list"
  rp_nat_type :: "string option"
  rp_status :: "string option"
  rp_fcm_token :: "string option"

record MyIpResponse =
  mi_ip :: string
  mi_ip_version :: u8
  mi_port :: u16
  mi_observed_at :: u64

record ProxyEntryResponse =
  er_node_id :: string
  er_proxy_url :: string
  er_capacity :: u32
  er_region :: string
  er_latency_hint_ms :: u32

record ProxyTokenRequest =
  tr_peer_id :: string
  tr_target_peer_id :: string

record ProxyTokenResponse =
  ts_token :: string
  ts_ttl_seconds :: u32

record LookupResponse =
  lr_peer_id :: string
  lr_display_name :: string
  lr_status :: string

record PeerStatusResponse =
  ps_peer_id :: string
  ps_status :: string

record RegisterPeerResponse =
  rr_peer_id :: string
  rr_jwt_token :: string
  rr_expires_in_secs :: u64

record rest_request =
  rq_method :: Method
  rq_path :: string
  rq_authorization :: "bytes option"
  rq_addr :: SocketAddr
  rq_register :: "RegisterPeerRequest option"
  rq_token_request :: "ProxyTokenRequest option"
  rq_username :: "string option"
  rq_token :: "string option"

text \<open>The answers by kind; \<open>Upgraded\<close> starts a WebSocket session for that peer, the last three are
  answers of \<open>axum\<close> itself.\<close>

datatype rest_response =
    Created RegisterPeerResponse
  | PeerJson PeerResponse
  | NoContent
  | StatusJson PeerStatusResponse
  | LookupJson LookupResponse
  | MyIpJson MyIpResponse
  | ProxiesJson "ProxyEntryResponse list"
  | BootstrapJson "string list"
  | TokenJson ProxyTokenResponse
  | Upgraded string
  | Documentation
  | NotFound
  | MethodNotAllowed
  | ExtractorRejected

record ('p, 'c, 'k) rest_env =
  re_server :: "('p, 'c) server_env"
  re_peers_iter :: "'p \<Rightarrow> (string \<times> PeerEntry) list"
  re_to_lowercase :: "string \<Rightarrow> string"
  re_header_str :: "bytes \<Rightarrow> string option"
  re_path_decode :: "string \<Rightarrow> string option"
  re_to_json :: "JwtClaims \<Rightarrow> (string, string) result"
  re_from_json :: "bytes \<Rightarrow> (JwtClaims, string) result"
  re_ed_verify :: "bytes \<Rightarrow> bytes \<Rightarrow> bool"
  re_key_from_bytes :: "bytes \<Rightarrow> 'k option"

section \<open>Conversions\<close>

definition show_i32 :: "i32 \<Rightarrow> string" where
  "show_i32 v = (if sint v < 0 then ''-'' @ show_nat (nat (- sint v)) else show_nat (nat (sint v)))"

definition nat_type_str :: "i32 \<Rightarrow> string" where
  "nat_type_str val =
     (if val = 0 then ''NONE''
      else if val = 1 then ''CONE''
      else if val = 2 then ''SYMMETRIC_SEQUENTIAL''
      else if val = 3 then ''SYMMETRIC_PSEUDO''
      else if val = 4 then ''SYMMETRIC_RANDOM''
      else ''UNKNOWN('' @ show_i32 val @ '')'')"

definition peer_status_str :: "i32 \<Rightarrow> string" where
  "peer_status_str val =
     (if val = 0 then ''ONLINE''
      else if val = 1 then ''OFFLINE''
      else if val = 2 then ''IN_CALL''
      else ''UNKNOWN('' @ show_i32 val @ '')'')"

definition nat_type_or :: "i32 \<Rightarrow> string option \<Rightarrow> i32" where
  "nat_type_or other s =
     (if s = Some ''NONE'' then 0
      else if s = Some ''CONE'' then 1
      else if s = Some ''SYMMETRIC_SEQUENTIAL'' then 2
      else if s = Some ''SYMMETRIC_PSEUDO'' then 3
      else if s = Some ''SYMMETRIC_RANDOM'' then 4
      else other)"

definition status_or :: "i32 \<Rightarrow> string option \<Rightarrow> i32" where
  "status_or other s =
     (if s = Some ''ONLINE'' then 0
      else if s = Some ''OFFLINE'' then 1
      else if s = Some ''IN_CALL'' then 2
      else other)"

definition extract_client_ip :: "SocketAddr \<Rightarrow> string \<times> u16 \<times> u8" where
  "extract_client_ip addr = (sa_ip addr, sa_port addr, if sa_is_ipv6 addr then 6 else 4)"

text \<open>The handlers have their own base64 encoder; the bytes of a group are combined pairwise.\<close>

function rest_base64_encode :: "bytes \<Rightarrow> string" where
  "rest_base64_encode data =
     (if data = [] then []
      else
        let b0 = ucast (data ! 0) :: u32;
            b1 = (if length data > 1 then ucast (data ! 1) else 0) :: u32;
            b2 = (if length data > 2 then ucast (data ! 2) else 0) :: u32
        in [CHARSET ! unat (drop_bit 2 b0 AND 0x3F),
            CHARSET ! unat (push_bit 4 (b0 AND 0x03) OR (drop_bit 4 b1 AND 0x0F)),
            if length data > 1
            then CHARSET ! unat (push_bit 2 (b1 AND 0x0F) OR (drop_bit 6 b2 AND 0x03)) else CHR ''='',
            if length data > 2 then CHARSET ! unat (b2 AND 0x3F) else CHR ''='']
           @ rest_base64_encode (drop 3 data))"
  by pat_completeness auto

termination rest_base64_encode
  by (relation "measure length") auto

declare rest_base64_encode.simps [simp del]

section \<open>Handlers\<close>

definition peer_response :: "PeerInfo \<Rightarrow> PeerResponse" where
  "peer_response info =
     \<lparr> pr_peer_id = pi_peer_id info, pr_display_name = pi_display_name info,
       pr_ipv6_addresses = pi_ipv6_addresses info, pr_ipv4_reflexive = pi_ipv4_reflexive info,
       pr_nat_type = nat_type_str (pi_nat_type info), pr_status = peer_status_str (pi_status info),
       pr_last_seen = pi_last_seen info \<rparr>"

type_synonym ('p, 'c) handler_result =
  "('p, 'c) AppState \<times> (rest_response, SignalingError) result"

definition rest_register_peer ::
  "('p, 'c, 'k) rest_env \<Rightarrow> moment \<Rightarrow> RegisterPeerRequest \<Rightarrow> ('p, 'c) AppState \<Rightarrow> ('p, 'c) handler_result" where
  "rest_register_peer E M body st =
     (if \<not> is_ok (parse_peer_id (re_key_from_bytes E) (rp_peer_id body))
      then (st, Err (InvalidMessage ''peer_id must be a valid 64-char hex Ed25519 public key''))
      else
        case check_registration (mo_instant M) (rp_peer_id body) (as_rate_limiter st) of
          Panic \<Rightarrow> (st, Panic)
        | Err _ \<Rightarrow> (st, Panic)
        | Ok (limiter, allowed) \<Rightarrow>
            let st = st\<lparr>as_rate_limiter := limiter\<rparr> in
            if \<not> allowed then (st, Err RateLimited)
            else
              let info = \<lparr> pi_peer_id = rp_peer_id body, pi_display_name = rp_display_name body,
                    pi_ipv6_addresses = rp_ipv6_addresses body,
                    pi_ipv4_reflexive = rp_ipv4_reflexive body,
                    pi_nat_type = nat_type_or 0 (rp_nat_type body),
                    pi_status = status_or 0 (rp_status body), pi_fcm_token = rp_fcm_token body,
                    pi_last_seen = mo_now_secs M \<rparr>
              in case register_peer (re_server E) info None st of
                   (st, Err e) \<Rightarrow> (st, Err e)
                 | (st, Panic) \<Rightarrow> (st, Panic)
                 | (st, Ok _) \<Rightarrow>
                     let expiry_secs = jwt_expiry_secs (as_config st) in
                     case create_jwt (se_oc (re_server E)) (re_to_json E) (se_sign (re_server E))
                            (mo_now_secs M) (rp_peer_id body) expiry_secs of
                       Err e \<Rightarrow> (st, Err (Internal (SignalingError_to_string e)))
                     | Panic \<Rightarrow> (st, Panic)
                     | Ok jwt_token \<Rightarrow>
                         (st, Ok (Created \<lparr> rr_peer_id = rp_peer_id body, rr_jwt_token = jwt_token,
                                            rr_expires_in_secs = expiry_secs \<rparr>)))"

definition updated_info :: "moment \<Rightarrow> string \<Rightarrow> RegisterPeerRequest \<Rightarrow> PeerInfo \<Rightarrow> PeerInfo" where
  "updated_info M peer_id body existing =
     \<lparr> pi_peer_id = peer_id,
       pi_display_name = (if rp_display_name body = [] then pi_display_name existing
                          else rp_display_name body),
       pi_ipv6_addresses = (if rp_ipv6_addresses body = [] then pi_ipv6_addresses existing
                            else rp_ipv6_addresses body),
       pi_ipv4_reflexive = (if rp_ipv4_reflexive body = [] then pi_ipv4_reflexive existing
                            else rp_ipv4_reflexive body),
       pi_nat_type = nat_type_or (pi_nat_type existing) (rp_nat_type body),
       pi_status = status_or (pi_status existing) (rp_status body),
       pi_fcm_token = (case rp_fcm_token body of Some t \<Rightarrow> Some t | None \<Rightarrow> pi_fcm_token existing),
       pi_last_seen = mo_now_secs M \<rparr>"

definition rest_update_peer ::
  "('p, 'c, 'k) rest_env \<Rightarrow> moment \<Rightarrow> string \<Rightarrow> string \<Rightarrow> RegisterPeerRequest \<Rightarrow> ('p, 'c) AppState
     \<Rightarrow> ('p, 'c) handler_result" where
  "rest_update_peer E M auth peer_id body st =
     (if auth \<noteq> peer_id
      then (st, Err (Unauthorized ''authenticated peer_id does not match target''))
      else
        case get_peer (re_server E) peer_id st of
          (st, None) \<Rightarrow> (st, Err (UnknownPeer peer_id))
        | (st, Some existing) \<Rightarrow>
            let info = updated_info M peer_id body existing;
                response = peer_response info
            in case register_peer (re_server E) info None st of
                 (st, Ok _) \<Rightarrow> (st, Ok (PeerJson response))
               | (st, Err e) \<Rightarrow> (st, Err e)
               | (st, Panic) \<Rightarrow> (st, Panic))"

definition rest_unregister_peer ::
  "('p, 'c, 'k) rest_env \<Rightarrow> string \<Rightarrow> string \<Rightarrow> ('p, 'c) AppState \<Rightarrow> ('p, 'c) handler_result" where
  "rest_unregister_peer E auth peer_id st =
     (if auth \<noteq> peer_id
      then (st, Err (Unauthorized ''authenticated peer_id does not match target''))
      else
        case unregister_peer (re_server E) peer_id st of
          (st, Ok _) \<Rightarrow> (st, Ok NoContent)
        | (st, Err e) \<Rightarrow> (st, Err e)
        | (st, Panic) \<Rightarrow> (st, Panic))"

definition rest_get_peer ::
  "('p, 'c, 'k) rest_env \<Rightarrow> string \<Rightarrow> ('p, 'c) AppState \<Rightarrow> ('p, 'c) handler_result" where
  "rest_get_peer E peer_id st =
     (case get_peer (re_server E) peer_id st of
        (st, None) \<Rightarrow> (st, Err (UnknownPeer peer_id))
      | (st, Some info) \<Rightarrow> (st, Ok (PeerJson (peer_response info))))"

definition rest_get_peer_status ::
  "('p, 'c, 'k) rest_env \<Rightarrow> string \<Rightarrow> ('p, 'c) AppState \<Rightarrow> ('p, 'c) handler_result" where
  "rest_get_peer_status E peer_id st =
     (case get_peer (re_server E) peer_id st of
        (st, None) \<Rightarrow> (st, Err (UnknownPeer peer_id))
      | (st, Some info) \<Rightarrow>
          (st, Ok (StatusJson \<lparr> ps_peer_id = pi_peer_id info, ps_status = peer_status_str (pi_status info) \<rparr>)))"

definition rest_lookup_peer ::
  "('p, 'c, 'k) rest_env \<Rightarrow> string \<Rightarrow> ('p, 'c) AppState \<Rightarrow> ('p, 'c) handler_result" where
  "rest_lookup_peer E username st =
     (case find (\<lambda>(_, entry). re_to_lowercase E (pi_display_name (pe_info entry)) = re_to_lowercase E username)
             (re_peers_iter E (as_peers st)) of
        Some (_, entry) \<Rightarrow>
          (st, Ok (LookupJson \<lparr> lr_peer_id = pi_peer_id (pe_info entry),
                                lr_display_name = pi_display_name (pe_info entry),
                                lr_status = peer_status_str (pi_status (pe_info entry)) \<rparr>))
      | None \<Rightarrow> (st, Err (UnknownPeer username)))"

definition rest_get_my_ip :: "moment \<Rightarrow> SocketAddr \<Rightarrow> rest_response" where
  "rest_get_my_ip M addr =
     (case extract_client_ip addr of
        (ip, port, version) \<Rightarrow>
          MyIpJson \<lparr> mi_ip = ip, mi_ip_version = version, mi_port = port, mi_observed_at = mo_now_secs M \<rparr>)"

definition rest_get_proxies :: "('p, 'c) AppState \<Rightarrow> rest_response" where
  "rest_get_proxies st =
     ProxiesJson (map (\<lambda>p. \<lparr> er_node_id = px_node_id p, er_proxy_url = px_proxy_url p,
       er_capacity = px_capacity p, er_region = px_region p,
       er_latency_hint_ms = px_latency_hint_ms p \<rparr>) (get_proxies st))"

definition rest_dht_bootstrap :: "('p, 'c) AppState \<Rightarrow> rest_response" where
  "rest_dht_bootstrap st = BootstrapJson (get_dht_bootstrap st)"

definition rest_issue_proxy_token ::
  "('p, 'c, 'k) rest_env \<Rightarrow> moment \<Rightarrow> ProxyTokenRequest \<Rightarrow> ('p, 'c) AppState \<Rightarrow> ('p, 'c) handler_result" where
  "rest_issue_proxy_token E M body st =
     (case get_peer (re_server E) (tr_peer_id body) st of
        (st, None) \<Rightarrow> (st, Err (UnknownPeer (tr_peer_id body)))
      | (st, Some _) \<Rightarrow>
          (case get_peer (re_server E) (tr_target_peer_id body) st of
             (st, None) \<Rightarrow> (st, Err (UnknownPeer (tr_target_peer_id body)))
           | (st, Some _) \<Rightarrow>
               let ttl_seconds = 60; issued_at = mo_now_secs M;
                   proxy_token = \<lparr> pt_peer_id = tr_peer_id body, pt_target_peer_id = tr_target_peer_id body,
                     pt_issued_at = issued_at, pt_ttl_seconds = ttl_seconds, pt_signature = [] \<rparr>;
                   token_for_signing = proxy_token\<lparr>pt_signature := []\<rparr>;
                   data_to_sign = enc_ProxyToken (se_codec (re_server E)) token_for_signing;
                   final_token = \<lparr> pt_peer_id = tr_peer_id body, pt_target_peer_id = tr_target_peer_id body,
                     pt_issued_at = issued_at, pt_ttl_seconds = ttl_seconds,
                     pt_signature = se_sign (re_server E) data_to_sign \<rparr>;
                   token_bytes = enc_ProxyToken (se_codec (re_server E)) final_token
               in (st, Ok (TokenJson \<lparr> ts_token = rest_base64_encode token_bytes,
                                       ts_ttl_seconds = ttl_seconds \<rparr>))))"

definition ws_upgrade ::
  "('p, 'c, 'k) rest_env \<Rightarrow> moment \<Rightarrow> string \<Rightarrow> (rest_response, SignalingError) result" where
  "ws_upgrade E M token =
     res_bind (verify_jwt (re_from_json E) (re_ed_verify E) (mo_now_secs M) token)
       (\<lambda>claims. Ok (Upgraded (jc_sub claims)))"

section \<open>Authentication\<close>

definition starts_with :: "string \<Rightarrow> string \<Rightarrow> bool" where
  "starts_with p s = (take (length p) s = p)"

definition is_public_path :: "string \<Rightarrow> Method \<Rightarrow> bool" where
  "is_public_path path m =
     (if path = ''/v1/peers'' \<and> m = POST then True
      else if path = ''/v1/myip'' \<and> m = GET then True
      else if path = ''/v1/ws'' \<and> m = GET then True
      else if path = ''/v1/openapi.json'' \<and> m = GET then True
      else if starts_with ''/swagger-ui'' path \<and> m = GET then True
      else False)"

text \<open>The middleware yields the peer id of the \<open>AuthenticatedPeer\<close> extension, or refuses.\<close>

definition auth_middleware ::
  "('p, 'c, 'k) rest_env \<Rightarrow> moment \<Rightarrow> rest_request \<Rightarrow> (string, SignalingError) result" where
  "auth_middleware E M req =
     (if is_public_path (rq_path req) (rq_method req) then Ok []
      else case rq_authorization req of
             None \<Rightarrow> Err (Unauthorized ''missing Authorization header'')
           | Some value \<Rightarrow>
               (case re_header_str E value of
                  None \<Rightarrow> Err (Unauthorized ''invalid Authorization header'')
                | Some auth_header \<Rightarrow>
                    if \<not> starts_with ''Bearer '' auth_header
                    then Err (Unauthorized ''Authorization header must use Bearer scheme'')
                    else
                      (case verify_jwt (re_from_json E) (re_ed_verify E) (mo_now_secs M)
                              (drop 7 auth_header) of
                         Err e \<Rightarrow> Err (Unauthorized (''invalid JWT: '' @ SignalingError_to_string e))
                       | Panic \<Rightarrow> Panic
                       | Ok claims \<Rightarrow> Ok (jc_sub claims))))"

section \<open>Routing\<close>

datatype Route =
    PeersRoute | LookupRoute | PeerRoute string | StatusRoute string | MyIpRoute | WsRoute
  | ProxiesRoute | BootstrapRoute | TokenRoute | DocsRoute | NoRoute

definition route_of :: "string \<Rightarrow> Route" where
  "route_of path =
     (if path = ''/v1/openapi.json'' \<or> starts_with ''/swagger-ui'' path then DocsRoute
      else if path = ''/v1/peers'' then PeersRoute
      else if path = ''/v1/peers/lookup'' then LookupRoute
      else if path = ''/v1/myip'' then MyIpRoute
      else if path = ''/v1/ws'' then WsRoute
      else if path = ''/v1/proxies'' then ProxiesRoute
      else if path = ''/v1/dht/bootstrap'' then BootstrapRoute
      else if path = ''/v1/proxy-token'' then TokenRoute
      else case split_char CHR ''/'' path of
             [root, v1, peers, p] \<Rightarrow>
               if root = [] \<and> v1 = ''v1'' \<and> peers = ''peers'' \<and> p \<noteq> [] then PeerRoute p else NoRoute
           | [root, v1, peers, p, status] \<Rightarrow>
               if root = [] \<and> v1 = ''v1'' \<and> peers = ''peers'' \<and> p \<noteq> [] \<and> status = ''status''
               then StatusRoute p else NoRoute
           | _ \<Rightarrow> NoRoute)"

definition is_get :: "Method \<Rightarrow> bool" where
  "is_get m \<longleftrightarrow> m = GET \<or> m = HEAD"

definition with_arg :: "'x option \<Rightarrow> ('x \<Rightarrow> ('p, 'c) handler_result) \<Rightarrow> ('p, 'c) AppState \<Rightarrow> ('p, 'c) handler_result" where
  "with_arg x f st = (case x of Some x \<Rightarrow> f x | None \<Rightarrow> (st, Ok ExtractorRejected))"

definition dispatch_route ::
  "('p, 'c, 'k) rest_env \<Rightarrow> moment \<Rightarrow> string \<Rightarrow> rest_request \<Rightarrow> ('p, 'c) AppState \<Rightarrow> ('p, 'c) handler_result" where
  "dispatch_route E M auth req st =
     (let m = rq_method req in
      case route_of (rq_path req) of
        PeersRoute \<Rightarrow>
          if m = POST then with_arg (rq_register req) (\<lambda>body. rest_register_peer E M body st) st
          else (st, Ok MethodNotAllowed)
      | LookupRoute \<Rightarrow>
          if is_get m then with_arg (rq_username req) (\<lambda>u. rest_lookup_peer E u st) st
          else (st, Ok MethodNotAllowed)
      | PeerRoute p \<Rightarrow>
          if is_get m then with_arg (re_path_decode E p) (\<lambda>peer_id. rest_get_peer E peer_id st) st
          else if m = PUT
          then with_arg (re_path_decode E p) (\<lambda>peer_id.
                 with_arg (rq_register req) (\<lambda>body. rest_update_peer E M auth peer_id body st) st) st
          else if m = DELETE
          then with_arg (re_path_decode E p) (\<lambda>peer_id. rest_unregister_peer E auth peer_id st) st
          else (st, Ok MethodNotAllowed)
      | StatusRoute p \<Rightarrow>
          if is_get m then with_arg (re_path_decode E p) (\<lambda>peer_id. rest_get_peer_status E peer_id st) st
          else (st, Ok MethodNotAllowed)
      | MyIpRoute \<Rightarrow>
          if is_get m then (st, Ok (rest_get_my_ip M (rq_addr req))) else (st, Ok MethodNotAllowed)
      | WsRoute \<Rightarrow>
          if m = GET then with_arg (rq_token req) (\<lambda>token. (st, ws_upgrade E M token)) st
          else if m = HEAD then (st, Ok ExtractorRejected)
          else (st, Ok MethodNotAllowed)
      | ProxiesRoute \<Rightarrow>
          if is_get m then (st, Ok (rest_get_proxies st)) else (st, Ok MethodNotAllowed)
      | BootstrapRoute \<Rightarrow>
          if is_get m then (st, Ok (rest_dht_bootstrap st)) else (st, Ok MethodNotAllowed)
      | TokenRoute \<Rightarrow>
          if m = POST then with_arg (rq_token_request req) (\<lambda>body. rest_issue_proxy_token E M body st) st
          else (st, Ok MethodNotAllowed)
      | DocsRoute \<Rightarrow> if is_get m then (st, Ok Documentation) else (st, Ok MethodNotAllowed)
      | NoRoute \<Rightarrow> (st, Ok NotFound))"

definition router ::
  "('p, 'c, 'k) rest_env \<Rightarrow> moment \<Rightarrow> rest_request \<Rightarrow> ('p, 'c) AppState \<Rightarrow> ('p, 'c) handler_result" where
  "router E M req st =
     (case auth_middleware E M req of
        Err e \<Rightarrow> (st, Err e)
      | Panic \<Rightarrow> (st, Panic)
      | Ok auth \<Rightarrow> dispatch_route E M auth req st)"

section \<open>Effects on the registry\<close>

text \<open>The peer whose valid bearer token a request carries.\<close>

definition bearer :: "('p, 'c, 'k) rest_env \<Rightarrow> moment \<Rightarrow> rest_request \<Rightarrow> string option" where
  "bearer E M req =
     (case Option.bind (rq_authorization req) (re_header_str E) of
        None \<Rightarrow> None
      | Some h \<Rightarrow>
          if \<not> starts_with ''Bearer '' h then None
          else case verify_jwt (re_from_json E) (re_ed_verify E) (mo_now_secs M) (drop 7 h) of
                 Ok claims \<Rightarrow> Some (jc_sub claims) | _ \<Rightarrow> None)"

lemma auth_middleware_Ok:
  assumes "auth_middleware E M req = Ok auth"
  shows "is_public_path (rq_path req) (rq_method req) \<and> auth = [] \<or> bearer E M req = Some auth"
  using assms
  by (auto simp: auth_middleware_def bearer_def split: if_splits option.splits result.splits)

lemma auth_middleware_bearer:
  assumes "\<not> is_public_path (rq_path req) (rq_method req)"
  shows "auth_middleware E M req = Ok auth \<longleftrightarrow> bearer E M req = Some auth"
  using assms
  by (auto simp: auth_middleware_def bearer_def split: if_splits option.splits result.splits)

text \<open>The peer a request registers, and what a request may do to the registry: add or change the
  entries in \<open>W\<close>, lose those in \<open>D\<close>, and touch nothing but the registry and the rate limiter.\<close>

definition registers :: "rest_request \<Rightarrow> string option" where
  "registers req =
     (if rq_method req = POST \<and> rq_path req = ''/v1/peers''
      then map_option rp_peer_id (rq_register req) else None)"

definition peer_changes ::
  "('p \<Rightarrow> string \<Rightarrow> PeerEntry option) \<Rightarrow> string set \<Rightarrow> string set \<Rightarrow> ('p, 'c) AppState \<Rightarrow> ('p, 'c) AppState \<Rightarrow> bool" where
  "peer_changes look W D st st' \<longleftrightarrow>
     (\<forall>q e. look (as_peers st') q = Some e \<longrightarrow> look (as_peers st) q = Some e \<or> q \<in> W)
     \<and> (\<forall>q. look (as_peers st) q \<noteq> None \<longrightarrow> look (as_peers st') q = None \<longrightarrow> q \<in> D)
     \<and> st' = st\<lparr>as_peers := as_peers st', as_rate_limiter := as_rate_limiter st'\<rparr>"

lemma peer_changes_refl: "peer_changes look W D st st"
  by (auto simp: peer_changes_def)

lemma peer_changes_mono:
  "peer_changes look W D st st' \<Longrightarrow> W \<subseteq> W' \<Longrightarrow> D \<subseteq> D' \<Longrightarrow> peer_changes look W' D' st st'"
  unfolding peer_changes_def by blast

lemma peer_changes_same:
  assumes "look (as_peers st') = look (as_peers st)" and "st' = st\<lparr>as_peers := as_peers st'\<rparr>"
  shows "peer_changes look W D st st'"
proof -
  have "st' = st\<lparr>as_peers := as_peers st', as_rate_limiter := as_rate_limiter st'\<rparr>"
    using assms(2) by (cases st; cases st') simp
  then show ?thesis using assms(1) unfolding peer_changes_def by auto
qed

lemma peer_changes_trans:
  assumes "peer_changes look W D st st1" and "peer_changes look W D st1 st2"
  shows "peer_changes look W D st st2"
proof -
  note a = assms [unfolded peer_changes_def]
  have "st2 = st\<lparr>as_peers := as_peers st2, as_rate_limiter := as_rate_limiter st2\<rparr>"
    using a(1,2) [THEN conjunct2, THEN conjunct2] by (cases st; cases st1; cases st2) simp
  moreover have "look (as_peers st) q = Some e \<or> q \<in> W" if "look (as_peers st2) q = Some e" for q e
    using a that by blast
  moreover have "q \<in> D" if "look (as_peers st) q \<noteq> None" "look (as_peers st2) q = None" for q
    using a that by (cases "look (as_peers st1) q") auto
  ultimately show ?thesis unfolding peer_changes_def by blast
qed

context registries
begin

lemma register_peer_changes:
  assumes "register_peer E info None st = (st', r)"
  shows "peer_changes plook {pi_peer_id info}
    (if plook (as_peers st) (pi_peer_id info) = None then - {pi_peer_id info} else {}) st st'"
proof (cases "lru_get_mut (se_peers E) (as_peers st) (pi_peer_id info)")
  case None
  then have "plook (as_peers st) (pi_peer_id info) = None" by (simp add: peers.get_mut_none)
  moreover have "st' = st\<lparr>as_peers := lru_put (se_peers E) (as_peers st) (pi_peer_id info)
      \<lparr> pe_info = info, pe_sender = None \<rparr>\<rparr>"
    using assms None by (simp add: register_peer_def)
  ultimately show ?thesis
    using peers.put_found [of "as_peers st" "pi_peer_id info"]
    by (auto simp: peer_changes_def)
next
  case (Some x)
  then obtain e w where x: "lru_get_mut (se_peers E) (as_peers st) (pi_peer_id info) = Some (e, w)"
    by (cases x) auto
  note g = peers.get_mut_some [OF x]
  have "st' = st\<lparr>as_peers := w (e\<lparr>pe_info := info\<rparr>)\<rparr>"
    using assms x by (simp add: register_peer_def)
  then show ?thesis using g by (auto simp: peer_changes_def)
qed

lemma unregister_peer_changes:
  assumes "unregister_peer E p st = (st', r)"
  shows "peer_changes plook {} {p} st st'"
  using unregister_peer_maps [OF assms] by (auto simp: peer_changes_def split: if_splits)

lemma get_peer_changes:
  assumes "get_peer E p st = (st', r)"
  shows "peer_changes plook W D st st'"
  using get_peer_maps(2,3) [OF assms] by (rule peer_changes_same)

end


text \<open>What each handler may change.\<close>

lemma rest_register_peer_changes:
  assumes "registries (re_server E) plook clook" and "rest_register_peer E M body st = (st', r)"
  shows "peer_changes plook {rp_peer_id body}
    (if plook (as_peers st) (rp_peer_id body) = None then - {rp_peer_id body} else {}) st st'"
proof -
  have limiter: "peer_changes plook W D st (st\<lparr>as_rate_limiter := l\<rparr>)" for W D l
    by (auto simp: peer_changes_def)
  show ?thesis
    using assms(2)
    by (auto simp: rest_register_peer_def Let_def peer_changes_refl limiter
        split: if_splits result.splits prod.splits
        dest!: registries.register_peer_changes [OF assms(1)]
        intro: peer_changes_trans [OF limiter])
qed

lemma rest_update_peer_changes:
  assumes "registries (re_server E) plook clook" and "rest_update_peer E M auth p body st = (st', r)"
  shows "peer_changes plook (if auth = p then {p} else {}) {} st st'"
proof (cases "auth = p")
  case False
  then show ?thesis using assms(2) by (auto simp: rest_update_peer_def peer_changes_refl)
next
  case True
  obtain st1 x where g: "get_peer (re_server E) p st = (st1, x)" by (cases "get_peer (re_server E) p st")
  note m = registries.get_peer_maps [OF assms(1) g]
  have c: "peer_changes plook {p} {} st st1" by (rule registries.get_peer_changes [OF assms(1) g])
  show ?thesis
  proof (cases x)
    case None
    then show ?thesis using assms(2) g c True by (simp add: rest_update_peer_def)
  next
    case (Some existing)
    then have known: "plook (as_peers st1) p \<noteq> None" using m by auto
    let ?info = "updated_info M p body existing"
    have i: "pi_peer_id ?info = p" by (simp add: updated_info_def)
    have "st' = fst (register_peer (re_server E) ?info None st1)"
      using assms(2) g True Some
      by (auto simp: rest_update_peer_def Let_def split: prod.splits result.splits)
    then obtain r' where "register_peer (re_server E) ?info None st1 = (st', r')"
      by (cases "register_peer (re_server E) ?info None st1") simp
    from registries.register_peer_changes [OF assms(1) this] known i
    have "peer_changes plook {p} {} st1 st'" by simp
    from peer_changes_trans [OF c this] True show ?thesis by simp
  qed
qed

lemma rest_unregister_peer_changes:
  assumes "registries (re_server E) plook clook" and "rest_unregister_peer E auth p st = (st', r)"
  shows "peer_changes plook {} (if auth = p then {p} else {}) st st'"
  using assms(2)
  by (auto simp: rest_unregister_peer_def peer_changes_refl split: if_splits prod.splits result.splits
      dest!: registries.unregister_peer_changes [OF assms(1)])

lemma rest_reads_change:
  assumes "registries (re_server E) plook clook"
  shows "rest_get_peer E p st = (st', r) \<Longrightarrow> peer_changes plook W D st st'"
    and "rest_get_peer_status E p st = (st', r) \<Longrightarrow> peer_changes plook W D st st'"
    and "rest_lookup_peer E u st = (st', r) \<Longrightarrow> peer_changes plook W D st st'"
    and "rest_issue_proxy_token E M body st = (st', r) \<Longrightarrow> peer_changes plook W D st st'"
  by (auto simp: rest_get_peer_def rest_get_peer_status_def rest_lookup_peer_def
      rest_issue_proxy_token_def Let_def peer_changes_refl split: prod.splits option.splits
      dest!: registries.get_peer_changes [OF assms, where W = W and D = D]
      intro: peer_changes_trans)

text \<open>A request as a whole: who may write which entry, and who may remove one.\<close>

definition may_write :: "('p, 'c, 'k) rest_env \<Rightarrow> moment \<Rightarrow> rest_request \<Rightarrow> string set" where
  "may_write E M req =
     {q. registers req = Some q \<or> rq_method req = PUT \<and> bearer E M req = Some q}"

definition may_remove ::
  "('p, 'c, 'k) rest_env \<Rightarrow> moment \<Rightarrow> ('p \<Rightarrow> string \<Rightarrow> PeerEntry option) \<Rightarrow> rest_request
     \<Rightarrow> ('p, 'c) AppState \<Rightarrow> string set" where
  "may_remove E M look req st =
     {q. rq_method req = DELETE \<and> bearer E M req = Some q
        \<or> (\<exists>p. registers req = Some p \<and> p \<noteq> q \<and> look (as_peers st) p = None)}"

lemma route_peers: "route_of path = PeersRoute \<Longrightarrow> path = ''/v1/peers''"
  by (auto simp: route_of_def split: if_splits list.splits)

lemma put_delete_not_public: "m = PUT \<or> m = DELETE \<Longrightarrow> \<not> is_public_path path m"
  by (auto simp: is_public_path_def)

lemma dispatch_route_changes:
  assumes reg: "registries (re_server E) plook clook"
    and auth: "\<not> is_public_path (rq_path req) (rq_method req) \<Longrightarrow> bearer E M req = Some auth"
    and step: "dispatch_route E M auth req st = (st', r)"
  shows "peer_changes plook (may_write E M req) (may_remove E M plook req st) st st'"
proof (cases "route_of (rq_path req)")
  case PeersRoute
  show ?thesis
  proof (cases "rq_method req = POST \<and> rq_register req \<noteq> None")
    case True
    then obtain body where b: "rq_register req = Some body" by blast
    then have "registers req = Some (rp_peer_id body)"
      using True route_peers [OF PeersRoute] by (simp add: registers_def)
    moreover have "rest_register_peer E M body st = (st', r)"
      using step PeersRoute True b by (simp add: dispatch_route_def with_arg_def)
    note rest_register_peer_changes [OF reg this]
    ultimately show ?thesis
      by (elim peer_changes_mono) (auto simp: may_write_def may_remove_def)
  next
    case False
    then show ?thesis using step PeersRoute
      by (auto simp: dispatch_route_def with_arg_def peer_changes_refl split: if_splits)
  qed
next
  case (PeerRoute p)
  consider (put) peer_id body where "rq_method req = PUT" "rest_update_peer E M auth peer_id body st = (st', r)"
    | (delete) peer_id where "rq_method req = DELETE" "rest_unregister_peer E auth peer_id st = (st', r)"
    | (get) peer_id where "rest_get_peer E peer_id st = (st', r)"
    | (none) "st' = st"
    using step PeerRoute
    by (auto simp: dispatch_route_def with_arg_def Let_def split: if_splits option.splits)
  then show ?thesis
  proof cases
    case put
    note rest_update_peer_changes [OF reg put(2)]
    moreover have "bearer E M req = Some auth"
      using auth put_delete_not_public put(1) by auto
    ultimately show ?thesis using put(1)
      by (elim peer_changes_mono) (auto simp: may_write_def)
  next
    case delete
    note rest_unregister_peer_changes [OF reg delete(2)]
    moreover have "bearer E M req = Some auth"
      using auth put_delete_not_public delete(1) by auto
    ultimately show ?thesis using delete(1)
      by (elim peer_changes_mono) (auto simp: may_remove_def)
  next
    case get
    then show ?thesis by (rule rest_reads_change(1) [OF reg])
  next
    case none
    then show ?thesis by (simp add: peer_changes_refl)
  qed
next
  case (StatusRoute p)
  consider x where "rest_get_peer_status E x st = (st', r)" | "st' = st"
    using step StatusRoute
    by (auto simp: dispatch_route_def with_arg_def Let_def split: if_splits option.splits)
  then show ?thesis by cases (rule rest_reads_change(2) [OF reg], assumption, simp add: peer_changes_refl)
next
  case LookupRoute
  consider x where "rest_lookup_peer E x st = (st', r)" | "st' = st"
    using step LookupRoute
    by (auto simp: dispatch_route_def with_arg_def Let_def split: if_splits option.splits)
  then show ?thesis by cases (rule rest_reads_change(3) [OF reg], assumption, simp add: peer_changes_refl)
next
  case TokenRoute
  consider x where "rest_issue_proxy_token E M x st = (st', r)" | "st' = st"
    using step TokenRoute
    by (auto simp: dispatch_route_def with_arg_def Let_def split: if_splits option.splits)
  then show ?thesis by cases (rule rest_reads_change(4) [OF reg], assumption, simp add: peer_changes_refl)
next
  case MyIpRoute
  then have "st' = st"
    using step by (simp add: dispatch_route_def with_arg_def Let_def split: if_splits option.splits)
  then show ?thesis by (simp add: peer_changes_refl)
next
  case WsRoute
  then have "st' = st"
    using step by (simp add: dispatch_route_def with_arg_def Let_def split: if_splits option.splits)
  then show ?thesis by (simp add: peer_changes_refl)
next
  case ProxiesRoute
  then have "st' = st"
    using step by (simp add: dispatch_route_def with_arg_def Let_def split: if_splits option.splits)
  then show ?thesis by (simp add: peer_changes_refl)
next
  case BootstrapRoute
  then have "st' = st"
    using step by (simp add: dispatch_route_def with_arg_def Let_def split: if_splits option.splits)
  then show ?thesis by (simp add: peer_changes_refl)
next
  case DocsRoute
  then have "st' = st"
    using step by (simp add: dispatch_route_def with_arg_def Let_def split: if_splits option.splits)
  then show ?thesis by (simp add: peer_changes_refl)
next
  case NoRoute
  then have "st' = st"
    using step by (simp add: dispatch_route_def with_arg_def Let_def split: if_splits option.splits)
  then show ?thesis by (simp add: peer_changes_refl)
qed

lemma router_changes:
  assumes "registries (re_server E) plook clook" and "router E M req st = (st', r)"
  shows "peer_changes plook (may_write E M req) (may_remove E M plook req st) st st'"
proof -
  consider (go) auth where "auth_middleware E M req = Ok auth" "dispatch_route E M auth req st = (st', r)"
    | (stop) "st' = st"
    using assms(2) by (auto simp: router_def split: result.splits)
  then show ?thesis
  proof cases
    case go
    have "bearer E M req = Some auth" if "\<not> is_public_path (rq_path req) (rq_method req)"
      using go(1) auth_middleware_bearer [OF that, of E M auth] by simp
    from dispatch_route_changes [OF assms(1) this go(2)] show ?thesis .
  next
    case stop
    then show ?thesis by (simp add: peer_changes_refl)
  qed
qed

lemma router_refuses:
  assumes "\<not> is_public_path (rq_path req) (rq_method req)" and "bearer E M req = None"
    and "router E M req st = (st', r)"
  shows "st' = st \<and> \<not> is_ok r"
proof -
  have "auth_middleware E M req \<noteq> Ok auth" for auth
    using auth_middleware_bearer [OF assms(1), of E M auth] assms(2) by simp
  then show ?thesis using assms(3) by (auto simp: router_def split: result.splits)
qed

text \<open>The handlers' encoder is the one of \<open>Base64\<close>.\<close>

lemma charset_nth: "w = v AND 0x3F \<Longrightarrow> CHARSET ! unat w = base64_char v" for w v :: u32
  by (simp add: base64_char_def)

lemma rest_base64_encode_raw:
  fixes a b c :: u8
  shows "rest_base64_encode [] = []"
    and "rest_base64_encode [a] = [CHARSET ! unat (drop_bit 2 (ucast a :: u32) AND 0x3F),
      CHARSET ! unat (push_bit 4 ((ucast a :: u32) AND 0x03)), CHR ''='', CHR ''='']"
    and "rest_base64_encode [a, b] = [CHARSET ! unat (drop_bit 2 (ucast a :: u32) AND 0x3F),
      CHARSET ! unat (push_bit 4 (ucast a AND 0x03) OR (drop_bit 4 (ucast b :: u32) AND 0x0F)),
      CHARSET ! unat (push_bit 2 ((ucast b :: u32) AND 0x0F)), CHR ''='']"
    and "rest_base64_encode (a # b # c # rest) =
      [CHARSET ! unat (drop_bit 2 (ucast a :: u32) AND 0x3F),
       CHARSET ! unat (push_bit 4 (ucast a AND 0x03) OR (drop_bit 4 (ucast b :: u32) AND 0x0F)),
       CHARSET ! unat (push_bit 2 (ucast b AND 0x0F) OR (drop_bit 6 (ucast c :: u32) AND 0x03)),
       CHARSET ! unat ((ucast c :: u32) AND 0x3F)] @ rest_base64_encode rest"
  by (simp_all add: rest_base64_encode.simps [of "[]"] rest_base64_encode.simps [of "_ # _"] Let_def
      numeral_2_eq_2)

lemma rest_base64_encode_eqs:
  fixes a b c :: u8
  shows "rest_base64_encode [] = []"
    and "rest_base64_encode [a] = [base64_char (drop_bit 18 (triple a 0 0)),
      base64_char (drop_bit 12 (triple a 0 0)), CHR ''='', CHR ''='']"
    and "rest_base64_encode [a, b] = [base64_char (drop_bit 18 (triple a b 0)),
      base64_char (drop_bit 12 (triple a b 0)), base64_char (drop_bit 6 (triple a b 0)), CHR ''='']"
    and "rest_base64_encode (a # b # c # rest) = [base64_char (drop_bit 18 (triple a b c)),
      base64_char (drop_bit 12 (triple a b c)), base64_char (drop_bit 6 (triple a b c)),
      base64_char (triple a b c)] @ rest_base64_encode rest"
  unfolding rest_base64_encode_raw
  by (simp,
      simp only: charset_nth [OF sextets(1) [of a 0 0]] charset_nth [OF sextets(5) [of a]],
      simp only: charset_nth [OF sextets(1) [of a b 0]] charset_nth [OF sextets(2) [of a b 0]]
        charset_nth [OF sextets(6) [of b a]],
      simp only: charset_nth [OF sextets(1) [of a b c]] charset_nth [OF sextets(2) [of a b c]]
        charset_nth [OF sextets(3) [of b c a]] charset_nth [OF sextets(4) [of c a b]])

lemma rest_base64_encode_eq: "rest_base64_encode data = base64_encode data"
proof (induction data rule: base64_encode.induct)
  case (1 data)
  consider "data = []" | a where "data = [a]" | a b where "data = [a, b]"
    | a b c rest where "data = a # b # c # rest"
    by (metis list.exhaust)
  then show ?case
  proof cases
    case (4 a b c rest)
    with 1 have "rest_base64_encode rest = base64_encode rest" by (simp add: eval_nat_numeral)
    then show ?thesis unfolding 4 base64_encode_eqs rest_base64_encode_eqs by simp
  qed (simp_all add: base64_encode_eqs rest_base64_encode_eqs numeral_2_eq_2)
qed

section \<open>A registration and its token\<close>

definition registered_info :: "u64 \<Rightarrow> RegisterPeerRequest \<Rightarrow> PeerInfo" where
  "registered_info now body =
     \<lparr> pi_peer_id = rp_peer_id body, pi_display_name = rp_display_name body,
       pi_ipv6_addresses = rp_ipv6_addresses body, pi_ipv4_reflexive = rp_ipv4_reflexive body,
       pi_nat_type = nat_type_or 0 (rp_nat_type body), pi_status = status_or 0 (rp_status body),
       pi_fcm_token = rp_fcm_token body, pi_last_seen = now \<rparr>"

text \<open>A request a token authenticates from a time to another as a peer, over REST and for a session.\<close>

definition token_good :: "('p, 'c, 'k) rest_env \<Rightarrow> string \<Rightarrow> string \<Rightarrow> u64 \<Rightarrow> u64 \<Rightarrow> bool" where
  "token_good E t p from' until' \<longleftrightarrow>
     (\<forall>later. from' \<le> later \<longrightarrow> later \<le> until' \<longrightarrow>
        (\<exists>claims. verify_jwt (re_from_json E) (re_ed_verify E) later t = Ok claims \<and> jc_sub claims = p))"

lemma token_good_bearer:
  assumes "token_good E t p from' until'" and "from' \<le> mo_now_secs M" "mo_now_secs M \<le> until'"
    and "Option.bind (rq_authorization req) (re_header_str E) = Some (''Bearer '' @ t)"
  shows "bearer E M req = Some p"
  unfolding bearer_def assms(4) using assms(1-3) by (auto simp: token_good_def starts_with_def)

lemma token_good_ws:
  assumes "token_good E t p from' until'" and "from' \<le> mo_now_secs M" "mo_now_secs M \<le> until'"
    and "rq_method req = GET" "rq_path req = ''/v1/ws''" "rq_token req = Some t"
  shows "router E M req st = (st, Ok (Upgraded p))"
  using assms
  by (auto simp: token_good_def router_def auth_middleware_def is_public_path_def dispatch_route_def
      route_of_def starts_with_def with_arg_def ws_upgrade_def)

lemma registration_grants:
  assumes reg: "registries (re_server E) plook clook"
    and sig: "\<forall>m. re_ed_verify E m (se_sign (re_server E) m) \<and> length (se_sign (re_server E) m) = 64"
    and json: "json_faithful (re_to_json E) (re_from_json E) (now, p, ttl)"
    and fits: "unat now + unat ttl < 2 ^ 64"
    and params: "now = mo_now_secs M" "ttl = jwt_expiry_secs (as_config st)"
    and req: "rq_method req = POST" "rq_path req = ''/v1/peers''" "rq_register req = Some body"
      "rp_peer_id body = p"
    and valid: "is_ok (parse_peer_id (re_key_from_bytes E) p)"
    and allowed: "check_registration (mo_instant M) p (as_rate_limiter st) = Ok (limiter, True)"
  shows "\<exists>t st1. router E M req st = (st1, Ok (Created \<lparr> rr_peer_id = p, rr_jwt_token = t, rr_expires_in_secs = ttl \<rparr>))
    \<and> plook (as_peers st1) p = Some \<lparr> pe_info = registered_info now body,
        pe_sender = Option.bind (plook (as_peers st) p) pe_sender \<rparr>
    \<and> (\<forall>q e. q \<noteq> p \<longrightarrow> plook (as_peers st1) q = Some e \<longrightarrow> plook (as_peers st) q = Some e)
    \<and> as_config st1 = as_config st
    \<and> token_good E t p now (now + ttl) \<and> visible_ascii t"
proof -
  define input where "input = jwt_input (re_to_json E) (now, p, ttl)"
  define t where "t = input @ ''.'' @ base64url_encode (se_sign (re_server E) (str_bytes input))"
  define info where "info = registered_info now body"
  have id: "pi_peer_id info = p" by (simp add: info_def registered_info_def req)
  obtain st1 r where r: "register_peer (re_server E) info None (st\<lparr>as_rate_limiter := limiter\<rparr>) = (st1, r)"
    by (cases "register_peer (re_server E) info None (st\<lparr>as_rate_limiter := limiter\<rparr>)")
  note m = registries.register_peer_maps [OF reg r]
  have cfg: "as_config st1 = as_config st" using arg_cong [OF m(4), of as_config] by simp
  have create: "create_jwt (se_oc (re_server E)) (re_to_json E) (se_sign (re_server E)) now p ttl = Ok t"
    unfolding t_def input_def by (rule create_jwt_input [OF json fits])
  have "router E M req st = dispatch_route E M [] req st"
    by (simp add: router_def auth_middleware_def is_public_path_def req)
  also have "\<dots> = rest_register_peer E M body st"
    by (simp add: dispatch_route_def route_of_def with_arg_def starts_with_def req)
  also have "\<dots> = (st1, Ok (Created \<lparr> rr_peer_id = p, rr_jwt_token = t, rr_expires_in_secs = ttl \<rparr>))"
    using valid allowed r m(1) cfg create
    by (simp add: rest_register_peer_def req(4) params info_def registered_info_def)
  finally have step: "router E M req st = \<dots>" .
  have entry: "plook (as_peers st1) p = Some \<lparr> pe_info = info, pe_sender = Option.bind (plook (as_peers st) p) pe_sender \<rparr>"
    using m(2) by (simp add: id)
  have "verify_jwt (re_from_json E) (re_ed_verify E) later t = Ok (jwt_claims (now, p, ttl))"
    if "now \<le> later" "later \<le> now + ttl" for later
    using verify_jwt_created [where ed_verify = "re_ed_verify E" and later = later, OF json fits] sig that
    by (simp add: t_def input_def not_less)
  then have "token_good E t p now (now + ttl)" by (simp add: token_good_def jwt_claims_def)
  moreover have "plook (as_peers st) q = Some e" if "q \<noteq> p" "plook (as_peers st1) q = Some e" for q e
    using m(3) [of q e] that id by simp
  ultimately show ?thesis
    using step entry cfg create_jwt_visible [OF create] unfolding info_def by blast
qed

text \<open>What an answered registration says about the request.\<close>

lemma created_parts:
  assumes "router E M req st = (st1, Ok (Created r))"
    and "rq_method req = POST" "rq_path req = ''/v1/peers''" "rq_register req = Some body"
  shows "is_ok (parse_peer_id (re_key_from_bytes E) (rp_peer_id body))"
    and "\<exists>limiter. check_registration (mo_instant M) (rp_peer_id body) (as_rate_limiter st) = Ok (limiter, True)"
    and "rr_peer_id r = rp_peer_id body" and "rr_expires_in_secs r = jwt_expiry_secs (as_config st)"
proof -
  have "router E M req st = dispatch_route E M [] req st"
    by (simp add: router_def auth_middleware_def is_public_path_def assms)
  also have "\<dots> = rest_register_peer E M body st"
    by (simp add: dispatch_route_def route_of_def with_arg_def starts_with_def assms)
  finally have s: "rest_register_peer E M body st = (st1, Ok (Created r))" using assms(1) by simp
  then show "is_ok (parse_peer_id (re_key_from_bytes E) (rp_peer_id body))"
    "\<exists>limiter. check_registration (mo_instant M) (rp_peer_id body) (as_rate_limiter st) = Ok (limiter, True)"
    "rr_peer_id r = rp_peer_id body"
    by (auto simp: rest_register_peer_def Let_def split: if_splits result.splits prod.splits)
  show "rr_expires_in_secs r = jwt_expiry_secs (as_config st)"
    using s by (auto simp: rest_register_peer_def Let_def register_peer_def split: if_splits result.splits prod.splits option.splits)
qed

section \<open>A small server\<close>

definition sample_peer_id :: string where
  "sample_peer_id = hex_encode (replicate 32 0)"

definition sample_rest_env :: "(PeerEntry lru_list, CallEntry lru_list, unit) rest_env" where
  "sample_rest_env =
     \<lparr> re_server = list_env plain_codec (\<lambda>_. replicate 64 0) True, re_peers_iter = snd,
       re_to_lowercase = id, re_header_str = (\<lambda>b. Some (bytes_str b)), re_path_decode = Some,
       re_to_json = (\<lambda>c. Ok (jc_sub c)),
       re_from_json = (\<lambda>b. Ok \<lparr> jc_sub = bytes_str b, jc_iat = 100, jc_exp = 3700, jc_nbf = 100,
         jc_pub_key = bytes_str b \<rparr>),
       re_ed_verify = (\<lambda>_ s. s = replicate 64 0), re_key_from_bytes = (\<lambda>_. Some ()) \<rparr>"

definition sample_request :: "Method \<Rightarrow> string \<Rightarrow> rest_request" where
  "sample_request m path =
     \<lparr> rq_method = m, rq_path = path, rq_authorization = None,
       rq_addr = \<lparr> sa_ip = ''192.0.2.7'', sa_port = 5000, sa_is_ipv6 = False \<rparr>,
       rq_register = Some \<lparr> rp_peer_id = sample_peer_id, rp_display_name = ''Alice'',
         rp_ipv6_addresses = [], rp_ipv4_reflexive = [], rp_nat_type = Some ''CONE'',
         rp_status = None, rp_fcm_token = None \<rparr>,
       rq_token_request = None, rq_username = None, rq_token = None \<rparr>"

definition rest_moment :: "u64 \<Rightarrow> moment" where
  "rest_moment now = \<lparr> mo_now_secs = now, mo_instant = 0, mo_alive = (\<lambda>_. True) \<rparr>"

lemma sample_rest_registries:
  "registries (re_server sample_rest_env) lru_list_lookup lru_list_lookup"
  unfolding sample_rest_env_def rest_env.simps by (rule list_server.registries_axioms)

lemma sample_signatures:
  "\<forall>m. re_ed_verify sample_rest_env m (se_sign (re_server sample_rest_env) m)
    \<and> length (se_sign (re_server sample_rest_env) m) = 64"
  by (simp add: sample_rest_env_def list_env_def)

lemma sample_json:
  "json_faithful (re_to_json sample_rest_env) (re_from_json sample_rest_env) (100, sample_peer_id, 3600)"
  by (simp add: json_faithful_def sample_rest_env_def jwt_claims_def bytes_str_str_bytes)

lemma sample_id_valid: "is_ok (parse_peer_id (re_key_from_bytes sample_rest_env) sample_peer_id)"
  by (simp add: parse_peer_id_def sample_peer_id_def hex_decode_encode sample_rest_env_def)

lemma sample_jwt_expiry: "jwt_expiry_secs (as_config sample_server) = 3600"
  by (simp add: sample_server_def AppState_new_def VoIPConfig_default_def)

lemma sample_registration_allowed:
  "\<exists>limiter. check_registration (mo_instant (rest_moment 100)) sample_peer_id
      (as_rate_limiter sample_server) = Ok (limiter, True)"
  by (simp add: check_registration_def sample_server_def AppState_new_def RateLimiter_new_def
      RateLimitConfig_default_def entry_or_insert_def rest_moment_def try_consume_def refill_def
      Bucket_new_def elapsed_ms_def BucketConfig_REGISTRATIONS_def Let_def)

section \<open>Properties\<close>

text \<open>C2: What a REST request can do.  Without a valid bearer token a request to a protected
  endpoint is refused and changes nothing.  An entry of the peer registry appears or changes only
  by registering that peer or by a \<open>PUT\<close> under that peer's own token; it disappears only by a
  \<open>DELETE\<close> under that peer's own token, or evicted by the registration of a new peer.  Calls and
  queued messages are never touched.\<close>

theorem rest_authorization:
  assumes "registries (re_server E) plook clook" and "router E M req st = (st', r)"
  shows "(\<not> is_public_path (rq_path req) (rq_method req) \<and> bearer E M req = None
       \<longrightarrow> st' = st \<and> \<not> is_ok r)
    \<and> (\<forall>q e. plook (as_peers st') q = Some e \<longrightarrow> plook (as_peers st) q = Some e
         \<or> registers req = Some q \<or> rq_method req = PUT \<and> bearer E M req = Some q)
    \<and> (\<forall>q. plook (as_peers st) q \<noteq> None \<longrightarrow> plook (as_peers st') q = None
         \<longrightarrow> rq_method req = DELETE \<and> bearer E M req = Some q
           \<or> (\<exists>p. registers req = Some p \<and> p \<noteq> q \<and> plook (as_peers st) p = None))
    \<and> as_calls st' = as_calls st \<and> as_outbox st' = as_outbox st"
proof -
  note c = router_changes [OF assms, unfolded peer_changes_def]
  have "as_calls st' = as_calls st" "as_outbox st' = as_outbox st"
    using arg_cong [OF c [THEN conjunct2, THEN conjunct2], of as_calls]
      arg_cong [OF c [THEN conjunct2, THEN conjunct2], of as_outbox] by simp_all
  then show ?thesis
    using router_refuses [OF _ _ assms(2)] c [THEN conjunct1]
      c [THEN conjunct2, THEN conjunct1]
    unfolding may_write_def may_remove_def mem_Collect_eq by blast
qed

definition sample_registered :: "(PeerEntry lru_list, CallEntry lru_list) AppState" where
  "sample_registered =
     fst (register_peer (re_server sample_rest_env) (sample_info sample_peer_id) (Some 3) sample_server)"

theorem rest_authorization_witness:
  "fst (router sample_rest_env (rest_moment 100)
     (sample_request DELETE (''/v1/peers/'' @ sample_peer_id)) sample_registered) = sample_registered"
proof -
  let ?req = "sample_request DELETE (''/v1/peers/'' @ sample_peer_id)"
  obtain st' r where step: "router sample_rest_env (rest_moment 100) ?req sample_registered = (st', r)"
    by (cases "router sample_rest_env (rest_moment 100) ?req sample_registered")
  have "\<not> is_public_path (rq_path ?req) (rq_method ?req)"
    by (simp add: sample_request_def is_public_path_def)
  moreover have "bearer sample_rest_env (rest_moment 100) ?req = None"
    by (simp add: sample_request_def bearer_def)
  ultimately show ?thesis
    using rest_authorization [OF sample_rest_registries step] step by simp
qed

text \<open>Registration opens the other interfaces.  A registration request with a valid peer id
  that the rate limiter lets through is answered with a token, whatever authorization header it
  carries, and the registry then holds the sent information, keeping an earlier session's channel.
  From then until the expiry of the token it opens a WebSocket session as that peer and
  authenticates REST requests as that peer.\<close>

lemma registration_opens_session:
  assumes reg: "registries (re_server E) plook clook"
    and sig: "\<forall>m. re_ed_verify E m (se_sign (re_server E) m) \<and> length (se_sign (re_server E) m) = 64"
    and json: "json_faithful (re_to_json E) (re_from_json E) (now, p, ttl)"
    and fits: "unat now + unat ttl < 2 ^ 64"
    and params: "now = mo_now_secs M" "ttl = jwt_expiry_secs (as_config st)"
    and req: "rq_method req = POST" "rq_path req = ''/v1/peers''" "rq_register req = Some body"
      "rp_peer_id body = p"
    and valid: "is_ok (parse_peer_id (re_key_from_bytes E) p)"
    and allowed: "check_registration (mo_instant M) p (as_rate_limiter st) = Ok (limiter, True)"
  shows "\<exists>t st1. router E M req st = (st1, Ok (Created \<lparr> rr_peer_id = p, rr_jwt_token = t, rr_expires_in_secs = ttl \<rparr>))
    \<and> (\<exists>e. plook (as_peers st1) p = Some e \<and> pi_peer_id (pe_info e) = p
         \<and> pi_display_name (pe_info e) = rp_display_name body \<and> pi_last_seen (pe_info e) = now
         \<and> pe_sender e = Option.bind (plook (as_peers st) p) pe_sender)
    \<and> (\<forall>M' req' st2. now \<le> mo_now_secs M' \<longrightarrow> mo_now_secs M' \<le> now + ttl \<longrightarrow>
         (rq_method req' = GET \<longrightarrow> rq_path req' = ''/v1/ws'' \<longrightarrow> rq_token req' = Some t \<longrightarrow>
            router E M' req' st2 = (st2, Ok (Upgraded p)))
       \<and> (Option.bind (rq_authorization req') (re_header_str E) = Some (''Bearer '' @ t) \<longrightarrow>
            bearer E M' req' = Some p))"
proof -
  obtain t st1 where g: "router E M req st = (st1, Ok (Created \<lparr> rr_peer_id = p, rr_jwt_token = t, rr_expires_in_secs = ttl \<rparr>))"
    "plook (as_peers st1) p = Some \<lparr> pe_info = registered_info now body,
       pe_sender = Option.bind (plook (as_peers st) p) pe_sender \<rparr>"
    and good: "token_good E t p now (now + ttl)"
    using registration_grants [OF assms] by (elim exE conjE) (rule that)
  show ?thesis
    by (rule exI [of _ t], rule exI [of _ st1])
      (use g token_good_ws [OF good] token_good_bearer [OF good] in \<open>simp add: registered_info_def req\<close>)
qed

lemma registration_opens_session_witness:
  "\<exists>t st1. router sample_rest_env (rest_moment 100) (sample_request POST ''/v1/peers'') sample_server
      = (st1, Ok (Created \<lparr> rr_peer_id = sample_peer_id, rr_jwt_token = t, rr_expires_in_secs = 3600 \<rparr>))
    \<and> router sample_rest_env (rest_moment 3700) ((sample_request GET ''/v1/ws'')\<lparr>rq_token := Some t\<rparr>) st1
      = (st1, Ok (Upgraded sample_peer_id))"
proof -
  obtain limiter where allowed: "check_registration (mo_instant (rest_moment 100)) sample_peer_id
      (as_rate_limiter sample_server) = Ok (limiter, True)"
    using sample_registration_allowed by blast
  note opened = registration_opens_session [OF sample_rest_registries sample_signatures sample_json _ _
      sample_jwt_expiry [symmetric] _ _ _ _ sample_id_valid allowed,
      of "sample_request POST ''/v1/peers''" "the (rq_register (sample_request POST ''/v1/peers''))"]
  have now: "unat (100 :: u64) + unat (3600 :: u64) < 2 ^ 64" "100 = mo_now_secs (rest_moment 100)"
    by (simp_all add: rest_moment_def)
  have req: "rq_method (sample_request POST ''/v1/peers'') = POST"
    "rq_path (sample_request POST ''/v1/peers'') = ''/v1/peers''"
    "rq_register (sample_request POST ''/v1/peers'') = Some (the (rq_register (sample_request POST ''/v1/peers'')))"
    "rp_peer_id (the (rq_register (sample_request POST ''/v1/peers''))) = sample_peer_id"
    by (simp_all add: sample_request_def)
  obtain t st1 where step: "router sample_rest_env (rest_moment 100) (sample_request POST ''/v1/peers'') sample_server
      = (st1, Ok (Created \<lparr> rr_peer_id = sample_peer_id, rr_jwt_token = t, rr_expires_in_secs = 3600 \<rparr>))"
    and later: "\<And>M' req' st2. 100 \<le> mo_now_secs M' \<Longrightarrow> mo_now_secs M' \<le> 100 + 3600 \<Longrightarrow>
      rq_method req' = GET \<Longrightarrow> rq_path req' = ''/v1/ws'' \<Longrightarrow> rq_token req' = Some t \<Longrightarrow>
      router sample_rest_env M' req' st2 = (st2, Ok (Upgraded sample_peer_id))"
    using opened [OF now req] by (elim exE conjE) (rule that, assumption, simp)
  have "router sample_rest_env (rest_moment 3700) ((sample_request GET ''/v1/ws'')\<lparr>rq_token := Some t\<rparr>) st1
      = (st1, Ok (Upgraded sample_peer_id))"
    by (rule later) (simp_all add: rest_moment_def sample_request_def)
  with step show ?thesis by (intro exI conjI)
qed

text \<open>A proxy token issued over REST is a protobuf message, which the proxies' own header parser
  (\<open>ProxyToken::decode\<close> of \<open>src/crates/voip-client/src/proxy.rs\<close>) refuses: it takes the tag and
  the length of the first field for the length of the peer id.\<close>

lemma proxy_refuses_rest_token:
  assumes "rest_issue_proxy_token E M body st = (st', Ok (TokenJson tok))"
    and "\<And>t. pt_peer_id t = tr_peer_id body \<Longrightarrow>
      \<exists>rest. enc_ProxyToken (se_codec (re_server E)) t = 0x0A # 0x40 # rest \<and> length rest < 2624"
  shows "\<exists>e. ProxyToken_decode (ts_token tok) = Err e"
proof -
  define blank where "blank = \<lparr> pt_peer_id = tr_peer_id body,
    pt_target_peer_id = tr_target_peer_id body, pt_issued_at = mo_now_secs M, pt_ttl_seconds = 60,
    pt_signature = [] \<rparr>"
  define t where "t = blank\<lparr>pt_signature :=
    se_sign (re_server E) (enc_ProxyToken (se_codec (re_server E)) blank)\<rparr>"
  obtain st1 x where x: "get_peer (re_server E) (tr_peer_id body) st = (st1, x)"
    by (cases "get_peer (re_server E) (tr_peer_id body) st")
  obtain st2 y where y: "get_peer (re_server E) (tr_target_peer_id body) st1 = (st2, y)"
    by (cases "get_peer (re_server E) (tr_target_peer_id body) st1")
  have t: "pt_peer_id t = tr_peer_id body" by (simp add: t_def blank_def)
  obtain i j where found: "x = Some i" "y = Some j"
    using assms(1) by (cases x; cases y) (simp_all add: rest_issue_proxy_token_def x y)
  have "rest_issue_proxy_token E M body st = (st2, Ok (TokenJson \<lparr> ts_token =
      base64_encode (enc_ProxyToken (se_codec (re_server E)) t), ts_ttl_seconds = 60 \<rparr>))"
    by (simp add: rest_issue_proxy_token_def x y found rest_base64_encode_eq Let_def t_def blank_def)
  then have tok: "ts_token tok = base64_encode (enc_ProxyToken (se_codec (re_server E)) t)"
    using assms(1) by auto
  obtain rest where rest: "enc_ProxyToken (se_codec (re_server E)) t = 0x0A # 0x40 # rest"
    "length rest < 2624"
    using assms(2) [OF t] by blast
  have "take 2 (0x0A # 0x40 # rest) = [0x0A, 0x40]" by (simp add: numeral_2_eq_2)
  moreover have "be_val [0x0A, 0x40] = 2624" by (simp add: be_val_def)
  ultimately have "read_u16_be (0x0A # 0x40 # rest) 0 = Ok (2624, 2)"
    by (simp add: read_u16_be_def)
  then show ?thesis
    unfolding tok rest(1) using rest(2)
    by (simp add: ProxyToken_decode_def base64_decode_encode read_string_def)
qed


end
