(* ===== verification/Push_Retry.thy ===== *)
theory Push_Retry
  imports Core_Config Sig_Frame
begin

text \<open>
  The client's retry scheduler (\<open>src/crates/voip-client/src/push_retry.rs\<close>) and the client error
  type (\<open>src/crates/voip-client/src/error.rs\<close>).

  A spawned task is the record of what it will do; aborting it moves it to the list of aborted
  tasks.  The source only logs when a task fires, so firing does not change the state.
\<close>

datatype ClientError =
    NotInitialized
  | CallInProgress
  | NoActiveCall
  | ConnectionFailed string
  | CallSetupTimeout string
  | CallRejected string
  | NatTraversalFailed string
  | MasqueFailed string
  | Audio string
  | AllMethodsFailed
  | QuicTimeout u64
  | PredictionFailedRandom
  | UdpBlocked
  | TcpBlocked
  | MasqueUnreachable
  | MigrationFailed string
  | NetworkError string
  | SignalingError string
  | PeerTimeout
  | NatProbeError string
  | ProbeError string
  | AudioError string
  | MigrationTimeout u64
  | Core VoipError

section \<open>The handler\<close>

record PushRetryHandler =
  rh_config :: VoIPConfig
  rh_retry_count :: u32
  rh_last_retry :: "nat option"

definition PushRetryHandler_new :: "VoIPConfig \<Rightarrow> PushRetryHandler" where
  "PushRetryHandler_new cfg = \<lparr> rh_config = cfg, rh_retry_count = 0, rh_last_retry = None \<rparr>"

definition can_retry :: "PushRetryHandler \<Rightarrow> bool" where
  "can_retry h \<longleftrightarrow> rh_retry_count h < push_retry_max_attempts (rh_config h)"

text \<open>The delay in whole seconds.\<close>

definition next_retry_delay :: "bool \<Rightarrow> PushRetryHandler \<Rightarrow> (u64, unit) result" where
  "next_retry_delay oc h =
     res_bind (checked_add oc (rh_retry_count h) 1) (\<lambda>next_attempt.
       retry_delay_secs oc (rh_config h) next_attempt)"

definition record_retry :: "bool \<Rightarrow> nat \<Rightarrow> PushRetryHandler \<Rightarrow> (PushRetryHandler, unit) result" where
  "record_retry oc now h =
     res_map (\<lambda>n. h\<lparr>rh_last_retry := Some now, rh_retry_count := n\<rparr>)
       (checked_add oc (rh_retry_count h) 1)"

definition create_push_retry_message ::
  "bool \<Rightarrow> PushRetryHandler \<Rightarrow> string \<Rightarrow> string \<Rightarrow> CallEndReason \<Rightarrow> (PushRetry, unit) result" where
  "create_push_retry_message oc h call_id peer_id reason =
     res_bind (next_retry_delay oc h) (\<lambda>delay.
     res_map (\<lambda>attempt.
       \<lparr> pr_call_id = call_id, pr_caller_id = [], pr_callee_id = peer_id,
         pr_reason = CallEndReason_as_i32 (CallEndReason_to_proto reason),
         pr_retry_attempt = attempt,
         pr_retry_after_ms = of_nat (unat delay * 1000) \<rparr>)
       (checked_add oc (rh_retry_count h) 1))"

definition handler_reset :: "PushRetryHandler \<Rightarrow> PushRetryHandler" where
  "handler_reset h = h\<lparr>rh_retry_count := 0, rh_last_retry := None\<rparr>"

section \<open>The scheduler\<close>

record retry_task =
  rt_call_id :: string
  rt_peer_id :: string
  rt_attempt :: u32
  rt_delay_secs :: u64

record RetryScheduler =
  rs_handler :: PushRetryHandler
  rs_task :: "retry_task option"
  rs_aborted :: "retry_task list"

definition RetryScheduler_new :: "VoIPConfig \<Rightarrow> RetryScheduler" where
  "RetryScheduler_new cfg =
     \<lparr> rs_handler = PushRetryHandler_new cfg, rs_task = None, rs_aborted = [] \<rparr>"

definition scheduler_cancel :: "RetryScheduler \<Rightarrow> RetryScheduler" where
  "scheduler_cancel s =
     (case rs_task s of
        Some t \<Rightarrow> s\<lparr>rs_task := None, rs_aborted := rs_aborted s @ [t]\<rparr>
      | None \<Rightarrow> s)"

definition scheduler_reset :: "RetryScheduler \<Rightarrow> RetryScheduler" where
  "scheduler_reset s =
     (let s = scheduler_cancel s in s\<lparr>rs_handler := handler_reset (rs_handler s)\<rparr>)"

text \<open>The derived \<open>Debug\<close> text of a reason.\<close>

fun CallEndReason_debug :: "CallEndReason \<Rightarrow> string" where
  "CallEndReason_debug Normal = ''Normal''"
| "CallEndReason_debug Rejected = ''Rejected''"
| "CallEndReason_debug Timeout = ''Timeout''"
| "CallEndReason_debug FailedIpv4Random = ''FailedIpv4Random''"
| "CallEndReason_debug FailedUdpBlocked = ''FailedUdpBlocked''"
| "CallEndReason_debug FailedNetwork = ''FailedNetwork''"
| "CallEndReason_debug CallEndReason.MigrationFailed = ''MigrationFailed''"
| "CallEndReason_debug FailedMasqueUnreachable = ''FailedMasqueUnreachable''"
| "CallEndReason_debug FailedTcpBlocked = ''FailedTcpBlocked''"

definition schedule_retry ::
  "bool \<Rightarrow> nat \<Rightarrow> string \<Rightarrow> string \<Rightarrow> CallEndReason \<Rightarrow> RetryScheduler
     \<Rightarrow> RetryScheduler \<times> (unit, ClientError) result" where
  "schedule_retry oc now call_id peer_id reason s =
     (if \<not> push_retry_enabled (rh_config (rs_handler s))
      then (s, Err (SignalingError ''Push retry is disabled''))
      else if \<not> can_retry (rs_handler s)
      then (s, Err (CallSetupTimeout ''Max retry attempts exhausted''))
      else if \<not> should_retry reason
      then (s, Err (SignalingError
              (''Reason '' @ CallEndReason_debug reason @ '' does not warrant push retry'')))
      else let s = scheduler_cancel s in
        case next_retry_delay oc (rs_handler s) of
          Ok delay \<Rightarrow>
            (case create_push_retry_message oc (rs_handler s) call_id peer_id reason of
               Ok push_msg \<Rightarrow>
                 (case record_retry oc now (rs_handler s) of
                    Ok h \<Rightarrow>
                      (s\<lparr> rs_handler := h,
                          rs_task := Some \<lparr> rt_call_id = call_id, rt_peer_id = peer_id,
                            rt_attempt = rh_retry_count (rs_handler s) + 1,
                            rt_delay_secs = delay \<rparr> \<rparr>, Ok ())
                  | _ \<Rightarrow> (s, Panic))
             | _ \<Rightarrow> (s, Panic))
        | _ \<Rightarrow> (s, Panic))"

section \<open>Runs\<close>

type_synonym retry_request = "nat \<times> string \<times> string \<times> CallEndReason"

fun schedule_all ::
  "bool \<Rightarrow> retry_request list \<Rightarrow> RetryScheduler
     \<Rightarrow> RetryScheduler \<times> (unit, ClientError) result list" where
  "schedule_all oc [] s = (s, [])"
| "schedule_all oc ((now, call_id, peer_id, reason) # reqs) s =
     (case schedule_retry oc now call_id peer_id reason s of
        (s', r) \<Rightarrow> (case schedule_all oc reqs s' of (s'', rs) \<Rightarrow> (s'', r # rs)))"

definition backoff_fits :: "VoIPConfig \<Rightarrow> bool" where
  "backoff_fits cfg \<longleftrightarrow> push_retry_enabled cfg \<and> 0 < unat (push_retry_initial_delay_secs cfg)
     \<and> 0 < unat (push_retry_backoff_multiplier cfg)
     \<and> unat (push_retry_initial_delay_secs cfg)
         * unat (push_retry_backoff_multiplier cfg) ^ (unat (push_retry_max_attempts cfg) - 1) < 2 ^ 64"

definition backoff :: "VoIPConfig \<Rightarrow> nat \<Rightarrow> nat" where
  "backoff cfg k = unat (push_retry_initial_delay_secs cfg)
     * unat (push_retry_backoff_multiplier cfg) ^ (k - 1)"

text \<open>The scheduler after \<open>k\<close> granted retries since the last reset.\<close>

definition scheduled :: "VoIPConfig \<Rightarrow> nat \<Rightarrow> RetryScheduler \<Rightarrow> bool" where
  "scheduled cfg k s \<longleftrightarrow> rh_config (rs_handler s) = cfg \<and> unat (rh_retry_count (rs_handler s)) = k
     \<and> k \<le> unat (push_retry_max_attempts cfg)
     \<and> (0 < k \<longrightarrow> (\<exists>t. rs_task s = Some t \<and> unat (rt_attempt t) = k
                   \<and> unat (rt_delay_secs t) = backoff cfg k))"

lemma next_retry_delay_fits:
  assumes "backoff_fits (rh_config h)" and "can_retry h"
  shows "\<exists>d. next_retry_delay oc h = Ok d \<and> unat d = backoff (rh_config h) (unat (rh_retry_count h) + 1)"
    and "checked_add oc (rh_retry_count h) 1 = Ok (rh_retry_count h + 1)"
    and "unat (rh_retry_count h + 1) = unat (rh_retry_count h) + 1"
proof -
  let ?n = "unat (rh_retry_count h)" and ?cfg = "rh_config h"
  have lt: "?n < unat (push_retry_max_attempts ?cfg)"
    using assms(2) by (simp add: can_retry_def word_less_nat_alt)
  show succ: "unat (rh_retry_count h + 1) = ?n + 1"
    using assms(2) unat_plus_one_below by (auto simp: can_retry_def)
  have "unat (rh_retry_count h) + 1 < 2 ^ LENGTH(32)"
    using succ unat_u32_less [of "rh_retry_count h + 1"] by simp
  note add = checked_add_fits(1) [of "rh_retry_count h" 1, simplified, OF this [simplified]]
  show "checked_add oc (rh_retry_count h) 1 = Ok (rh_retry_count h + 1)" by (rule add)
  have "unat (push_retry_backoff_multiplier ?cfg) ^ ?n
      \<le> unat (push_retry_backoff_multiplier ?cfg) ^ (unat (push_retry_max_attempts ?cfg) - 1)"
    using lt assms(1) by (intro power_increasing) (auto simp: backoff_fits_def)
  then have "unat (push_retry_initial_delay_secs ?cfg) * unat (push_retry_backoff_multiplier ?cfg) ^ ?n
      < 2 ^ 64"
    using assms(1) by (meson backoff_fits_def le_less_trans mult_le_mono2)
  then show "\<exists>d. next_retry_delay oc h = Ok d \<and> unat d = backoff ?cfg (?n + 1)"
    using retry_delay_fits [of "rh_retry_count h + 1" ?cfg oc] assms(1) succ
    by (auto simp: next_retry_delay_def backoff_def backoff_fits_def word_less_nat_alt add
        simp flip: unat_eq_0)
qed

lemma schedule_retry_granted:
  assumes "backoff_fits cfg" and "scheduled cfg k s" and "k < unat (push_retry_max_attempts cfg)"
    and "should_retry reason"
  shows "\<exists>s'. schedule_retry oc now call_id peer_id reason s = (s', Ok ()) \<and> scheduled cfg (k + 1) s'"
proof -
  let ?c = "scheduler_cancel s"
  have c: "rs_handler ?c = rs_handler s"
    by (simp add: scheduler_cancel_def split: option.splits)
  have h: "rh_config (rs_handler s) = cfg" "unat (rh_retry_count (rs_handler s)) = k"
    using assms(2) by (simp_all add: scheduled_def)
  have can: "can_retry (rs_handler s)"
    using assms(3) h by (simp add: can_retry_def word_less_nat_alt)
  have fits: "backoff_fits (rh_config (rs_handler s))" using assms(1) h(1) by simp
  note n = next_retry_delay_fits [OF fits can]
  obtain d where d: "next_retry_delay oc (rs_handler s) = Ok d" "unat d = backoff cfg (k + 1)"
    using n(1) [of oc] h by auto
  show ?thesis
    using assms(1,3,4) can d n(3) h
    by (simp add: schedule_retry_def c n(2) create_push_retry_message_def record_retry_def
        backoff_fits_def scheduled_def Let_def)
qed

lemma schedule_retry_exhausted:
  assumes "backoff_fits cfg" and "scheduled cfg k s" and "k = unat (push_retry_max_attempts cfg)"
  shows "schedule_retry oc now call_id peer_id reason s
    = (s, Err (CallSetupTimeout ''Max retry attempts exhausted''))"
  using assms by (simp add: schedule_retry_def scheduled_def can_retry_def backoff_fits_def
      word_less_nat_alt)

lemma schedule_all_scheduled:
  assumes "backoff_fits cfg" and "scheduled cfg k s"
    and "\<forall>(now, call_id, peer_id, reason) \<in> set reqs. should_retry reason"
  shows "\<exists>s' rs. schedule_all oc reqs s = (s', rs)
    \<and> scheduled cfg (min (k + length reqs) (unat (push_retry_max_attempts cfg))) s'
    \<and> rs = replicate (min (length reqs) (unat (push_retry_max_attempts cfg) - k)) (Ok ())
         @ replicate (length reqs - (unat (push_retry_max_attempts cfg) - k))
             (Err (CallSetupTimeout ''Max retry attempts exhausted''))"
  using assms
proof (induction reqs arbitrary: k s)
  case Nil
  then show ?case by (simp add: scheduled_def min_absorb1)
next
  case (Cons q reqs)
  obtain now cid pid reason where q: "q = (now, cid, pid, reason)" by (cases q) auto
  let ?max = "unat (push_retry_max_attempts cfg)"
  have k: "k \<le> ?max" using Cons.prems(2) by (simp add: scheduled_def)
  show ?case
  proof (cases "k < ?max")
    case True
    obtain s1 where s1: "schedule_retry oc now cid pid reason s = (s1, Ok ())" "scheduled cfg (k + 1) s1"
      using schedule_retry_granted [OF Cons.prems(1,2) True] Cons.prems(3) q by fastforce
    obtain m where m: "?max - k = Suc m" "?max - (k + 1) = m"
      using True by (metis Suc_diff_Suc add.commute plus_1_eq_Suc)
    from Cons.IH [OF Cons.prems(1) s1(2)] Cons.prems(3) s1(1) m show ?thesis
      by (auto simp: q)
  next
    case False
    then have "k = ?max" using k by simp
    from schedule_retry_exhausted [OF Cons.prems(1,2) this, of oc now cid pid reason]
      Cons.IH [OF Cons.prems(1,2)] Cons.prems(3) \<open>k = ?max\<close> show ?thesis
      by (auto simp: q)
  qed
qed

section \<open>Properties\<close>

text \<open>C35: the retry policy.  Whatever number of retryable failures is reported, a fresh scheduler
  grants exactly the first ones up to the configured maximum and refuses the rest as exhausted;
  the pending task is always the latest granted attempt, numbered from one, with the exponential
  backoff delay of that number.\<close>

theorem retry_policy:
  assumes "backoff_fits cfg" and "\<forall>(now, call_id, peer_id, reason) \<in> set reqs. should_retry reason"
    and "max_attempts = unat (push_retry_max_attempts cfg)"
  shows "\<exists>s rs. schedule_all oc reqs (RetryScheduler_new cfg) = (s, rs)
    \<and> rs = replicate (min (length reqs) max_attempts) (Ok ())
         @ replicate (length reqs - max_attempts) (Err (CallSetupTimeout ''Max retry attempts exhausted''))
    \<and> scheduled cfg (min (length reqs) max_attempts) s"
  using schedule_all_scheduled [OF assms(1) _ assms(2), of 0 "RetryScheduler_new cfg" oc] assms(3)
  by (simp add: scheduled_def RetryScheduler_new_def PushRetryHandler_new_def)

theorem retry_policy_witness:
  "\<exists>s rs. schedule_all True (replicate 4 (0, ''c1'', ''bob'', FailedIpv4Random))
       (RetryScheduler_new VoIPConfig_default) = (s, rs)
     \<and> rs = replicate 3 (Ok ()) @ [Err (CallSetupTimeout ''Max retry attempts exhausted'')]
     \<and> (\<exists>t. rs_task s = Some t \<and> unat (rt_delay_secs t) = 45)"
proof -
  have "backoff_fits VoIPConfig_default"
    by (simp add: backoff_fits_def VoIPConfig_default_def)
  from retry_policy [OF this, of "replicate 4 (0, ''c1'', ''bob'', FailedIpv4Random)" 3 True]
  show ?thesis
    by (auto simp: VoIPConfig_default_def scheduled_def backoff_def)
qed

end
