(* ===== verification/Port_Probe.thy ===== *)
theory Port_Probe
  imports Core_Config
begin

text \<open>
  Port prediction probing (\<open>src/crates/voip-client/src/probe.rs\<close>).

  The connection attempts run concurrently.  What the network makes of them is an argument: for
  the ports attempted, the sequence of their results in the order the tasks finish, and whether
  the overall time limit struck after those.  Whether \<open>ip:port\<close> is a socket address depends only
  on the address text and is an argument too.
\<close>

section \<open>The prober\<close>

datatype ProbeError =
    AllPortsExhausted
  | ProbeTimeout u64
  | PredictionNotAvailable
  | QuicError string

datatype 'c attempt = Connected 'c | AttemptFailed string | AttemptTimeout | JoinError string

type_synonym 'c race = "u16 list \<Rightarrow> (u16 \<times> 'c attempt) list \<times> bool"

definition probe_spawned :: "bool \<Rightarrow> VoIPConfig \<Rightarrow> u16 \<Rightarrow> u16 \<Rightarrow> (u16 list, unit) result" where
  "probe_spawned oc cfg port_start port_end =
     res_bind (checked_sub oc (ucast port_end :: u32) (ucast port_start)) (\<lambda>n.
     res_bind (checked_add oc n 1) (\<lambda>range_size.
     res_bind (checked_add oc port_start (ucast (prediction_max_probes cfg))) (\<lambda>e.
     res_bind (checked_sub oc e 1) (\<lambda>e.
     let effective_end = min port_end e in
     Ok (map of_nat [unat port_start ..< unat effective_end + 1])))))"

text \<open>The wait loop: the first task that connected wins.\<close>

fun probe_wait :: "(u16 \<times> 'c attempt) list \<Rightarrow> 'c option" where
  "probe_wait [] = None"
| "probe_wait ((port, Connected c) # rest) = Some c"
| "probe_wait ((port, _) # rest) = probe_wait rest"

definition probe_range ::
  "bool \<Rightarrow> VoIPConfig \<Rightarrow> bool \<Rightarrow> 'c race \<Rightarrow> u16 \<Rightarrow> u16 \<Rightarrow> ('c, ProbeError) result" where
  "probe_range oc cfg ip_ok race port_start port_end =
     (case probe_spawned oc cfg port_start port_end of
        Ok ports \<Rightarrow>
          (case race (if ip_ok then ports else []) of
             (finished, timed_out) \<Rightarrow>
               (case probe_wait finished of
                  Some conn \<Rightarrow> Ok conn
                | None \<Rightarrow> if timed_out then Err (ProbeTimeout (quic_prediction_timeout_ms cfg))
                          else Err AllPortsExhausted))
      | _ \<Rightarrow> Panic)"

definition probe_single_port ::
  "bool \<Rightarrow> u64 \<Rightarrow> 'c attempt \<Rightarrow> ('c, ProbeError) result" where
  "probe_single_port ip_ok timeout_ms answer =
     (if \<not> ip_ok then Err PredictionNotAvailable
      else case answer of
             Connected c \<Rightarrow> Ok c
           | AttemptFailed e \<Rightarrow> Err (QuicError e)
           | AttemptTimeout \<Rightarrow> Err (ProbeTimeout timeout_ms)
           | JoinError e \<Rightarrow> Panic)"

definition predicted_range :: "PortPredictionData \<Rightarrow> u16 \<times> u16" where
  "predicted_range p = (ucast (predicted_port_start p), ucast (predicted_port_end p))"

definition margin_for_confidence :: "VoIPConfig \<Rightarrow> PredictionConfidence \<Rightarrow> u16" where
  "margin_for_confidence cfg c =
     (case c of
        Sequential \<Rightarrow> ucast (prediction_margin_sequential cfg)
      | PseudoSequential \<Rightarrow> ucast (prediction_margin_pseudo cfg)
      | Random \<Rightarrow> 0)"

record OneSidedPredictionStrategy =
  os_prediction :: PortPredictionData
  os_config :: VoIPConfig

definition one_sided_execute ::
  "bool \<Rightarrow> bool \<Rightarrow> 'c race \<Rightarrow> OneSidedPredictionStrategy \<Rightarrow> ('c, ProbeError) result" where
  "one_sided_execute oc ip_ok race s =
     probe_range oc (os_config s) ip_ok race (ucast (predicted_port_start (os_prediction s)))
       (ucast (predicted_port_end (os_prediction s)))"

text \<open>In hundredths.\<close>

definition success_probability :: "OneSidedPredictionStrategy \<Rightarrow> nat" where
  "success_probability s =
     (case confidence (os_prediction s) of Sequential \<Rightarrow> 60 | PseudoSequential \<Rightarrow> 45 | Random \<Rightarrow> 0)"

section \<open>Facts\<close>

text \<open>A race is faithful when it reports only attempted ports, and all of them unless the time
  limit struck.\<close>

definition faithful_race :: "'c race \<Rightarrow> bool" where
  "faithful_race race \<longleftrightarrow>
     (\<forall>ports. set (map fst (fst (race ports))) \<subseteq> set ports
        \<and> (\<not> snd (race ports) \<longrightarrow> set ports \<subseteq> set (map fst (fst (race ports)))))"

lemma probe_wait_Some:
  "probe_wait xs = Some c \<Longrightarrow> \<exists>port. (port, Connected c) \<in> set xs"
  by (induction xs rule: probe_wait.induct) auto

lemma probe_wait_None:
  "probe_wait xs = None \<Longrightarrow> (port, Connected c) \<notin> set xs"
  by (induction xs rule: probe_wait.induct) auto

lemma probe_spawned_fits:
  assumes "port_start \<le> port_end" and "0 < unat (prediction_max_probes cfg)"
    and "unat port_start + unat (prediction_max_probes cfg) < 65536"
  shows "probe_spawned oc cfg port_start port_end
    = Ok (map of_nat [unat port_start ..<
        unat port_start + min (unat port_end - unat port_start + 1) (unat (prediction_max_probes cfg))])"
proof -
  let ?m = "prediction_max_probes cfg"
  have le: "unat port_start \<le> unat port_end" using assms(1) by (simp add: word_le_nat_alt)
  have us: "unat (ucast port_start :: u32) = unat port_start"
    and ue: "unat (ucast port_end :: u32) = unat port_end"
    by (rule unat_ucast_up, simp)+
  have um: "unat (ucast ?m :: u16) = unat ?m"
    using assms(3) by (intro unat_ucast_down) simp
  have le32: "(ucast port_start :: u32) \<le> ucast port_end"
    using le by (simp add: word_le_nat_alt us ue)
  note s = checked_sub_fits [OF le32]
  have r: "unat (ucast port_end - ucast port_start :: u32) + unat (1 :: u32) < 2 ^ LENGTH(32)"
  proof -
    have b: "unat port_end < 65536" by simp
    have "unat (ucast port_end - ucast port_start :: u32) + unat (1 :: u32) \<le> 65536"
      unfolding s(2) ue us unat_1 using b by linarith
    then show ?thesis by (rule le_less_trans) simp
  qed
  have f: "unat port_start + unat (ucast ?m :: u16) < 2 ^ LENGTH(16)"
    using assms(3) um by simp
  note e = checked_add_fits [OF f]
  have one: "1 \<le> port_start + ucast ?m"
    using assms(2) e(2) um by (simp add: word_le_nat_alt)
  note e1 = checked_sub_fits [OF one]
  have "unat (min port_end (port_start + ucast ?m - 1)) + 1
      = unat port_start + min (unat port_end - unat port_start + 1) (unat ?m)"
    using e1(2) e(2) um le assms(2)
    by (auto simp: min_def word_le_nat_alt)
  then show ?thesis
    unfolding probe_spawned_def s(1) checked_add_fits(1) [OF r] e(1) e1(1) res_bind.simps Let_def
    by (rule arg_cong)
qed

section \<open>Properties\<close>

text \<open>C36: probing a predicted range.  For a non-empty range whose first port leaves room for the
  configured number of probes, exactly the first ports of the range are attempted, as many as the
  range has but at most that number; the result is a connection precisely if one of the
  attempts connected in time, and otherwise tells a timeout from exhaustion, which is reported only
  after every attempted port has failed.\<close>

theorem probe_range_correct:
  assumes "port_start \<le> port_end" and "0 < unat (prediction_max_probes cfg)"
    and "unat port_start + unat (prediction_max_probes cfg) < 65536"
    and "faithful_race race"
    and "ports = map of_nat [unat port_start ..<
        unat port_start + min (unat port_end - unat port_start + 1) (unat (prediction_max_probes cfg))]"
  shows "probe_spawned oc cfg port_start port_end = Ok ports
    \<and> (case probe_range oc cfg True race port_start port_end of
         Ok c \<Rightarrow> \<exists>port \<in> set ports. (port, Connected c) \<in> set (fst (race ports))
       | Err e \<Rightarrow> (\<forall>port c. (port, Connected c) \<notin> set (fst (race ports)))
           \<and> (\<not> snd (race ports) \<longrightarrow> fst ` set (fst (race ports)) = set ports)
           \<and> e = (if snd (race ports) then ProbeTimeout (quic_prediction_timeout_ms cfg)
                  else AllPortsExhausted)
       | Panic \<Rightarrow> False)"
proof -
  have sp: "probe_spawned oc cfg port_start port_end = Ok ports"
    using probe_spawned_fits [OF assms(1-3)] assms(5) by simp
  obtain fin t where race: "race ports = (fin, t)" by fastforce
  have sub: "fst ` set fin \<subseteq> set ports" and all: "\<not> t \<Longrightarrow> set ports \<subseteq> fst ` set fin"
    using assms(4) race unfolding faithful_race_def by (metis fst_conv snd_conv list.set_map)+
  show ?thesis
  proof (cases "probe_wait fin")
    case None
    then have "probe_range oc cfg True race port_start port_end
        = Err (if t then ProbeTimeout (quic_prediction_timeout_ms cfg) else AllPortsExhausted)"
      using sp race by (simp add: probe_range_def)
    moreover have "(port, Connected c) \<notin> set (fst (race ports))" for port c
      using probe_wait_None [OF None] race by simp
    moreover have "fst ` set (fst (race ports)) = set ports" if "\<not> t"
      using sub all [OF that] race by (simp add: subset_antisym)
    ultimately show ?thesis using sp race by simp
  next
    case (Some c)
    from probe_wait_Some [OF Some] obtain port where "(port, Connected c) \<in> set fin" ..
    moreover have "port \<in> set ports"
      using subsetD [OF sub imageI [OF calculation]] by simp
    ultimately have "\<exists>port \<in> set ports. (port, Connected c) \<in> set (fst (race ports))"
      using race by auto
    moreover have "probe_range oc cfg True race port_start port_end = Ok c"
      using Some sp race by (simp add: probe_range_def)
    ultimately show ?thesis using sp by simp
  qed
qed

theorem probe_range_correct_witness:
  "probe_range True VoIPConfig_default True
     (\<lambda>ports. (map (\<lambda>p. (p, if p = 40004 then Connected p else AttemptTimeout)) ports, False))
     40001 40007 = Ok 40004"
proof -
  let ?race = "\<lambda>ports. (map (\<lambda>p. (p, if p = 40004 then Connected p else AttemptTimeout)) ports, False)"
  have f: "faithful_race ?race"
    by (auto simp: faithful_race_def)
  define ports :: "u16 list" where "ports = map of_nat [40001 ..< 40008]"
  have m: "unat (prediction_max_probes VoIPConfig_default) = 17"
    by (simp add: VoIPConfig_default_def)
  have "40004 \<in> set ports"
    unfolding ports_def set_map set_upt by (rule image_eqI [of _ _ 40004]) simp_all
  then have conn: "(40004, Connected 40004) \<in> set (fst (?race ports))" by force
  have only: "c = 40004" if "(port, Connected c) \<in> set (fst (?race ports))" for port c
    using that by (auto split: if_splits)
  have p: "ports = map of_nat [unat (40001 :: u16) ..< unat (40001 :: u16)
      + min (unat (40007 :: u16) - unat (40001 :: u16) + 1) (unat (prediction_max_probes VoIPConfig_default))]"
    by (simp only: ports_def m) simp
  have "40001 \<le> (40007 :: u16)" and "0 < unat (prediction_max_probes VoIPConfig_default)"
    and "unat (40001 :: u16) + unat (prediction_max_probes VoIPConfig_default) < 65536"
    by (simp_all add: m)
  note c = conjunct2 [OF probe_range_correct [OF this f p, of True]]
  show ?thesis
  proof (cases "probe_range True VoIPConfig_default True ?race 40001 40007")
    case (Ok x)
    show ?thesis using c only unfolding Ok result.case by blast
  next
    case (Err e)
    show ?thesis using c conn unfolding Err result.case by blast
  next
    case Panic
    show ?thesis using c unfolding Panic result.case by blast
  qed
qed

text \<open>Near the top of the port range the bound wraps around: with overflow checks the probe
  panics, without them no port is attempted at all.\<close>

lemma probe_range_top_ports:
  "probe_spawned True VoIPConfig_default 65530 65535 = Panic"
  "probe_spawned False VoIPConfig_default 65530 65535 = Ok []"
proof -
  have m: "prediction_max_probes VoIPConfig_default = 17" by (simp add: VoIPConfig_default_def)
  have s: "checked_sub oc (ucast (65535 :: u16)) (ucast (65530 :: u16) :: u32) = Ok 5" for oc
    by (simp add: checked_sub_def)
  have a: "checked_add oc (5 :: u32) 1 = Ok 6" for oc by (simp add: checked_add_def)
  have t: "checked_add True (65530 :: u16) (ucast (17 :: u32)) = Panic"
    and f: "checked_add False (65530 :: u16) (ucast (17 :: u32)) = Ok 11"
    and e: "checked_sub False (11 :: u16) 1 = Ok 10"
    by (simp_all add: checked_add_def checked_sub_def)
  show "probe_spawned True VoIPConfig_default 65530 65535 = Panic"
    unfolding probe_spawned_def m s res_bind.simps a t ..
  have "min (65535 :: u16) 10 = 10" by (simp add: min_def)
  then show "probe_spawned False VoIPConfig_default 65530 65535 = Ok []"
    unfolding probe_spawned_def m s res_bind.simps a f e Let_def by simp
qed

end
