(* ===== verification/Proxy_Node.thy ===== *)
theory Proxy_Node
  imports Proxy_Token Core_Crypto "HOL-Library.AList" "HOL-Library.Multiset"
begin

text \<open>
  The volunteer proxy and the client's proxy bookkeeping (\<open>src/crates/voip-client/src/proxy.rs\<close>):
  relay sessions and their anti-abuse limits, certificate provisioning, tunnel recovery and the
  proxy cache.

  An \<open>Instant\<close> is a number of nanoseconds; every operation that reads the clock takes the reading
  as its argument \<open>now\<close>.  The QUIC and TLS libraries are arguments: connections are values of a
  type parameter, and what accepting, generating and configuring answered is passed in.
\<close>

section \<open>Limits and trackers\<close>

definition MAX_SESSIONS :: u32 where "MAX_SESSIONS = 10"
definition MAX_SESSION_DURATION_SECS :: u64 where "MAX_SESSION_DURATION_SECS = 4 * 3600"
definition MAX_DATAGRAMS_PER_SEC :: u32 where "MAX_DATAGRAMS_PER_SEC = 200"
definition MAX_DATAGRAM_SIZE :: nat where "MAX_DATAGRAM_SIZE = 1280"
definition MIN_TARGET_PORT :: u16 where "MIN_TARGET_PORT = 1024"
definition MAX_BANDWIDTH_BPS :: u32 where "MAX_BANDWIDTH_BPS = 500000"

record ProxyLimits =
  max_sessions :: u32
  max_duration_secs :: u64
  max_datagram_rate :: u32
  max_datagram_size :: nat
  max_bandwidth_bps :: u64
  blocked_target_ports :: "u16 list"

definition ProxyLimits_default :: ProxyLimits where
  "ProxyLimits_default =
     \<lparr>max_sessions = MAX_SESSIONS, max_duration_secs = MAX_SESSION_DURATION_SECS,
      max_datagram_rate = MAX_DATAGRAMS_PER_SEC, max_datagram_size = MAX_DATAGRAM_SIZE,
      max_bandwidth_bps = ucast MAX_BANDWIDTH_BPS,
      blocked_target_ports = [25, 194, 465, 587, 993, 995, 3389]\<rparr>"

record SessionTracker =
  st_call_id :: string
  start_time :: nat
  datagram_count :: u64
  bytes_sent :: u64
  bytes_recv :: u64
  last_datagram_time :: nat

definition SessionTracker_new :: "nat \<Rightarrow> string \<Rightarrow> SessionTracker" where
  "SessionTracker_new now call_id =
     \<lparr>st_call_id = call_id, start_time = now, datagram_count = 0, bytes_sent = 0, bytes_recv = 0,
      last_datagram_time = now\<rparr>"

definition elapsed_secs :: "nat \<Rightarrow> nat \<Rightarrow> nat" where
  "elapsed_secs now since = (now - since) div 1000000000"

definition record_send :: "bool \<Rightarrow> nat \<Rightarrow> nat \<Rightarrow> SessionTracker \<Rightarrow> (SessionTracker, unit) result" where
  "record_send oc now len t =
     res_bind (checked_add oc (datagram_count t) 1) (\<lambda>n.
     res_bind (checked_add oc (bytes_sent t) (of_nat len)) (\<lambda>b.
     Ok (t\<lparr>datagram_count := n, bytes_sent := b, last_datagram_time := now\<rparr>)))"

definition record_recv :: "bool \<Rightarrow> nat \<Rightarrow> SessionTracker \<Rightarrow> (SessionTracker, unit) result" where
  "record_recv oc len t =
     res_bind (checked_add oc (bytes_recv t) (of_nat len)) (\<lambda>b. Ok (t\<lparr>bytes_recv := b\<rparr>))"

definition datagram_rate :: "nat \<Rightarrow> SessionTracker \<Rightarrow> u32" where
  "datagram_rate now t = of_nat (unat (datagram_count t) div max (elapsed_secs now (start_time t)) 1)"

definition send_bandwidth_bps :: "bool \<Rightarrow> nat \<Rightarrow> SessionTracker \<Rightarrow> (u64, unit) result" where
  "send_bandwidth_bps oc now t =
     res_map (\<lambda>bits. of_nat (unat bits div max (elapsed_secs now (start_time t)) 1))
       (checked_mul oc (bytes_sent t) 8)"

definition is_duration_exceeded :: "nat \<Rightarrow> u64 \<Rightarrow> SessionTracker \<Rightarrow> bool" where
  "is_duration_exceeded now max_secs t \<longleftrightarrow> unat max_secs < elapsed_secs now (start_time t)"

definition is_rate_exceeded :: "nat \<Rightarrow> u32 \<Rightarrow> SessionTracker \<Rightarrow> bool" where
  "is_rate_exceeded now max_rate t \<longleftrightarrow> max_rate < datagram_rate now t"

definition is_bandwidth_exceeded :: "bool \<Rightarrow> nat \<Rightarrow> u64 \<Rightarrow> SessionTracker \<Rightarrow> (bool, unit) result" where
  "is_bandwidth_exceeded oc now max_bps t = res_map (\<lambda>bps. max_bps < bps) (send_bandwidth_bps oc now t)"

section \<open>The proxy node\<close>

datatype CertError =
    AcmeChallengeFailed string
  | NotProvisioned
  | SelfSignedGenerationFailed string
  | InvalidDomain string
  | TlsConfigError string
  | CertIoError string
  | ServerConfigError string
  | RcgenError string

datatype ProxyError =
    CapacityExceeded u32 u32
  | DurationExceeded u64 nat
  | DatagramRateExceeded u32 u32
  | DatagramSizeExceeded nat nat
  | BandwidthExceeded u64 u64
  | PortBlocked u16
  | TokenValidationFailed string
  | SessionNotFound string
  | ProxyIoError string
  | ProxyQuicError string
  | CertificateError CertError
  | TokenError ProxyTokenError

record 'c RelaySession =
  rs_call_id :: string
  peer_a :: 'c
  peer_b :: "'c option"
  created_at :: nat
  tracker :: SessionTracker

record ('c, 'vk) MasqueProxy =
  sessions :: "(string \<times> 'c RelaySession) list"
  limits :: ProxyLimits
  token_verifier :: "'vk TokenVerifier"

definition MasqueProxy_new ::
  "unit io \<Rightarrow> unit io \<Rightarrow> ProxyLimits \<Rightarrow> 'vk TokenVerifier \<Rightarrow> (('c, 'vk) MasqueProxy, ProxyError) result" where
  "MasqueProxy_new quic_bind tcp_bind lim verifier =
     (case quic_bind of
        IoErr e \<Rightarrow> Err (ProxyQuicError (''QUIC bind: '' @ e))
      | IoOk _ \<Rightarrow>
          (case tcp_bind of
             IoErr e \<Rightarrow> Err (ProxyIoError (''TCP bind: '' @ e))
           | IoOk _ \<Rightarrow> Ok \<lparr>sessions = [], limits = lim, token_verifier = verifier\<rparr>))"

text \<open>What accepting answered: \<open>None\<close> for a closed endpoint.\<close>

definition accept_quic_connection ::
  "'c io option \<Rightarrow> ('c, 'vk) MasqueProxy \<Rightarrow> (('c, 'vk) MasqueProxy, ProxyError) result" where
  "accept_quic_connection incoming p =
     (case incoming of
        None \<Rightarrow> Err (ProxyQuicError ''QUIC endpoint closed'')
      | Some (IoErr e) \<Rightarrow> Err (ProxyQuicError (''QUIC accept: '' @ e))
      | Some (IoOk conn) \<Rightarrow> Ok p)"

definition accept_tcp_connection ::
  "'s io \<Rightarrow> ('c, 'vk) MasqueProxy \<Rightarrow> (('c, 'vk) MasqueProxy, ProxyError) result" where
  "accept_tcp_connection accepted p =
     (case accepted of
        IoErr e \<Rightarrow> Err (ProxyIoError (''TCP accept: '' @ e))
      | IoOk stream \<Rightarrow> Ok p)"

definition active_session_count :: "('c, 'vk) MasqueProxy \<Rightarrow> u32" where
  "active_session_count p = of_nat (length (sessions p))"

definition has_capacity :: "('c, 'vk) MasqueProxy \<Rightarrow> bool" where
  "has_capacity p \<longleftrightarrow> (of_nat (length (sessions p)) :: u32) < max_sessions (limits p)"

definition cleanup_expired_sessions :: "nat \<Rightarrow> ('c, 'vk) MasqueProxy \<Rightarrow> ('c, 'vk) MasqueProxy \<times> nat" where
  "cleanup_expired_sessions now p =
     (let max_duration = unat (max_duration_secs (limits p)) * 1000000000;
          kept = filter (\<lambda>(_, s). now - created_at s < max_duration) (sessions p)
      in (p\<lparr>sessions := kept\<rparr>, length (sessions p) - length kept))"

definition check_datagram :: "nat \<Rightarrow> ('c, 'vk) MasqueProxy \<Rightarrow> string \<Rightarrow> nat \<Rightarrow> (unit, ProxyError) result" where
  "check_datagram now p call_id datagram_size =
     (if max_datagram_size (limits p) < datagram_size
      then Err (DatagramSizeExceeded (max_datagram_size (limits p)) datagram_size)
      else case map_of (sessions p) call_id of
        None \<Rightarrow> Err (SessionNotFound call_id)
      | Some session \<Rightarrow>
          let elapsed = elapsed_secs now (created_at session) in
          if unat (max_duration_secs (limits p)) < elapsed
          then Err (DurationExceeded (max_duration_secs (limits p)) elapsed)
          else
            let recent_count =
                  (if now < last_datagram_time (tracker session) + 1000000000
                   then of_nat (unat (datagram_count (tracker session))
                          div max (elapsed_secs now (start_time (tracker session))) 1)
                   else 0) :: u32 in
            if max_datagram_rate (limits p) < recent_count
            then Err (DatagramRateExceeded (max_datagram_rate (limits p)) recent_count)
            else Ok ())"

definition is_port_allowed :: "('c, 'vk) MasqueProxy \<Rightarrow> u16 \<Rightarrow> bool" where
  "is_port_allowed p port \<longleftrightarrow> port \<notin> set (blocked_target_ports (limits p))"

section \<open>Certificates\<close>

datatype CertStrategy = LetsEncrypt string string | SelfSigned | CloudflareTunnel

record ('cert, 'key) CertManager =
  strategy :: CertStrategy
  cm_cert :: "'cert option"
  cm_key :: "'key option"

definition CertManager_new :: "CertStrategy \<Rightarrow> ('cert, 'key) CertManager" where
  "CertManager_new s = \<lparr>strategy = s, cm_cert = None, cm_key = None\<rparr>"

text \<open>What the certificate library answered to each step of generating a certificate.\<close>

record ('cert, 'key) rcgen =
  rcgen_params :: "unit io"
  rcgen_key_pair :: "'key io"
  rcgen_self_signed :: "'cert io"

definition generate_self_signed_cert ::
  "('cert, 'key) rcgen \<Rightarrow> ('cert \<times> 'key, CertError) result" where
  "generate_self_signed_cert g =
     (case rcgen_params g of
        IoErr e \<Rightarrow> Err (RcgenError e)
      | IoOk _ \<Rightarrow>
          (case rcgen_key_pair g of
             IoErr e \<Rightarrow> Err (RcgenError e)
           | IoOk key \<Rightarrow>
               (case rcgen_self_signed g of
                  IoErr e \<Rightarrow> Err (SelfSignedGenerationFailed e)
                | IoOk cert \<Rightarrow> Ok (cert, key))))"

definition provision ::
  "('cert, 'key) rcgen \<Rightarrow> ('cert, 'key) CertManager \<Rightarrow> ('cert, 'key) CertManager \<times> (unit, CertError) result" where
  "provision g m =
     (case strategy m of
        LetsEncrypt domain email \<Rightarrow>
          (m, Err (AcmeChallengeFailed (''ACME provisioning requires a running HTTP-01 challenge server; ''
                 @ ''use SelfSigned for development'')))
      | SelfSigned \<Rightarrow>
          (case generate_self_signed_cert g of
             Ok (cert, key) \<Rightarrow> (m\<lparr>cm_cert := Some cert, cm_key := Some key\<rparr>, Ok ())
           | Err e \<Rightarrow> (m, Err e)
           | Panic \<Rightarrow> (m, Panic))
      | CloudflareTunnel \<Rightarrow> (m, Ok ()))"

definition server_config ::
  "('cert \<Rightarrow> 'key \<Rightarrow> 'tls io) \<Rightarrow> ('tls \<Rightarrow> 'quic io) \<Rightarrow> ('cert, 'key) CertManager \<Rightarrow> ('quic, CertError) result" where
  "server_config with_single_cert quic_config m =
     (case cm_cert m of
        None \<Rightarrow> Err NotProvisioned
      | Some cert \<Rightarrow>
          (case cm_key m of
             None \<Rightarrow> Err NotProvisioned
           | Some key \<Rightarrow>
               (case with_single_cert cert key of
                  IoErr e \<Rightarrow> Err (TlsConfigError e)
                | IoOk tls \<Rightarrow>
                    (case quic_config tls of
                       IoErr e \<Rightarrow> Err (ServerConfigError e)
                     | IoOk quic \<Rightarrow> Ok quic))))"

definition is_provisioned :: "('cert, 'key) CertManager \<Rightarrow> bool" where
  "is_provisioned m \<longleftrightarrow> cm_cert m \<noteq> None \<and> cm_key m \<noteq> None"

definition cert_fingerprint :: "('cert \<Rightarrow> bytes) \<Rightarrow> ('cert, 'key) CertManager \<Rightarrow> string option" where
  "cert_fingerprint sha256 m = map_option (\<lambda>cert. hex_encode (sha256 cert)) (cm_cert m)"

section \<open>Recovery and the proxy cache\<close>

record ProxyRecord =
  pr_node_id :: string
  pr_proxy_url :: string
  pr_capacity :: u32
  pr_region :: string
  pr_latency_hint_ms :: u32
  pr_timestamp :: u64
  pr_ttl_seconds :: u32
  pr_cert_fingerprint :: string
  pr_signature :: bytes

record TunnelRecoveryHandler =
  cached_proxies :: "ProxyRecord list"
  last_proxy_url :: "string option"
  max_recovery_attempts :: u32
  recovery_timeout :: nat

definition TunnelRecoveryHandler_new :: "u32 \<Rightarrow> nat \<Rightarrow> TunnelRecoveryHandler" where
  "TunnelRecoveryHandler_new attempts timeout =
     \<lparr>cached_proxies = [], last_proxy_url = None, max_recovery_attempts = attempts, recovery_timeout = timeout\<rparr>"

definition default_settings :: TunnelRecoveryHandler where
  "default_settings = TunnelRecoveryHandler_new 3 (600 * 1000000)"

definition update_proxies :: "ProxyRecord list \<Rightarrow> TunnelRecoveryHandler \<Rightarrow> TunnelRecoveryHandler" where
  "update_proxies ps h = h\<lparr>cached_proxies := ps\<rparr>"

definition set_last_proxy :: "string \<Rightarrow> TunnelRecoveryHandler \<Rightarrow> TunnelRecoveryHandler" where
  "set_last_proxy url h = h\<lparr>last_proxy_url := Some url\<rparr>"

definition recovery_proxy_order :: "TunnelRecoveryHandler \<Rightarrow> ProxyRecord list" where
  "recovery_proxy_order h =
     (let first = (case last_proxy_url h of
                     None \<Rightarrow> []
                   | Some url \<Rightarrow>
                       (case find (\<lambda>p. pr_proxy_url p = url) (cached_proxies h) of
                          None \<Rightarrow> [] | Some p \<Rightarrow> [p]));
          others = filter (\<lambda>p. case last_proxy_url h of None \<Rightarrow> True | Some url \<Rightarrow> pr_proxy_url p \<noteq> url)
                     (cached_proxies h)
      in first @ sort_key pr_latency_hint_ms others)"

record CachedProxy =
  cp_record :: ProxyRecord
  cp_cached_at :: nat

record ProxyCache =
  pc_proxies :: "CachedProxy list"
  pc_last_used :: "string option"
  pc_created_at :: nat
  pc_ttl :: nat

definition ProxyCache_with_ttl :: "nat \<Rightarrow> nat \<Rightarrow> ProxyCache" where
  "ProxyCache_with_ttl now ttl = \<lparr>pc_proxies = [], pc_last_used = None, pc_created_at = now, pc_ttl = ttl\<rparr>"

definition ProxyCache_new :: "nat \<Rightarrow> ProxyCache" where
  "ProxyCache_new now =
     \<lparr>pc_proxies = [], pc_last_used = None, pc_created_at = now, pc_ttl = 3600 * 1000000000\<rparr>"

text \<open>The clock is read once per record and once more for the cache.\<close>

definition ProxyCache_update :: "(nat \<Rightarrow> nat) \<Rightarrow> nat \<Rightarrow> ProxyRecord list \<Rightarrow> ProxyCache \<Rightarrow> ProxyCache" where
  "ProxyCache_update clock now ps c =
     c\<lparr>pc_proxies := map (\<lambda>(i, r). \<lparr>cp_record = r, cp_cached_at = clock i\<rparr>) (enumerate 0 ps),
       pc_created_at := now\<rparr>"

definition ProxyCache_is_valid :: "nat \<Rightarrow> ProxyCache \<Rightarrow> bool" where
  "ProxyCache_is_valid now c \<longleftrightarrow> now - pc_created_at c < pc_ttl c \<and> pc_proxies c \<noteq> []"

text \<open>\<open>Iterator::min_by_key\<close>: the first of the minimal elements.\<close>

fun min_by_key :: "('a \<Rightarrow> 'b::linorder) \<Rightarrow> 'a list \<Rightarrow> 'a option" where
  "min_by_key f [] = None"
| "min_by_key f (x # xs) =
     (case min_by_key f xs of None \<Rightarrow> Some x | Some y \<Rightarrow> if f y < f x then Some y else Some x)"

definition ProxyCache_get_best :: "nat \<Rightarrow> ProxyCache \<Rightarrow> ProxyRecord option" where
  "ProxyCache_get_best now c =
     (if \<not> ProxyCache_is_valid now c then None
      else case (case pc_last_used c of
                   None \<Rightarrow> None
                 | Some url \<Rightarrow> find (\<lambda>p. pr_proxy_url (cp_record p) = url) (pc_proxies c)) of
        Some cached \<Rightarrow> Some (cp_record cached)
      | None \<Rightarrow> map_option cp_record (min_by_key (\<lambda>p. pr_latency_hint_ms (cp_record p)) (pc_proxies c)))"

definition ProxyCache_clear :: "nat \<Rightarrow> ProxyCache \<Rightarrow> ProxyCache" where
  "ProxyCache_clear now c = c\<lparr>pc_proxies := [], pc_last_used := None, pc_created_at := now\<rparr>"

definition ProxyCache_set_last_used :: "string \<Rightarrow> ProxyCache \<Rightarrow> ProxyCache" where
  "ProxyCache_set_last_used url c = c\<lparr>pc_last_used := Some url\<rparr>"

definition ProxyCache_get_all :: "nat \<Rightarrow> ProxyCache \<Rightarrow> ProxyRecord list" where
  "ProxyCache_get_all now c = (if ProxyCache_is_valid now c then map cp_record (pc_proxies c) else [])"

section \<open>The rate of a relayed session\<close>

text \<open>A datagram is checked before it is relayed and recorded.\<close>

definition relay_datagram ::
  "bool \<Rightarrow> string \<Rightarrow> nat \<times> nat \<Rightarrow> ('c, 'vk) MasqueProxy \<Rightarrow> (('c, 'vk) MasqueProxy, unit) result" where
  "relay_datagram oc call_id = (\<lambda>(now, len) p.
     (case check_datagram now p call_id len of
        Ok _ \<Rightarrow>
          (case map_of (sessions p) call_id of
             None \<Rightarrow> Ok p
           | Some s \<Rightarrow> res_map (\<lambda>t. p\<lparr>sessions := AList.update call_id (s\<lparr>tracker := t\<rparr>) (sessions p)\<rparr>)
                         (record_send oc now len (tracker s)))
      | _ \<Rightarrow> Ok p))"

fun relay_all ::
  "bool \<Rightarrow> string \<Rightarrow> (nat \<times> nat) list \<Rightarrow> ('c, 'vk) MasqueProxy \<Rightarrow> (('c, 'vk) MasqueProxy, unit) result" where
  "relay_all oc call_id [] p = Ok p"
| "relay_all oc call_id (d # ds) p = res_bind (relay_datagram oc call_id d p) (relay_all oc call_id ds)"

text \<open>How many datagrams a session may have relayed by its second \<open>e\<close>: one more than the rate per
  elapsed second, and one more for every second of silence.\<close>

definition datagram_budget :: "ProxyLimits \<Rightarrow> nat \<Rightarrow> nat" where
  "datagram_budget l e = (unat (max_datagram_rate l) + 1) * max e 1 + e"

definition limits_sane :: "ProxyLimits \<Rightarrow> bool" where
  "limits_sane l \<longleftrightarrow> unat (max_datagram_rate l) + 2 < 2 ^ 32
     \<and> datagram_budget l (unat (max_duration_secs l)) * max (max_datagram_size l) 1 < 2 ^ 64"

definition tracker_ok :: "ProxyLimits \<Rightarrow> nat \<Rightarrow> SessionTracker \<Rightarrow> bool" where
  "tracker_ok l now t \<longleftrightarrow>
     (let e = elapsed_secs (last_datagram_time t) (start_time t) in
      start_time t \<le> last_datagram_time t \<and> last_datagram_time t \<le> now
      \<and> e \<le> unat (max_duration_secs l)
      \<and> unat (datagram_count t) \<le> datagram_budget l e
      \<and> unat (bytes_sent t) \<le> unat (datagram_count t) * max_datagram_size l)"

lemma elapsed_secs_mono: "a \<le> b \<Longrightarrow> elapsed_secs a s \<le> elapsed_secs b s"
  by (simp add: elapsed_secs_def div_le_mono)

lemma elapsed_secs_silence:
  assumes "s \<le> a" and "a + 1000000000 \<le> b"
  shows "elapsed_secs a s + 1 \<le> elapsed_secs b s"
proof -
  have "(a - s) + 1000000000 \<le> b - s" using assms by linarith
  then have "((a - s) + 1000000000) div 1000000000 \<le> (b - s) div 1000000000" by (rule div_le_mono)
  then show ?thesis by (simp add: elapsed_secs_def)
qed

lemma datagram_budget_mono: "a \<le> b \<Longrightarrow> datagram_budget l a \<le> datagram_budget l b"
  unfolding datagram_budget_def by (intro add_mono mult_le_mono) auto

lemma datagram_budget_Suc: "datagram_budget l a + 1 \<le> datagram_budget l (a + 1)"
proof -
  have "(unat (max_datagram_rate l) + 1) * max a 1 \<le> (unat (max_datagram_rate l) + 1) * max (a + 1) 1"
    by (intro mult_le_mono) auto
  then show ?thesis by (simp add: datagram_budget_def)
qed

text \<open>A datagram the check lets through leaves the session within its budget.\<close>

lemma budget_step:
  assumes "tracker_ok l before t" and "before \<le> now"
    and "\<not> max_datagram_rate l <
      (if now < last_datagram_time t + 1000000000
       then of_nat (unat (datagram_count t) div max (elapsed_secs now (start_time t)) 1) else 0 :: u32)"
    and "unat (max_datagram_rate l) + 2 < 2 ^ 32"
  shows "unat (datagram_count t) + 1 \<le> datagram_budget l (elapsed_secs now (start_time t))"
proof -
  let ?e = "elapsed_secs (last_datagram_time t) (start_time t)"
    and ?f = "elapsed_secs now (start_time t)" and ?n = "unat (datagram_count t)"
    and ?r = "unat (max_datagram_rate l)"
  have t: "start_time t \<le> last_datagram_time t" "last_datagram_time t \<le> now" "?n \<le> datagram_budget l ?e"
    using assms(1,2) by (auto simp: tracker_ok_def Let_def)
  have le: "?e \<le> ?f" using t(2) by (rule elapsed_secs_mono)
  show ?thesis
  proof (cases "now < last_datagram_time t + 1000000000")
    case True
    let ?q = "?n div max ?f 1"
    have "?n \<le> datagram_budget l ?f" using t(3) datagram_budget_mono [OF le] by (rule le_trans)
    also have "\<dots> \<le> (?r + 2) * max ?f 1" by (simp add: datagram_budget_def algebra_simps)
    finally have "?q \<le> ?r + 2"
      using div_le_mono [of ?n "(?r + 2) * max ?f 1" "max ?f 1"] by simp
    then have "unat (of_nat ?q :: u32) = ?q" using assms(4) by (simp add: unat_of_nat)
    with True assms(3) have "?q \<le> ?r" by (simp add: word_less_nat_alt not_less)
    then have "?n < (?r + 1) * max ?f 1"
      by (simp add: div_less_iff_less_mult [symmetric] del: mult_Suc)
    then show ?thesis unfolding datagram_budget_def by linarith
  next
    case False
    then have "?e + 1 \<le> ?f" using t(1) by (intro elapsed_secs_silence) auto
    then have "datagram_budget l (?e + 1) \<le> datagram_budget l ?f" by (rule datagram_budget_mono)
    with t(3) datagram_budget_Suc [of l ?e] show ?thesis by linarith
  qed
qed

definition relay_ok :: "ProxyLimits \<Rightarrow> string \<Rightarrow> nat \<Rightarrow> nat \<Rightarrow> ('c, 'vk) MasqueProxy \<Rightarrow> bool" where
  "relay_ok l call_id began now p \<longleftrightarrow> limits p = l
     \<and> (\<exists>s. map_of (sessions p) call_id = Some s \<and> created_at s = began
          \<and> start_time (tracker s) = began \<and> tracker_ok l now (tracker s))"

lemma budget_fits:
  assumes "limits_sane l" and "e \<le> unat (max_duration_secs l)" and "n \<le> datagram_budget l e"
  shows "n < 2 ^ 64" and "n * max_datagram_size l < 2 ^ 64"
proof -
  let ?b = "datagram_budget l (unat (max_duration_secs l))"
  have "n \<le> ?b" using assms(3) datagram_budget_mono [OF assms(2)] by (rule le_trans)
  then have "n * max (max_datagram_size l) 1 \<le> ?b * max (max_datagram_size l) 1" by (rule mult_le_mono1)
  also have "\<dots> < 2 ^ 64" using assms(1) by (simp add: limits_sane_def)
  finally have m: "n * max (max_datagram_size l) 1 < 2 ^ 64" .
  moreover have "n * 1 \<le> n * max (max_datagram_size l) 1"
    and "n * max_datagram_size l \<le> n * max (max_datagram_size l) 1" by (intro mult_le_mono2; simp)+
  ultimately show "n < 2 ^ 64" and "n * max_datagram_size l < 2 ^ 64" by linarith+
qed

lemma record_send_ok:
  assumes "limits_sane l" and "tracker_ok l before t" and "before \<le> now" and "len \<le> max_datagram_size l"
    and "elapsed_secs now (start_time t) \<le> unat (max_duration_secs l)"
    and "unat (datagram_count t) + 1 \<le> datagram_budget l (elapsed_secs now (start_time t))"
  shows "\<exists>t'. record_send oc now len t = Ok t' \<and> start_time t' = start_time t \<and> tracker_ok l now t'"
proof -
  let ?n = "unat (datagram_count t)"
  note f = budget_fits [OF assms(1,5,6)]
  have t: "start_time t \<le> last_datagram_time t" "last_datagram_time t \<le> before"
    "unat (bytes_sent t) \<le> ?n * max_datagram_size l"
    using assms(2) by (auto simp: tracker_ok_def Let_def)
  have b: "unat (bytes_sent t) + len \<le> (?n + 1) * max_datagram_size l"
    using t(3) assms(4) by simp
  have "unat (bytes_sent t) + len < 2 ^ 64" using b f(2) by (rule le_less_trans)
  then have l: "unat (of_nat len :: u64) = len" by (simp add: unat_of_nat)
  have c: "?n + unat (1 :: u64) < 2 ^ LENGTH(64)" using f(1) by simp
  have d: "unat (bytes_sent t) + unat (of_nat len :: u64) < 2 ^ LENGTH(64)"
    using \<open>unat (bytes_sent t) + len < 2 ^ 64\<close> l by simp
  note r = checked_add_fits [OF c] checked_add_fits [OF d]
  show ?thesis
    using t b assms(3,5,6) l
    by (simp add: record_send_def r tracker_ok_def Let_def)
qed

lemma check_datagram_OkD:
  assumes "check_datagram now p call_id len = Ok u" and "map_of (sessions p) call_id = Some s"
  shows "len \<le> max_datagram_size (limits p)"
    and "elapsed_secs now (created_at s) \<le> unat (max_duration_secs (limits p))"
    and "\<not> max_datagram_rate (limits p) <
      (if now < last_datagram_time (tracker s) + 1000000000
       then of_nat (unat (datagram_count (tracker s)) div max (elapsed_secs now (start_time (tracker s))) 1)
       else 0 :: u32)"
  using assms by (auto simp: check_datagram_def Let_def split: if_splits)

lemma tracker_ok_later: "tracker_ok l a t \<Longrightarrow> a \<le> b \<Longrightarrow> tracker_ok l b t"
  by (auto simp: tracker_ok_def Let_def)

lemma relay_datagram_ok:
  assumes "limits_sane l" and "relay_ok l call_id began before p" and "before \<le> now"
  shows "\<exists>p'. relay_datagram oc call_id (now, len) p = Ok p' \<and> relay_ok l call_id began now p'"
proof -
  obtain s where s: "limits p = l" "map_of (sessions p) call_id = Some s" "created_at s = began"
    "start_time (tracker s) = began" "tracker_ok l before (tracker s)"
    using assms(2) by (auto simp: relay_ok_def)
  show ?thesis
  proof (cases "check_datagram now p call_id len")
    case (Ok u)
    note c = check_datagram_OkD [OF Ok s(2), unfolded s(1,3)]
    have "unat (max_datagram_rate l) + 2 < 2 ^ 32" using assms(1) by (simp add: limits_sane_def)
    note b = budget_step [OF s(5) assms(3) c(3) this]
    obtain t where "record_send oc now len (tracker s) = Ok t" "start_time t = began" "tracker_ok l now t"
      using record_send_ok [OF assms(1) s(5) assms(3) c(1) _ b, of oc] c(2) s(4) by auto
    then show ?thesis
      using Ok s by (simp add: relay_datagram_def relay_ok_def update_conv')
  next
    case (Err e)
    then show ?thesis
      using s tracker_ok_later [OF s(5) assms(3)] by (simp add: relay_datagram_def relay_ok_def)
  next
    case Panic
    then show ?thesis
      using s tracker_ok_later [OF s(5) assms(3)] by (simp add: relay_datagram_def relay_ok_def)
  qed
qed

lemma relay_all_ok:
  assumes "limits_sane l" and "relay_ok l call_id began before p" and "sorted (before # map fst ds)"
  shows "\<exists>p' now. relay_all oc call_id ds p = Ok p' \<and> relay_ok l call_id began now p'"
  using assms(2,3)
proof (induction ds arbitrary: p before)
  case Nil
  then show ?case by auto
next
  case (Cons d ds)
  obtain now len where d: "d = (now, len)" by (cases d)
  with Cons.prems obtain p' where p': "relay_datagram oc call_id d p = Ok p'" "relay_ok l call_id began now p'"
    using relay_datagram_ok [OF assms(1) Cons.prems(1), of now oc len] by auto
  with Cons.IH [OF p'(2)] Cons.prems(2) d show ?case by auto
qed

section \<open>The order of proxies\<close>

lemma min_by_key_None [simp]: "min_by_key f xs = None \<longleftrightarrow> xs = []"
  by (cases xs) (auto split: option.split)

lemma hd_insort_key: "hd (insort_key f x ys) = (if ys = [] \<or> f x \<le> f (hd ys) then x else hd ys)"
  by (cases ys) auto

lemma min_by_key_sort: "xs \<noteq> [] \<Longrightarrow> min_by_key f xs = Some (hd (sort_key f xs))"
proof (induction xs)
  case Nil
  then show ?case by simp
next
  case (Cons x xs)
  show ?case
  proof (cases "xs = []")
    case True
    then show ?thesis by simp
  next
    case False
    moreover from False have "sort_key f xs \<noteq> []" by (metis length_0_conv length_sort)
    ultimately show ?thesis
      using Cons.IH by (auto simp: hd_insort_key)
  qed
qed

lemma find_map: "find P (map g xs) = map_option g (find (P \<circ> g) xs)"
  by (induction xs) auto

lemma min_by_key_map: "min_by_key f (map g xs) = map_option g (min_by_key (f \<circ> g) xs)"
  by (induction xs) (auto split: option.split)

lemma mset_pull_out:
  assumes "distinct (map g xs)" and "p \<in> set xs"
  shows "mset xs = add_mset p (mset (filter (\<lambda>q. g q \<noteq> g p) xs))"
  using assms
proof (induction xs)
  case Nil
  then show ?case by simp
next
  case (Cons x xs)
  show ?case
  proof (cases "x = p")
    case True
    then have "filter (\<lambda>q. g q \<noteq> g p) xs = xs"
      using Cons.prems by (auto simp: filter_id_conv image_iff)
    with True show ?thesis by simp
  next
    case False
    then have "g x \<noteq> g p" using Cons.prems by (auto simp: inj_on_def)
    with False Cons show ?thesis by simp
  qed
qed

text \<open>The last proxy, if it is still known, and the others.\<close>

definition known_last :: "TunnelRecoveryHandler \<Rightarrow> ProxyRecord option" where
  "known_last h = (case last_proxy_url h of None \<Rightarrow> None
     | Some url \<Rightarrow> find (\<lambda>p. pr_proxy_url p = url) (cached_proxies h))"

lemma recovery_order_known:
  assumes "known_last h = Some p"
  shows "recovery_proxy_order h
      = p # sort_key pr_latency_hint_ms (filter (\<lambda>q. pr_proxy_url q \<noteq> pr_proxy_url p) (cached_proxies h))"
    and "p \<in> set (cached_proxies h)"
proof -
  obtain url where u: "last_proxy_url h = Some url" "find (\<lambda>p. pr_proxy_url p = url) (cached_proxies h) = Some p"
    using assms by (auto simp: known_last_def split: option.splits)
  then have "p \<in> set (cached_proxies h) \<and> pr_proxy_url p = url"
    by (auto simp: find_Some_iff)
  with u show "p \<in> set (cached_proxies h)" and "recovery_proxy_order h
      = p # sort_key pr_latency_hint_ms (filter (\<lambda>q. pr_proxy_url q \<noteq> pr_proxy_url p) (cached_proxies h))"
    by (simp_all add: recovery_proxy_order_def)
qed

lemma recovery_order_unknown:
  assumes "known_last h = None"
  shows "recovery_proxy_order h = sort_key pr_latency_hint_ms (cached_proxies h)"
proof -
  have "filter (\<lambda>p. case last_proxy_url h of None \<Rightarrow> True | Some url \<Rightarrow> pr_proxy_url p \<noteq> url) (cached_proxies h)
      = cached_proxies h"
    using assms by (auto simp: known_last_def filter_id_conv find_None_iff split: option.splits)
  with assms show ?thesis
    by (auto simp: known_last_def recovery_proxy_order_def Let_def split: option.splits)
qed

lemma get_best_known_last:
  assumes "ProxyCache_is_valid now c"
    and "cached_proxies h = map cp_record (pc_proxies c)" and "last_proxy_url h = pc_last_used c"
  shows "ProxyCache_get_best now c = (case known_last h of
     Some p \<Rightarrow> Some p | None \<Rightarrow> min_by_key pr_latency_hint_ms (cached_proxies h))"
  using assms
  by (auto simp: ProxyCache_get_best_def known_last_def find_map min_by_key_map comp_def split: option.splits)

section \<open>Properties\<close>



text \<open>The two ways to choose a proxy agree.  With the same records and the same last proxy, the
  cache's best proxy is the first one recovery tries; recovery visits every known proxy address,
  each record exactly once when addresses differ, and after the first choice goes by latency.\<close>

lemma best_proxy_heads_recovery:
  assumes "ProxyCache_is_valid now c"
    and "cached_proxies h = map cp_record (pc_proxies c)" and "last_proxy_url h = pc_last_used c"
  shows "ProxyCache_get_best now c = Some (hd (recovery_proxy_order h))
    \<and> pr_proxy_url ` set (recovery_proxy_order h) = pr_proxy_url ` set (cached_proxies h)
    \<and> (distinct (map pr_proxy_url (cached_proxies h)) \<longrightarrow>
        mset (recovery_proxy_order h) = mset (ProxyCache_get_all now c))
    \<and> sorted (map pr_latency_hint_ms (tl (recovery_proxy_order h)))"
proof (cases "known_last h")
  case None
  have "cached_proxies h \<noteq> []" using assms(1,2) by (simp add: ProxyCache_is_valid_def)
  then show ?thesis
    using assms get_best_known_last [OF assms] None
    by (simp add: recovery_order_unknown min_by_key_sort ProxyCache_get_all_def map_tl sorted_tl)
next
  case (Some p)
  note r = recovery_order_known [OF Some]
  show ?thesis
    using assms(1,2) get_best_known_last [OF assms] Some r(2) mset_pull_out [OF _ r(2), of pr_proxy_url]
    by (auto simp: r(1) ProxyCache_get_all_def)
qed

definition sample_proxy :: "string \<Rightarrow> u32 \<Rightarrow> ProxyRecord" where
  "sample_proxy url ms = \<lparr>pr_node_id = [], pr_proxy_url = url, pr_capacity = 10, pr_region = [],
     pr_latency_hint_ms = ms, pr_timestamp = 0, pr_ttl_seconds = 60, pr_cert_fingerprint = [], pr_signature = []\<rparr>"

lemma best_proxy_heads_recovery_witness:
  "let ps = [sample_proxy ''a'' 30, sample_proxy ''b'' 10, sample_proxy ''c'' 20];
       cache = ProxyCache_set_last_used ''c'' (ProxyCache_update (\<lambda>i. i) 3 ps (ProxyCache_new 0));
       handler = set_last_proxy ''c'' (update_proxies ps default_settings)
   in ProxyCache_get_best 4 cache = Some (hd (recovery_proxy_order handler))
      \<and> map pr_proxy_url (recovery_proxy_order handler) = [''c'', ''b'', ''a'']"
  unfolding Let_def
  by (intro conjI, rule best_proxy_heads_recovery [THEN conjunct1])
     (simp_all add: ProxyCache_is_valid_def ProxyCache_set_last_used_def ProxyCache_update_def ProxyCache_new_def
       update_proxies_def set_last_proxy_def default_settings_def TunnelRecoveryHandler_new_def
       recovery_proxy_order_def sample_proxy_def Let_def)

section \<open>What the limits do not do\<close>

text \<open>The configured bandwidth limit is never consulted: a session may exceed it and its datagrams
  still pass the check.\<close>

lemma bandwidth_not_enforced:
  "\<exists>(p :: (unit, unit) MasqueProxy) s. limits p = ProxyLimits_default \<and> map_of (sessions p) ''c1'' = Some s
     \<and> is_bandwidth_exceeded True 1000000000 (max_bandwidth_bps (limits p)) (tracker s) = Ok True
     \<and> check_datagram 1000000000 p ''c1'' 1280 = Ok ()"
proof -
  let ?s = "\<lparr>rs_call_id = ''c1'', peer_a = (), peer_b = None, created_at = 0,
     tracker = \<lparr>st_call_id = ''c1'', start_time = 0, datagram_count = 100, bytes_sent = 128000, bytes_recv = 0,
       last_datagram_time = 999999999\<rparr>\<rparr>"
  let ?p = "\<lparr>sessions = [(''c1'', ?s)], limits = ProxyLimits_default, token_verifier = \<lparr>tv_verifying_key = ()\<rparr>\<rparr>"
  have "is_bandwidth_exceeded True 1000000000 (max_bandwidth_bps (limits ?p)) (tracker ?s) = Ok True"
    by (simp add: is_bandwidth_exceeded_def send_bandwidth_bps_def checked_mul_def elapsed_secs_def
        ProxyLimits_default_def MAX_BANDWIDTH_BPS_def)
  moreover have "check_datagram 1000000000 ?p ''c1'' 1280 = Ok ()"
    by (simp add: check_datagram_def elapsed_secs_def ProxyLimits_default_def MAX_DATAGRAM_SIZE_def
        MAX_SESSION_DURATION_SECS_def MAX_DATAGRAMS_PER_SEC_def)
  ultimately show ?thesis by (intro exI [of _ ?p] exI [of _ ?s]) simp
qed

text \<open>Ports below the documented minimum are allowed.\<close>

lemma low_port_allowed:
  "limits p = ProxyLimits_default \<Longrightarrow> 80 < MIN_TARGET_PORT \<and> is_port_allowed p 80"
  by (simp add: is_port_allowed_def ProxyLimits_default_def MIN_TARGET_PORT_def)

text \<open>Whatever the clean-up keeps passes the duration check.\<close>

lemma cleanup_keeps_unexpired:
  assumes "cleanup_expired_sessions now p = (p', n)" and "(call_id, s) \<in> set (sessions p')"
  shows "elapsed_secs now (created_at s) \<le> unat (max_duration_secs (limits p))"
proof -
  have "now - created_at s < unat (max_duration_secs (limits p)) * 1000000000"
    using assms by (auto simp: cleanup_expired_sessions_def Let_def)
  then have "(now - created_at s) div 1000000000 < unat (max_duration_secs (limits p))"
    by (simp add: div_less_iff_less_mult)
  then show ?thesis by (simp add: elapsed_secs_def)
qed

text \<open>A manager is provisioned only by generating a certificate; a tunnel strategy reports success and
  still has no server configuration.\<close>

lemma provision_provides:
  assumes "provision g (CertManager_new st) = (m, Ok ())"
  shows "is_provisioned m \<longleftrightarrow> st = SelfSigned"
    and "st = CloudflareTunnel \<Longrightarrow> server_config wsc qc m = Err NotProvisioned"
  using assms
  by (auto simp: provision_def CertManager_new_def is_provisioned_def server_config_def
      split: CertStrategy.splits result.splits)

end
