(* ===== verification/Dht_Record.thy ===== *)
theory Dht_Record
  imports Core_Config Proxy_Node
begin

text \<open>
  The records of the distributed hash table (\<open>src/crates/voip-dht/src/record.rs\<close>) and the error
  type of that crate (\<open>src/crates/voip-dht/src/error.rs\<close>): keys, conversions to and from the wire
  messages, signing, verification and expiry.

  The crate has its own copies of the core enumerations; an unknown wire value becomes a default
  that the crate chooses.  Generated protobuf code, the JSON library, SHA-256 and Ed25519 are
  arguments: the record \<open>dht_codec\<close> for the encoders and decoders, \<open>ed_sign\<close> for
  \<open>signing_key.sign(..).to_bytes()\<close>, \<open>sig_parse\<close> for \<open>Signature::try_from\<close> and \<open>ed_verify\<close> for
  \<open>verifying_key.verify(..).is_ok()\<close>.  The system clock is an argument in seconds.
\<close>

section \<open>Errors\<close>

datatype DhtError =
    DhtNotStarted
  | BootstrapFailed "string list"
  | NoPeersConnected
  | LookupTimeout string u64
  | LookupFailed string string
  | NotFound string
  | StoreFailed string string
  | RecordExpired string u64
  | DhtInvalidSignature string
  | UsernameNotFound string
  | SignalingFallbackRequired
  | Serialization string
  | Swarm string
  | DhtTransport string
  | BootstrapFailedSingle string
  | InvalidRecord string
  | NotConnected
  | PutFailed string
  | InvalidSignatureLegacy string
  | DhtExpired u64 u32
  | DhtCore VoipError
  | Http string

definition dht_timeout :: "string \<Rightarrow> u64 \<Rightarrow> DhtError" where
  "dht_timeout key elapsed_ms = LookupTimeout key elapsed_ms"

definition not_found :: "string \<Rightarrow> DhtError" where
  "not_found key = NotFound key"

definition invalid_signature :: "string \<Rightarrow> DhtError" where
  "invalid_signature key = DhtInvalidSignature key"

section \<open>Keys\<close>

definition peer_record_key :: "(bytes \<Rightarrow> bytes) \<Rightarrow> string \<Rightarrow> bytes" where
  "peer_record_key sha256 peer_id = sha256 (str_bytes (''voip:'' @ peer_id))"

definition username_record_key :: "(bytes \<Rightarrow> bytes) \<Rightarrow> string \<Rightarrow> bytes" where
  "username_record_key sha256 username = sha256 (str_bytes (''voip-name:'' @ username))"

definition proxy_record_key :: "(bytes \<Rightarrow> bytes) \<Rightarrow> string \<Rightarrow> bytes" where
  "proxy_record_key sha256 node_id = sha256 (str_bytes (''masque-proxy:'' @ node_id))"

section \<open>Enumerations\<close>

datatype NatType = DNone | DCone | DSymmetricSequential | DSymmetricPseudo | DSymmetricRandom

fun NatType_from :: "NatType_proto \<Rightarrow> NatType" where
  "NatType_from NatNone = DNone"
| "NatType_from NatCone = DCone"
| "NatType_from NatSymmetricSequential = DSymmetricSequential"
| "NatType_from NatSymmetricPseudo = DSymmetricPseudo"
| "NatType_from NatSymmetricRandom = DSymmetricRandom"

fun NatType_into :: "NatType \<Rightarrow> NatType_proto" where
  "NatType_into DNone = NatNone"
| "NatType_into DCone = NatCone"
| "NatType_into DSymmetricSequential = NatSymmetricSequential"
| "NatType_into DSymmetricPseudo = NatSymmetricPseudo"
| "NatType_into DSymmetricRandom = NatSymmetricRandom"

datatype DhtConfidence = DSequential | DPseudoSequential | DRandom

fun DhtConfidence_from :: "PredictionConfidence_proto \<Rightarrow> DhtConfidence" where
  "DhtConfidence_from PSequential = DSequential"
| "DhtConfidence_from PPseudoSequential = DPseudoSequential"
| "DhtConfidence_from PRandom = DRandom"

fun DhtConfidence_into :: "DhtConfidence \<Rightarrow> PredictionConfidence_proto" where
  "DhtConfidence_into DSequential = PSequential"
| "DhtConfidence_into DPseudoSequential = PPseudoSequential"
| "DhtConfidence_into DRandom = PRandom"

datatype DhtMediaType = DAudio | DVideo | DScreen

fun DhtMediaType_from :: "MediaType_proto \<Rightarrow> DhtMediaType" where
  "DhtMediaType_from MediaAudio = DAudio"
| "DhtMediaType_from MediaVideo = DVideo"
| "DhtMediaType_from MediaScreen = DScreen"

fun DhtMediaType_into :: "DhtMediaType \<Rightarrow> MediaType_proto" where
  "DhtMediaType_into DAudio = MediaAudio"
| "DhtMediaType_into DVideo = MediaVideo"
| "DhtMediaType_into DScreen = MediaScreen"

datatype DhtPeerStatus = DOnline | DOffline | DInCall

fun DhtPeerStatus_from :: "PeerStatus_proto \<Rightarrow> DhtPeerStatus" where
  "DhtPeerStatus_from PeerStatus_proto.PeerOnline = DOnline"
| "DhtPeerStatus_from PeerStatus_proto.PeerOffline = DOffline"
| "DhtPeerStatus_from PeerStatus_proto.PeerInCall = DInCall"

fun DhtPeerStatus_into :: "DhtPeerStatus \<Rightarrow> PeerStatus_proto" where
  "DhtPeerStatus_into DOnline = PeerStatus_proto.PeerOnline"
| "DhtPeerStatus_into DOffline = PeerStatus_proto.PeerOffline"
| "DhtPeerStatus_into DInCall = PeerStatus_proto.PeerInCall"

text \<open>\<open>try_from(v).map(..).unwrap_or(default)\<close>\<close>

definition from_i32_or :: "(i32 \<Rightarrow> 'p option) \<Rightarrow> ('p \<Rightarrow> 'n) \<Rightarrow> 'n \<Rightarrow> i32 \<Rightarrow> 'n" where
  "from_i32_or try_from into d v = (case try_from v of Some p \<Rightarrow> into p | None \<Rightarrow> d)"

section \<open>Records\<close>

record PortPrediction =
  pp_external_ip :: string
  pp_predicted_port_start :: u32
  pp_predicted_port_end :: u32
  pp_confidence :: DhtConfidence
  pp_base_port :: u32
  pp_delta_pattern :: i32
  pp_probed_at :: u64

definition PortPrediction_to_proto :: "PortPrediction \<Rightarrow> PortPrediction_proto" where
  "PortPrediction_to_proto p =
     \<lparr>p_external_ip = pp_external_ip p, p_predicted_port_start = pp_predicted_port_start p,
      p_predicted_port_end = pp_predicted_port_end p,
      p_confidence = PredictionConfidence_as_i32 (DhtConfidence_into (pp_confidence p)),
      p_base_port = pp_base_port p, p_delta_pattern = pp_delta_pattern p, p_probed_at = pp_probed_at p,
      p_probe_method = ProbeMethod_as_i32 PQuicPathProbing\<rparr>"

definition PortPrediction_from_proto :: "PortPrediction_proto \<Rightarrow> PortPrediction" where
  "PortPrediction_from_proto p =
     \<lparr>pp_external_ip = p_external_ip p, pp_predicted_port_start = p_predicted_port_start p,
      pp_predicted_port_end = p_predicted_port_end p,
      pp_confidence = from_i32_or PredictionConfidence_try_from DhtConfidence_from DRandom (p_confidence p),
      pp_base_port = p_base_port p, pp_delta_pattern = p_delta_pattern p, pp_probed_at = p_probed_at p\<rparr>"

record NatInfo =
  ni_nat_type :: NatType
  ni_prediction :: "PortPrediction option"

definition NatInfo_to_proto :: "NatInfo \<Rightarrow> NatInfo_proto" where
  "NatInfo_to_proto n =
     \<lparr>p_nat_type = NatType_as_i32 (NatType_into (ni_nat_type n)),
      p_prediction = map_option PortPrediction_to_proto (ni_prediction n)\<rparr>"

definition NatInfo_from_proto :: "NatInfo_proto \<Rightarrow> NatInfo" where
  "NatInfo_from_proto p =
     \<lparr>ni_nat_type = from_i32_or NatType_try_from NatType_from DNone (p_nat_type p),
      ni_prediction = map_option PortPrediction_from_proto (p_prediction p)\<rparr>"

record TrackAnnouncement =
  ta_track_namespace :: string
  ta_codec :: string
  ta_priority :: u32
  ta_media_type :: DhtMediaType
  ta_bitrate_max :: u32
  ta_bitrate_min :: u32
  ta_frame_duration_ms :: u32

definition TrackAnnouncement_to_proto :: "TrackAnnouncement \<Rightarrow> TrackAnnouncement_proto" where
  "TrackAnnouncement_to_proto t =
     \<lparr>p_track_namespace = ta_track_namespace t, p_codec = ta_codec t, p_priority = ta_priority t,
      p_media_type = MediaType_as_i32 (DhtMediaType_into (ta_media_type t)),
      p_bitrate_max = ta_bitrate_max t, p_bitrate_min = ta_bitrate_min t,
      p_frame_duration_ms = ta_frame_duration_ms t\<rparr>"

definition TrackAnnouncement_from_proto :: "TrackAnnouncement_proto \<Rightarrow> TrackAnnouncement" where
  "TrackAnnouncement_from_proto p =
     \<lparr>ta_track_namespace = p_track_namespace p, ta_codec = p_codec p, ta_priority = p_priority p,
      ta_media_type = from_i32_or MediaType_try_from DhtMediaType_from DAudio (p_media_type p),
      ta_bitrate_max = p_bitrate_max p, ta_bitrate_min = p_bitrate_min p,
      ta_frame_duration_ms = p_frame_duration_ms p\<rparr>"

record PeerRecord =
  r_peer_id :: string
  r_display_name :: string
  r_ipv6_addresses :: "string list"
  r_ipv4_reflexive :: "string list"
  r_nat_info :: "NatInfo option"
  r_tracks :: "TrackAnnouncement list"
  r_status :: DhtPeerStatus
  r_timestamp :: u64
  r_ttl_seconds :: u32
  r_signature :: bytes

record PeerRecord_proto =
  p_peer_id :: string
  p_display_name :: string
  p_ipv6_addresses :: "string list"
  p_ipv4_reflexive :: "string list"
  p_nat_info :: "NatInfo_proto option"
  p_tracks :: "TrackAnnouncement_proto list"
  p_status :: i32
  p_timestamp :: u64
  p_ttl_seconds :: u32
  p_signature :: bytes

record UsernameRecord =
  ur_username :: string
  ur_peer_id :: string
  ur_signature :: bytes

record DhtProxyRecord =
  dp_node_id :: string
  dp_proxy_url :: string
  dp_capacity :: u32
  dp_region :: string
  dp_latency_hint_ms :: u32
  dp_timestamp :: u64
  dp_ttl_seconds :: u32
  dp_cert_fingerprint :: string
  dp_signature :: bytes

record dht_codec =
  enc_PeerRecord :: "PeerRecord_proto \<Rightarrow> bytes io"
  dec_PeerRecord :: "bytes \<Rightarrow> PeerRecord_proto io"
  enc_ProxyRecord :: "ProxyRecord \<Rightarrow> bytes io"
  dec_ProxyRecord :: "bytes \<Rightarrow> ProxyRecord io"
  enc_UsernameRecord :: "UsernameRecord \<Rightarrow> bytes io"
  dec_UsernameRecord :: "bytes \<Rightarrow> UsernameRecord io"

text \<open>\<open>map_err(|e| DhtError::Serialization(e.to_string()))\<close>\<close>

definition serialized :: "'a io \<Rightarrow> ('a, DhtError) result" where
  "serialized r = (case r of IoOk x \<Rightarrow> Ok x | IoErr e \<Rightarrow> Err (Serialization e))"

section \<open>Peer records\<close>

definition PeerRecord_new_unsigned ::
  "u64 \<Rightarrow> string \<Rightarrow> string \<Rightarrow> string list \<Rightarrow> string list \<Rightarrow> NatInfo option \<Rightarrow> TrackAnnouncement list
     \<Rightarrow> DhtPeerStatus \<Rightarrow> u32 \<Rightarrow> PeerRecord" where
  "PeerRecord_new_unsigned now peer_id display_name ipv6 ipv4 nat_info tracks status ttl =
     \<lparr>r_peer_id = peer_id, r_display_name = display_name, r_ipv6_addresses = ipv6, r_ipv4_reflexive = ipv4,
      r_nat_info = nat_info, r_tracks = tracks, r_status = status, r_timestamp = now, r_ttl_seconds = ttl,
      r_signature = []\<rparr>"

definition PeerRecord_to_proto_with_empty_sig :: "PeerRecord \<Rightarrow> PeerRecord_proto" where
  "PeerRecord_to_proto_with_empty_sig r =
     \<lparr>p_peer_id = r_peer_id r, p_display_name = r_display_name r, p_ipv6_addresses = r_ipv6_addresses r,
      p_ipv4_reflexive = r_ipv4_reflexive r, p_nat_info = map_option NatInfo_to_proto (r_nat_info r),
      p_tracks = map TrackAnnouncement_to_proto (r_tracks r),
      p_status = PeerStatus_as_i32 (DhtPeerStatus_into (r_status r)), p_timestamp = r_timestamp r,
      p_ttl_seconds = r_ttl_seconds r, p_signature = []\<rparr>"

definition PeerRecord_to_proto :: "PeerRecord \<Rightarrow> PeerRecord_proto" where
  "PeerRecord_to_proto r = (PeerRecord_to_proto_with_empty_sig r)\<lparr>p_signature := r_signature r\<rparr>"

definition PeerRecord_from_proto :: "PeerRecord_proto \<Rightarrow> PeerRecord" where
  "PeerRecord_from_proto p =
     \<lparr>r_peer_id = p_peer_id p, r_display_name = p_display_name p, r_ipv6_addresses = p_ipv6_addresses p,
      r_ipv4_reflexive = p_ipv4_reflexive p, r_nat_info = map_option NatInfo_from_proto (p_nat_info p),
      r_tracks = map TrackAnnouncement_from_proto (p_tracks p),
      r_status = from_i32_or PeerStatus_try_from DhtPeerStatus_from DOffline (p_status p),
      r_timestamp = p_timestamp p, r_ttl_seconds = p_ttl_seconds p, r_signature = p_signature p\<rparr>"

definition PeerRecord_signing_input :: "dht_codec \<Rightarrow> PeerRecord \<Rightarrow> (bytes, DhtError) result" where
  "PeerRecord_signing_input cd r = serialized (enc_PeerRecord cd (PeerRecord_to_proto_with_empty_sig r))"

definition PeerRecord_sign ::
  "dht_codec \<Rightarrow> (bytes \<Rightarrow> bytes) \<Rightarrow> PeerRecord \<Rightarrow> (PeerRecord, DhtError) result" where
  "PeerRecord_sign cd ed_sign r =
     res_bind (PeerRecord_signing_input cd r) (\<lambda>message. Ok (r\<lparr>r_signature := ed_sign message\<rparr>))"

definition PeerRecord_verify ::
  "dht_codec \<Rightarrow> (bytes \<Rightarrow> unit io) \<Rightarrow> ('vk \<Rightarrow> bytes \<Rightarrow> bytes \<Rightarrow> bool) \<Rightarrow> 'vk \<Rightarrow> PeerRecord \<Rightarrow> (unit, DhtError) result" where
  "PeerRecord_verify cd sig_parse ed_verify vk r =
     (if r_signature r = [] then Err (invalid_signature (r_peer_id r))
      else res_bind (PeerRecord_signing_input cd r) (\<lambda>message.
        case sig_parse (r_signature r) of
          IoErr e \<Rightarrow> Err (InvalidSignatureLegacy (''PeerRecord: '' @ e))
        | IoOk _ \<Rightarrow> if ed_verify vk message (r_signature r) then Ok ()
                    else Err (invalid_signature (r_peer_id r))))"

definition PeerRecord_is_expired :: "bool \<Rightarrow> u64 \<Rightarrow> PeerRecord \<Rightarrow> (bool, DhtError) result" where
  "PeerRecord_is_expired oc now r =
     res_map (\<lambda>expiry. expiry < now) (checked_add oc (r_timestamp r) (ucast (r_ttl_seconds r)))"

definition PeerRecord_encode :: "dht_codec \<Rightarrow> PeerRecord \<Rightarrow> (bytes, DhtError) result" where
  "PeerRecord_encode cd r = serialized (enc_PeerRecord cd (PeerRecord_to_proto r))"

definition PeerRecord_decode :: "dht_codec \<Rightarrow> bytes \<Rightarrow> (PeerRecord, DhtError) result" where
  "PeerRecord_decode cd bs = res_map PeerRecord_from_proto (serialized (dec_PeerRecord cd bs))"

text \<open>The free-standing functions on the wire messages.\<close>

definition sign_peer_record ::
  "dht_codec \<Rightarrow> (bytes \<Rightarrow> bytes) \<Rightarrow> PeerRecord_proto \<Rightarrow> PeerRecord_proto \<times> (unit, DhtError) result" where
  "sign_peer_record cd ed_sign p =
     (let p = p\<lparr>p_signature := []\<rparr> in
      case serialized (enc_PeerRecord cd p) of
        Ok buf \<Rightarrow> (p\<lparr>p_signature := ed_sign buf\<rparr>, Ok ())
      | Err e \<Rightarrow> (p, Err e)
      | Panic \<Rightarrow> (p, Panic))"

definition verify_peer_record ::
  "dht_codec \<Rightarrow> (bytes \<Rightarrow> unit io) \<Rightarrow> ('vk \<Rightarrow> bytes \<Rightarrow> bytes \<Rightarrow> bool) \<Rightarrow> 'vk \<Rightarrow> PeerRecord_proto
     \<Rightarrow> (bool, DhtError) result" where
  "verify_peer_record cd sig_parse ed_verify vk p =
     (if p_signature p = [] then Err (invalid_signature (p_peer_id p))
      else res_bind (serialized (enc_PeerRecord cd (p\<lparr>p_signature := []\<rparr>))) (\<lambda>buf.
        case sig_parse (p_signature p) of
          IoErr e \<Rightarrow> Err (InvalidSignatureLegacy (''PeerRecord: '' @ e))
        | IoOk _ \<Rightarrow> Ok (ed_verify vk buf (p_signature p))))"

section \<open>Proxy records\<close>

definition DhtProxyRecord_new_unsigned ::
  "u64 \<Rightarrow> string \<Rightarrow> string \<Rightarrow> u32 \<Rightarrow> string \<Rightarrow> u32 \<Rightarrow> u32 \<Rightarrow> string \<Rightarrow> DhtProxyRecord" where
  "DhtProxyRecord_new_unsigned now node_id proxy_url capacity region latency ttl fingerprint =
     \<lparr>dp_node_id = node_id, dp_proxy_url = proxy_url, dp_capacity = capacity, dp_region = region,
      dp_latency_hint_ms = latency, dp_timestamp = now, dp_ttl_seconds = ttl,
      dp_cert_fingerprint = fingerprint, dp_signature = []\<rparr>"

definition DhtProxyRecord_to_proto_with_empty_sig :: "DhtProxyRecord \<Rightarrow> ProxyRecord" where
  "DhtProxyRecord_to_proto_with_empty_sig r =
     \<lparr>pr_node_id = dp_node_id r, pr_proxy_url = dp_proxy_url r, pr_capacity = dp_capacity r,
      pr_region = dp_region r, pr_latency_hint_ms = dp_latency_hint_ms r, pr_timestamp = dp_timestamp r,
      pr_ttl_seconds = dp_ttl_seconds r, pr_cert_fingerprint = dp_cert_fingerprint r, pr_signature = []\<rparr>"

definition DhtProxyRecord_to_proto :: "DhtProxyRecord \<Rightarrow> ProxyRecord" where
  "DhtProxyRecord_to_proto r = (DhtProxyRecord_to_proto_with_empty_sig r)\<lparr>pr_signature := dp_signature r\<rparr>"

definition DhtProxyRecord_from_proto :: "ProxyRecord \<Rightarrow> DhtProxyRecord" where
  "DhtProxyRecord_from_proto p =
     \<lparr>dp_node_id = pr_node_id p, dp_proxy_url = pr_proxy_url p, dp_capacity = pr_capacity p,
      dp_region = pr_region p, dp_latency_hint_ms = pr_latency_hint_ms p, dp_timestamp = pr_timestamp p,
      dp_ttl_seconds = pr_ttl_seconds p, dp_cert_fingerprint = pr_cert_fingerprint p,
      dp_signature = pr_signature p\<rparr>"

definition DhtProxyRecord_signing_input :: "dht_codec \<Rightarrow> DhtProxyRecord \<Rightarrow> (bytes, DhtError) result" where
  "DhtProxyRecord_signing_input cd r = serialized (enc_ProxyRecord cd (DhtProxyRecord_to_proto_with_empty_sig r))"

definition DhtProxyRecord_sign ::
  "dht_codec \<Rightarrow> (bytes \<Rightarrow> bytes) \<Rightarrow> DhtProxyRecord \<Rightarrow> (DhtProxyRecord, DhtError) result" where
  "DhtProxyRecord_sign cd ed_sign r =
     res_bind (DhtProxyRecord_signing_input cd r) (\<lambda>message. Ok (r\<lparr>dp_signature := ed_sign message\<rparr>))"

definition DhtProxyRecord_verify ::
  "dht_codec \<Rightarrow> (bytes \<Rightarrow> unit io) \<Rightarrow> ('vk \<Rightarrow> bytes \<Rightarrow> bytes \<Rightarrow> bool) \<Rightarrow> 'vk \<Rightarrow> DhtProxyRecord
     \<Rightarrow> (unit, DhtError) result" where
  "DhtProxyRecord_verify cd sig_parse ed_verify vk r =
     (if dp_signature r = [] then Err (invalid_signature ''ProxyRecord'')
      else res_bind (DhtProxyRecord_signing_input cd r) (\<lambda>message.
        case sig_parse (dp_signature r) of
          IoErr e \<Rightarrow> Err (InvalidSignatureLegacy (''ProxyRecord: '' @ e))
        | IoOk _ \<Rightarrow> if ed_verify vk message (dp_signature r) then Ok ()
                    else Err (invalid_signature ''ProxyRecord'')))"

definition DhtProxyRecord_is_expired :: "bool \<Rightarrow> u64 \<Rightarrow> DhtProxyRecord \<Rightarrow> (bool, DhtError) result" where
  "DhtProxyRecord_is_expired oc now r =
     res_map (\<lambda>expiry. expiry < now) (checked_add oc (dp_timestamp r) (ucast (dp_ttl_seconds r)))"

definition DhtProxyRecord_encode :: "dht_codec \<Rightarrow> DhtProxyRecord \<Rightarrow> (bytes, DhtError) result" where
  "DhtProxyRecord_encode cd r = serialized (enc_ProxyRecord cd (DhtProxyRecord_to_proto r))"

definition DhtProxyRecord_decode :: "dht_codec \<Rightarrow> bytes \<Rightarrow> (DhtProxyRecord, DhtError) result" where
  "DhtProxyRecord_decode cd bs = res_map DhtProxyRecord_from_proto (serialized (dec_ProxyRecord cd bs))"

definition sign_proxy_record ::
  "dht_codec \<Rightarrow> (bytes \<Rightarrow> bytes) \<Rightarrow> ProxyRecord \<Rightarrow> ProxyRecord \<times> (unit, DhtError) result" where
  "sign_proxy_record cd ed_sign p =
     (let p = p\<lparr>pr_signature := []\<rparr> in
      case serialized (enc_ProxyRecord cd p) of
        Ok buf \<Rightarrow> (p\<lparr>pr_signature := ed_sign buf\<rparr>, Ok ())
      | Err e \<Rightarrow> (p, Err e)
      | Panic \<Rightarrow> (p, Panic))"

definition verify_proxy_record ::
  "dht_codec \<Rightarrow> (bytes \<Rightarrow> unit io) \<Rightarrow> ('vk \<Rightarrow> bytes \<Rightarrow> bytes \<Rightarrow> bool) \<Rightarrow> 'vk \<Rightarrow> ProxyRecord
     \<Rightarrow> (bool, DhtError) result" where
  "verify_proxy_record cd sig_parse ed_verify vk p =
     (if pr_signature p = [] then Err (invalid_signature (pr_node_id p))
      else res_bind (serialized (enc_ProxyRecord cd (p\<lparr>pr_signature := []\<rparr>))) (\<lambda>buf.
        case sig_parse (pr_signature p) of
          IoErr e \<Rightarrow> Err (InvalidSignatureLegacy (''ProxyRecord: '' @ e))
        | IoOk _ \<Rightarrow> Ok (ed_verify vk buf (pr_signature p))))"

section \<open>Username records\<close>

definition username_signing_input :: "string \<Rightarrow> string \<Rightarrow> bytes" where
  "username_signing_input username peer_id = str_bytes (username @ '':'' @ peer_id)"

definition UsernameRecord_new_unsigned :: "string \<Rightarrow> string \<Rightarrow> UsernameRecord" where
  "UsernameRecord_new_unsigned username peer_id =
     \<lparr>ur_username = username, ur_peer_id = peer_id, ur_signature = []\<rparr>"

definition sign_username_record :: "(bytes \<Rightarrow> bytes) \<Rightarrow> UsernameRecord \<Rightarrow> UsernameRecord" where
  "sign_username_record ed_sign r =
     r\<lparr>ur_signature := ed_sign (username_signing_input (ur_username r) (ur_peer_id r))\<rparr>"

definition verify_username_record ::
  "(bytes \<Rightarrow> unit io) \<Rightarrow> ('vk \<Rightarrow> bytes \<Rightarrow> bytes \<Rightarrow> bool) \<Rightarrow> 'vk \<Rightarrow> UsernameRecord \<Rightarrow> (bool, DhtError) result" where
  "verify_username_record sig_parse ed_verify vk r =
     (if ur_signature r = [] then Err (invalid_signature ''UsernameRecord'')
      else case sig_parse (ur_signature r) of
             IoErr e \<Rightarrow> Err (InvalidSignatureLegacy (''UsernameRecord: '' @ e))
           | IoOk _ \<Rightarrow>
               Ok (ed_verify vk (username_signing_input (ur_username r) (ur_peer_id r)) (ur_signature r)))"

definition UsernameRecord_sign :: "(bytes \<Rightarrow> bytes) \<Rightarrow> UsernameRecord \<Rightarrow> (UsernameRecord, DhtError) result" where
  "UsernameRecord_sign ed_sign r =
     Ok (r\<lparr>ur_signature := ed_sign (str_bytes (ur_username r @ '':'' @ ur_peer_id r))\<rparr>)"

definition UsernameRecord_verify ::
  "(bytes \<Rightarrow> unit io) \<Rightarrow> ('vk \<Rightarrow> bytes \<Rightarrow> bytes \<Rightarrow> bool) \<Rightarrow> 'vk \<Rightarrow> UsernameRecord \<Rightarrow> (unit, DhtError) result" where
  "UsernameRecord_verify sig_parse ed_verify vk r =
     (if ur_signature r = [] then Err (invalid_signature ''UsernameRecord'')
      else case sig_parse (ur_signature r) of
             IoErr e \<Rightarrow> Err (InvalidSignatureLegacy (''UsernameRecord: '' @ e))
           | IoOk _ \<Rightarrow>
               if ed_verify vk (str_bytes (ur_username r @ '':'' @ ur_peer_id r)) (ur_signature r) then Ok ()
               else Err (invalid_signature ''UsernameRecord''))"

definition UsernameRecord_encode :: "dht_codec \<Rightarrow> UsernameRecord \<Rightarrow> (bytes, DhtError) result" where
  "UsernameRecord_encode cd r = serialized (enc_UsernameRecord cd r)"

definition UsernameRecord_decode :: "dht_codec \<Rightarrow> bytes \<Rightarrow> (UsernameRecord, DhtError) result" where
  "UsernameRecord_decode cd bs = serialized (dec_UsernameRecord cd bs)"

section \<open>Facts about the conversions\<close>

interpretation dht_nat_type:
  proto_enum NatType_try_from NatType_as_i32 NatType_from NatType_into
proof (unfold_locales, goal_cases)
  case (4 n) then show ?case by (cases n) simp_all
next
  case (5 p) then show ?case by (cases p) simp_all
qed (fact nat_type_enum.try_as nat_type_enum.as_try nat_type_enum.zero_known)+

interpretation dht_confidence:
  proto_enum PredictionConfidence_try_from PredictionConfidence_as_i32 DhtConfidence_from DhtConfidence_into
proof (unfold_locales, goal_cases)
  case (4 n) then show ?case by (cases n) simp_all
next
  case (5 p) then show ?case by (cases p) simp_all
qed (fact confidence_enum.try_as confidence_enum.as_try confidence_enum.zero_known)+

interpretation dht_media_type:
  proto_enum MediaType_try_from MediaType_as_i32 DhtMediaType_from DhtMediaType_into
proof (unfold_locales, goal_cases)
  case (4 n) then show ?case by (cases n) simp_all
next
  case (5 p) then show ?case by (cases p) simp_all
qed (fact media_type_enum.try_as media_type_enum.as_try media_type_enum.zero_known)+

interpretation dht_peer_status:
  proto_enum PeerStatus_try_from PeerStatus_as_i32 DhtPeerStatus_from DhtPeerStatus_into
proof (unfold_locales, goal_cases)
  case (4 n) then show ?case by (cases n) simp_all
next
  case (5 p) then show ?case by (cases p) simp_all
qed (fact peer_status_enum.try_as peer_status_enum.as_try peer_status_enum.zero_known)+

text \<open>An unknown wire value is a known one for the core crate, and with another meaning: the core
  crate reads an unknown confidence as sequential and an unknown status as online.\<close>

lemma unknown_defaults_differ:
  "from_i32_or PredictionConfidence_try_from DhtConfidence_from DRandom 7 = DRandom"
  "i32_to_native_enum PredictionConfidence_try_from PredictionConfidence_from_proto 7 = Ok Sequential"
  "from_i32_or PeerStatus_try_from DhtPeerStatus_from DOffline 7 = DOffline"
  "i32_to_native_enum PeerStatus_try_from PeerStatus_from_proto 7 = Ok Online"
  by (simp_all add: from_i32_or_def i32_to_native_enum_def PredictionConfidence_try_from_def PeerStatus_try_from_def)

lemmas enum_round_trips =
  dht_nat_type.try_as dht_nat_type.into_from dht_confidence.try_as dht_confidence.into_from
  dht_media_type.try_as dht_media_type.into_from dht_peer_status.try_as dht_peer_status.into_from

lemma PortPrediction_round_trip: "PortPrediction_from_proto (PortPrediction_to_proto p) = p"
  by (simp add: PortPrediction_from_proto_def PortPrediction_to_proto_def from_i32_or_def enum_round_trips)

lemma NatInfo_round_trip: "NatInfo_from_proto (NatInfo_to_proto n) = n"
  by (simp add: NatInfo_from_proto_def NatInfo_to_proto_def from_i32_or_def enum_round_trips
      option.map_comp comp_def PortPrediction_round_trip option.map_ident)

lemma TrackAnnouncement_round_trip: "TrackAnnouncement_from_proto (TrackAnnouncement_to_proto t) = t"
  by (simp add: TrackAnnouncement_from_proto_def TrackAnnouncement_to_proto_def from_i32_or_def enum_round_trips)

lemma PeerRecord_empty_round_trip:
  "PeerRecord_from_proto (PeerRecord_to_proto_with_empty_sig r) = r\<lparr>r_signature := []\<rparr>"
  by (simp add: PeerRecord_from_proto_def PeerRecord_to_proto_with_empty_sig_def from_i32_or_def
      enum_round_trips option.map_comp comp_def NatInfo_round_trip TrackAnnouncement_round_trip option.map_ident)

lemma PeerRecord_round_trip: "PeerRecord_from_proto (PeerRecord_to_proto r) = r"
proof -
  have "PeerRecord_from_proto (p\<lparr>p_signature := s\<rparr>) = (PeerRecord_from_proto p)\<lparr>r_signature := s\<rparr>" for p s
    by (simp add: PeerRecord_from_proto_def)
  then show ?thesis by (simp add: PeerRecord_to_proto_def PeerRecord_empty_round_trip)
qed

lemma DhtProxyRecord_round_trip: "DhtProxyRecord_from_proto (DhtProxyRecord_to_proto r) = r"
  by (simp add: DhtProxyRecord_from_proto_def DhtProxyRecord_to_proto_def
      DhtProxyRecord_to_proto_with_empty_sig_def)

text \<open>What the code relies on from the generated protobuf code and from the signature library.\<close>

definition codec_faithful :: "('m \<Rightarrow> bytes io) \<Rightarrow> (bytes \<Rightarrow> 'm io) \<Rightarrow> 'm set \<Rightarrow> bool" where
  "codec_faithful enc dec M \<longleftrightarrow> (\<forall>m \<in> M. \<exists>bs. enc m = IoOk bs \<and> dec bs = IoOk m)"

definition wire_forms :: "PeerRecord set \<Rightarrow> PeerRecord_proto set" where
  "wire_forms R = (\<Union>r \<in> R. range (\<lambda>s. PeerRecord_to_proto (r\<lparr>r_signature := s\<rparr>)))"

definition signatures_work ::
  "(bytes \<Rightarrow> bytes) \<Rightarrow> (bytes \<Rightarrow> unit io) \<Rightarrow> ('vk \<Rightarrow> bytes \<Rightarrow> bytes \<Rightarrow> bool) \<Rightarrow> 'vk \<Rightarrow> bool" where
  "signatures_work ed_sign sig_parse ed_verify vk \<longleftrightarrow>
     (\<forall>m. ed_sign m \<noteq> [] \<and> sig_parse (ed_sign m) = IoOk () \<and> ed_verify vk m (ed_sign m))"

lemma codec_faithful_inj:
  assumes "codec_faithful enc dec M" and "m \<in> M" and "m' \<in> M" and "enc m = IoOk bs" and "enc m' = IoOk bs"
  shows "m = m'"
proof -
  obtain x y where "enc m = IoOk x" "dec x = IoOk m" "enc m' = IoOk y" "dec y = IoOk m'"
    using assms(1-3) unfolding codec_faithful_def by blast
  with assms(4,5) show ?thesis by simp
qed

lemma wire_forms_mem:
  assumes "r \<in> R"
  shows "PeerRecord_to_proto (r\<lparr>r_signature := s\<rparr>) \<in> wire_forms R"
    and "PeerRecord_to_proto_with_empty_sig r \<in> wire_forms R"
proof -
  show *: "PeerRecord_to_proto (r\<lparr>r_signature := s\<rparr>) \<in> wire_forms R" for s
    using assms by (auto simp: wire_forms_def)
  have "PeerRecord_to_proto_with_empty_sig r = PeerRecord_to_proto (r\<lparr>r_signature := []\<rparr>)"
    by (simp add: PeerRecord_to_proto_def PeerRecord_to_proto_with_empty_sig_def)
  with * show "PeerRecord_to_proto_with_empty_sig r \<in> wire_forms R" by simp
qed

lemma decode_encode_record:
  assumes "codec_faithful (enc_PeerRecord cd) (dec_PeerRecord cd) M" and "PeerRecord_to_proto r \<in> M"
  shows "\<exists>bs. PeerRecord_encode cd r = Ok bs \<and> PeerRecord_decode cd bs = Ok r"
proof -
  obtain bs where "enc_PeerRecord cd (PeerRecord_to_proto r) = IoOk bs"
    "dec_PeerRecord cd bs = IoOk (PeerRecord_to_proto r)"
    using assms unfolding codec_faithful_def by blast
  then show ?thesis
    by (simp add: PeerRecord_encode_def PeerRecord_decode_def serialized_def PeerRecord_round_trip)
qed

lemma PeerRecord_verifies_iff:
  "PeerRecord_verify cd sig_parse ed_verify vk r = Ok () \<longleftrightarrow> r_signature r \<noteq> []
     \<and> sig_parse (r_signature r) = IoOk () \<and> (\<exists>m. PeerRecord_signing_input cd r = Ok m \<and> ed_verify vk m (r_signature r))"
  by (auto simp: PeerRecord_verify_def res_bind_eq_Ok_iff split: io.splits if_splits)

lemma signing_input_ignores_signature:
  "PeerRecord_signing_input cd (r\<lparr>r_signature := s\<rparr>) = PeerRecord_signing_input cd r"
  by (simp add: PeerRecord_signing_input_def PeerRecord_to_proto_with_empty_sig_def)

lemma signing_input_determines:
  assumes "codec_faithful (enc_PeerRecord cd) (dec_PeerRecord cd) (wire_forms R)" and "r \<in> R" and "r' \<in> R"
    and "PeerRecord_signing_input cd r = Ok m" and "PeerRecord_signing_input cd r' = Ok m"
  shows "r' = r\<lparr>r_signature := r_signature r'\<rparr>"
proof -
  have "enc_PeerRecord cd (PeerRecord_to_proto_with_empty_sig r) = IoOk m"
    and "enc_PeerRecord cd (PeerRecord_to_proto_with_empty_sig r') = IoOk m"
    using assms(4,5) by (auto simp: PeerRecord_signing_input_def serialized_def split: io.splits)
  with assms(1) wire_forms_mem(2) [OF assms(2)] wire_forms_mem(2) [OF assms(3)]
  have "PeerRecord_to_proto_with_empty_sig r = PeerRecord_to_proto_with_empty_sig r'"
    by (rule codec_faithful_inj)
  then have "r\<lparr>r_signature := []\<rparr> = r'\<lparr>r_signature := []\<rparr>"
    by (metis PeerRecord_empty_round_trip)
  then show ?thesis
    by (cases r; cases r') simp
qed

section \<open>Properties\<close>

text \<open>C32: signed peer records are tamper-evident.  With a protobuf codec that is faithful on the records
  in question and a working signature scheme, a signed record survives encoding and decoding
  unchanged and verifies; and a record that verifies with a signature made for that record's content
  alone has exactly that content.\<close>

theorem peer_record_authentic:
  assumes "codec_faithful (enc_PeerRecord cd) (dec_PeerRecord cd) (wire_forms R)" and "r \<in> R"
    and "signatures_work ed_sign sig_parse ed_verify vk"
  shows "\<exists>s bs m. PeerRecord_sign cd ed_sign r = Ok s \<and> PeerRecord_signing_input cd r = Ok m
      \<and> PeerRecord_encode cd s = Ok bs \<and> PeerRecord_decode cd bs = Ok s
      \<and> PeerRecord_verify cd sig_parse ed_verify vk s = Ok ()
      \<and> (\<forall>r' \<in> R. PeerRecord_verify cd sig_parse ed_verify vk r' = Ok ()
           \<and> (\<forall>m'. ed_verify vk m' (r_signature r') \<longrightarrow> m' = m) \<longrightarrow>
           r' = r\<lparr>r_signature := r_signature r'\<rparr>)"
proof -
  obtain m where m: "PeerRecord_signing_input cd r = Ok m"
    using assms(1) wire_forms_mem(2) [OF assms(2)]
    unfolding codec_faithful_def PeerRecord_signing_input_def serialized_def by (metis io.case(1))
  define s where "s = r\<lparr>r_signature := ed_sign m\<rparr>"
  have s: "PeerRecord_sign cd ed_sign r = Ok s" "PeerRecord_signing_input cd s = Ok m"
    using m by (simp_all add: PeerRecord_sign_def s_def signing_input_ignores_signature)
  have v: "PeerRecord_verify cd sig_parse ed_verify vk s = Ok ()"
    using assms(3) s(2) by (simp add: PeerRecord_verifies_iff signatures_work_def s_def)
  have t: "r' = r\<lparr>r_signature := r_signature r'\<rparr>"
    if "r' \<in> R" and "PeerRecord_verify cd sig_parse ed_verify vk r' = Ok ()"
      and "\<forall>m'. ed_verify vk m' (r_signature r') \<longrightarrow> m' = m" for r'
    using that signing_input_determines [OF assms(1,2) that(1) m] by (auto simp: PeerRecord_verifies_iff)
  from m s v t decode_encode_record [OF assms(1) wire_forms_mem(1) [OF assms(2)], of "ed_sign m"]
  show ?thesis unfolding s_def by blast
qed

text \<open>A small codec for two records that differ in one field.\<close>

definition named_record :: "string \<Rightarrow> bytes \<Rightarrow> PeerRecord" where
  "named_record name sig = (PeerRecord_new_unsigned 100 ''peer'' name [] [] None [] DOnline 3600)\<lparr>r_signature := sig\<rparr>"

definition name_codec :: dht_codec where
  "name_codec =
     \<lparr>enc_PeerRecord = (\<lambda>p. IoOk ((if p_display_name p = ''alice'' then 1 else 2) # p_signature p)),
      dec_PeerRecord = (\<lambda>bs. case bs of [] \<Rightarrow> IoErr ''empty''
        | b # sig \<Rightarrow> IoOk (PeerRecord_to_proto (named_record (if b = 1 then ''alice'' else ''mallory'') sig))),
      enc_ProxyRecord = (\<lambda>_. IoErr []), dec_ProxyRecord = (\<lambda>_. IoErr []),
      enc_UsernameRecord = (\<lambda>r. IoOk (ur_signature r)),
      dec_UsernameRecord = (\<lambda>bs. IoOk \<lparr>ur_username = ''alice'', ur_peer_id = ''peer'', ur_signature = bs\<rparr>)\<rparr>"

lemma name_codec_faithful:
  "codec_faithful (enc_PeerRecord name_codec) (dec_PeerRecord name_codec)
     (wire_forms {named_record n sig | n sig. n = ''alice'' \<or> n = ''mallory''})"
  unfolding codec_faithful_def wire_forms_def
  by (auto simp: name_codec_def named_record_def PeerRecord_to_proto_def PeerRecord_to_proto_with_empty_sig_def
      PeerRecord_new_unsigned_def)

theorem peer_record_authentic_witness:
  "let sign = (\<lambda>m. (7 :: u8) # m); verify = (\<lambda>vk m s. s = sign m)
   in \<exists>s. PeerRecord_sign name_codec sign (named_record ''alice'' []) = Ok s
     \<and> PeerRecord_verify name_codec (\<lambda>_. IoOk ()) verify () s = Ok ()
     \<and> PeerRecord_verify name_codec (\<lambda>_. IoOk ()) verify () (s\<lparr>r_display_name := ''mallory''\<rparr>) \<noteq> Ok ()"
proof -
  define sign :: "bytes \<Rightarrow> bytes" where "sign = (\<lambda>m. 7 # m)"
  define verify where "verify = (\<lambda>(vk :: unit) m s. s = sign m)"
  let ?R = "{named_record n sig | n sig. n = ''alice'' \<or> n = ''mallory''}"
  have "signatures_work sign (\<lambda>_. IoOk ()) verify ()"
    by (simp add: signatures_work_def sign_def verify_def)
  note a = peer_record_authentic [OF name_codec_faithful _ this, of "named_record ''alice'' []"]
  have "named_record ''alice'' [] \<in> ?R" by blast
  from a [OF this] obtain s m where s: "PeerRecord_sign name_codec sign (named_record ''alice'' []) = Ok s"
    "PeerRecord_signing_input name_codec (named_record ''alice'' []) = Ok m"
    "PeerRecord_verify name_codec (\<lambda>_. IoOk ()) verify () s = Ok ()"
    "\<forall>r' \<in> ?R. PeerRecord_verify name_codec (\<lambda>_. IoOk ()) verify () r' = Ok ()
       \<and> (\<forall>m'. verify () m' (r_signature r') \<longrightarrow> m' = m) \<longrightarrow>
       r' = (named_record ''alice'' [])\<lparr>r_signature := r_signature r'\<rparr>"
    by (elim exE conjE)
  from s(1,2) have e: "s = named_record ''alice'' (sign m)"
    by (simp add: PeerRecord_sign_def named_record_def)
  then have "s\<lparr>r_display_name := ''mallory''\<rparr> = named_record ''mallory'' (sign m)"
    by (simp add: named_record_def PeerRecord_new_unsigned_def)
  moreover have "named_record ''mallory'' (sign m) \<in> ?R" by blast
  moreover have "named_record ''mallory'' (sign m) \<noteq> (named_record ''alice'' [])\<lparr>r_signature := x\<rparr>" for x
    by (simp add: named_record_def PeerRecord_new_unsigned_def)
  moreover have "\<forall>m'. verify () m' (r_signature (named_record ''mallory'' (sign m))) \<longrightarrow> m' = m"
    by (simp add: verify_def sign_def named_record_def)
  ultimately have "PeerRecord_verify name_codec (\<lambda>_. IoOk ()) verify () (s\<lparr>r_display_name := ''mallory''\<rparr>) \<noteq> Ok ()"
    using s(4) [rule_format, of "named_record ''mallory'' (sign m)"] by auto
  with s(1,3) show ?thesis
    unfolding Let_def sign_def [symmetric] verify_def [symmetric] by blast
qed

text \<open>The separator of the username signing input does not make it unambiguous, unless user names
  contain no colon.\<close>

lemma username_input_ambiguous:
  "username_signing_input ''a:b'' ''c'' = username_signing_input ''a'' ''b:c''"
  by (simp add: username_signing_input_def)

lemma username_input_unambiguous:
  assumes "CHR '':'' \<notin> set u" and "CHR '':'' \<notin> set u'"
    and "username_signing_input u p = username_signing_input u' p'"
  shows "u = u' \<and> p = p'"
proof -
  have e: "u @ CHR '':'' # p = u' @ CHR '':'' # p'"
    using assms(3) str_bytes_inj by (fastforce simp: username_signing_input_def)
  have "takeWhile (\<lambda>c. c \<noteq> CHR '':'') (u @ CHR '':'' # p) = u"
    and "takeWhile (\<lambda>c. c \<noteq> CHR '':'') (u' @ CHR '':'' # p') = u'"
    using assms(1,2) by (subst takeWhile_append2; auto)+
  with e show ?thesis by auto
qed

lemma colliding_usernames_verify:
  assumes "signatures_work ed_sign sig_parse ed_verify vk"
  shows "\<exists>s. UsernameRecord_sign ed_sign (UsernameRecord_new_unsigned ''a:b'' ''c'') = Ok s
    \<and> UsernameRecord_verify sig_parse ed_verify vk (s\<lparr>ur_username := ''a'', ur_peer_id := ''b:c''\<rparr>) = Ok ()"
  using assms
  by (simp add: UsernameRecord_sign_def UsernameRecord_verify_def UsernameRecord_new_unsigned_def signatures_work_def)

text \<open>A time stamp near the end of its range makes the expiry check overflow: a panic with overflow
  checks, an expired record without.\<close>

lemma is_expired_overflow:
  assumes "r_timestamp r = - 1" and "r_ttl_seconds r = 3600" and "3599 < now"
  shows "PeerRecord_is_expired True now r = Panic" and "PeerRecord_is_expired False now r = Ok True"
  using assms by (simp_all add: PeerRecord_is_expired_def checked_add_def unsigned_minus_1_eq_mask mask_eq_exp_minus_1)

end
