(* ===== verification/Dht_Node.thy ===== *)
theory Dht_Node
  imports Dht_Record
begin

text \<open>
  The DHT node (\<open>src/crates/voip-dht/src/node.rs\<close>): the event loop that owns the swarm, and the
  operations that talk to it over a channel.

  The Kademlia behaviour of libp2p is an argument: whether it started a query, under which
  identifier, and the events it reports later.  A oneshot sender is a number; the loop's replies
  are the pairs of a sender and what was sent on it.  A sender that is dropped unanswered makes the
  caller see \<open>NotConnected\<close>.
\<close>

section \<open>Commands and events\<close>

text \<open>The components of a multiaddress; only the peer id is looked at.\<close>

datatype Protocol = P2p string | OtherProtocol string

type_synonym Multiaddr = "Protocol list"

datatype DhtCommand =
    PutRecord bytes bytes nat
  | GetRecord bytes nat
  | Bootstrap nat
  | AddBootstrapNode string Multiaddr
  | Shutdown

text \<open>Whether the behaviour started a query; a refusal carries its debug and its display text.\<close>

datatype kad_answer = Started nat | Refused string string

datatype get_record_ok = FoundRecord bytes | FinishedWithNoAdditionalRecord

datatype query_result =
    PutRecordResult "unit io"
  | GetRecordResult "get_record_ok io"
  | BootstrapResult "unit io"
  | OtherResult

datatype swarm_event =
    OutboundQueryProgressed nat query_result
  | NewListenAddr string
  | ConnectionEstablished string
  | ConnectionClosed string
  | OtherEvent

datatype loop_event = Recv DhtCommand kad_answer | RecvNone | SwarmEvent swarm_event

datatype dht_reply = UnitReply "(unit, DhtError) result" | DataReply "(bytes, DhtError) result"

record event_loop_state =
  pending_put :: "(nat \<times> nat) list"
  pending_get :: "(nat \<times> nat) list"
  pending_bootstrap :: "(nat \<times> nat) list"
  running :: bool

definition event_loop_init :: event_loop_state where
  "event_loop_init = \<lparr>pending_put = [], pending_get = [], pending_bootstrap = [], running = True\<rparr>"

section \<open>The event loop\<close>

definition handle_command ::
  "DhtCommand \<Rightarrow> kad_answer \<Rightarrow> event_loop_state \<Rightarrow> event_loop_state \<times> (nat \<times> dht_reply) list" where
  "handle_command cmd answer st =
     (case cmd of
        PutRecord key val respond_to \<Rightarrow>
          (case answer of
             Started query_id \<Rightarrow> (st\<lparr>pending_put := AList.update query_id respond_to (pending_put st)\<rparr>, [])
           | Refused dbg e \<Rightarrow> (st, [(respond_to, UnitReply (Err (StoreFailed dbg e)))]))
      | GetRecord key respond_to \<Rightarrow>
          (case answer of
             Started query_id \<Rightarrow> (st\<lparr>pending_get := AList.update query_id respond_to (pending_get st)\<rparr>, [])
           | Refused dbg e \<Rightarrow> (st, []))
      | Bootstrap respond_to \<Rightarrow>
          (case answer of
             Started query_id \<Rightarrow>
               (st\<lparr>pending_bootstrap := AList.update query_id respond_to (pending_bootstrap st)\<rparr>, [])
           | Refused dbg e \<Rightarrow> (st, [(respond_to, UnitReply (Err (BootstrapFailed [e])))]))
      | AddBootstrapNode peer_id addr \<Rightarrow> (st, [])
      | Shutdown \<Rightarrow> (st\<lparr>running := False\<rparr>, []))"

definition handle_swarm_event ::
  "(nat \<Rightarrow> string) \<Rightarrow> swarm_event \<Rightarrow> event_loop_state \<Rightarrow> event_loop_state \<times> (nat \<times> dht_reply) list" where
  "handle_swarm_event show_id event st =
     (case event of
        OutboundQueryProgressed i res \<Rightarrow>
          (case res of
             PutRecordResult r \<Rightarrow>
               (case map_of (pending_put st) i of
                  None \<Rightarrow> (st, [])
                | Some sender \<Rightarrow>
                    (st\<lparr>pending_put := AList.delete i (pending_put st)\<rparr>,
                     [(sender, UnitReply (case r of IoOk _ \<Rightarrow> Ok () | IoErr e \<Rightarrow> Err (StoreFailed (show_id i) e)))]))
           | GetRecordResult r \<Rightarrow>
               (case map_of (pending_get st) i of
                  None \<Rightarrow> (st, [])
                | Some sender \<Rightarrow>
                    (st\<lparr>pending_get := AList.delete i (pending_get st)\<rparr>,
                     [(sender, DataReply (case r of
                         IoOk (FoundRecord v) \<Rightarrow> Ok v
                       | IoOk FinishedWithNoAdditionalRecord \<Rightarrow> Err (NotFound (show_id i))
                       | IoErr e \<Rightarrow> Err (LookupFailed (show_id i) e)))]))
           | BootstrapResult r \<Rightarrow>
               (case map_of (pending_bootstrap st) i of
                  None \<Rightarrow> (st, [])
                | Some sender \<Rightarrow>
                    (st\<lparr>pending_bootstrap := AList.delete i (pending_bootstrap st)\<rparr>,
                     [(sender, UnitReply (case r of IoOk _ \<Rightarrow> Ok () | IoErr e \<Rightarrow> Err (BootstrapFailed [e])))]))
           | OtherResult \<Rightarrow> (st, []))
      | _ \<Rightarrow> (st, []))"

fun event_loop_turn ::
  "(nat \<Rightarrow> string) \<Rightarrow> loop_event \<Rightarrow> event_loop_state \<Rightarrow> event_loop_state \<times> (nat \<times> dht_reply) list" where
  "event_loop_turn show_id (Recv cmd answer) st = handle_command cmd answer st"
| "event_loop_turn show_id RecvNone st = (st\<lparr>running := False\<rparr>, [])"
| "event_loop_turn show_id (SwarmEvent event) st = handle_swarm_event show_id event st"

fun event_loop ::
  "(nat \<Rightarrow> string) \<Rightarrow> loop_event list \<Rightarrow> event_loop_state \<Rightarrow> event_loop_state \<times> (nat \<times> dht_reply) list" where
  "event_loop show_id [] st = (st, [])"
| "event_loop show_id (ev # evs) st =
     (if \<not> running st then (st, [])
      else let (st, replies) = event_loop_turn show_id ev st;
               (st, more) = event_loop show_id evs st
           in (st, replies @ more))"

section \<open>The operations\<close>

text \<open>Whether the command could be sent, and what came back on the oneshot channel, if anything.\<close>

definition node_call :: "bool \<Rightarrow> ('a, DhtError) result option \<Rightarrow> ('a, DhtError) result" where
  "node_call sent reply =
     (if \<not> sent then Err NotConnected
      else case reply of None \<Rightarrow> Err NotConnected | Some r \<Rightarrow> r)"

text \<open>A DHT as the operations see it: what storing and reading a key answers.\<close>

record 'd dht_network =
  net_put :: "'d \<Rightarrow> bytes \<Rightarrow> bytes \<Rightarrow> 'd \<times> (unit, DhtError) result"
  net_get :: "'d \<Rightarrow> bytes \<Rightarrow> (bytes, DhtError) result"

definition put_peer_record ::
  "'d dht_network \<Rightarrow> (bytes \<Rightarrow> bytes) \<Rightarrow> string \<Rightarrow> bytes \<Rightarrow> 'd \<Rightarrow> 'd \<times> (unit, DhtError) result" where
  "put_peer_record net sha256 peer_id data d = net_put net d (peer_record_key sha256 peer_id) data"

definition get_peer_record ::
  "'d dht_network \<Rightarrow> (bytes \<Rightarrow> bytes) \<Rightarrow> string \<Rightarrow> 'd \<Rightarrow> (bytes, DhtError) result" where
  "get_peer_record net sha256 peer_id d = net_get net d (peer_record_key sha256 peer_id)"

definition put_username_record ::
  "'d dht_network \<Rightarrow> (bytes \<Rightarrow> bytes) \<Rightarrow> string \<Rightarrow> bytes \<Rightarrow> 'd \<Rightarrow> 'd \<times> (unit, DhtError) result" where
  "put_username_record net sha256 username data d = net_put net d (username_record_key sha256 username) data"

definition get_username_record ::
  "'d dht_network \<Rightarrow> (bytes \<Rightarrow> bytes) \<Rightarrow> string \<Rightarrow> 'd \<Rightarrow> (bytes, DhtError) result" where
  "get_username_record net sha256 username d = net_get net d (username_record_key sha256 username)"

definition put_proxy_record ::
  "'d dht_network \<Rightarrow> (bytes \<Rightarrow> bytes) \<Rightarrow> string \<Rightarrow> bytes \<Rightarrow> 'd \<Rightarrow> 'd \<times> (unit, DhtError) result" where
  "put_proxy_record net sha256 node_id data d = net_put net d (proxy_record_key sha256 node_id) data"

definition get_proxy_record ::
  "'d dht_network \<Rightarrow> (bytes \<Rightarrow> bytes) \<Rightarrow> string \<Rightarrow> 'd \<Rightarrow> (bytes, DhtError) result" where
  "get_proxy_record net sha256 node_id d = net_get net d (proxy_record_key sha256 node_id)"

text \<open>One round of the refresh task: every record is stored again as it was given.  A failure to store
  is only logged; a node that has shut down ends the task.\<close>

fun refresh_round :: "'d dht_network \<Rightarrow> (bytes \<times> bytes) list \<Rightarrow> 'd \<Rightarrow> 'd \<times> bool" where
  "refresh_round net [] d = (d, True)"
| "refresh_round net ((key, val) # records) d =
     (let (d, reply) = net_put net d key val in
      if reply = Err NotConnected then (d, False) else refresh_round net records d)"

fun refresh_rounds :: "'d dht_network \<Rightarrow> (bytes \<times> bytes) list \<Rightarrow> nat \<Rightarrow> 'd \<Rightarrow> 'd" where
  "refresh_rounds net records 0 d = d"
| "refresh_rounds net records (Suc n) d =
     (let (d, alive) = refresh_round net records d in
      if alive then refresh_rounds net records n d else d)"

text \<open>The task as it is spawned; a timer cannot have a period of zero.\<close>

definition refresh_task ::
  "'d dht_network \<Rightarrow> (bytes \<times> bytes) list \<Rightarrow> u64 \<Rightarrow> nat \<Rightarrow> 'd \<Rightarrow> ('d, DhtError) result" where
  "refresh_task net records interval_secs ticks d =
     (if interval_secs = 0 then Panic else Ok (refresh_rounds net records ticks d))"

section \<open>Every caller gets one answer\<close>

fun put_senders :: "loop_event \<Rightarrow> nat list" where
  "put_senders (Recv (PutRecord k v s) a) = [s]"
| "put_senders _ = []"

fun get_senders :: "loop_event \<Rightarrow> nat list" where
  "get_senders (Recv (GetRecord k s) a) = [s]"
| "get_senders _ = []"

fun bootstrap_senders :: "loop_event \<Rightarrow> nat list" where
  "bootstrap_senders (Recv (Bootstrap s) a) = [s]"
| "bootstrap_senders _ = []"

definition senders :: "loop_event \<Rightarrow> nat list" where
  "senders ev = put_senders ev @ get_senders ev @ bootstrap_senders ev"

text \<open>Queries are started under fresh identifiers, and reading never refuses.\<close>

fun started_ids :: "loop_event \<Rightarrow> nat list" where
  "started_ids (Recv cmd (Started i)) = [i]"
| "started_ids _ = []"

fun kad_event :: "loop_event \<Rightarrow> bool" where
  "kad_event (Recv (GetRecord k s) (Refused dbg e)) = False"
| "kad_event _ = True"

definition waiting :: "event_loop_state \<Rightarrow> nat list" where
  "waiting st = map snd (pending_put st) @ map snd (pending_get st) @ map snd (pending_bootstrap st)"

definition keys_in :: "nat set \<Rightarrow> (nat \<times> nat) list \<Rightarrow> bool" where
  "keys_in I m \<longleftrightarrow> distinct (map fst m) \<and> fst ` set m \<subseteq> I"

definition ids_known :: "nat set \<Rightarrow> event_loop_state \<Rightarrow> bool" where
  "ids_known I st \<longleftrightarrow> keys_in I (pending_put st) \<and> keys_in I (pending_get st) \<and> keys_in I (pending_bootstrap st)"

lemma keys_in_update:
  assumes "keys_in I m" and "i \<notin> I"
  shows "AList.update i s m = m @ [(i, s)]" and "keys_in (insert i I) (m @ [(i, s)])"
proof -
  have "AList.update i s m = m @ [(i, s)]" if "i \<notin> fst ` set m" for m
    using that by (induction m) auto
  moreover have "i \<notin> fst ` set m" using assms by (auto simp: keys_in_def)
  ultimately show "AList.update i s m = m @ [(i, s)]" by blast
  show "keys_in (insert i I) (m @ [(i, s)])" using assms by (auto simp: keys_in_def)
qed

lemma keys_in_delete:
  assumes "keys_in I m"
  shows "keys_in I (AList.delete i m)"
  using assms unfolding keys_in_def AList.delete_eq
  by (auto simp: distinct_map_filter)

lemma keys_in_mono: "keys_in I m \<Longrightarrow> I \<subseteq> J \<Longrightarrow> keys_in J m"
  by (auto simp: keys_in_def)

lemma delete_found:
  assumes "map_of m i = Some s" and "keys_in I m"
  shows "image_mset snd (mset m) = add_mset s (image_mset snd (mset (AList.delete i m)))"
proof -
  have "distinct (map fst m)" using assms(2) by (simp add: keys_in_def)
  with assms(1) show ?thesis
    by (induction m) (auto simp: delete_idem)
qed

lemma command_accounts:
  assumes "handle_command cmd a st = (st', reps)" and "ids_known I st"
    and "set (started_ids (Recv cmd a)) \<inter> I = {}" and "kad_event (Recv cmd a)"
  shows "mset (waiting st') + mset (map fst reps) = mset (waiting st) + mset (senders (Recv cmd a))
    \<and> ids_known (I \<union> set (started_ids (Recv cmd a))) st'"
proof (cases a)
  case (Started i)
  then have i: "i \<notin> I" using assms(3) by simp
  have k: "keys_in I (pending_put st)" "keys_in I (pending_get st)" "keys_in I (pending_bootstrap st)"
    using assms(2) by (simp_all add: ids_known_def)
  note m = k [THEN keys_in_mono [OF _ subset_insertI]]
  show ?thesis
    using assms(1) Started keys_in_update [OF k(1) i] keys_in_update [OF k(2) i] keys_in_update [OF k(3) i] m
    by (cases cmd) (auto simp: handle_command_def waiting_def senders_def ids_known_def)
next
  case (Refused dbg e)
  then show ?thesis
    using assms by (cases cmd) (auto simp: handle_command_def waiting_def senders_def ids_known_def)
qed

lemma swarm_accounts:
  assumes "handle_swarm_event show_id ev st = (st', reps)" and "ids_known I st"
  shows "mset (waiting st') + mset (map fst reps) = mset (waiting st) \<and> ids_known I st'"
proof (cases "\<exists>i r. ev = OutboundQueryProgressed i r")
  case True
  then obtain i r where ev: "ev = OutboundQueryProgressed i r" by blast
  have k: "keys_in I (pending_put st)" "keys_in I (pending_get st)" "keys_in I (pending_bootstrap st)"
    using assms(2) by (simp_all add: ids_known_def)
  show ?thesis
    using assms k keys_in_delete [OF k(1), of i] keys_in_delete [OF k(2), of i] keys_in_delete [OF k(3), of i]
    by (cases r) (auto simp: ev handle_swarm_event_def waiting_def ids_known_def delete_found [OF _ k(1)]
        delete_found [OF _ k(2)] delete_found [OF _ k(3)] split: option.splits)
next
  case False
  then show ?thesis
    using assms by (cases ev) (auto simp: handle_swarm_event_def)
qed

text \<open>A turn moves senders from the command to the waiting ones, and from there to the replies.\<close>

lemma turn_accounts:
  assumes "event_loop_turn show_id ev st = (st', reps)" and "ids_known I st"
    and "set (started_ids ev) \<inter> I = {}" and "kad_event ev"
  shows "mset (waiting st') + mset (map fst reps) = mset (waiting st) + mset (senders ev)
    \<and> ids_known (I \<union> set (started_ids ev)) st'"
proof (cases ev)
  case (Recv cmd a)
  then show ?thesis using assms command_accounts [of cmd a st st' reps I] by simp
next
  case RecvNone
  then show ?thesis using assms by (auto simp: waiting_def senders_def ids_known_def)
next
  case (SwarmEvent e)
  then show ?thesis using assms swarm_accounts [of show_id e st st' reps I] by (simp add: senders_def)
qed

lemma event_loop_accounts:
  assumes "event_loop show_id evs st = (st', reps)" and "ids_known I st"
    and "set (concat (map started_ids evs)) \<inter> I = {}" and "distinct (concat (map started_ids evs))"
    and "list_all kad_event evs"
  shows "mset (waiting st') + mset (map fst reps) \<subseteq># mset (waiting st) + mset (concat (map senders evs))
    \<and> (running st' \<longrightarrow> mset (waiting st') + mset (map fst reps) = mset (waiting st) + mset (concat (map senders evs)))"
  using assms
proof (induction evs arbitrary: st I reps)
  case Nil
  then show ?case by simp
next
  case (Cons ev evs)
  show ?case
  proof (cases "running st")
    case False
    then show ?thesis using Cons.prems(1) by simp
  next
    case True
    obtain s1 r1 where t: "event_loop_turn show_id ev st = (s1, r1)" by fastforce
    obtain r2 where l: "event_loop show_id evs s1 = (st', r2)" and reps: "reps = r1 @ r2"
      using Cons.prems(1) True t by (auto split: prod.splits)
    have a: "mset (waiting s1) + mset (map fst r1) = mset (waiting st) + mset (senders ev)
        \<and> ids_known (I \<union> set (started_ids ev)) s1"
      using Cons.prems(3,5) by (intro turn_accounts [OF t Cons.prems(2)]) auto
    have "mset (waiting st') + mset (map fst r2) \<subseteq># mset (waiting s1) + mset (concat (map senders evs))
      \<and> (running st' \<longrightarrow> mset (waiting st') + mset (map fst r2) = mset (waiting s1) + mset (concat (map senders evs)))"
      using Cons.prems(3-5) a by (intro Cons.IH [OF l, of "I \<union> set (started_ids ev)"]) auto
    then have "mset (waiting st') + mset (map fst r2) + mset (map fst r1)
        \<subseteq># mset (waiting s1) + mset (map fst r1) + mset (concat (map senders evs))
      \<and> (running st' \<longrightarrow> mset (waiting st') + mset (map fst r2) + mset (map fst r1)
        = mset (waiting s1) + mset (map fst r1) + mset (concat (map senders evs)))"
      by (auto simp: ac_simps)
    with a show ?thesis
      by (simp add: reps ac_simps)
  qed
qed

text \<open>Values go only to those who asked for values.\<close>

definition reply_fits :: "nat set \<Rightarrow> nat set \<Rightarrow> nat \<times> dht_reply \<Rightarrow> bool" where
  "reply_fits U G = (\<lambda>(s, r). case r of UnitReply _ \<Rightarrow> s \<in> U | DataReply _ \<Rightarrow> s \<in> G)"

definition sorted_senders :: "nat set \<Rightarrow> nat set \<Rightarrow> event_loop_state \<Rightarrow> bool" where
  "sorted_senders U G st \<longleftrightarrow> list_all (\<lambda>p. snd p \<in> U) (pending_put st @ pending_bootstrap st)
     \<and> list_all (\<lambda>p. snd p \<in> G) (pending_get st)"

lemma list_all_alist:
  "list_all (\<lambda>p. snd p \<in> S) m \<Longrightarrow> s \<in> S \<Longrightarrow> list_all (\<lambda>p. snd p \<in> S) (AList.update i s m)"
  "list_all (\<lambda>p. snd p \<in> S) m \<Longrightarrow> list_all (\<lambda>p. snd p \<in> S) (AList.delete i m)"
  "list_all (\<lambda>p. snd p \<in> S) m \<Longrightarrow> map_of m i = Some s \<Longrightarrow> s \<in> S"
  by (induction m) (auto split: if_splits)

lemma turn_replies_fit:
  assumes "event_loop_turn show_id ev st = (st', reps)" and "sorted_senders U G st"
    and "set (put_senders ev) \<union> set (bootstrap_senders ev) \<subseteq> U" and "set (get_senders ev) \<subseteq> G"
  shows "sorted_senders U G st' \<and> list_all (reply_fits U G) reps"
proof (cases ev)
  case (Recv cmd a)
  then show ?thesis
    using assms by (cases cmd; cases a)
      (auto simp: handle_command_def sorted_senders_def reply_fits_def list_all_alist(1))
next
  case RecvNone
  then show ?thesis using assms by (auto simp: sorted_senders_def)
next
  case (SwarmEvent e)
  show ?thesis
  proof (cases "\<exists>i r. e = OutboundQueryProgressed i r")
    case True
    then obtain i r where e: "e = OutboundQueryProgressed i r" by blast
    show ?thesis
      using assms by (cases r)
        (auto simp: SwarmEvent e handle_swarm_event_def sorted_senders_def reply_fits_def list_all_alist(2)
          intro: list_all_alist(3) split: option.splits)
  next
    case False
    then show ?thesis using assms by (cases e) (auto simp: SwarmEvent handle_swarm_event_def)
  qed
qed

lemma event_loop_replies_fit:
  assumes "event_loop show_id evs st = (st', reps)" and "sorted_senders U G st"
    and "set (concat (map put_senders evs)) \<union> set (concat (map bootstrap_senders evs)) \<subseteq> U"
    and "set (concat (map get_senders evs)) \<subseteq> G"
  shows "list_all (reply_fits U G) reps"
  using assms
proof (induction evs arbitrary: st reps)
  case Nil
  then show ?case by simp
next
  case (Cons ev evs)
  show ?case
  proof (cases "running st")
    case False
    then show ?thesis using Cons.prems(1) by simp
  next
    case True
    obtain s1 r1 where t: "event_loop_turn show_id ev st = (s1, r1)" by fastforce
    obtain r2 where l: "event_loop show_id evs s1 = (st', r2)" and reps: "reps = r1 @ r2"
      using Cons.prems(1) True t by (auto split: prod.splits)
    have a: "sorted_senders U G s1 \<and> list_all (reply_fits U G) r1"
      using Cons.prems(3,4) by (intro turn_replies_fit [OF t Cons.prems(2)]) auto
    moreover have "list_all (reply_fits U G) r2"
      using a Cons.prems(3,4) by (intro Cons.IH [OF l]) auto
    ultimately show ?thesis by (simp add: reps)
  qed
qed

lemma distinct_submset:
  assumes "mset xs \<subseteq># mset ys" and "distinct ys"
  shows "distinct xs"
  unfolding distinct_count_atmost_1
proof
  fix a
  have "count (mset xs) a \<le> count (mset ys) a" by (rule mset_subset_eq_count [OF assms(1)])
  also have "\<dots> \<le> 1" using assms(2) by (simp add: distinct_count_atmost_1)
  finally have "count (mset xs) a \<le> 1" .
  moreover have "0 < count (mset xs) a" if "a \<in> set xs"
    using that by (simp only: count_greater_zero_iff set_mset_mset)
  moreover have "count (mset xs) a = 0" if "a \<notin> set xs"
    using that by (simp add: count_eq_zero_iff)
  ultimately show "count (mset xs) a = (if a \<in> set xs then 1 else 0)"
    by (cases "a \<in> set xs") (simp_all add: le_antisym Suc_leI)
qed

section \<open>Properties\<close>

text \<open>C9: every caller of the DHT node gets one answer, and its own.  Whatever commands and swarm events
  interleave, as long as queries start under fresh identifiers, no oneshot sender is answered twice,
  values are sent only to callers that asked for a record, and while the loop runs every sender has
  either been answered or is still waiting - none is lost.\<close>

theorem dht_callers_answered:
  assumes "event_loop show_id evs event_loop_init = (st, reps)"
    and "distinct (concat (map senders evs))" and "distinct (concat (map started_ids evs))"
    and "list_all kad_event evs"
  shows "distinct (map fst reps)
    \<and> list_all (reply_fits (set (concat (map put_senders evs)) \<union> set (concat (map bootstrap_senders evs)))
        (set (concat (map get_senders evs)))) reps
    \<and> (running st \<longrightarrow> distinct (map fst reps @ waiting st)
        \<and> set (map fst reps) \<union> set (waiting st) = set (concat (map senders evs)))"
proof (intro conjI impI)
  note a = event_loop_accounts [OF assms(1), of "{}", OF _ _ assms(3,4)]
  have i: "ids_known {} event_loop_init" "waiting event_loop_init = []"
    by (simp_all add: ids_known_def event_loop_init_def keys_in_def waiting_def)
  then have sub: "mset (map fst reps @ waiting st) \<subseteq># mset (concat (map senders evs))"
    and eq: "running st \<Longrightarrow> mset (map fst reps @ waiting st) = mset (concat (map senders evs))"
    using a by (simp_all add: ac_simps)
  show "distinct (map fst reps)" using distinct_submset [OF sub assms(2)] by simp
  show "distinct (map fst reps @ waiting st)" by (rule distinct_submset [OF sub assms(2)])
  show "set (map fst reps) \<union> set (waiting st) = set (concat (map senders evs))" if "running st"
    using mset_eq_setD [OF eq [OF that]] by simp
  show "list_all (reply_fits (set (concat (map put_senders evs)) \<union> set (concat (map bootstrap_senders evs)))
        (set (concat (map get_senders evs)))) reps"
    by (rule event_loop_replies_fit [OF assms(1)]) (simp_all add: sorted_senders_def event_loop_init_def)
qed

theorem dht_callers_answered_witness:
  "let evs = [Recv (Bootstrap 1) (Started 10), Recv (PutRecord [1] [2] 2) (Started 11), Recv (GetRecord [1] 3) (Started 12),
       Recv (PutRecord [4] [5] 4) (Refused ''MaxRecords'' ''full''),
       SwarmEvent (OutboundQueryProgressed 12 (GetRecordResult (IoOk (FoundRecord [2])))),
       SwarmEvent (OutboundQueryProgressed 12 (GetRecordResult (IoOk FinishedWithNoAdditionalRecord)))]
   in case event_loop (\<lambda>_. []) evs event_loop_init of (st, reps) \<Rightarrow>
        reps = [(4, UnitReply (Err (StoreFailed ''MaxRecords'' ''full''))), (3, DataReply (Ok [2]))]
        \<and> distinct (map fst reps @ waiting st) \<and> set (map fst reps) \<union> set (waiting st) = {1, 2, 3, 4}"
proof -
  let ?evs = "[Recv (Bootstrap 1) (Started 10), Recv (PutRecord [1] [2] 2) (Started 11), Recv (GetRecord [1] 3) (Started 12),
       Recv (PutRecord [4] [5] 4) (Refused ''MaxRecords'' ''full''),
       SwarmEvent (OutboundQueryProgressed 12 (GetRecordResult (IoOk (FoundRecord [2])))),
       SwarmEvent (OutboundQueryProgressed 12 (GetRecordResult (IoOk FinishedWithNoAdditionalRecord)))]"
  obtain st reps where e: "event_loop (\<lambda>_. []) ?evs event_loop_init = (st, reps)" by fastforce
  then have r: "reps = [(4, UnitReply (Err (StoreFailed ''MaxRecords'' ''full''))), (3, DataReply (Ok [2]))]"
    and "running st"
    by (auto simp: event_loop_init_def handle_command_def handle_swarm_event_def)
  moreover have "distinct (map fst reps @ waiting st)
      \<and> set (map fst reps) \<union> set (waiting st) = set (concat (map senders ?evs))"
    using dht_callers_answered [OF e] \<open>running st\<close> by (simp add: senders_def)
  ultimately show ?thesis
    using e by (auto simp: Let_def senders_def)
qed

end
