(* ===== verification/Dht_Discovery.thy ===== *)
theory Dht_Discovery
  imports Dht_Node
begin

text \<open>
  Discovery (\<open>src/crates/voip-dht/src/discovery.rs\<close>): the signaling server as a fallback, lookups in the
  two priority modes, proxy selection and publishing.

  The answers of the network are arguments, collected in the record \<open>discovery_env\<close>; an answer
  \<open>None\<close> means that the time limit struck first.  A lookup returns, besides its result, which
  sources it consulted, in order.
\<close>

section \<open>The signaling client\<close>

datatype DiscoveryMode = PrivacyFirst | SpeedFirst

definition DiscoveryMode_from :: "bool \<Rightarrow> DiscoveryMode" where
  "DiscoveryMode_from privacy_first = (if privacy_first then PrivacyFirst else SpeedFirst)"

text \<open>A failed connection, or a status code with the parsed body.\<close>

datatype 'a http_answer = ConnectFailed string | Response nat "'a io"

record PeerResponse_dht =
  ps_peer_id :: string
  ps_display_name :: string
  ps_ipv6_addresses :: "string list"
  ps_ipv4_reflexive :: "string list"
  ps_nat_type :: string
  ps_status :: string
  ps_last_seen :: u64

record ProxyEntry =
  pe_node_id :: string
  pe_proxy_url :: string
  pe_capacity :: u32
  pe_region :: string
  pe_latency_hint_ms :: u32

definition is_success :: "nat \<Rightarrow> bool" where
  "is_success status \<longleftrightarrow> 200 \<le> status \<and> status < 300"

text \<open>\<open>to_lowercase\<close>, on the letters the comparisons below distinguish.\<close>

definition ascii_lower :: "string \<Rightarrow> string" where
  "ascii_lower s = map (\<lambda>c. if 65 \<le> (of_char c :: nat) \<and> (of_char c :: nat) \<le> 90
      then char_of (of_char c + 32 :: nat) else c) s"

definition status_of_text :: "string \<Rightarrow> DhtPeerStatus" where
  "status_of_text s =
     (if ascii_lower s = ''online'' then DOnline
      else if ascii_lower s = ''in_call'' then DInCall else DOffline)"

definition nat_info_of_text :: "string \<Rightarrow> NatInfo option" where
  "nat_info_of_text s =
     (let t = ascii_lower s in
      if t = ''cone'' then Some \<lparr>ni_nat_type = DCone, ni_prediction = None\<rparr>
      else if t = ''symmetric_sequential'' \<or> t = ''symmetricsequential''
      then Some \<lparr>ni_nat_type = DSymmetricSequential, ni_prediction = None\<rparr>
      else if t = ''symmetric_pseudo'' \<or> t = ''symmetricpseudo''
      then Some \<lparr>ni_nat_type = DSymmetricPseudo, ni_prediction = None\<rparr>
      else if t = ''symmetric_random'' \<or> t = ''symmetricrandom''
      then Some \<lparr>ni_nat_type = DSymmetricRandom, ni_prediction = None\<rparr>
      else None)"

definition lookup_peer ::
  "(nat \<Rightarrow> string) \<Rightarrow> u64 \<Rightarrow> string \<Rightarrow> PeerResponse_dht http_answer \<Rightarrow> (PeerRecord, DhtError) result" where
  "lookup_peer show_status now peer_id answer =
     (case answer of
        ConnectFailed e \<Rightarrow> Err (Http (''Failed to connect to signaling server: '' @ e))
      | Response status body \<Rightarrow>
          if status = 404 then Err (NotFound (''signaling:peer:'' @ peer_id))
          else if \<not> is_success status
          then Err (Http (''Signaling server returned '' @ show_status status @ '' for peer lookup''))
          else case body of
                 IoErr e \<Rightarrow> Err (Serialization (''Failed to parse signaling server peer response: '' @ e))
               | IoOk p \<Rightarrow>
                   Ok (PeerRecord_new_unsigned now (ps_peer_id p) (ps_display_name p) (ps_ipv6_addresses p)
                         (ps_ipv4_reflexive p) (nat_info_of_text (ps_nat_type p)) []
                         (status_of_text (ps_status p)) 3600))"

definition lookup_username ::
  "(nat \<Rightarrow> string) \<Rightarrow> string \<Rightarrow> string http_answer \<Rightarrow> (string, DhtError) result" where
  "lookup_username show_status username answer =
     (case answer of
        ConnectFailed e \<Rightarrow> Err (Http (''Failed to connect to signaling server: '' @ e))
      | Response status body \<Rightarrow>
          if status = 404 then Err (UsernameNotFound username)
          else if \<not> is_success status
          then Err (Http (''Signaling server returned '' @ show_status status @ '' for username lookup''))
          else case body of
                 IoErr e \<Rightarrow> Err (Serialization (''Failed to parse signaling server lookup response: '' @ e))
               | IoOk peer_id \<Rightarrow> Ok peer_id)"

definition client_get_proxies ::
  "(nat \<Rightarrow> string) \<Rightarrow> u64 \<Rightarrow> ProxyEntry list http_answer \<Rightarrow> (DhtProxyRecord list, DhtError) result" where
  "client_get_proxies show_status now answer =
     (case answer of
        ConnectFailed e \<Rightarrow> Err (Http (''Failed to connect to signaling server: '' @ e))
      | Response status body \<Rightarrow>
          if \<not> is_success status
          then Err (Http (''Signaling server returned '' @ show_status status @ '' for proxy lookup''))
          else case body of
                 IoErr e \<Rightarrow> Err (Serialization (''Failed to parse signaling server proxies response: '' @ e))
               | IoOk entries \<Rightarrow>
                   Ok (map (\<lambda>e. DhtProxyRecord_new_unsigned now (pe_node_id e) (pe_proxy_url e) (pe_capacity e)
                              (pe_region e) (pe_latency_hint_ms e) 3600 []) entries))"

definition client_get_bootstrap_nodes ::
  "(nat \<Rightarrow> string) \<Rightarrow> string list http_answer \<Rightarrow> (string list, DhtError) result" where
  "client_get_bootstrap_nodes show_status answer =
     (case answer of
        ConnectFailed e \<Rightarrow> Err (Http (''Failed to connect to signaling server: '' @ e))
      | Response status body \<Rightarrow>
          if \<not> is_success status
          then Err (Http (''Signaling server returned '' @ show_status status @ '' for bootstrap node lookup''))
          else case body of
                 IoErr e \<Rightarrow> Err (Serialization (''Failed to parse signaling server bootstrap response: '' @ e))
               | IoOk nodes \<Rightarrow> Ok nodes)"

section \<open>The discovery service\<close>

datatype source = ViaDht | ViaSignaling

record discovery_env =
  ans_dht_peer :: "string \<Rightarrow> (bytes, DhtError) result option"
  ans_dht_username :: "string \<Rightarrow> (bytes, DhtError) result option"
  ans_dht_proxy :: "string \<Rightarrow> (bytes, DhtError) result"
  ans_peer :: "string \<Rightarrow> PeerResponse_dht http_answer option"
  ans_lookup :: "string \<Rightarrow> string http_answer option"
  ans_proxies :: "ProxyEntry list http_answer"
  ans_bootstrap :: "string list http_answer"
  env_now :: u64
  env_codec :: dht_codec
  env_show_status :: "nat \<Rightarrow> string"

record DiscoveryService =
  ds_privacy_first :: bool
  ds_dht_timeout_ms :: u64

definition DiscoveryService_new :: "VoIPConfig \<Rightarrow> DiscoveryService" where
  "DiscoveryService_new cfg =
     \<lparr>ds_privacy_first = discovery_privacy_first cfg, ds_dht_timeout_ms = dht_lookup_timeout_ms cfg\<rparr>"

definition ds_mode :: "DiscoveryService \<Rightarrow> DiscoveryMode" where
  "ds_mode s = DiscoveryMode_from (ds_privacy_first s)"

definition set_mode :: "bool \<Rightarrow> DiscoveryService \<Rightarrow> DiscoveryService" where
  "set_mode privacy_first s = s\<lparr>ds_privacy_first := privacy_first\<rparr>"

definition discover_peer_dht ::
  "bool \<Rightarrow> discovery_env \<Rightarrow> DiscoveryService \<Rightarrow> string \<Rightarrow> (PeerRecord, DhtError) result" where
  "discover_peer_dht oc env s peer_id =
     (case ans_dht_peer env peer_id of
        None \<Rightarrow> Err (LookupTimeout peer_id (ds_dht_timeout_ms s))
      | Some (Err e) \<Rightarrow> Err e
      | Some Panic \<Rightarrow> Panic
      | Some (Ok data) \<Rightarrow>
          res_bind (PeerRecord_decode (env_codec env) data) (\<lambda>r.
          res_bind (PeerRecord_is_expired oc (env_now env) r) (\<lambda>expired.
          if expired
          then res_bind (checked_add oc (r_timestamp r) (ucast (r_ttl_seconds r))) (\<lambda>at.
               Err (RecordExpired peer_id at))
          else Ok r)))"

definition discover_peer_signaling ::
  "discovery_env \<Rightarrow> string \<Rightarrow> (PeerRecord, DhtError) result" where
  "discover_peer_signaling env peer_id =
     (case ans_peer env peer_id of
        None \<Rightarrow> Err (LookupTimeout peer_id 50)
      | Some answer \<Rightarrow> lookup_peer (env_show_status env) (env_now env) peer_id answer)"

text \<open>The first source, and the second if the first fails.\<close>

definition or_else ::
  "source \<Rightarrow> ('a, DhtError) result \<Rightarrow> source \<Rightarrow> ('a, DhtError) result \<Rightarrow> source list \<times> ('a, DhtError) result" where
  "or_else a ra b rb = (case ra of Ok x \<Rightarrow> ([a], Ok x) | Err e \<Rightarrow> ([a, b], rb) | Panic \<Rightarrow> ([a], Panic))"

definition discover_peer ::
  "bool \<Rightarrow> discovery_env \<Rightarrow> DiscoveryService \<Rightarrow> string \<Rightarrow> source list \<times> (PeerRecord, DhtError) result" where
  "discover_peer oc env s peer_id =
     (if ds_privacy_first s
      then or_else ViaDht (discover_peer_dht oc env s peer_id) ViaSignaling (discover_peer_signaling env peer_id)
      else or_else ViaSignaling (discover_peer_signaling env peer_id) ViaDht (discover_peer_dht oc env s peer_id))"

definition resolve_username_dht ::
  "bool \<Rightarrow> discovery_env \<Rightarrow> DiscoveryService \<Rightarrow> string \<Rightarrow> (PeerRecord, DhtError) result" where
  "resolve_username_dht oc env s username =
     (case ans_dht_username env username of
        None \<Rightarrow> Err (LookupTimeout (''voip-name:'' @ username) (ds_dht_timeout_ms s))
      | Some r \<Rightarrow>
          res_bind r (\<lambda>data.
          res_bind (UsernameRecord_decode (env_codec env) data) (\<lambda>u.
          discover_peer_dht oc env s (ur_peer_id u))))"

definition resolve_username_signaling ::
  "discovery_env \<Rightarrow> string \<Rightarrow> (PeerRecord, DhtError) result" where
  "resolve_username_signaling env username =
     (case ans_lookup env username of
        None \<Rightarrow> Err (LookupTimeout (''signaling:username:'' @ username) 50)
      | Some answer \<Rightarrow>
          res_bind (lookup_username (env_show_status env) username answer) (\<lambda>peer_id.
          discover_peer_signaling env peer_id))"

definition discover_peer_by_username ::
  "bool \<Rightarrow> discovery_env \<Rightarrow> DiscoveryService \<Rightarrow> string \<Rightarrow> source list \<times> (PeerRecord, DhtError) result" where
  "discover_peer_by_username oc env s username =
     (if ds_privacy_first s
      then or_else ViaDht (resolve_username_dht oc env s username) ViaSignaling (resolve_username_signaling env username)
      else or_else ViaSignaling (resolve_username_signaling env username) ViaDht (resolve_username_dht oc env s username))"

fun proxies_via_dht ::
  "bool \<Rightarrow> discovery_env \<Rightarrow> string list \<Rightarrow> (DhtProxyRecord list, DhtError) result" where
  "proxies_via_dht oc env [] = Ok []"
| "proxies_via_dht oc env (node_id # node_ids) =
     (case ans_dht_proxy env node_id of
        Ok data \<Rightarrow>
          (case DhtProxyRecord_decode (env_codec env) data of
             Ok r \<Rightarrow>
               res_bind (DhtProxyRecord_is_expired oc (env_now env) r) (\<lambda>expired.
               res_map (\<lambda>rs. if expired then rs else r # rs) (proxies_via_dht oc env node_ids))
           | Err e \<Rightarrow> proxies_via_dht oc env node_ids
           | Panic \<Rightarrow> Panic)
      | Err e \<Rightarrow> proxies_via_dht oc env node_ids
      | Panic \<Rightarrow> Panic)"

definition discover_proxy_dht ::
  "bool \<Rightarrow> discovery_env \<Rightarrow> string list \<Rightarrow> (DhtProxyRecord list, DhtError) result" where
  "discover_proxy_dht oc env node_ids = res_map (sort_key dp_latency_hint_ms) (proxies_via_dht oc env node_ids)"

definition discover_proxy_signaling :: "discovery_env \<Rightarrow> (DhtProxyRecord list, DhtError) result" where
  "discover_proxy_signaling env = client_get_proxies (env_show_status env) (env_now env) (ans_proxies env)"

definition or_else_nonempty ::
  "source \<Rightarrow> ('a list, DhtError) result \<Rightarrow> source \<Rightarrow> ('a list, DhtError) result
     \<Rightarrow> source list \<times> ('a list, DhtError) result" where
  "or_else_nonempty a ra b rb =
     (case ra of
        Ok xs \<Rightarrow> if xs \<noteq> [] then ([a], Ok xs) else ([a, b], rb)
      | Err e \<Rightarrow> ([a, b], rb)
      | Panic \<Rightarrow> ([a], Panic))"

definition discover_proxy ::
  "bool \<Rightarrow> discovery_env \<Rightarrow> DiscoveryService \<Rightarrow> string list
     \<Rightarrow> source list \<times> (DhtProxyRecord list, DhtError) result" where
  "discover_proxy oc env s node_ids =
     (if ds_privacy_first s
      then or_else_nonempty ViaDht (discover_proxy_dht oc env node_ids) ViaSignaling (discover_proxy_signaling env)
      else or_else_nonempty ViaSignaling (discover_proxy_signaling env) ViaDht (discover_proxy_dht oc env node_ids))"

text \<open>A panic while filtering ends the selection; without overflow checks none happens.\<close>

definition discovery_select_proxy ::
  "bool \<Rightarrow> u64 \<Rightarrow> DhtProxyRecord list \<Rightarrow> string option \<Rightarrow> (DhtProxyRecord option, DhtError) result" where
  "discovery_select_proxy oc now candidates max_region_distance =
     (if list_ex (\<lambda>p. DhtProxyRecord_is_expired oc now p = Panic) candidates then Panic
      else Ok (min_by_key dp_latency_hint_ms
        (filter (\<lambda>p. DhtProxyRecord_is_expired oc now p = Ok False
             \<and> 0 < dp_capacity p
             \<and> (max_region_distance = None \<or> dp_region p = [])) candidates)))"

definition get_bootstrap_nodes :: "discovery_env \<Rightarrow> (string list, DhtError) result" where
  "get_bootstrap_nodes env = client_get_bootstrap_nodes (env_show_status env) (ans_bootstrap env)"

section \<open>Publishing\<close>

definition publish_peer_record ::
  "'d dht_network \<Rightarrow> (bytes \<Rightarrow> bytes) \<Rightarrow> dht_codec \<Rightarrow> (bytes \<Rightarrow> bytes) \<Rightarrow> PeerRecord \<Rightarrow> 'd
     \<Rightarrow> 'd \<times> (unit, DhtError) result" where
  "publish_peer_record net sha256 cd ed_sign r d =
     (case PeerRecord_encode cd r of
        Err e \<Rightarrow> (d, Err e)
      | Panic \<Rightarrow> (d, Panic)
      | Ok data \<Rightarrow>
          (case put_peer_record net sha256 (r_peer_id r) data d of
             (d, Ok _) \<Rightarrow>
               if r_display_name r \<noteq> []
               then (case res_bind (UsernameRecord_sign ed_sign
                              (UsernameRecord_new_unsigned (r_display_name r) (r_peer_id r)))
                            (UsernameRecord_encode cd) of
                       Err e \<Rightarrow> (d, Err e)
                     | Panic \<Rightarrow> (d, Panic)
                     | Ok username_data \<Rightarrow> put_username_record net sha256 (r_display_name r) username_data d)
               else (d, Ok ())
           | (d, e) \<Rightarrow> (d, e)))"

definition publish_proxy_record ::
  "'d dht_network \<Rightarrow> (bytes \<Rightarrow> bytes) \<Rightarrow> dht_codec \<Rightarrow> DhtProxyRecord \<Rightarrow> 'd \<Rightarrow> 'd \<times> (unit, DhtError) result" where
  "publish_proxy_record net sha256 cd r d =
     (case DhtProxyRecord_encode cd r of
        Err e \<Rightarrow> (d, Err e)
      | Panic \<Rightarrow> (d, Panic)
      | Ok data \<Rightarrow> put_proxy_record net sha256 (dp_node_id r) data d)"

section \<open>Facts\<close>

text \<open>What discovery relies on from the table: what is stored under a key can be read there.\<close>

definition net_stores :: "'d dht_network \<Rightarrow> bool" where
  "net_stores net \<longleftrightarrow> (\<forall>d k v. snd (net_put net d k v) = Ok ()
     \<and> (\<forall>k'. net_get net (fst (net_put net d k v)) k' = (if k' = k then Ok v else net_get net d k')))"

definition env_reads :: "'d dht_network \<Rightarrow> (bytes \<Rightarrow> bytes) \<Rightarrow> 'd \<Rightarrow> discovery_env \<Rightarrow> bool" where
  "env_reads net sha256 d env \<longleftrightarrow>
     (\<forall>i. ans_dht_peer env i = Some (get_peer_record net sha256 i d))
     \<and> (\<forall>u. ans_dht_username env u = Some (get_username_record net sha256 u d))"

definition signed_username :: "(bytes \<Rightarrow> bytes) \<Rightarrow> PeerRecord \<Rightarrow> UsernameRecord" where
  "signed_username ed_sign r =
     sign_username_record ed_sign (UsernameRecord_new_unsigned (r_display_name r) (r_peer_id r))"

lemma net_get_refreshed:
  assumes "net_stores net" and "net_get net d k = Ok v" and "net_get net d k' = w"
  shows "net_get net (refresh_rounds net [(k, v)] n d) k' = w"
  using assms(2,3)
proof (induction n arbitrary: d)
  case (Suc n)
  obtain d1 where put: "net_put net d k v = (d1, Ok ())"
    using assms(1) unfolding net_stores_def by (metis prod.collapse)
  then have "net_get net d1 k = Ok v" and "net_get net d1 k' = w"
    using assms(1) Suc.prems unfolding net_stores_def by (metis fst_conv)+
  then show ?case using Suc.IH [of d1] put by simp
qed simp

lemma publish_stores:
  assumes "net_stores net" and "PeerRecord_encode cd r = Ok data"
    and "UsernameRecord_encode cd (signed_username ed_sign r) = Ok udata"
    and "r_display_name r \<noteq> []" and "peer_record_key sha256 (r_peer_id r) \<noteq> username_record_key sha256 (r_display_name r)"
  shows "\<exists>d'. publish_peer_record net sha256 cd ed_sign r d = (d', Ok ())
    \<and> get_peer_record net sha256 (r_peer_id r) d' = Ok data
    \<and> get_username_record net sha256 (r_display_name r) d' = Ok udata"
proof -
  define d1 where "d1 = fst (net_put net d (peer_record_key sha256 (r_peer_id r)) data)"
  have put: "net_put net e k v = (fst (net_put net e k v), Ok ())" for e k v
    using assms(1) unfolding net_stores_def by (metis prod.collapse)
  have sign: "UsernameRecord_sign ed_sign (UsernameRecord_new_unsigned (r_display_name r) (r_peer_id r))
      = Ok (signed_username ed_sign r)"
    by (simp add: UsernameRecord_sign_def signed_username_def sign_username_record_def username_signing_input_def)
  have p: "put_peer_record net sha256 (r_peer_id r) data d = (d1, Ok ())"
    unfolding put_peer_record_def d1_def by (rule put)
  have "publish_peer_record net sha256 cd ed_sign r d
      = put_username_record net sha256 (r_display_name r) udata d1"
    using assms(3,4) by (simp add: publish_peer_record_def assms(2) p sign)
  also have "\<dots> = (fst (net_put net d1 (username_record_key sha256 (r_display_name r)) udata), Ok ())"
    unfolding put_username_record_def by (rule put)
  finally show ?thesis
    using assms(1,5) by (auto simp: get_peer_record_def get_username_record_def net_stores_def d1_def)
qed

lemma discover_stored:
  assumes "ans_dht_peer env i = Some (Ok data)" and "PeerRecord_decode (env_codec env) data = Ok r"
    and "unat (r_timestamp r) + unat (r_ttl_seconds r) < 2 ^ 64"
  shows "discover_peer_dht oc env s i =
    (if r_timestamp r + ucast (r_ttl_seconds r) < env_now env
     then Err (RecordExpired i (r_timestamp r + ucast (r_ttl_seconds r))) else Ok r)"
proof -
  have u: "unat (ucast (r_ttl_seconds r) :: u64) = unat (r_ttl_seconds r)" by (rule unat_ucast_up) simp
  have f: "unat (r_timestamp r) + unat (ucast (r_ttl_seconds r) :: u64) < 2 ^ LENGTH(64)"
    using assms(3) u by simp
  show ?thesis
    using assms(1,2) by (simp add: discover_peer_dht_def PeerRecord_is_expired_def checked_add_fits(1) [OF f])
qed

section \<open>Properties\<close>


text \<open>A table kept in one place, and an environment that reads it.\<close>

definition map_net :: "(bytes \<Rightarrow> bytes option) dht_network" where
  "map_net = \<lparr>net_put = (\<lambda>d k v. (d(k := Some v), Ok ())),
     net_get = (\<lambda>d k. case d k of Some v \<Rightarrow> Ok v | None \<Rightarrow> Err (NotFound []))\<rparr>"

definition map_env :: "(bytes \<Rightarrow> bytes option) \<Rightarrow> u64 \<Rightarrow> discovery_env" where
  "map_env d now = \<lparr>ans_dht_peer = (\<lambda>i. Some (get_peer_record map_net (\<lambda>x. x) i d)),
     ans_dht_username = (\<lambda>u. Some (get_username_record map_net (\<lambda>x. x) u d)),
     ans_dht_proxy = (\<lambda>n. get_proxy_record map_net (\<lambda>x. x) n d),
     ans_peer = (\<lambda>_. None), ans_lookup = (\<lambda>_. None), ans_proxies = ConnectFailed [], ans_bootstrap = ConnectFailed [],
     env_now = now, env_codec = name_codec, env_show_status = show_nat\<rparr>"

lemma map_net_stores: "net_stores map_net"
  by (simp add: net_stores_def map_net_def)


section \<open>What discovery does not check\<close>

text \<open>A record without a signature, published under another peer's key, is returned as that peer's
  record: neither the signature nor the peer id of a record read from the table is examined.\<close>

lemma discovery_trusts_unsigned:
  assumes "ans_dht_peer env i = Some (Ok data)" and "PeerRecord_decode (env_codec env) data = Ok r"
    and "unat (r_timestamp r) + unat (r_ttl_seconds r) < 2 ^ 64"
    and "env_now env \<le> r_timestamp r + ucast (r_ttl_seconds r)"
    and "r_signature r = []" and "r_peer_id r \<noteq> i"
  shows "discover_peer_dht oc env s i = Ok r"
    and "PeerRecord_verify cd sig_parse ed_verify vk r = Err (invalid_signature (r_peer_id r))"
  using discover_stored [OF assms(1-3), of oc s] assms(4,5)
  by (simp_all add: PeerRecord_verify_def)

text \<open>Asking for a region selects only proxies that do not state one.\<close>

lemma select_proxy_region:
  assumes "discovery_select_proxy oc now candidates (Some region) = Ok (Some p)"
  shows "dp_region p = []"
proof -
  have "min_by_key f xs = Some y \<Longrightarrow> y \<in> set xs" for f :: "DhtProxyRecord \<Rightarrow> u32" and xs y
    by (induction xs arbitrary: y) (auto split: option.splits if_splits)
  with assms show ?thesis
    unfolding discovery_select_proxy_def by (auto split: if_splits) fastforce
qed

end
