(* ===== verification/Dht_Startup.thy ===== *)
theory Dht_Startup
  imports Dht_Node
begin

text \<open>
  Starting a DHT node (\<open>src/crates/voip-dht/src/node.rs\<close>): the swarm that is built, the commands
  that \<open>new\<close> puts into the channel, the operations on a running node, and its refresh task.

  The libp2p behaviour is an argument: a state of its own and what each call on it answers.  A
  schedule says in which order the loop takes commands from the channel and events from the swarm.
\<close>

section \<open>The swarm\<close>

datatype kad_mode = ModeAutomatic | ModeClient

record swarm_settings =
  ss_protocol :: string
  ss_query_timeout_secs :: nat
  ss_replication_factor :: "nat option"
  ss_mode :: kad_mode
  ss_idle_connection_timeout_secs :: nat

record 'w kad_library =
  kl_k_value :: nat
  kl_valid_protocol :: "string \<Rightarrow> bool"
  kl_new :: "swarm_settings \<Rightarrow> 'w"
  kl_known_peers :: "'w \<Rightarrow> bool"
  kl_add_address :: "'w \<Rightarrow> string \<Rightarrow> Multiaddr \<Rightarrow> 'w"
  kl_put_record :: "'w \<Rightarrow> bytes \<Rightarrow> bytes \<Rightarrow> 'w \<times> kad_answer"
  kl_get_record :: "'w \<Rightarrow> bytes \<Rightarrow> 'w \<times> nat"
  kl_bootstrap :: "'w \<Rightarrow> 'w \<times> kad_answer"
  kl_event :: "'w \<Rightarrow> swarm_event \<Rightarrow> 'w"

definition build_settings :: "nat \<Rightarrow> bool \<Rightarrow> swarm_settings" where
  "build_settings k_value is_mobile =
     \<lparr> ss_protocol = ''/ipfs/kad/1.0.0'',
       ss_query_timeout_secs = (if is_mobile then 5 else 10),
       ss_replication_factor = (if is_mobile then None else if k_value = 0 then None else Some k_value),
       ss_mode = (if is_mobile then ModeClient else ModeAutomatic),
       ss_idle_connection_timeout_secs = 30 \<rparr>"

definition build_swarm :: "'w kad_library \<Rightarrow> bool \<Rightarrow> ('w, DhtError) result" where
  "build_swarm lib is_mobile =
     (let settings = build_settings (kl_k_value lib) is_mobile in
      if kl_valid_protocol lib (ss_protocol settings) then Ok (kl_new lib settings) else Panic)"

fun extract_peer_id :: "Multiaddr \<Rightarrow> string option" where
  "extract_peer_id [] = None"
| "extract_peer_id (P2p peer_id # rest) = Some peer_id"
| "extract_peer_id (OtherProtocol _ # rest) = extract_peer_id rest"

section \<open>The loop with its swarm\<close>

text \<open>What a command makes the behaviour do.  Only storing, reading and bootstrapping ask for an
  answer.\<close>

fun kad_command :: "'w kad_library \<Rightarrow> DhtCommand \<Rightarrow> 'w \<Rightarrow> 'w \<times> kad_answer" where
  "kad_command lib (PutRecord key val respond_to) w = kl_put_record lib w key val"
| "kad_command lib (GetRecord key respond_to) w =
     (let (w, query_id) = kl_get_record lib w key in (w, Started query_id))"
| "kad_command lib (Bootstrap respond_to) w = kl_bootstrap lib w"
| "kad_command lib (AddBootstrapNode peer_id addr) w = (kl_add_address lib w peer_id addr, Refused [] [])"
| "kad_command lib Shutdown w = (w, Refused [] [])"

datatype turn = TakeCommand | Poll swarm_event

fun loop_trace :: "'w kad_library \<Rightarrow> turn list \<Rightarrow> DhtCommand list \<Rightarrow> 'w \<Rightarrow> loop_event list" where
  "loop_trace lib [] queue w = []"
| "loop_trace lib (Poll ev # turns) queue w = SwarmEvent ev # loop_trace lib turns queue (kl_event lib w ev)"
| "loop_trace lib (TakeCommand # turns) [] w = loop_trace lib turns [] w"
| "loop_trace lib (TakeCommand # turns) (cmd # queue) w =
     (let (w, answer) = kad_command lib cmd w in Recv cmd answer # loop_trace lib turns queue w)"

text \<open>The state of a node that runs: its swarm and its loop.\<close>

type_synonym 'w node_state = "'w \<times> event_loop_state"

fun node_loop ::
  "'w kad_library \<Rightarrow> (nat \<Rightarrow> string) \<Rightarrow> turn list \<Rightarrow> DhtCommand list \<Rightarrow> 'w node_state
   \<Rightarrow> 'w node_state \<times> (nat \<times> dht_reply) list" where
  "node_loop lib show_id [] queue (w, st) = ((w, st), [])"
| "node_loop lib show_id (t # turns) queue (w, st) =
     (if \<not> running st then ((w, st), [])
      else case t of
        Poll ev \<Rightarrow>
          let (st, replies) = handle_swarm_event show_id ev st;
              (ns, more) = node_loop lib show_id turns queue (kl_event lib w ev, st)
          in (ns, replies @ more)
      | TakeCommand \<Rightarrow>
          (case queue of
             [] \<Rightarrow> node_loop lib show_id turns [] (w, st)
           | cmd # queue \<Rightarrow>
               let (w, answer) = kad_command lib cmd w;
                   (st, replies) = handle_command cmd answer st;
                   (ns, more) = node_loop lib show_id turns queue (w, st)
               in (ns, replies @ more)))"

section \<open>The operations on a node\<close>

record DhtNode =
  dn_is_mobile :: bool
  dn_refresh_handle :: "nat option"

text \<open>A caller sends one command and waits on its oneshot channel.  The result is \<open>None\<close> as long as
  the loop runs and has not answered.\<close>

fun as_unit :: "dht_reply \<Rightarrow> (unit, DhtError) result option" where
  "as_unit (UnitReply r) = Some r"
| "as_unit (DataReply r) = None"

fun as_data :: "dht_reply \<Rightarrow> (bytes, DhtError) result option" where
  "as_data (DataReply r) = Some r"
| "as_data (UnitReply r) = None"

definition await_reply ::
  "(dht_reply \<Rightarrow> ('a, DhtError) result option) \<Rightarrow> nat \<Rightarrow> 'w node_state \<Rightarrow> (nat \<times> dht_reply) list
   \<Rightarrow> ('a, DhtError) result option" where
  "await_reply view s ns replies =
     (case map_of replies s of
        Some r \<Rightarrow> Some (node_call True (view r))
      | None \<Rightarrow> if running (snd ns) then None else Some (node_call True None))"

definition node_request ::
  "(dht_reply \<Rightarrow> ('a, DhtError) result option) \<Rightarrow> 'w kad_library \<Rightarrow> (nat \<Rightarrow> string) \<Rightarrow> turn list
   \<Rightarrow> DhtCommand list \<Rightarrow> nat \<Rightarrow> 'w node_state \<Rightarrow> 'w node_state \<times> ('a, DhtError) result option" where
  "node_request view lib show_id turns cmds s ns =
     (if \<not> running (snd ns) then (ns, Some (node_call False None))
      else let (ns', replies) = node_loop lib show_id turns cmds ns
           in (ns', await_reply view s ns' replies))"

definition DhtNode_bootstrap where
  "DhtNode_bootstrap lib show_id turns s ns = node_request as_unit lib show_id turns [Bootstrap s] s ns"

definition DhtNode_put_record where
  "DhtNode_put_record lib show_id turns key val s ns =
     node_request as_unit lib show_id turns [PutRecord key val s] s ns"

definition DhtNode_get_record where
  "DhtNode_get_record lib show_id turns key s ns =
     node_request as_data lib show_id turns [GetRecord key s] s ns"

text \<open>Shutting down does not wait for the loop.\<close>

definition DhtNode_shutdown ::
  "'w kad_library \<Rightarrow> (nat \<Rightarrow> string) \<Rightarrow> turn list \<Rightarrow> 'w node_state \<Rightarrow> 'w node_state \<times> (unit, DhtError) result" where
  "DhtNode_shutdown lib show_id turns ns =
     (if \<not> running (snd ns) then (ns, Err NotConnected)
      else (fst (node_loop lib show_id turns [Shutdown] ns), Ok ()))"

section \<open>Starting\<close>

fun add_bootstrap_nodes :: "Multiaddr list \<Rightarrow> DhtCommand list" where
  "add_bootstrap_nodes [] = []"
| "add_bootstrap_nodes (addr # addrs) =
     (case extract_peer_id addr of
        Some peer_id \<Rightarrow> AddBootstrapNode peer_id addr # add_bootstrap_nodes addrs
      | None \<Rightarrow> add_bootstrap_nodes addrs)"

text \<open>The bootstrap caller is the sender 0.\<close>

definition DhtNode_new ::
  "'w kad_library \<Rightarrow> (nat \<Rightarrow> string) \<Rightarrow> turn list \<Rightarrow> Multiaddr list \<Rightarrow> bool
   \<Rightarrow> (DhtNode \<times> 'w node_state, DhtError) result option" where
  "DhtNode_new lib show_id turns bootstrap_nodes is_mobile =
     (case build_swarm lib is_mobile of
        Err e \<Rightarrow> Some (Err e)
      | Panic \<Rightarrow> Some Panic
      | Ok swarm \<Rightarrow>
          let node = \<lparr>dn_is_mobile = is_mobile, dn_refresh_handle = None\<rparr>;
              (ns, outcome) = node_request as_unit lib show_id turns
                (add_bootstrap_nodes bootstrap_nodes @ [Bootstrap 0]) 0 (swarm, event_loop_init)
          in map_option (res_map (\<lambda>_. (node, ns))) outcome)"

definition DhtNode_from_config ::
  "'w kad_library \<Rightarrow> (string \<Rightarrow> Multiaddr option) \<Rightarrow> (nat \<Rightarrow> string) \<Rightarrow> turn list \<Rightarrow> VoIPConfig
   \<Rightarrow> (DhtNode \<times> 'w node_state, DhtError) result option" where
  "DhtNode_from_config lib parse show_id turns cfg =
     DhtNode_new lib show_id turns (List.map_filter parse (dht_bootstrap_nodes cfg)) False"

section \<open>The refresh task\<close>

text \<open>The tasks of the runtime with their records and periods; the handle of a node is the number of
  its task.\<close>

record task_table =
  tt_next :: nat
  tt_tasks :: "(nat \<times> (bytes \<times> bytes) list \<times> u64) list"

definition stop_record_refresh :: "DhtNode \<times> task_table \<Rightarrow> DhtNode \<times> task_table" where
  "stop_record_refresh = (\<lambda>(node, tt).
     case dn_refresh_handle node of
       None \<Rightarrow> (node, tt)
     | Some handle \<Rightarrow> (node\<lparr>dn_refresh_handle := None\<rparr>, tt\<lparr>tt_tasks := AList.delete handle (tt_tasks tt)\<rparr>))"

definition start_record_refresh ::
  "(bytes \<times> bytes) list \<Rightarrow> u64 \<Rightarrow> DhtNode \<times> task_table \<Rightarrow> DhtNode \<times> task_table" where
  "start_record_refresh records interval_secs nt =
     (let (node, tt) = stop_record_refresh nt;
          handle = tt_next tt
      in (node\<lparr>dn_refresh_handle := Some handle\<rparr>,
          tt\<lparr>tt_next := handle + 1, tt_tasks := (handle, records, interval_secs) # tt_tasks tt\<rparr>))"

datatype refresh_op = StartRefresh "(bytes \<times> bytes) list" u64 | StopRefresh

fun refresh_step :: "refresh_op \<Rightarrow> DhtNode \<times> task_table \<Rightarrow> DhtNode \<times> task_table" where
  "refresh_step (StartRefresh records interval_secs) nt = start_record_refresh records interval_secs nt"
| "refresh_step StopRefresh nt = stop_record_refresh nt"

text \<open>A node has at most one task, the one its handle names; the tasks of others are left alone.\<close>

definition one_task :: "(nat \<times> (bytes \<times> bytes) list \<times> u64) list \<Rightarrow> DhtNode \<times> task_table \<Rightarrow> bool" where
  "one_task others = (\<lambda>(node, tt). fst ` set others \<subseteq> {..<tt_next tt}
     \<and> (case dn_refresh_handle node of
          None \<Rightarrow> tt_tasks tt = others
        | Some h \<Rightarrow> h < tt_next tt \<and> h \<notin> fst ` set others \<and> (\<exists>r i. tt_tasks tt = (h, r, i) # others)))"

lemma alist_delete_absent: "h \<notin> fst ` set m \<Longrightarrow> AList.delete h m = m"
  by (simp add: AList.delete_eq filter_id_conv) force

lemma stop_keeps_one_task:
  "one_task others nt \<Longrightarrow> one_task others (stop_record_refresh nt)
     \<and> dn_refresh_handle (fst (stop_record_refresh nt)) = None"
  by (cases nt) (auto simp: one_task_def stop_record_refresh_def alist_delete_absent split: option.splits)

lemma refresh_keeps_one_task: "one_task others nt \<Longrightarrow> one_task others (refresh_step op nt)"
proof (cases op)
  case (StartRefresh records interval_secs)
  assume "one_task others nt"
  moreover obtain node tt where s: "stop_record_refresh nt = (node, tt)" by fastforce
  ultimately have "one_task others (node, tt)" and "dn_refresh_handle node = None"
    using stop_keeps_one_task [of others nt] by simp_all
  then show ?thesis
    by (auto simp: StartRefresh start_record_refresh_def s one_task_def Let_def less_Suc_eq dest: subsetD)
qed (simp add: stop_keeps_one_task)

lemma refresh_ops_one_task: "one_task others nt \<Longrightarrow> one_task others (fold refresh_step ops nt)"
  by (induction ops arbitrary: nt) (simp_all add: refresh_keeps_one_task)

section \<open>The loop follows the event loop\<close>

lemma event_loop_stopped: "\<not> running st \<Longrightarrow> event_loop show_id evs st = (st, [])"
  by (cases evs) simp_all

lemma node_loop_refines:
  "map_prod snd id (node_loop lib show_id turns queue (w, st))
     = event_loop show_id (loop_trace lib turns queue w) st"
proof (induction turns arbitrary: queue w st)
  case (Cons t turns)
  show ?case
  proof (cases "running st")
    case False
    then show ?thesis by (simp add: event_loop_stopped)
  next
    case True
    then show ?thesis
      by (cases t; cases queue) (simp_all add: case_prod_beta map_prod_def flip: Cons.IH)
  qed
qed simp

lemma loop_trace_answers: "list_all kad_event (loop_trace lib turns queue w)"
proof (induction turns arbitrary: queue w)
  case (Cons t turns)
  show ?case
  proof (cases t)
    case TakeCommand
    then show ?thesis
    proof (cases queue)
      case (Cons cmd queue')
      then show ?thesis
        using TakeCommand Cons.IH by (cases cmd) (simp_all add: case_prod_beta split: kad_answer.splits)
    qed (use Cons.IH in simp)
  qed (use Cons.IH in simp)
qed simp

text \<open>Once the loop has taken the command, every operation fails.\<close>

lemma shutdown_final:
  assumes "DhtNode_shutdown lib show_id (TakeCommand # turns) ns = (ns', r)"
  shows "\<not> running (snd ns')"
    and "DhtNode_put_record lib show_id' turns' key val s ns' = (ns', Some (Err NotConnected))"
    and "DhtNode_get_record lib show_id' turns' key s ns' = (ns', Some (Err NotConnected))"
    and "DhtNode_bootstrap lib show_id' turns' s ns' = (ns', Some (Err NotConnected))"
proof -
  obtain w st where ns: "ns = (w, st)" by (cases ns)
  have stopped: "node_loop lib show_id turns queue (w, st) = ((w, st), [])" if "\<not> running st" for queue w st
    using that by (cases turns) simp_all
  show stop: "\<not> running (snd ns')"
    using assms by (auto simp: ns DhtNode_shutdown_def handle_command_def stopped split: if_splits)
  show "DhtNode_put_record lib show_id' turns' key val s ns' = (ns', Some (Err NotConnected))"
    "DhtNode_get_record lib show_id' turns' key s ns' = (ns', Some (Err NotConnected))"
    "DhtNode_bootstrap lib show_id' turns' s ns' = (ns', Some (Err NotConnected))"
    using stop by (simp_all add: DhtNode_put_record_def DhtNode_get_record_def DhtNode_bootstrap_def
        node_request_def node_call_def)
qed

section \<open>Bootstrapping\<close>

text \<open>What the code relies on: a new behaviour knows nobody, only a connection makes it learn a peer
  that was not added, and it does not bootstrap without peers.\<close>

definition kad_laws :: "'w kad_library \<Rightarrow> bool" where
  "kad_laws lib \<longleftrightarrow> kl_valid_protocol lib ''/ipfs/kad/1.0.0''
     \<and> (\<forall>settings. \<not> kl_known_peers lib (kl_new lib settings))
     \<and> (\<forall>w ev. \<not> kl_known_peers lib w \<and> (\<forall>p. ev \<noteq> ConnectionEstablished p)
          \<longrightarrow> \<not> kl_known_peers lib (kl_event lib w ev))
     \<and> (\<forall>w. \<not> kl_known_peers lib w \<longrightarrow> (\<exists>dbg e. snd (kl_bootstrap lib w) = Refused dbg e))"

fun no_contact :: "turn \<Rightarrow> bool" where
  "no_contact (Poll (ConnectionEstablished p)) = False"
| "no_contact _ = True"

lemma idle_loop_silent:
  "handle_swarm_event show_id ev event_loop_init = (event_loop_init, [])"
  by (auto simp: handle_swarm_event_def event_loop_init_def split: swarm_event.split query_result.split)

lemma event_loop_init_running [simp]: "running event_loop_init"
  by (simp add: event_loop_init_def)

lemma idle_node_silent:
  "\<exists>w'. node_loop lib show_id turns [] (w, event_loop_init) = ((w', event_loop_init), [])"
proof (induction turns arbitrary: w)
  case (Cons t turns)
  show ?case
  proof (cases t)
    case TakeCommand
    then show ?thesis using Cons.IH [of w] by simp
  next
    case (Poll ev)
    then show ?thesis using Cons.IH [of "kl_event lib w ev"] by (auto simp: idle_loop_silent)
  qed
qed simp

lemma bootstrap_without_peers:
  assumes "kad_laws lib" and "\<not> kl_known_peers lib w" and "list_all no_contact turns"
  shows "\<exists>w'. (TakeCommand \<notin> set turns \<and>
        node_loop lib show_id turns [Bootstrap s] (w, event_loop_init) = ((w', event_loop_init), []))
    \<or> (TakeCommand \<in> set turns \<and> (\<exists>e. node_loop lib show_id turns [Bootstrap s] (w, event_loop_init)
          = ((w', event_loop_init), [(s, UnitReply (Err (BootstrapFailed [e])))])))"
  using assms(2,3)
proof (induction turns arbitrary: w)
  case (Cons t turns)
  show ?case
  proof (cases t)
    case TakeCommand
    obtain w1 dbg e where b: "kl_bootstrap lib w = (w1, Refused dbg e)"
      using assms(1) Cons.prems(1) unfolding kad_laws_def by (metis prod.collapse)
    then show ?thesis
      using TakeCommand idle_node_silent [of lib show_id turns w1] by (auto simp: handle_command_def)
  next
    case (Poll ev)
    then have "\<not> kl_known_peers lib (kl_event lib w ev)"
      using assms(1) Cons.prems unfolding kad_laws_def by (metis list.pred_inject(2) no_contact.simps(1))
    then show ?thesis
      using Poll Cons.IH [of "kl_event lib w ev"] Cons.prems(2) by (auto simp: idle_loop_silent)
  qed
qed simp

lemma add_bootstrap_nodes_none:
  "add_bootstrap_nodes nodes = [] \<longleftrightarrow> (\<forall>addr \<in> set nodes. extract_peer_id addr = None)"
  by (induction nodes) (auto split: option.splits)

lemma new_without_seed:
  assumes "kad_laws lib" and "list_all no_contact turns" and "\<forall>addr \<in> set nodes. extract_peer_id addr = None"
  shows "if TakeCommand \<in> set turns
    then \<exists>e. DhtNode_new lib show_id turns nodes m = Some (Err (BootstrapFailed [e]))
    else DhtNode_new lib show_id turns nodes m = None"
proof -
  have k: "kl_valid_protocol lib ''/ipfs/kad/1.0.0''"
    "\<not> kl_known_peers lib (kl_new lib (build_settings (kl_k_value lib) m))"
    using assms(1) by (simp_all add: kad_laws_def)
  have "add_bootstrap_nodes nodes = []" using assms(3) by (simp add: add_bootstrap_nodes_none)
  then show ?thesis
    using bootstrap_without_peers [OF assms(1) k(2) assms(2), of show_id 0] k(1)
    by (auto simp: DhtNode_new_def build_swarm_def build_settings_def node_request_def await_reply_def
        node_call_def Let_def)
qed

text \<open>With seeds, the node comes up as the bootstrap query ends.\<close>

fun seeded :: "'w kad_library \<Rightarrow> Multiaddr list \<Rightarrow> 'w \<Rightarrow> 'w" where
  "seeded lib [] w = w"
| "seeded lib (addr # addrs) w =
     seeded lib addrs (case extract_peer_id addr of Some p \<Rightarrow> kl_add_address lib w p addr | None \<Rightarrow> w)"

lemma node_loop_seeds:
  "node_loop lib show_id (replicate (length (add_bootstrap_nodes nodes)) TakeCommand @ turns)
      (add_bootstrap_nodes nodes @ queue) (w, event_loop_init)
    = node_loop lib show_id turns queue (seeded lib nodes w, event_loop_init)"
  by (induction nodes arbitrary: w) (simp_all add: handle_command_def split: option.split)

lemma bootstrap_answered:
  assumes "kl_bootstrap lib w = (w', Started i)"
  shows "snd (node_loop lib show_id [TakeCommand, Poll (OutboundQueryProgressed i (BootstrapResult r))]
      [Bootstrap s] (w, event_loop_init))
    = [(s, UnitReply (case r of IoOk _ \<Rightarrow> Ok () | IoErr e \<Rightarrow> Err (BootstrapFailed [e])))]"
  using assms by (simp add: handle_command_def handle_swarm_event_def event_loop_init_def case_prod_beta)

section \<open>Properties\<close>


text \<open>A behaviour that counts its queries and keeps the peers that were added.\<close>

definition sample_kad :: "(nat \<times> string list) kad_library" where
  "sample_kad = \<lparr> kl_k_value = 20, kl_valid_protocol = (\<lambda>p. p \<noteq> [] \<and> hd p = CHR ''/''),
     kl_new = (\<lambda>_. (0, [])), kl_known_peers = (\<lambda>w. snd w \<noteq> []),
     kl_add_address = (\<lambda>(n, ps) p addr. (n, p # ps)),
     kl_put_record = (\<lambda>(n, ps) k v. ((n + 1, ps), Started n)),
     kl_get_record = (\<lambda>(n, ps) k. ((n + 1, ps), n)),
     kl_bootstrap = (\<lambda>(n, ps). if ps = [] then ((n, ps), Refused ''NoKnownPeers'' ''No known peers.'')
       else ((n + 1, ps), Started n)),
     kl_event = (\<lambda>(n, ps) ev. case ev of ConnectionEstablished p \<Rightarrow> (n, p # ps) | _ \<Rightarrow> (n, ps)) \<rparr>"

lemma sample_kad_laws: "kad_laws sample_kad"
  by (auto simp: kad_laws_def sample_kad_def split: swarm_event.split)


end
