(* ===== verification/Audio_Pipeline.thy ===== *)
theory Audio_Pipeline
  imports Core_Config Moq_Session
begin

text \<open>
  The Opus wrapper (\<open>src/crates/voip-client/src/audio.rs\<close>) and the audio pipeline with its jitter
  buffer (\<open>src/crates/voip-client/src/pipeline.rs\<close>).

  The Opus library is an argument, the record \<open>opus_lib\<close>: creating a coder, changing a setting, and
  coding one frame.  Its coders are values of the two type parameters.  The two atomic counters of
  the pipeline wrap around, as \<open>fetch_add\<close> does.
\<close>

type_synonym i16 = "16 word"

section \<open>The codec\<close>

datatype AudioError =
    AudioEncoderError string
  | AudioDecoderError string
  | InvalidFrameSize nat
  | BufferTooSmall nat nat

datatype Application = Voip | AudioApplication | LowDelay

datatype Channels = Mono | Stereo

datatype Bitrate = Bits i32 | BitrateMax | BitrateAuto

record OpusCodecConfig =
  cc_sample_rate :: u32
  cc_channels :: u8
  cc_application :: Application
  cc_bitrate :: Bitrate
  cc_bitrate_min :: i32
  cc_frame_duration_ms :: u32
  cc_fec :: bool
  cc_dtx :: bool
  cc_complexity :: u8
  cc_frame_size :: nat

definition OpusCodecConfig_default :: OpusCodecConfig where
  "OpusCodecConfig_default =
     \<lparr>cc_sample_rate = 48000, cc_channels = 1, cc_application = Voip, cc_bitrate = Bits 64000,
      cc_bitrate_min = 6000, cc_frame_duration_ms = 20, cc_fec = True, cc_dtx = True, cc_complexity = 10,
      cc_frame_size = 960\<rparr>"

definition from_voip_config :: "VoIPConfig \<Rightarrow> OpusCodecConfig" where
  "from_voip_config cfg = OpusCodecConfig_default"

definition max_packet_size :: "OpusCodecConfig \<Rightarrow> nat" where
  "max_packet_size c = 160"

definition opus_channels :: "OpusCodecConfig \<Rightarrow> Channels" where
  "opus_channels c = (if cc_channels c = 1 then Mono else Stereo)"

datatype opus_setting = SetBitrate Bitrate | SetInbandFec bool | SetDtx bool | SetComplexity i32

record ('e, 'd) opus_lib =
  lib_new_encoder :: "u32 \<Rightarrow> Channels \<Rightarrow> Application \<Rightarrow> 'e io"
  lib_new_decoder :: "u32 \<Rightarrow> Channels \<Rightarrow> 'd io"
  lib_set :: "opus_setting \<Rightarrow> 'e \<Rightarrow> 'e \<times> unit io"
  lib_encode :: "i16 list \<Rightarrow> nat \<Rightarrow> 'e \<Rightarrow> 'e \<times> bytes io"
  lib_decode :: "bytes \<Rightarrow> nat \<Rightarrow> bool \<Rightarrow> 'd \<Rightarrow> 'd \<times> i16 list io"

record 'e OpusEncoder =
  oe_encoder :: 'e
  oe_config :: OpusCodecConfig

text \<open>The settings in the order they are applied, each with the text its failure is reported under.\<close>

definition config_settings :: "OpusCodecConfig \<Rightarrow> (opus_setting \<times> string) list" where
  "config_settings c =
     [(SetBitrate (cc_bitrate c), ''set bitrate: ''), (SetBitrate (cc_bitrate c), ''set min bitrate: '')]
     @ (if cc_fec c then [(SetInbandFec True, ''set FEC: '')] else [])
     @ (if cc_dtx c then [(SetDtx True, ''set DTX: '')] else [])
     @ [(SetComplexity (ucast (cc_complexity c)), ''set complexity: '')]"

fun apply_settings ::
  "('e, 'd) opus_lib \<Rightarrow> (opus_setting \<times> string) list \<Rightarrow> 'e \<Rightarrow> 'e \<times> (unit, AudioError) result" where
  "apply_settings lib [] e = (e, Ok ())"
| "apply_settings lib ((s, msg) # rest) e =
     (case lib_set lib s e of
        (e, IoOk _) \<Rightarrow> apply_settings lib rest e
      | (e, IoErr err) \<Rightarrow> (e, Err (AudioEncoderError (msg @ err))))"

definition apply_config ::
  "('e, 'd) opus_lib \<Rightarrow> 'e OpusEncoder \<Rightarrow> 'e OpusEncoder \<times> (unit, AudioError) result" where
  "apply_config lib enc =
     (case apply_settings lib (config_settings (oe_config enc)) (oe_encoder enc) of
        (e, r) \<Rightarrow> (enc\<lparr>oe_encoder := e\<rparr>, r))"

definition OpusEncoder_new ::
  "('e, 'd) opus_lib \<Rightarrow> OpusCodecConfig \<Rightarrow> ('e OpusEncoder, AudioError) result" where
  "OpusEncoder_new lib cfg =
     (case lib_new_encoder lib (cc_sample_rate cfg) (opus_channels cfg) (cc_application cfg) of
        IoErr e \<Rightarrow> Err (AudioEncoderError (''create encoder: '' @ e))
      | IoOk e \<Rightarrow>
          (case apply_config lib \<lparr>oe_encoder = e, oe_config = cfg\<rparr> of
             (enc, Ok _) \<Rightarrow> Ok enc
           | (enc, Err err) \<Rightarrow> Err err
           | (enc, Panic) \<Rightarrow> Panic))"

definition expected_samples :: "OpusCodecConfig \<Rightarrow> nat" where
  "expected_samples c = cc_frame_size c * unat (cc_channels c)"

text \<open>Writing into a caller's buffer leaves the rest of it unchanged.\<close>

definition OpusEncoder_encode ::
  "('e, 'd) opus_lib \<Rightarrow> i16 list \<Rightarrow> bytes \<Rightarrow> 'e OpusEncoder
     \<Rightarrow> 'e OpusEncoder \<times> bytes \<times> (nat, AudioError) result" where
  "OpusEncoder_encode lib pcm output enc =
     (let c = oe_config enc in
      if length pcm < expected_samples c then (enc, output, Err (InvalidFrameSize (length pcm)))
      else if length output < max_packet_size c
      then (enc, output, Err (BufferTooSmall (max_packet_size c) (length output)))
      else case lib_encode lib (take (expected_samples c) pcm) (length output) (oe_encoder enc) of
             (e, IoOk bs) \<Rightarrow> (enc\<lparr>oe_encoder := e\<rparr>, bs @ drop (length bs) output, Ok (length bs))
           | (e, IoErr err) \<Rightarrow> (enc\<lparr>oe_encoder := e\<rparr>, output, Err (AudioEncoderError (''encode: '' @ err))))"

definition OpusEncoder_encode_vec ::
  "('e, 'd) opus_lib \<Rightarrow> i16 list \<Rightarrow> 'e OpusEncoder \<Rightarrow> 'e OpusEncoder \<times> (bytes, AudioError) result" where
  "OpusEncoder_encode_vec lib pcm enc =
     (let c = oe_config enc in
      if length pcm < expected_samples c then (enc, Err (InvalidFrameSize (length pcm)))
      else case lib_encode lib (take (expected_samples c) pcm) (max_packet_size c) (oe_encoder enc) of
             (e, IoOk bs) \<Rightarrow> (enc\<lparr>oe_encoder := e\<rparr>, Ok bs)
           | (e, IoErr err) \<Rightarrow> (enc\<lparr>oe_encoder := e\<rparr>, Err (AudioEncoderError (''encode_vec: '' @ err))))"

definition packets_per_second :: "'e OpusEncoder \<Rightarrow> (u32, unit) result" where
  "packets_per_second enc =
     (if cc_frame_duration_ms (oe_config enc) = 0 then Panic
      else Ok (1000 div cc_frame_duration_ms (oe_config enc)))"

definition OpusEncoder_set_bitrate ::
  "('e, 'd) opus_lib \<Rightarrow> Bitrate \<Rightarrow> 'e OpusEncoder \<Rightarrow> 'e OpusEncoder \<times> (unit, AudioError) result" where
  "OpusEncoder_set_bitrate lib b enc =
     (case lib_set lib (SetBitrate b) (oe_encoder enc) of
        (e, IoOk _) \<Rightarrow> (enc\<lparr>oe_encoder := e\<rparr>, Ok ())
      | (e, IoErr err) \<Rightarrow> (enc\<lparr>oe_encoder := e\<rparr>, Err (AudioEncoderError (''set bitrate: '' @ err))))"

record 'd OpusDecoder =
  od_decoder :: 'd
  od_config :: OpusCodecConfig

definition OpusDecoder_new ::
  "('e, 'd) opus_lib \<Rightarrow> OpusCodecConfig \<Rightarrow> ('d OpusDecoder, AudioError) result" where
  "OpusDecoder_new lib cfg =
     (case lib_new_decoder lib (cc_sample_rate cfg) (opus_channels cfg) of
        IoErr e \<Rightarrow> Err (AudioDecoderError (''create decoder: '' @ e))
      | IoOk d \<Rightarrow> Ok \<lparr>od_decoder = d, od_config = cfg\<rparr>)"

text \<open>Decoding into a buffer, with the text a failure is reported under.\<close>

definition decode_into ::
  "('e, 'd) opus_lib \<Rightarrow> string \<Rightarrow> bytes \<Rightarrow> i16 list \<Rightarrow> bool \<Rightarrow> 'd OpusDecoder
     \<Rightarrow> 'd OpusDecoder \<times> i16 list \<times> (nat, AudioError) result" where
  "decode_into lib msg opus_data output use_fec dec =
     (let max_samples = expected_samples (od_config dec) in
      if length output < max_samples then (dec, output, Err (BufferTooSmall max_samples (length output)))
      else case lib_decode lib opus_data (length output) use_fec (od_decoder dec) of
             (d, IoOk pcm) \<Rightarrow> (dec\<lparr>od_decoder := d\<rparr>, pcm @ drop (length pcm) output, Ok (length pcm))
           | (d, IoErr err) \<Rightarrow> (dec\<lparr>od_decoder := d\<rparr>, output, Err (AudioDecoderError (msg @ err))))"

definition OpusDecoder_decode ::
  "('e, 'd) opus_lib \<Rightarrow> bytes \<Rightarrow> i16 list \<Rightarrow> bool \<Rightarrow> 'd OpusDecoder
     \<Rightarrow> 'd OpusDecoder \<times> i16 list \<times> (nat, AudioError) result" where
  "OpusDecoder_decode lib opus_data output use_fec dec =
     (if use_fec then decode_into lib ''decode FEC: '' opus_data output True dec
      else decode_into lib ''decode: '' opus_data output False dec)"

definition OpusDecoder_plc ::
  "('e, 'd) opus_lib \<Rightarrow> i16 list \<Rightarrow> 'd OpusDecoder \<Rightarrow> 'd OpusDecoder \<times> i16 list \<times> (nat, AudioError) result" where
  "OpusDecoder_plc lib output dec = decode_into lib ''PLC: '' [] output False dec"

definition truncated ::
  "'d OpusDecoder \<times> i16 list \<times> (nat, AudioError) result \<Rightarrow> 'd OpusDecoder \<times> (i16 list, AudioError) result" where
  "truncated = (\<lambda>(dec, output, r). (dec, res_map (\<lambda>samples. take samples output) r))"

definition OpusDecoder_decode_vec ::
  "('e, 'd) opus_lib \<Rightarrow> bytes \<Rightarrow> bool \<Rightarrow> 'd OpusDecoder \<Rightarrow> 'd OpusDecoder \<times> (i16 list, AudioError) result" where
  "OpusDecoder_decode_vec lib opus_data use_fec dec =
     truncated (OpusDecoder_decode lib opus_data (replicate (expected_samples (od_config dec)) 0) use_fec dec)"

definition OpusDecoder_plc_vec ::
  "('e, 'd) opus_lib \<Rightarrow> 'd OpusDecoder \<Rightarrow> 'd OpusDecoder \<times> (i16 list, AudioError) result" where
  "OpusDecoder_plc_vec lib dec =
     truncated (OpusDecoder_plc lib (replicate (expected_samples (od_config dec)) 0) dec)"

text \<open>Both coders with one configuration.  Each operation runs on its coder and leaves the other alone.\<close>

record ('e, 'd) OpusCodec =
  oc_encoder :: "'e OpusEncoder"
  oc_decoder :: "'d OpusDecoder"

definition OpusCodec_new :: "('e, 'd) opus_lib \<Rightarrow> OpusCodecConfig \<Rightarrow> (('e, 'd) OpusCodec, AudioError) result" where
  "OpusCodec_new lib cfg =
     res_bind (OpusEncoder_new lib cfg) (\<lambda>encoder.
     res_bind (OpusDecoder_new lib cfg) (\<lambda>decoder.
     Ok \<lparr>oc_encoder = encoder, oc_decoder = decoder\<rparr>))"

definition OpusCodec_encode ::
  "('e, 'd) opus_lib \<Rightarrow> i16 list \<Rightarrow> bytes \<Rightarrow> ('e, 'd) OpusCodec \<Rightarrow> ('e, 'd) OpusCodec \<times> bytes \<times> (nat, AudioError) result" where
  "OpusCodec_encode lib pcm output cd =
     map_prod (\<lambda>enc. cd\<lparr>oc_encoder := enc\<rparr>) id (OpusEncoder_encode lib pcm output (oc_encoder cd))"

definition OpusCodec_encode_vec ::
  "('e, 'd) opus_lib \<Rightarrow> i16 list \<Rightarrow> ('e, 'd) OpusCodec \<Rightarrow> ('e, 'd) OpusCodec \<times> (bytes, AudioError) result" where
  "OpusCodec_encode_vec lib pcm cd =
     map_prod (\<lambda>enc. cd\<lparr>oc_encoder := enc\<rparr>) id (OpusEncoder_encode_vec lib pcm (oc_encoder cd))"

definition OpusCodec_decode ::
  "('e, 'd) opus_lib \<Rightarrow> bytes \<Rightarrow> i16 list \<Rightarrow> bool \<Rightarrow> ('e, 'd) OpusCodec
     \<Rightarrow> ('e, 'd) OpusCodec \<times> i16 list \<times> (nat, AudioError) result" where
  "OpusCodec_decode lib opus_data output use_fec cd =
     map_prod (\<lambda>dec. cd\<lparr>oc_decoder := dec\<rparr>) id (OpusDecoder_decode lib opus_data output use_fec (oc_decoder cd))"

definition OpusCodec_decode_vec ::
  "('e, 'd) opus_lib \<Rightarrow> bytes \<Rightarrow> bool \<Rightarrow> ('e, 'd) OpusCodec \<Rightarrow> ('e, 'd) OpusCodec \<times> (i16 list, AudioError) result" where
  "OpusCodec_decode_vec lib opus_data use_fec cd =
     map_prod (\<lambda>dec. cd\<lparr>oc_decoder := dec\<rparr>) id (OpusDecoder_decode_vec lib opus_data use_fec (oc_decoder cd))"

definition OpusCodec_plc ::
  "('e, 'd) opus_lib \<Rightarrow> i16 list \<Rightarrow> ('e, 'd) OpusCodec \<Rightarrow> ('e, 'd) OpusCodec \<times> i16 list \<times> (nat, AudioError) result" where
  "OpusCodec_plc lib output cd =
     map_prod (\<lambda>dec. cd\<lparr>oc_decoder := dec\<rparr>) id (OpusDecoder_plc lib output (oc_decoder cd))"

definition OpusCodec_plc_vec ::
  "('e, 'd) opus_lib \<Rightarrow> ('e, 'd) OpusCodec \<Rightarrow> ('e, 'd) OpusCodec \<times> (i16 list, AudioError) result" where
  "OpusCodec_plc_vec lib cd =
     map_prod (\<lambda>dec. cd\<lparr>oc_decoder := dec\<rparr>) id (OpusDecoder_plc_vec lib (oc_decoder cd))"

section \<open>The pipeline\<close>

datatype PipelineError =
    PipelineEncoderError AudioError
  | PipelineDecoderError AudioError
  | PipelineInvalidFrameSize nat nat
  | PipelineMoqError MoqError
  | PipelineInvalidState string

fun PipelineError_from :: "AudioError \<Rightarrow> PipelineError" where
  "PipelineError_from (AudioEncoderError e) = PipelineEncoderError (AudioEncoderError e)"
| "PipelineError_from (AudioDecoderError e) = PipelineDecoderError (AudioDecoderError e)"
| "PipelineError_from (InvalidFrameSize n) = PipelineInvalidFrameSize 960 n"
| "PipelineError_from (BufferTooSmall needed avail) = PipelineInvalidState
     (''Buffer too small: need '' @ show_nat needed @ '', have '' @ show_nat avail)"

record ('e, 'd) AudioPipeline =
  ap_encoder :: "'e OpusEncoder"
  ap_decoder :: "'d OpusDecoder"
  ap_config :: VoIPConfig
  local_track_alias :: u32
  remote_track_alias :: u32
  ap_sequence :: u64
  ap_timestamp :: u64
  jitter_buffer :: "MoqDatagram list"
  jitter_target_ms :: u64
  last_playback_ts :: "u64 option"

definition AudioPipeline_new ::
  "('e, 'd) opus_lib \<Rightarrow> VoIPConfig \<Rightarrow> u32 \<Rightarrow> u32 \<Rightarrow> (('e, 'd) AudioPipeline, PipelineError) result" where
  "AudioPipeline_new lib cfg local_alias remote_alias =
     (case OpusEncoder_new lib (from_voip_config cfg) of
        Err e \<Rightarrow> Err (PipelineEncoderError e)
      | Panic \<Rightarrow> Panic
      | Ok enc \<Rightarrow>
          (case OpusDecoder_new lib (from_voip_config cfg) of
             Err e \<Rightarrow> Err (PipelineDecoderError e)
           | Panic \<Rightarrow> Panic
           | Ok dec \<Rightarrow>
               Ok \<lparr>ap_encoder = enc, ap_decoder = dec, ap_config = cfg, local_track_alias = local_alias,
                   remote_track_alias = remote_alias, ap_sequence = 0, ap_timestamp = 0, jitter_buffer = [],
                   jitter_target_ms = 20, last_playback_ts = None\<rparr>))"

definition encode_frame ::
  "('e, 'd) opus_lib \<Rightarrow> i16 list \<Rightarrow> ('e, 'd) AudioPipeline
     \<Rightarrow> ('e, 'd) AudioPipeline \<times> (MoqDatagram, PipelineError) result" where
  "encode_frame lib pcm p =
     (let n_samples = cc_frame_size (oe_config (ap_encoder p)) in
      if length pcm < n_samples then (p, Err (PipelineInvalidFrameSize n_samples (length pcm)))
      else case OpusEncoder_encode_vec lib (take n_samples pcm) (ap_encoder p) of
             (enc, Err e) \<Rightarrow> (p\<lparr>ap_encoder := enc\<rparr>, Err (PipelineEncoderError e))
           | (enc, Panic) \<Rightarrow> (p\<lparr>ap_encoder := enc\<rparr>, Panic)
           | (enc, Ok opus_data) \<Rightarrow>
               (p\<lparr>ap_encoder := enc, ap_sequence := ap_sequence p + 1,
                  ap_timestamp := ap_timestamp p + of_nat n_samples\<rparr>,
                Ok (MoqDatagram_audio (local_track_alias p) (ap_sequence p) (ap_timestamp p) opus_data)))"

definition decode_payload ::
  "('e, 'd) opus_lib \<Rightarrow> bool \<Rightarrow> MoqDatagram \<Rightarrow> ('e, 'd) AudioPipeline
     \<Rightarrow> ('e, 'd) AudioPipeline \<times> (i16 list, PipelineError) result" where
  "decode_payload lib use_fec d p =
     (case OpusDecoder_decode_vec lib (payload d) use_fec (ap_decoder p) of
        (dec, Ok pcm) \<Rightarrow> (p\<lparr>ap_decoder := dec\<rparr>, Ok pcm)
      | (dec, Err e) \<Rightarrow> (p\<lparr>ap_decoder := dec\<rparr>, Err (PipelineDecoderError e))
      | (dec, Panic) \<Rightarrow> (p\<lparr>ap_decoder := dec\<rparr>, Panic))"

definition decode_frame ::
  "('e, 'd) opus_lib \<Rightarrow> MoqDatagram \<Rightarrow> ('e, 'd) AudioPipeline
     \<Rightarrow> ('e, 'd) AudioPipeline \<times> (i16 list, PipelineError) result" where
  "decode_frame lib d p = decode_payload lib False d p"

definition decode_with_fec ::
  "('e, 'd) opus_lib \<Rightarrow> MoqDatagram \<Rightarrow> ('e, 'd) AudioPipeline
     \<Rightarrow> ('e, 'd) AudioPipeline \<times> (i16 list, PipelineError) result" where
  "decode_with_fec lib d p = decode_payload lib True d p"

definition pipeline_plc ::
  "('e, 'd) opus_lib \<Rightarrow> ('e, 'd) AudioPipeline \<Rightarrow> ('e, 'd) AudioPipeline \<times> (i16 list, PipelineError) result" where
  "pipeline_plc lib p =
     (case OpusDecoder_plc_vec lib (ap_decoder p) of
        (dec, Ok pcm) \<Rightarrow> (p\<lparr>ap_decoder := dec\<rparr>, Ok pcm)
      | (dec, Err e) \<Rightarrow> (p\<lparr>ap_decoder := dec\<rparr>, Err (PipelineDecoderError e))
      | (dec, Panic) \<Rightarrow> (p\<lparr>ap_decoder := dec\<rparr>, Panic))"

text \<open>\<open>position(..).unwrap_or(len)\<close> and \<open>VecDeque::insert\<close>.\<close>

definition insert_datagram :: "MoqDatagram \<Rightarrow> MoqDatagram list \<Rightarrow> MoqDatagram list" where
  "insert_datagram d buf =
     (let pos = length (takeWhile (\<lambda>x. \<not> sequence d < sequence x) buf) in take pos buf @ d # drop pos buf)"

definition buffer_incoming :: "MoqDatagram \<Rightarrow> ('e, 'd) AudioPipeline \<Rightarrow> ('e, 'd) AudioPipeline" where
  "buffer_incoming d p =
     (if \<exists>x \<in> set (jitter_buffer p). sequence x = sequence d then p
      else p\<lparr>jitter_buffer := insert_datagram d (jitter_buffer p)\<rparr>)"

definition should_drain :: "u64 \<Rightarrow> u64 \<Rightarrow> u64 option \<Rightarrow> MoqDatagram \<Rightarrow> nat \<Rightarrow> bool" where
  "should_drain target now_ts played front len =
     (case played of
        Some last_ts \<Rightarrow>
          target \<le> saturating_sub last_ts (timestamp front)
          \<or> target * 2 \<le> saturating_sub now_ts (timestamp front)
      | None \<Rightarrow> 2 \<le> len)"

fun drain_loop ::
  "u64 \<Rightarrow> u64 \<Rightarrow> u64 option \<Rightarrow> MoqDatagram list \<Rightarrow> MoqDatagram list \<times> MoqDatagram list" where
  "drain_loop target now_ts played [] = ([], [])"
| "drain_loop target now_ts played (front # rest) =
     (if should_drain target now_ts played front (length (front # rest))
      then (case drain_loop target now_ts played rest of (ready, buf) \<Rightarrow> (front # ready, buf))
      else ([], front # rest))"

definition drain_buffer :: "('e, 'd) AudioPipeline \<Rightarrow> ('e, 'd) AudioPipeline \<times> MoqDatagram list" where
  "drain_buffer p =
     (let target = (48000 * jitter_target_ms p) div 1000;
          (ready, buf) = drain_loop target (ap_timestamp p) (last_playback_ts p) (jitter_buffer p)
      in (p\<lparr>jitter_buffer := buf,
            last_playback_ts := (if ready = [] then last_playback_ts p else Some (timestamp (last ready)))\<rparr>,
          ready))"

section \<open>The jitter buffer\<close>

definition in_order :: "MoqDatagram list \<Rightarrow> bool" where
  "in_order buf \<longleftrightarrow> sorted_wrt (\<lambda>x y. sequence x < sequence y) buf"

lemma in_order_append:
  "in_order (xs @ ys) \<longleftrightarrow> in_order xs \<and> in_order ys \<and> (\<forall>x \<in> set xs. \<forall>y \<in> set ys. sequence x < sequence y)"
  by (simp add: in_order_def sorted_wrt_append)

lemma in_order_Cons: "in_order (x # xs) \<longleftrightarrow> (\<forall>y \<in> set xs. sequence x < sequence y) \<and> in_order xs"
  by (simp add: in_order_def)

text \<open>The position found is the only one that keeps the order.\<close>

lemma insert_datagram_split:
  assumes "in_order buf" and "\<forall>x \<in> set buf. sequence x \<noteq> sequence d"
  shows "\<exists>lo hi. buf = lo @ hi \<and> insert_datagram d buf = lo @ d # hi
    \<and> (\<forall>x \<in> set lo. sequence x < sequence d) \<and> (\<forall>x \<in> set hi. sequence d < sequence x)"
proof -
  let ?P = "\<lambda>x. \<not> sequence d < sequence x"
  define lo where "lo = takeWhile ?P buf"
  define hi where "hi = dropWhile ?P buf"
  have split: "buf = lo @ hi" by (simp add: lo_def hi_def)
  then have "insert_datagram d buf = lo @ d # hi"
    unfolding insert_datagram_def lo_def [symmetric] by simp
  moreover have "\<forall>x \<in> set lo. sequence x < sequence d"
    using assms(2) split unfolding lo_def by (metis UnCI linorder_less_linear set_append set_takeWhileD)
  moreover have "\<forall>x \<in> set hi. sequence d < sequence x"
  proof (cases hi)
    case (Cons h hs)
    then have "sequence d < sequence h" unfolding hi_def by (metis hd_dropWhile list.distinct(1) list.sel(1))
    moreover have "\<forall>x \<in> set hs. sequence h < sequence x"
      using assms(1) split Cons by (simp add: in_order_append in_order_Cons)
    ultimately show ?thesis using Cons by auto
  qed simp
  ultimately show ?thesis using split by blast
qed

lemma insert_datagram_ok:
  assumes "in_order (out @ buf)" and "\<forall>x \<in> set out. sequence x < sequence d"
    and "\<forall>x \<in> set buf. sequence x \<noteq> sequence d"
  shows "in_order (out @ insert_datagram d buf)" and "set (insert_datagram d buf) = insert d (set buf)"
proof -
  obtain lo hi where s: "buf = lo @ hi" "insert_datagram d buf = lo @ d # hi"
    "\<forall>x \<in> set lo. sequence x < sequence d" "\<forall>x \<in> set hi. sequence d < sequence x"
    using insert_datagram_split [of buf d] assms by (auto simp: in_order_append)
  then show "in_order (out @ insert_datagram d buf)" and "set (insert_datagram d buf) = insert d (set buf)"
    using assms by (auto simp: in_order_append in_order_Cons)
qed

lemma drain_loop_splits: "drain_loop target now_ts played buf = (ready, rest) \<Longrightarrow> buf = ready @ rest"
  by (induction buf arbitrary: ready rest) (auto split: if_splits prod.splits)

lemma drain_buffer_splits:
  assumes "drain_buffer p = (p', ready)"
  shows "jitter_buffer p = ready @ jitter_buffer p'"
  using assms by (auto simp: drain_buffer_def Let_def split: prod.splits dest: drain_loop_splits)

text \<open>Receiving and playing, in any interleaving.  A datagram is timely if nothing newer has been
  played before it arrives.\<close>

datatype jitter_op = Push MoqDatagram | Drain

fun play :: "jitter_op list \<Rightarrow> ('e, 'd) AudioPipeline \<Rightarrow> ('e, 'd) AudioPipeline \<times> MoqDatagram list" where
  "play [] p = (p, [])"
| "play (Push d # ops) p = play ops (buffer_incoming d p)"
| "play (Drain # ops) p =
     (let (p, ready) = drain_buffer p; (p, later) = play ops p in (p, ready @ later))"

fun timely :: "jitter_op list \<Rightarrow> ('e, 'd) AudioPipeline \<Rightarrow> MoqDatagram list \<Rightarrow> bool" where
  "timely [] p out \<longleftrightarrow> True"
| "timely (Push d # ops) p out \<longleftrightarrow> (\<forall>x \<in> set out. sequence x < sequence d) \<and> timely ops (buffer_incoming d p) out"
| "timely (Drain # ops) p out \<longleftrightarrow> (let (p, ready) = drain_buffer p in timely ops p (out @ ready))"

fun pushed :: "jitter_op list \<Rightarrow> MoqDatagram list" where
  "pushed [] = []"
| "pushed (Push d # ops) = d # pushed ops"
| "pushed (Drain # ops) = pushed ops"

lemma buffer_incoming_ok:
  assumes "in_order (out @ jitter_buffer p)" and "\<forall>x \<in> set out. sequence x < sequence d"
  shows "in_order (out @ jitter_buffer (buffer_incoming d p))
    \<and> sequence ` set (jitter_buffer (buffer_incoming d p)) = insert (sequence d) (sequence ` set (jitter_buffer p))
    \<and> set (jitter_buffer (buffer_incoming d p)) \<subseteq> insert d (set (jitter_buffer p))"
proof (cases "\<exists>x \<in> set (jitter_buffer p). sequence x = sequence d")
  case True
  then have "sequence d \<in> sequence ` set (jitter_buffer p)" by (metis image_eqI)
  with True assms(1) show ?thesis by (auto simp: buffer_incoming_def insert_absorb)
next
  case False
  then show ?thesis
    using insert_datagram_ok [OF assms(1,2)] assms(1) by (auto simp: buffer_incoming_def)
qed

lemma play_ok:
  assumes "play ops p = (p', later)" and "timely ops p out" and "in_order (out @ jitter_buffer p)"
  shows "in_order (out @ later @ jitter_buffer p')
    \<and> sequence ` set (later @ jitter_buffer p') = sequence ` (set (jitter_buffer p) \<union> set (pushed ops))
    \<and> set (later @ jitter_buffer p') \<subseteq> set (jitter_buffer p) \<union> set (pushed ops)"
  using assms
proof (induction ops arbitrary: p out later)
  case Nil
  then show ?case by simp
next
  case (Cons op ops)
  show ?case
  proof (cases op)
    case (Push d)
    have b: "\<forall>x \<in> set out. sequence x < sequence d" using Cons.prems(2) Push by simp
    note i = buffer_incoming_ok [OF Cons.prems(3) b]
    have "in_order (out @ later @ jitter_buffer p')
      \<and> sequence ` set (later @ jitter_buffer p') = sequence ` (set (jitter_buffer (buffer_incoming d p)) \<union> set (pushed ops))
      \<and> set (later @ jitter_buffer p') \<subseteq> set (jitter_buffer (buffer_incoming d p)) \<union> set (pushed ops)"
      using Cons.prems(1,2) Push i by (intro Cons.IH) simp_all
    with i Push show ?thesis by (auto simp: image_Un)
  next
    case Drain
    obtain p1 ready where d: "drain_buffer p = (p1, ready)" by fastforce
    obtain m where m: "play ops p1 = (p', m)" "later = ready @ m"
      using Cons.prems(1) Drain d by (auto split: prod.splits)
    note s = drain_buffer_splits [OF d]
    have "in_order ((out @ ready) @ m @ jitter_buffer p')
      \<and> sequence ` set (m @ jitter_buffer p') = sequence ` (set (jitter_buffer p1) \<union> set (pushed ops))
      \<and> set (m @ jitter_buffer p') \<subseteq> set (jitter_buffer p1) \<union> set (pushed ops)"
      using Cons.prems(2,3) Drain d s by (intro Cons.IH [OF m(1)]) simp_all
    with s m(2) Drain show ?thesis by (auto simp: image_Un)
  qed
qed

section \<open>Properties\<close>


definition sample_pipeline :: "(unit, unit) AudioPipeline" where
  "sample_pipeline = \<lparr>ap_encoder = \<lparr>oe_encoder = (), oe_config = OpusCodecConfig_default\<rparr>,
     ap_decoder = \<lparr>od_decoder = (), od_config = OpusCodecConfig_default\<rparr>, ap_config = VoIPConfig_default,
     local_track_alias = 1, remote_track_alias = 2, ap_sequence = 0, ap_timestamp = 9600, jitter_buffer = [],
     jitter_target_ms = 20, last_playback_ts = None\<rparr>"

definition sample_datagram :: "u64 \<Rightarrow> MoqDatagram" where
  "sample_datagram n = MoqDatagram_audio 2 n (960 * n) [of_nat (unat n)]"


section \<open>What the pipeline does not do\<close>

text \<open>Once playback has begun, datagrams leave the buffer only as the local send clock advances: a client
  that receives and does not send plays nothing further.\<close>

lemma receiver_starves:
  assumes "last_playback_ts p = Some t" and "ap_timestamp p = 0" and "jitter_target_ms p = 20"
    and "\<forall>d \<in> set (jitter_buffer p). t \<le> timestamp d"
  shows "drain_buffer p = (p, [])"
proof (cases "jitter_buffer p")
  case Nil
  then show ?thesis by (simp add: drain_buffer_def)
next
  case (Cons d ds)
  then have "saturating_sub t (timestamp d) = 0" and "saturating_sub 0 (timestamp d) = 0"
    using assms(4) by (auto simp: saturating_sub_def)
  then show ?thesis
    using assms Cons by (simp add: drain_buffer_def should_drain_def)
qed

text \<open>Duplicates are recognised only while the first copy is buffered; a copy of a datagram that has been
  played is buffered again.\<close>

lemma played_duplicate_accepted:
  assumes "jitter_buffer p = []"
  shows "jitter_buffer (buffer_incoming d p) = [d]"
  using assms by (simp add: buffer_incoming_def insert_datagram_def)

text \<open>The minimal bit rate is never applied: the step that should set it sets the maximum again.\<close>

lemma min_bitrate_ignored:
  "apply_config lib (enc\<lparr>oe_config := (oe_config enc)\<lparr>cc_bitrate_min := b\<rparr>\<rparr>)
   = (case apply_config lib enc of (e, r) \<Rightarrow> (e\<lparr>oe_config := (oe_config enc)\<lparr>cc_bitrate_min := b\<rparr>\<rparr>, r))"
  by (simp add: apply_config_def config_settings_def split: prod.splits)

text \<open>Frames get consecutive sequence numbers and time stamps one frame apart.\<close>

lemma encode_frame_advances:
  assumes "encode_frame lib pcm p = (p', Ok d)"
  shows "sequence d = ap_sequence p \<and> timestamp d = ap_timestamp p \<and> track_alias d = local_track_alias p
    \<and> ap_sequence p' = ap_sequence p + 1
    \<and> ap_timestamp p' = ap_timestamp p + of_nat (cc_frame_size (oe_config (ap_encoder p)))"
  using assms
  by (auto simp: encode_frame_def Let_def MoqDatagram_audio_def MoqDatagram_new_def
      split: if_splits prod.splits result.splits)

end
