(* ===== verification/Connection_Race.thy ===== *)
theory Connection_Race
  imports Core_Config "HOL-Library.Multiset"
begin

text \<open>
  The two racing connection strategies of \<open>src/crates/voip-client/src/connection.rs\<close>:
  Happy Eyeballs over pre-resolved addresses, and the simultaneous open, which accepts and connects
  at the same time.

  A QUIC attempt answers a \<open>dial\<close>: the endpoint refuses it, it connects, it fails, or the time limit
  strikes.  Tasks run concurrently.  For Happy Eyeballs every attempt carries the time at which it
  finishes, and the order in which the runtime hands over finished tasks is an argument.  For the
  simultaneous open the scheduler's choices at every turn of the \<open>select!\<close> loop are arguments: which
  handle is polled first, which tasks are finished when polled, and which when asked afterwards.
  Times are nanoseconds since the start.
\<close>

section \<open>Attempts\<close>

datatype ConnectError =
    ConnectQuicError string
  | ConnectNetworkError string
  | ConnectQuicTimeout u64
  | NatProbeFailed string
  | ConnectAllMethodsFailed
  | ConnectMasqueUnreachable

datatype 'c dial = DialRefused string | DialConnected 'c | DialFailed string | DialTimeout

definition connect_with_timeout :: "u64 \<Rightarrow> 'c dial \<Rightarrow> ('c, ConnectError) result" where
  "connect_with_timeout timeout_ms answer =
     (case answer of
        DialRefused e \<Rightarrow> Err (ConnectNetworkError e)
      | DialTimeout \<Rightarrow> Err (ConnectQuicTimeout timeout_ms)
      | DialFailed e \<Rightarrow> Err (ConnectQuicError e)
      | DialConnected c \<Rightarrow> Ok c)"

definition try_connect_single :: "u64 \<Rightarrow> 'c dial \<Rightarrow> ('c, ConnectError) result" where
  "try_connect_single timeout_ms answer =
     (case answer of
        DialRefused e \<Rightarrow> Err (ConnectNetworkError e)
      | DialTimeout \<Rightarrow> Err (ConnectQuicTimeout timeout_ms)
      | DialFailed e \<Rightarrow> Err (ConnectQuicError e)
      | DialConnected c \<Rightarrow> Ok c)"

text \<open>What awaiting a task yields: its result, or a join error.\<close>

datatype 'r joined = Joined 'r | JoinFailed string

section \<open>Happy Eyeballs\<close>

definition HAPPY_EYEBALLS_IPV6_HEAD_START :: nat where
  "HAPPY_EYEBALLS_IPV6_HEAD_START = 25 * 10 ^ 6"

type_synonym ('a, 'c) eyeball = "nat \<times> 'a \<times> ('c, ConnectError) result joined"

text \<open>The attempts as spawned: \<open>answer\<close> gives for an address how long its attempt takes and what it
  yields; the attempts of the second list start after the head start.\<close>

definition eyeball_attempts ::
  "('a \<Rightarrow> nat \<times> 'c dial joined) \<Rightarrow> u64 \<Rightarrow> 'a list \<Rightarrow> 'a list \<Rightarrow> ('a, 'c) eyeball list" where
  "eyeball_attempts answer timeout_ms ipv6_addrs ipv4_addrs =
     (let task = (\<lambda>start a. case answer a of
            (d, Joined r) \<Rightarrow> (start + d, a, Joined (connect_with_timeout timeout_ms r))
          | (d, JoinFailed e) \<Rightarrow> (start + d, a, JoinFailed e))
      in map (task 0) ipv6_addrs @ map (task HAPPY_EYEBALLS_IPV6_HEAD_START) ipv4_addrs)"

fun eyeball_loop :: "ConnectError \<Rightarrow> ('a, 'c) eyeball list \<Rightarrow> ('c, ConnectError) result" where
  "eyeball_loop last_error [] = Err last_error"
| "eyeball_loop last_error ((_, _, Joined (Ok conn)) # rest) = Ok conn"
| "eyeball_loop last_error ((_, _, Joined (Err e)) # rest) = eyeball_loop e rest"
| "eyeball_loop last_error ((_, _, Joined Panic) # rest) = Panic"
| "eyeball_loop last_error ((_, _, JoinFailed e) # rest) =
     eyeball_loop (ConnectNetworkError (''task error: '' @ e)) rest"

definition happy_eyeballs_connect ::
  "(('a, 'c) eyeball list \<Rightarrow> ('a, 'c) eyeball list) \<Rightarrow> ('a \<Rightarrow> nat \<times> 'c dial joined) \<Rightarrow> 'a list \<Rightarrow> 'a list
     \<Rightarrow> u64 \<Rightarrow> ('c, ConnectError) result" where
  "happy_eyeballs_connect order answer ipv6_addrs ipv4_addrs timeout_ms =
     eyeball_loop (ConnectNetworkError ''no addresses to connect'')
       (order (eyeball_attempts answer timeout_ms ipv6_addrs ipv4_addrs))"

section \<open>Simultaneous open\<close>

text \<open>The accepting task: the next incoming connection under the time limit; \<open>None\<close> stands for a
  closed endpoint.\<close>

datatype 'c incoming = IncomingConnected 'c | IncomingFailed string | EndpointClosed | AcceptTimeout

definition accept_task :: "u64 \<Rightarrow> 'c incoming \<Rightarrow> ('c, ConnectError) result" where
  "accept_task timeout_ms answer =
     (case answer of
        IncomingConnected c \<Rightarrow> Ok c
      | IncomingFailed e \<Rightarrow> Err (ConnectQuicError e)
      | EndpointClosed \<Rightarrow> Err (ConnectNetworkError ''endpoint closed'')
      | AcceptTimeout \<Rightarrow> Err (ConnectQuicTimeout timeout_ms))"

text \<open>The connecting task: the addresses one after the other.\<close>

fun connect_task :: "u64 \<Rightarrow> ('a \<Rightarrow> 'c dial) \<Rightarrow> 'a list \<Rightarrow> ('c, ConnectError) result" where
  "connect_task timeout_ms answer [] =
     Err (ConnectNetworkError ''all simultaneous open connect attempts failed'')"
| "connect_task timeout_ms answer (addr # rest) =
     (case try_connect_single timeout_ms (answer addr) of
        Ok conn \<Rightarrow> Ok conn
      | Err _ \<Rightarrow> connect_task timeout_ms answer rest
      | Panic \<Rightarrow> Panic)"

datatype side = AcceptSide | ConnectSide

fun other_side :: "side \<Rightarrow> side" where
  "other_side AcceptSide = ConnectSide"
| "other_side ConnectSide = AcceptSide"

record turn =
  tu_first :: side
  tu_finished :: "side \<Rightarrow> bool"
  tu_after :: "side \<Rightarrow> bool"

text \<open>One poll of \<open>select!\<close>: the branches in the order of the turn.  A join handle whose result was
  taken panics when it is polled again.\<close>

datatype poll = PollReady side | PollPending | PollPanic

definition poll_handle :: "side list \<Rightarrow> turn \<Rightarrow> side \<Rightarrow> poll" where
  "poll_handle taken t s =
     (if s \<in> set taken then PollPanic else if tu_finished t s then PollReady s else PollPending)"

definition select_poll :: "side list \<Rightarrow> turn \<Rightarrow> poll" where
  "select_poll taken t =
     (case poll_handle taken t (tu_first t) of
        PollPending \<Rightarrow> poll_handle taken t (other_side (tu_first t))
      | p \<Rightarrow> p)"

text \<open>The loop; \<open>None\<close> while it is still waiting when the turns are used up.\<close>

fun select_loop ::
  "(side \<Rightarrow> ('c, ConnectError) result joined) \<Rightarrow> side list \<Rightarrow> turn list \<Rightarrow> ('c, ConnectError) result option" where
  "select_loop outcome taken [] = None"
| "select_loop outcome taken (t # turns) =
     (case select_poll taken t of
        PollPanic \<Rightarrow> Some Panic
      | PollPending \<Rightarrow> select_loop outcome taken turns
      | PollReady s \<Rightarrow>
          (case outcome s of
             Joined (Ok conn) \<Rightarrow> Some (Ok conn)
           | Joined Panic \<Rightarrow> Some Panic
           | Joined (Err e) \<Rightarrow>
               if tu_after t (other_side s) then Some (Err e)
               else select_loop outcome (s # taken) turns
           | JoinFailed e \<Rightarrow>
               if tu_after t (other_side s) then Some (Err (ConnectNetworkError (''task error: '' @ e)))
               else select_loop outcome (s # taken) turns))"

fun sim_outcome ::
  "u64 \<Rightarrow> 'c incoming joined \<Rightarrow> ('a \<Rightarrow> 'c dial) joined \<Rightarrow> 'a list \<Rightarrow> side \<Rightarrow> ('c, ConnectError) result joined" where
  "sim_outcome timeout_ms (Joined a) dials addrs AcceptSide = Joined (accept_task timeout_ms a)"
| "sim_outcome timeout_ms (JoinFailed e) dials addrs AcceptSide = JoinFailed e"
| "sim_outcome timeout_ms accepted (Joined d) addrs ConnectSide = Joined (connect_task timeout_ms d addrs)"
| "sim_outcome timeout_ms accepted (JoinFailed e) addrs ConnectSide = JoinFailed e"

definition try_simultaneous_open_full ::
  "turn list \<Rightarrow> 'c incoming joined \<Rightarrow> ('a \<Rightarrow> 'c dial) joined \<Rightarrow> 'a list \<Rightarrow> u64 \<Rightarrow> ('c, ConnectError) result option" where
  "try_simultaneous_open_full turns accepted dials peer_addrs timeout_ms =
     select_loop (sim_outcome timeout_ms accepted dials peer_addrs) [] turns"

section \<open>Facts on Happy Eyeballs\<close>

fun eyeball_ok :: "('a, 'c) eyeball \<Rightarrow> bool" where
  "eyeball_ok (_, _, Joined (Ok _)) = True"
| "eyeball_ok _ = False"

lemma attempt_no_panic [simp]:
  "connect_with_timeout ms d \<noteq> Panic" "Panic \<noteq> connect_with_timeout ms d"
  "try_connect_single ms d \<noteq> Panic"
  by (simp_all add: connect_with_timeout_def try_connect_single_def split: dial.splits)

lemma eyeball_attempts_no_panic:
  "(t, a, Joined Panic) \<notin> set (eyeball_attempts answer ms v6 v4)"
  by (auto simp: eyeball_attempts_def Let_def split: prod.splits joined.splits)

text \<open>The loop returns the connection of the first successful attempt, and an error only when there
  is none.\<close>

lemma eyeball_loop_first:
  assumes "\<And>t a. (t, a, Joined Panic) \<notin> set xs"
  shows "case List.find eyeball_ok xs of
      Some (t, a, j) \<Rightarrow> (\<exists>c. j = Joined (Ok c) \<and> eyeball_loop e xs = Ok c)
    | None \<Rightarrow> \<exists>e'. eyeball_loop e xs = Err e'"
  using assms
proof (induction xs arbitrary: e)
  case Nil
  then show ?case by simp
next
  case (Cons x xs)
  obtain t a j where x: "x = (t, a, j)" by (cases x)
  note ih = Cons.IH [OF Cons.prems [simplified, THEN conjunct2]]
  have "j \<noteq> Joined Panic" using Cons.prems [of t a] x by auto
  then consider (ok) c where "j = Joined (Ok c)" | (err) e' where "j = Joined (Err e')"
    | (join) e' where "j = JoinFailed e'"
    by (cases j) (auto, metis result.exhaust)
  then show ?case
  proof cases
    case ok
    then show ?thesis by (simp add: x)
  next
    case err
    show ?thesis unfolding x err eyeball_loop.simps using ih [of e'] by simp
  next
    case join
    show ?thesis
      unfolding x join eyeball_loop.simps
      using ih [of "ConnectNetworkError (''task error: '' @ e')"] by simp
  qed
qed


lemma find_sorted:
  assumes "List.find P xs = Some x" and "sorted (map f xs)" and "y \<in> set xs" and "P y"
  shows "f x \<le> (f y :: nat)"
  using assms
proof (induction xs)
  case Nil
  then show ?case by simp
next
  case (Cons z zs)
  then show ?case by (auto split: if_splits)
qed

text \<open>What the attempts of the two families are.\<close>

lemma in_eyeball_attempts:
  "(t, a, Joined (Ok c)) \<in> set (eyeball_attempts answer ms v6 v4) \<longleftrightarrow>
     (\<exists>d. answer a = (d, Joined (DialConnected c)) \<and>
        (a \<in> set v6 \<and> t = d \<or> a \<in> set v4 \<and> t = HAPPY_EYEBALLS_IPV6_HEAD_START + d))"
proof -
  have ok: "connect_with_timeout ms r = Ok c \<longleftrightarrow> r = DialConnected c" for r
    by (simp add: connect_with_timeout_def split: dial.splits)
  show ?thesis
    by (auto simp: eyeball_attempts_def Let_def ok connect_with_timeout_def
        split: prod.splits joined.splits dial.splits) (force simp: image_iff)+
qed


section \<open>Facts on the simultaneous open\<close>

text \<open>How a task failed, if it did.\<close>

fun join_failure :: "('c, ConnectError) result joined \<Rightarrow> ConnectError option" where
  "join_failure (Joined (Ok c)) = None"
| "join_failure (Joined (Err e)) = Some e"
| "join_failure (Joined Panic) = None"
| "join_failure (JoinFailed e) = Some (ConnectNetworkError (''task error: '' @ e))"

lemma select_loop_ready:
  assumes "select_poll taken t = PollReady s"
  shows "outcome s = Joined (Ok c) \<Longrightarrow> select_loop outcome taken (t # turns) = Some (Ok c)"
    and "join_failure (outcome s) = Some e \<Longrightarrow> select_loop outcome taken (t # turns) =
      (if tu_after t (other_side s) then Some (Err e) else select_loop outcome (s # taken) turns)"
  using assms by (cases "outcome s" rule: join_failure.cases; simp)+

lemma select_loop_waiting:
  assumes "\<forall>u \<in> set pre. \<not> tu_finished u AcceptSide \<and> \<not> tu_finished u ConnectSide"
  shows "select_loop outcome [] (pre @ turns) = select_loop outcome [] turns"
  using assms
proof (induction pre)
  case Nil
  then show ?case by simp
next
  case (Cons u pre)
  then have "select_poll [] u = PollPending"
    by (cases "tu_first u") (simp_all add: select_poll_def poll_handle_def)
  with Cons show ?case by simp
qed

lemma select_poll_second:
  "select_poll [s] u =
     (if tu_first u = other_side s \<and> tu_finished u (other_side s) then PollReady (other_side s) else PollPanic)"
  by (cases s; cases "tu_first u") (simp_all add: select_poll_def poll_handle_def)

lemma other_other [simp]: "other_side (other_side s) = s"
  by (cases s) simp_all

section \<open>Properties\<close>

text \<open>C27: Happy Eyeballs.  If the runtime hands over every finished attempt once, in the order they
  finish, the call returns the connection that is established first, counting the head start of the
  IPv6 attempts, and an error only when no attempt connects; it never panics.\<close>

theorem happy_eyeballs_winner:
  assumes "mset (order (eyeball_attempts answer ms v6 v4)) = mset (eyeball_attempts answer ms v6 v4)"
    and "sorted (map fst (order (eyeball_attempts answer ms v6 v4)))"
  shows "case happy_eyeballs_connect order answer v6 v4 ms of
      Ok c \<Rightarrow> (\<exists>a d. answer a = (d, Joined (DialConnected c)) \<and>
        (a \<in> set v6 \<and> (\<forall>b d' c'. answer b = (d', Joined (DialConnected c')) \<longrightarrow>
             (b \<in> set v6 \<longrightarrow> d \<le> d') \<and> (b \<in> set v4 \<longrightarrow> d \<le> HAPPY_EYEBALLS_IPV6_HEAD_START + d'))
         \<or> a \<in> set v4 \<and> (\<forall>b d' c'. answer b = (d', Joined (DialConnected c')) \<longrightarrow>
             (b \<in> set v6 \<longrightarrow> HAPPY_EYEBALLS_IPV6_HEAD_START + d \<le> d') \<and> (b \<in> set v4 \<longrightarrow> d \<le> d'))))
    | Err _ \<Rightarrow> (\<forall>a \<in> set v6 \<union> set v4. \<forall>d c. answer a \<noteq> (d, Joined (DialConnected c)))
    | Panic \<Rightarrow> False"
proof -
  let ?H = HAPPY_EYEBALLS_IPV6_HEAD_START
  define xs where "xs = eyeball_attempts answer ms v6 v4"
  have set_eq: "set (order xs) = set xs" using assms(1) unfolding xs_def by (rule mset_eq_setD)
  have np: "(t, a, Joined Panic) \<notin> set (order xs)" for t a
    unfolding set_eq unfolding xs_def by (rule eyeball_attempts_no_panic)
  note first = eyeball_loop_first [of "order xs" "ConnectNetworkError ''no addresses to connect''", OF np]
  have run: "happy_eyeballs_connect order answer v6 v4 ms
      = eyeball_loop (ConnectNetworkError ''no addresses to connect'') (order xs)"
    by (simp add: happy_eyeballs_connect_def xs_def)
  note mem = in_eyeball_attempts [of _ _ _ answer ms v6 v4, folded xs_def]
  show ?thesis
  proof (cases "List.find eyeball_ok (order xs)")
    case None
    then have none: "\<not> eyeball_ok x" if "x \<in> set xs" for x
      using that set_eq by (metis find_None_iff)
    have "answer a \<noteq> (d, Joined (DialConnected c))" if "a \<in> set v6 \<union> set v4" for a d c
      using that none mem by fastforce
    moreover obtain e' where "happy_eyeballs_connect order answer v6 v4 ms = Err e'"
      using first None run by auto
    ultimately show ?thesis by simp
  next
    case (Some x)
    then obtain t a c where x: "x = (t, a, Joined (Ok c))"
      and ok: "happy_eyeballs_connect order answer v6 v4 ms = Ok c"
      using first run by (cases x) auto
    have "x \<in> set xs" using Some set_eq by (auto simp: find_Some_iff)
    then obtain d where d: "answer a = (d, Joined (DialConnected c))"
      "a \<in> set v6 \<and> t = d \<or> a \<in> set v4 \<and> t = ?H + d"
      unfolding x mem by blast
    have least: "t \<le> t'" if "(t', b, Joined (Ok c')) \<in> set xs" for t' b c'
      using find_sorted [OF Some, of fst "(t', b, Joined (Ok c'))"] assms(2) that set_eq x
      by (simp add: xs_def)
    have "(b \<in> set v6 \<longrightarrow> t \<le> d') \<and> (b \<in> set v4 \<longrightarrow> t \<le> ?H + d')"
      if "answer b = (d', Joined (DialConnected c'))" for b d' c'
      using least [of d' b c'] least [of "?H + d'" b c'] that mem by blast
    then show ?thesis
      unfolding ok result.case using d by (intro exI [of _ a] exI [of _ d] conjI) auto
  qed
qed

theorem happy_eyeballs_winner_witness:
  "case happy_eyeballs_connect (sort_key fst)
      (\<lambda>a. if a = (1 :: nat) then (30 * 10 ^ 6, Joined (DialConnected ''v6'')) else (10 ^ 7, Joined (DialConnected ''v4'')))
      [1] [2] 5000 of Ok c \<Rightarrow> c = ''v6'' | _ \<Rightarrow> False"
  using happy_eyeballs_winner [of "sort_key fst"
    "\<lambda>a. if a = (1 :: nat) then (30 * 10 ^ 6, Joined (DialConnected ''v6'')) else (10 ^ 7, Joined (DialConnected ''v4''))"
    5000 "[1]" "[2]"]
  by (auto simp: HAPPY_EYEBALLS_IPV6_HEAD_START_def split: result.splits if_splits)

text \<open>C28: The simultaneous open.  Once a side has finished and is selected, its connection is
  returned.  If it failed and the other side is already finished, the call fails, whatever the other
  side's outcome.  If it failed while the other side is still running, the next poll panics, except
  when the other side is finished by then and happens to be polled first.\<close>

theorem simultaneous_open_outcome:
  assumes "\<forall>u \<in> set pre. \<not> tu_finished u AcceptSide \<and> \<not> tu_finished u ConnectSide"
    and "select_poll [] t = PollReady s"
  shows "(sim_outcome ms accepted dials addrs s = Joined (Ok c) \<longrightarrow>
       try_simultaneous_open_full (pre @ t # rest) accepted dials addrs ms = Some (Ok c))
    \<and> (join_failure (sim_outcome ms accepted dials addrs s) = Some e \<and> tu_after t (other_side s) \<longrightarrow>
       try_simultaneous_open_full (pre @ t # rest) accepted dials addrs ms = Some (Err e))
    \<and> (join_failure (sim_outcome ms accepted dials addrs s) = Some e \<and> \<not> tu_after t (other_side s)
       \<and> rest = u # us \<longrightarrow>
         (if tu_first u = other_side s \<and> tu_finished u (other_side s)
          then (sim_outcome ms accepted dials addrs (other_side s) = Joined (Ok c') \<longrightarrow>
                  try_simultaneous_open_full (pre @ t # rest) accepted dials addrs ms = Some (Ok c'))
             \<and> (join_failure (sim_outcome ms accepted dials addrs (other_side s)) = Some e' \<and> tu_after u s \<longrightarrow>
                  try_simultaneous_open_full (pre @ t # rest) accepted dials addrs ms = Some (Err e'))
          else try_simultaneous_open_full (pre @ t # rest) accepted dials addrs ms = Some Panic))"
proof -
  let ?out = "sim_outcome ms accepted dials addrs"
  have run: "try_simultaneous_open_full (pre @ t # rest) accepted dials addrs ms
      = select_loop ?out [] (t # rest)"
    unfolding try_simultaneous_open_full_def by (rule select_loop_waiting [OF assms(1)])
  note first = select_loop_ready [where outcome = ?out and turns = rest, OF assms(2)]
  have later: "select_loop ?out [] (t # rest) = select_loop ?out [s] (u # us)"
    if "join_failure (?out s) = Some e" "\<not> tu_after t (other_side s)" "rest = u # us"
    using first(2) [OF that(1)] that(2,3) by simp
  show ?thesis
  proof (intro conjI impI)
    assume h: "join_failure (?out s) = Some e \<and> \<not> tu_after t (other_side s) \<and> rest = u # us"
    note l = later [OF h [THEN conjunct1] h [THEN conjunct2, THEN conjunct1] h [THEN conjunct2, THEN conjunct2]]
    show "if tu_first u = other_side s \<and> tu_finished u (other_side s)
          then (?out (other_side s) = Joined (Ok c') \<longrightarrow>
                  try_simultaneous_open_full (pre @ t # rest) accepted dials addrs ms = Some (Ok c'))
             \<and> (join_failure (?out (other_side s)) = Some e' \<and> tu_after u s \<longrightarrow>
                  try_simultaneous_open_full (pre @ t # rest) accepted dials addrs ms = Some (Err e'))
          else try_simultaneous_open_full (pre @ t # rest) accepted dials addrs ms = Some Panic"
    proof (cases "tu_first u = other_side s \<and> tu_finished u (other_side s)")
      case True
      then have "select_poll [s] u = PollReady (other_side s)" by (simp add: select_poll_second)
      note second = select_loop_ready [where outcome = ?out and turns = us, OF this]
      show ?thesis unfolding run l using True second by simp
    next
      case False
      then have "select_poll [s] u = PollPanic" by (simp add: select_poll_second)
      then have "select_loop ?out [s] (u # us) = Some Panic" by simp
      then show ?thesis unfolding run l using False by argo
    qed
  qed (use run first in auto)
qed

theorem simultaneous_open_outcome_witness:
  "let t = \<lparr> tu_first = ConnectSide, tu_finished = (\<lambda>s. s = ConnectSide), tu_after = (\<lambda>s. s = ConnectSide) \<rparr>
   in try_simultaneous_open_full [t, t] (Joined (IncomingConnected ''in'')) (Joined (\<lambda>_. DialFailed ''refused''))
        [1 :: nat] 5000 = Some Panic"
proof -
  define t where "t = \<lparr> tu_first = ConnectSide, tu_finished = (\<lambda>s. s = ConnectSide), tu_after = (\<lambda>s. s = ConnectSide) \<rparr>"
  have ready: "select_poll [] t = PollReady ConnectSide"
    by (simp add: t_def select_poll_def poll_handle_def)
  show ?thesis
    unfolding Let_def t_def [symmetric]
    using simultaneous_open_outcome [of "[]" t ConnectSide 5000 "Joined (IncomingConnected ''in'')"
      "Joined (\<lambda>_. DialFailed ''refused'')" "[1 :: nat]" "''none''" "[t]"
      "ConnectNetworkError ''all simultaneous open connect attempts failed''" t "[]", OF _ ready]
    by (simp add: t_def try_connect_single_def)
qed


end
