(* ===== verification/Connection_Manager.thy ===== *)
theory Connection_Manager
  imports Connection_Race Masque_Tunnel Nat_Probe Port_Probe Dht_Record
begin

text \<open>
  The connection manager and its fallback chain
  (\<open>src/crates/voip-client/src/connection.rs\<close>): IPv6 or Happy Eyeballs, simultaneous open, port
  prediction, MASQUE over HTTP/3, MASQUE over HTTP/2.

  The record \<open>network\<close> holds what the outside world answers at each step: the parser of socket
  addresses, the racing and dialling answers of \<open>Connection_Race\<close>, the prediction race of
  \<open>Port_Probe\<close> and the proxies of \<open>Masque_Tunnel\<close>.  A result \<open>None\<close> means that the simultaneous open
  is still waiting when its turns are used up.
\<close>

section \<open>State\<close>

record ConnectionManager =
  cm_config :: VoIPConfig
  cm_nat_prober :: "NATProber option"
  cm_local_nat_info :: "NATInfo option"
  cm_udp_blocked :: bool

text \<open>A connection is direct, or the one inside a tunnel.\<close>

datatype 'c quic_link = DirectLink 'c | TunnelLink

record 'c VoipConnection =
  vc_connection :: "'c quic_link"
  vc_method :: ConnectionMethod
  vc_masque_tunnel :: "MasqueTunnel option"

definition new_direct :: "'c \<Rightarrow> ConnectionMethod \<Rightarrow> 'c VoipConnection" where
  "new_direct c m = \<lparr> vc_connection = DirectLink c, vc_method = m, vc_masque_tunnel = None \<rparr>"

definition new_masque :: "ConnectionMethod \<Rightarrow> MasqueTunnel \<Rightarrow> 'c VoipConnection" where
  "new_masque m tunnel = \<lparr> vc_connection = TunnelLink, vc_method = m, vc_masque_tunnel = Some tunnel \<rparr>"

text \<open>Streams of a connection, and the code it is closed with: QUIC codes have 62 bits.\<close>

definition VoipConnection_open_bi :: "'s io \<Rightarrow> ('s, ConnectError) result" where
  "VoipConnection_open_bi opened = map_err ConnectQuicError opened"

definition VoipConnection_accept_bi :: "'s io \<Rightarrow> ('s, ConnectError) result" where
  "VoipConnection_accept_bi accepted = map_err ConnectQuicError accepted"

definition VoipConnection_close :: "u64 \<Rightarrow> string \<Rightarrow> nat \<times> bytes" where
  "VoipConnection_close code reason =
     (if unat code < 2 ^ 62 then unat code else 2 ^ 62 - 1, str_bytes reason)"

record ('a, 'c) network =
  nw_parse :: "string \<Rightarrow> 'a option"
  nw_remote_is_ipv6 :: "'c \<Rightarrow> bool"
  nw_order :: "('a, 'c) eyeball list \<Rightarrow> ('a, 'c) eyeball list"
  nw_eyeballs :: "'a \<Rightarrow> nat \<times> 'c dial joined"
  nw_ipv6 :: "'a \<Rightarrow> 'c dial"
  nw_turns :: "turn list"
  nw_accept :: "'c incoming joined"
  nw_dials :: "('a \<Rightarrow> 'c dial) joined"
  nw_fallback :: "'a \<Rightarrow> 'c dial"
  nw_ip_ok :: "string \<Rightarrow> bool"
  nw_race :: "'c race"
  nw_http3 :: h3_net
  nw_http2 :: h2_net
  nw_oc :: bool

definition ConnectionManager_with_endpoint :: "VoIPConfig \<Rightarrow> ConnectionManager" where
  "ConnectionManager_with_endpoint cfg =
     \<lparr> cm_config = cfg, cm_nat_prober = None, cm_local_nat_info = None, cm_udp_blocked = False \<rparr>"

text \<open>A new manager makes its own endpoint, with the client configuration of the build.\<close>

definition create_endpoint :: "tls_library \<Rightarrow> unit io \<Rightarrow> (QuinnClientConfig, ConnectError) result" where
  "create_endpoint lib bound =
     res_bind (res_map_err ConnectNetworkError (dangerous_quinn_client_config lib)) (\<lambda>client_config.
     res_bind (map_err ConnectNetworkError bound) (\<lambda>_. Ok client_config))"

definition ConnectionManager_new ::
  "tls_library \<Rightarrow> unit io \<Rightarrow> VoIPConfig \<Rightarrow> (ConnectionManager \<times> QuinnClientConfig, ConnectError) result" where
  "ConnectionManager_new lib bound cfg =
     res_bind (create_endpoint lib bound) (\<lambda>endpoint.
     Ok (\<lparr> cm_config = cfg, cm_nat_prober = None, cm_local_nat_info = None, cm_udp_blocked = False \<rparr>, endpoint))"

definition set_nat_prober ::
  "bool \<Rightarrow> u64 \<Rightarrow> NATProber \<Rightarrow> ConnectionManager \<Rightarrow> (ConnectionManager, unit) result" where
  "set_nat_prober oc now_ms prober cm =
     res_map (\<lambda>nat_info. cm\<lparr>cm_local_nat_info := nat_info, cm_nat_prober := Some prober\<rparr>)
       (cached_nat_info oc now_ms prober)"

definition set_local_nat_info :: "NATInfo \<Rightarrow> ConnectionManager \<Rightarrow> ConnectionManager" where
  "set_local_nat_info info cm = cm\<lparr>cm_local_nat_info := Some info\<rparr>"

definition cm_set_udp_blocked :: "bool \<Rightarrow> ConnectionManager \<Rightarrow> ConnectionManager" where
  "cm_set_udp_blocked blocked cm = cm\<lparr>cm_udp_blocked := blocked\<rparr>"

fun NatProbeError_to_string :: "NatProbeError \<Rightarrow> string" where
  "NatProbeError_to_string NatProbeError.NotConnected = ''Not connected to signaling server''"
| "NatProbeError_to_string (NatProbeError.ProbeTimeout ip) = ''Probe timeout for '' @ ip"
| "NatProbeError_to_string (ProbeMigrationFailed ip reason) =
     ''Migration failed for '' @ ip @ '': '' @ reason"
| "NatProbeError_to_string (InsufficientProbes got need) =
     ''Insufficient probes: got '' @ show_nat got @ '', need '' @ show_nat need"

text \<open>Probing keeps the classified NAT; \<open>None\<close> when the prober does not return.\<close>

definition probe_with ::
  "bool \<Rightarrow> (nat \<Rightarrow> probe_answer) \<Rightarrow> u64 \<Rightarrow> u64 \<Rightarrow> NATProber \<Rightarrow> ConnectionManager
     \<Rightarrow> (ConnectionManager \<times> (NATInfo, ConnectError) result) option" where
  "probe_with oc ans now_secs now_ms prober cm =
     map_option
       (\<lambda>(prober, r). let cm = cm\<lparr>cm_nat_prober := Some prober\<rparr> in
          case r of
            Ok info \<Rightarrow> (cm\<lparr>cm_local_nat_info := Some info\<rparr>, Ok info)
          | Err e \<Rightarrow> (cm, Err (NatProbeFailed (NatProbeError_to_string e)))
          | Panic \<Rightarrow> (cm, Panic))
       (nat_probe oc ans now_secs now_ms prober)"

definition cm_probe_nat ::
  "bool \<Rightarrow> (nat \<Rightarrow> probe_answer) \<Rightarrow> u64 \<Rightarrow> u64 \<Rightarrow> ConnectionManager
     \<Rightarrow> (ConnectionManager \<times> (NATInfo, ConnectError) result) option" where
  "cm_probe_nat oc ans now_secs now_ms cm =
     (case cm_nat_prober cm of
        Some prober \<Rightarrow> probe_with oc ans now_secs now_ms prober cm
      | None \<Rightarrow> Some (cm, Err (NatProbeFailed
          ''NAT prober not initialized (no signaling server connection)'')))"

definition cm_reprobe_nat ::
  "bool \<Rightarrow> (nat \<Rightarrow> probe_answer) \<Rightarrow> u64 \<Rightarrow> u64 \<Rightarrow> ConnectionManager
     \<Rightarrow> (ConnectionManager \<times> (NATInfo, ConnectError) result) option" where
  "cm_reprobe_nat oc ans now_secs now_ms cm =
     (case cm_nat_prober cm of
        Some prober \<Rightarrow> probe_with oc ans now_secs now_ms (invalidate_cache prober) cm
      | None \<Rightarrow> Some (cm, Err (NatProbeFailed ''NAT prober not initialized'')))"

section \<open>The steps\<close>

type_synonym 'c step = "('c VoipConnection option, unit) result"

definition proto_nat_info_to_native :: "NatInfo_proto option \<Rightarrow> (NATInfo, unit) result" where
  "proto_nat_info_to_native proto = (case proto of Some n \<Rightarrow> NATInfo_from_proto n | None \<Rightarrow> Ok no_nat)"

definition try_quic_connect :: "u64 \<Rightarrow> 'c dial \<Rightarrow> ('c, ConnectError) result" where
  "try_quic_connect timeout_ms answer =
     (case answer of
        DialRefused e \<Rightarrow> Err (ConnectNetworkError e)
      | DialTimeout \<Rightarrow> Err (ConnectQuicTimeout timeout_ms)
      | DialFailed e \<Rightarrow> Err (ConnectQuicError e)
      | DialConnected c \<Rightarrow> Ok c)"

definition parsed_addrs :: "('a, 'c) network \<Rightarrow> string list \<Rightarrow> 'a list" where
  "parsed_addrs net addrs = List.map_filter (nw_parse net) addrs"

definition try_happy_eyeballs ::
  "('a, 'c) network \<Rightarrow> ConnectionManager \<Rightarrow> PeerRecord_proto \<Rightarrow> 'c step" where
  "try_happy_eyeballs net cm peer =
     (let ipv6_addrs = parsed_addrs net (p_ipv6_addresses peer);
          ipv4_addrs = parsed_addrs net (p_ipv4_reflexive peer) in
      if ipv6_addrs = [] \<and> ipv4_addrs = [] then Ok None
      else
        case happy_eyeballs_connect (nw_order net) (nw_eyeballs net) ipv6_addrs ipv4_addrs
               (quic_connect_timeout_ms (cm_config cm)) of
          Ok conn \<Rightarrow>
            Ok (Some (new_direct conn (if nw_remote_is_ipv6 net conn then Ipv6Direct else Ipv4Cone)))
        | Err _ \<Rightarrow> Ok None
        | Panic \<Rightarrow> Panic)"

text \<open>Dialling the parsable addresses of a list one after the other.\<close>

fun dial_first ::
  "('a, 'c) network \<Rightarrow> u64 \<Rightarrow> ('a \<Rightarrow> 'c dial) \<Rightarrow> ConnectionMethod \<Rightarrow> string list \<Rightarrow> 'c step" where
  "dial_first net timeout_ms answer m [] = Ok None"
| "dial_first net timeout_ms answer m (addr_str # rest) =
     (case nw_parse net addr_str of
        None \<Rightarrow> dial_first net timeout_ms answer m rest
      | Some addr \<Rightarrow>
          (case try_quic_connect timeout_ms (answer addr) of
             Ok conn \<Rightarrow> Ok (Some (new_direct conn m))
           | Err _ \<Rightarrow> dial_first net timeout_ms answer m rest
           | Panic \<Rightarrow> Panic))"

definition try_ipv6_direct ::
  "('a, 'c) network \<Rightarrow> ConnectionManager \<Rightarrow> PeerRecord_proto \<Rightarrow> 'c step" where
  "try_ipv6_direct net cm peer =
     dial_first net (quic_connect_timeout_ms (cm_config cm)) (nw_ipv6 net) Ipv6Direct
       (p_ipv6_addresses peer)"

definition try_simultaneous_open ::
  "('a, 'c) network \<Rightarrow> ConnectionManager \<Rightarrow> PeerRecord_proto \<Rightarrow> 'c step option" where
  "try_simultaneous_open net cm peer =
     (let peer_addrs = parsed_addrs net (p_ipv4_reflexive peer);
          timeout_ms = quic_connect_timeout_ms (cm_config cm) in
      if peer_addrs = [] then Some (Ok None)
      else map_option
        (\<lambda>r. case r of
           Ok conn \<Rightarrow> Ok (Some (new_direct conn Ipv4Cone))
         | Err _ \<Rightarrow> dial_first net timeout_ms (nw_fallback net) Ipv4Cone (p_ipv4_reflexive peer)
         | Panic \<Rightarrow> Panic)
        (try_simultaneous_open_full (nw_turns net) (nw_accept net) (nw_dials net) peer_addrs timeout_ms))"

definition try_port_prediction ::
  "('a, 'c) network \<Rightarrow> ConnectionManager \<Rightarrow> PeerRecord_proto \<Rightarrow> 'c step" where
  "try_port_prediction net cm peer =
     res_bind (proto_nat_info_to_native (p_nat_info peer)) (\<lambda>peer_nat.
     let peer_prediction = prediction peer_nat;
         local_prediction = Option.bind (cm_local_nat_info cm) prediction in
     if peer_prediction = None \<and> local_prediction = None then Ok None
     else
       case peer_prediction of
         None \<Rightarrow> Ok None
       | Some p \<Rightarrow>
           (case probe_range (nw_oc net) (cm_config cm) (nw_ip_ok net (external_ip p)) (nw_race net)
                   (ucast (predicted_port_start p)) (ucast (predicted_port_end p)) of
              Ok conn \<Rightarrow> Ok (Some (new_direct conn Ipv4Prediction))
            | Err _ \<Rightarrow> Ok None
            | Panic \<Rightarrow> Panic))"

fun first_tunnel ::
  "(string \<Rightarrow> (MasqueTunnel, MasqueError) result) \<Rightarrow> ProxyRecord list \<Rightarrow> (MasqueTunnel, ConnectError) result" where
  "first_tunnel connect [] = Err ConnectMasqueUnreachable"
| "first_tunnel connect (proxy # rest) =
     (case connect (pr_proxy_url proxy) of
        Ok tunnel \<Rightarrow> Ok tunnel
      | Err _ \<Rightarrow> first_tunnel connect rest
      | Panic \<Rightarrow> Panic)"

definition try_masque_http3 ::
  "('a, 'c) network \<Rightarrow> ConnectionManager \<Rightarrow> ProxyRecord list \<Rightarrow> bytes \<Rightarrow> (MasqueTunnel, ConnectError) result" where
  "try_masque_http3 net cm proxy_records connection_id =
     (let call_id = hex_encode connection_id in
      first_tunnel (\<lambda>url. connect_http3 (nw_http3 net) url call_id None)
        (take (unat (masque_max_proxy_attempts (cm_config cm))) proxy_records))"

definition try_masque_http2 ::
  "('a, 'c) network \<Rightarrow> ConnectionManager \<Rightarrow> ProxyRecord list \<Rightarrow> bytes \<Rightarrow> (MasqueTunnel, ConnectError) result" where
  "try_masque_http2 net cm proxy_records connection_id =
     (let call_id = hex_encode connection_id in
      first_tunnel (\<lambda>url. connect_http2 (nw_http2 net) url call_id None)
        (take (unat (masque_max_proxy_attempts (cm_config cm))) proxy_records))"

section \<open>The chain\<close>

text \<open>A step that yields a connection ends the chain, otherwise the next one is tried.\<close>

definition or_next ::
  "'c step option \<Rightarrow> ('c VoipConnection, ConnectError) result option \<Rightarrow> ('c VoipConnection, ConnectError) result option" where
  "or_next r next =
     (case r of
        None \<Rightarrow> None
      | Some (Ok (Some conn)) \<Rightarrow> Some (Ok conn)
      | Some (Ok None) \<Rightarrow> next
      | Some (Err _) \<Rightarrow> Some Panic
      | Some Panic \<Rightarrow> Some Panic)"

definition tunnel_step :: "ConnectionMethod \<Rightarrow> (MasqueTunnel, ConnectError) result \<Rightarrow> 'c step" where
  "tunnel_step m r =
     (case r of Ok tunnel \<Rightarrow> Ok (Some (new_masque m tunnel)) | Err _ \<Rightarrow> Ok None | Panic \<Rightarrow> Panic)"

definition direct_step ::
  "('a, 'c) network \<Rightarrow> ConnectionManager \<Rightarrow> PeerRecord_proto \<Rightarrow> 'c step" where
  "direct_step net cm peer =
     (if p_ipv6_addresses peer \<noteq> [] \<and> \<not> cm_udp_blocked cm
      then if p_ipv4_reflexive peer \<noteq> [] then try_happy_eyeballs net cm peer
           else try_ipv6_direct net cm peer
      else Ok None)"

definition local_nat_is :: "ConnectionManager \<Rightarrow> (NATType \<Rightarrow> bool) \<Rightarrow> bool" where
  "local_nat_is cm P = (case cm_local_nat_info cm of Some n \<Rightarrow> P (nat_type n) | None \<Rightarrow> False)"

definition relay_chain ::
  "('a, 'c) network \<Rightarrow> ConnectionManager \<Rightarrow> ProxyRecord list \<Rightarrow> bytes
     \<Rightarrow> ('c VoipConnection, ConnectError) result option" where
  "relay_chain net cm proxy_records connection_id =
     (if masque_fallback_enabled (cm_config cm) \<and> proxy_records \<noteq> []
      then or_next (if \<not> cm_udp_blocked cm
                    then Some (tunnel_step Masque (try_masque_http3 net cm proxy_records connection_id))
                    else Some (Ok None)) (
           or_next (Some (tunnel_step MasqueHttp2 (try_masque_http2 net cm proxy_records connection_id)))
             (Some (Err ConnectAllMethodsFailed)))
      else Some (Err ConnectAllMethodsFailed))"

definition establish_connection ::
  "('a, 'c) network \<Rightarrow> ConnectionManager \<Rightarrow> PeerRecord_proto \<Rightarrow> bytes \<Rightarrow> ProxyRecord list
     \<Rightarrow> ('c VoipConnection, ConnectError) result option" where
  "establish_connection net cm peer connection_id proxy_records =
     (case proto_nat_info_to_native (p_nat_info peer) of
        Err _ \<Rightarrow> Some Panic
      | Panic \<Rightarrow> Some Panic
      | Ok peer_nat \<Rightarrow>
          let udp_blocked = cm_udp_blocked cm in
          or_next (Some (direct_step net cm peer)) (
          or_next (if (local_nat_is cm (\<lambda>t. t = Cone) \<or> nat_type peer_nat = Cone) \<and> \<not> udp_blocked
                   then try_simultaneous_open net cm peer else Some (Ok None)) (
          or_next (if (local_nat_is cm NATType_is_predictable \<or> NATType_is_predictable (nat_type peer_nat))
                        \<and> \<not> udp_blocked
                   then Some (try_port_prediction net cm peer) else Some (Ok None)) (
          relay_chain net cm proxy_records connection_id))))"

text \<open>The reason the function works out for its log when every step has failed.\<close>

definition failure_reason :: "ConnectionManager \<Rightarrow> NATInfo \<Rightarrow> ProxyRecord list \<Rightarrow> CallEndReason" where
  "failure_reason cm peer_nat proxy_records =
     (if cm_udp_blocked cm then FailedUdpBlocked
      else if local_nat_is cm (\<lambda>t. t = SymmetricRandom) \<and> nat_type peer_nat = SymmetricRandom
      then FailedIpv4Random
      else if proxy_records = [] then FailedMasqueUnreachable
      else FailedNetwork)"

section \<open>Facts\<close>

lemma or_next_cases [consumes 2, case_names hit miss]:
  assumes "or_next s next = Some r" and "r \<noteq> Panic"
  obtains (hit) v where "s = Some (Ok (Some v))" "r = Ok v"
    | (miss) "s = Some (Ok None)" "next = Some r"
  using assms by (auto simp: or_next_def split: option.splits result.splits)

lemma dial_first_cases:
  "case dial_first net ms answer m addrs of
     Ok None \<Rightarrow> (\<forall>s \<in> set addrs. \<forall>a c. nw_parse net s = Some a \<longrightarrow> answer a \<noteq> DialConnected c)
   | Ok (Some v) \<Rightarrow> (\<exists>s \<in> set addrs. \<exists>a c. nw_parse net s = Some a \<and> answer a = DialConnected c
                     \<and> v = new_direct c m)
   | _ \<Rightarrow> False"
proof (induction addrs)
  case Nil
  then show ?case by simp
next
  case (Cons s addrs)
  show ?case
  proof (cases "nw_parse net s")
    case None
    then show ?thesis using Cons by (auto split: result.splits option.splits)
  next
    case (Some a)
    show ?thesis
      using Cons Some
      by (cases "answer a") (auto simp: try_quic_connect_def split: result.splits option.splits)
  qed
qed

lemma first_tunnel_cases:
  assumes "first_tunnel connect ps = r" and "r \<noteq> Panic"
  shows "case r of
      Ok t \<Rightarrow> (\<exists>p \<in> set ps. connect (pr_proxy_url p) = Ok t)
    | Err e \<Rightarrow> (\<forall>p \<in> set ps. \<exists>e. connect (pr_proxy_url p) = Err e)
    | Panic \<Rightarrow> False"
  using assms
proof (induction ps arbitrary: r)
  case Nil
  then show ?case by auto
next
  case (Cons p ps)
  show ?case
    using Cons.prems Cons.IH [OF refl]
    by (cases "connect (pr_proxy_url p)") (auto split: result.splits)
qed

text \<open>What the connection of a step looks like.\<close>

lemma try_happy_eyeballs_method:
  "try_happy_eyeballs net cm peer = Ok (Some v) \<Longrightarrow>
     (\<exists>c. v = new_direct c (if nw_remote_is_ipv6 net c then Ipv6Direct else Ipv4Cone))"
  by (auto simp: try_happy_eyeballs_def Let_def split: if_splits result.splits)

lemma direct_step_method:
  assumes "direct_step net cm peer = Ok (Some v)"
  shows "\<not> cm_udp_blocked cm \<and> p_ipv6_addresses peer \<noteq> [] \<and> vc_masque_tunnel v = None
    \<and> (vc_method v = Ipv6Direct \<or> vc_method v = Ipv4Cone \<and> p_ipv4_reflexive peer \<noteq> [])"
proof (cases "p_ipv4_reflexive peer = []")
  case True
  then have "dial_first net (quic_connect_timeout_ms (cm_config cm)) (nw_ipv6 net) Ipv6Direct
      (p_ipv6_addresses peer) = Ok (Some v)"
    using assms by (simp add: direct_step_def try_ipv6_direct_def split: if_splits)
  with dial_first_cases [where net = net and ms = "quic_connect_timeout_ms (cm_config cm)"
      and answer = "nw_ipv6 net" and m = Ipv6Direct and addrs = "p_ipv6_addresses peer"] assms
  show ?thesis by (auto simp: new_direct_def direct_step_def split: if_splits)
next
  case False
  then show ?thesis
    using assms
    by (auto simp: direct_step_def new_direct_def split: if_splits dest!: try_happy_eyeballs_method)
qed

lemma simultaneous_open_method:
  assumes "try_simultaneous_open net cm peer = Some (Ok (Some v))"
  shows "vc_method v = Ipv4Cone \<and> vc_masque_tunnel v = None \<and> p_ipv4_reflexive peer \<noteq> []"
proof -
  note d = dial_first_cases [where net = net and ms = "quic_connect_timeout_ms (cm_config cm)"
      and answer = "nw_fallback net" and m = Ipv4Cone and addrs = "p_ipv4_reflexive peer"]
  have "p_ipv4_reflexive peer \<noteq> []"
    using assms by (auto simp: try_simultaneous_open_def parsed_addrs_def List.map_filter_def)
  then show ?thesis
    using assms d
    by (auto simp: try_simultaneous_open_def Let_def new_direct_def split: if_splits result.splits)
qed

lemma port_prediction_method:
  assumes "try_port_prediction net cm peer = Ok (Some v)"
    and "proto_nat_info_to_native (p_nat_info peer) = Ok peer_nat"
  shows "vc_method v = Ipv4Prediction \<and> vc_masque_tunnel v = None \<and> prediction peer_nat \<noteq> None"
  using assms
  by (auto simp: try_port_prediction_def Let_def new_direct_def split: if_splits result.splits option.splits)


text \<open>The relay attempts of a call: the first proxies of the list, over one transport.\<close>

definition relay_candidates :: "ConnectionManager \<Rightarrow> ProxyRecord list \<Rightarrow> ProxyRecord list" where
  "relay_candidates cm proxies = take (unat (masque_max_proxy_attempts (cm_config cm))) proxies"

lemma masque3_cases:
  assumes "try_masque_http3 net cm proxies cid = r" and "r \<noteq> Panic"
  shows "case r of
      Ok t \<Rightarrow> mt_transport t = Http3 \<and> mt_proxy_url t \<in> pr_proxy_url ` set (relay_candidates cm proxies)
    | Err e \<Rightarrow> (\<forall>p \<in> set (relay_candidates cm proxies). \<exists>e.
        connect_http3 (nw_http3 net) (pr_proxy_url p) (hex_encode cid) None = Err e)
    | Panic \<Rightarrow> False"
  using first_tunnel_cases [OF assms(1) [unfolded try_masque_http3_def Let_def relay_candidates_def [symmetric]] assms(2)]
  by (auto split: result.splits dest!: connect_ok(1))

lemma masque2_cases:
  assumes "try_masque_http2 net cm proxies cid = r" and "r \<noteq> Panic"
  shows "case r of
      Ok t \<Rightarrow> mt_transport t = Http2 \<and> mt_proxy_url t \<in> pr_proxy_url ` set (relay_candidates cm proxies)
    | Err e \<Rightarrow> (\<forall>p \<in> set (relay_candidates cm proxies). \<exists>e.
        connect_http2 (nw_http2 net) (pr_proxy_url p) (hex_encode cid) None = Err e)
    | Panic \<Rightarrow> False"
  using first_tunnel_cases [OF assms(1) [unfolded try_masque_http2_def Let_def relay_candidates_def [symmetric]] assms(2)]
  by (auto split: result.splits dest!: connect_ok(2))


lemma tunnel_step_Ok: "tunnel_step m r = Ok (Some v) \<longleftrightarrow> (\<exists>t. r = Ok t \<and> v = new_masque m t)"
  by (auto simp: tunnel_step_def split: result.splits)

lemma tunnel_step_None: "tunnel_step m r = Ok None \<longleftrightarrow> (\<exists>e. r = Err e)"
  by (auto simp: tunnel_step_def split: result.splits)

lemma relay_chain_cases:
  assumes "relay_chain net cm proxies cid = Some r" and "r \<noteq> Panic"
  shows "case r of
      Ok v \<Rightarrow> masque_fallback_enabled (cm_config cm) \<and> (\<exists>t. vc_masque_tunnel v = Some t
        \<and> mt_proxy_url t \<in> pr_proxy_url ` set (relay_candidates cm proxies)
        \<and> (vc_method v = Masque \<and> mt_transport t = Http3 \<and> \<not> cm_udp_blocked cm
          \<or> vc_method v = MasqueHttp2 \<and> mt_transport t = Http2 \<and> (cm_udp_blocked cm
              \<or> (\<forall>p \<in> set (relay_candidates cm proxies). \<exists>e.
                   connect_http3 (nw_http3 net) (pr_proxy_url p) (hex_encode cid) None = Err e))))
    | Err e \<Rightarrow> e = ConnectAllMethodsFailed \<and> (masque_fallback_enabled (cm_config cm) \<longrightarrow>
        (\<forall>p \<in> set (relay_candidates cm proxies). \<exists>e.
           connect_http2 (nw_http2 net) (pr_proxy_url p) (hex_encode cid) None = Err e))
    | Panic \<Rightarrow> False"
proof (cases "masque_fallback_enabled (cm_config cm) \<and> proxies \<noteq> []")
  case False
  then show ?thesis using assms by (auto simp: relay_chain_def relay_candidates_def)
next
  case True
  let ?http3 = "try_masque_http3 net cm proxies cid" and ?http2 = "try_masque_http2 net cm proxies cid"
  have "or_next (if \<not> cm_udp_blocked cm then Some (tunnel_step Masque ?http3) else Some (Ok None))
      (or_next (Some (tunnel_step MasqueHttp2 ?http2)) (Some (Err ConnectAllMethodsFailed))) = Some r"
    using assms(1) True by (simp add: relay_chain_def)
  from this assms(2) show ?thesis
  proof (cases rule: or_next_cases)
    case (hit v)
    then obtain t where t: "\<not> cm_udp_blocked cm" "?http3 = Ok t" "v = new_masque Masque t"
      by (auto simp: tunnel_step_Ok split: if_splits)
    then show ?thesis using masque3_cases [OF t(2)] True hit(2) by (simp add: new_masque_def)
  next
    case miss
    have refused: "cm_udp_blocked cm \<or> (\<forall>p \<in> set (relay_candidates cm proxies). \<exists>e.
        connect_http3 (nw_http3 net) (pr_proxy_url p) (hex_encode cid) None = Err e)"
      using miss(1) masque3_cases [of net cm proxies cid] by (auto simp: tunnel_step_None split: if_splits)
    from miss(2) assms(2) show ?thesis
    proof (cases rule: or_next_cases)
      case (hit v)
      then obtain t where t: "?http2 = Ok t" "v = new_masque MasqueHttp2 t"
        by (auto simp: tunnel_step_Ok)
      then show ?thesis using masque2_cases [OF t(1)] True hit(2) refused by (simp add: new_masque_def)
    next
      case miss
      then obtain e where "?http2 = Err e" by (auto simp: tunnel_step_None)
      from masque2_cases [OF this] show ?thesis using miss(2) by auto
    qed
  qed
qed

section \<open>Properties\<close>


definition sample_network :: "(nat, nat) network" where
  "sample_network =
     \<lparr> nw_parse = (\<lambda>_. Some 1), nw_remote_is_ipv6 = (\<lambda>_. True), nw_order = sort_key fst,
       nw_eyeballs = (\<lambda>_. (0, Joined DialTimeout)), nw_ipv6 = (\<lambda>_. DialTimeout), nw_turns = [],
       nw_accept = Joined AcceptTimeout, nw_dials = Joined (\<lambda>_. DialTimeout),
       nw_fallback = (\<lambda>_. DialTimeout), nw_ip_ok = (\<lambda>_. True), nw_race = (\<lambda>_. ([], True)),
       nw_http3 = sample_h3_net, nw_http2 = sample_h2_net True, nw_oc = True \<rparr>"

definition sample_relay :: ProxyRecord where
  "sample_relay =
     \<lparr> pr_node_id = ''n1'', pr_proxy_url = ''https://'' @ ''p'' @ '':'' @ show_nat (unat (443 :: u16)) @ ''/'' @ ''m'',
       pr_capacity = 1, pr_region = [], pr_latency_hint_ms = 5, pr_timestamp = 0, pr_ttl_seconds = 60,
       pr_cert_fingerprint = [], pr_signature = [] \<rparr>"

definition sample_peer :: PeerRecord_proto where
  "sample_peer =
     \<lparr> p_peer_id = ''bob'', p_display_name = ''Bob'', p_ipv6_addresses = [''v6''], p_ipv4_reflexive = [],
       p_nat_info = None, p_tracks = [], p_status = 0, p_timestamp = 0, p_ttl_seconds = 60, p_signature = [] \<rparr>"


section \<open>Builds\<close>



end
