(* ===== verification/Migration.thy ===== *)
theory Migration
  imports Nat_Probe Sig_Frame
begin

text \<open>
  Connection migration (\<open>src/crates/voip-client/src/migration.rs\<close>): what a network change does to a
  call, the notification sent to the peer, the network monitor and the retry policy.

  While a migration waits, the connection is looked at every 100 milliseconds.  A \<open>tick\<close> is what such a
  look sees: the time, whether the connection is closed, and its local address.  The ticks of a run
  are those before the outer time limit strikes.  The QUIC streams and the generated protobuf
  encoder are arguments.  Local addresses have an arbitrary type.
\<close>

section \<open>Events\<close>

datatype MigrationError = MigrationTimeout u64 | PathValidationFailed string

datatype 'ip MigrationResult =
    MigrationSuccess "'ip \<times> u16" bool "NATInfo option"
  | MigrationFailure MigrationError

datatype NetworkChangeEvent =
  WifiToCellular | CellularToWifi | NewWifiNetwork | Ipv6PrefixChange | NatRebinding

fun requires_nat_reprobe :: "NetworkChangeEvent \<Rightarrow> bool" where
  "requires_nat_reprobe WifiToCellular = True"
| "requires_nat_reprobe CellularToWifi = True"
| "requires_nat_reprobe NewWifiNetwork = True"
| "requires_nat_reprobe Ipv6PrefixChange = False"
| "requires_nat_reprobe NatRebinding = True"

fun changes_interface :: "NetworkChangeEvent \<Rightarrow> bool" where
  "changes_interface WifiToCellular = True"
| "changes_interface CellularToWifi = True"
| "changes_interface NewWifiNetwork = True"
| "changes_interface _ = False"

section \<open>The notification\<close>

record ConnectionMigration =
  cg_new_ipv6_addresses :: "string list"
  cg_new_ipv4_reflexive :: "string list"
  cg_new_prediction :: "PortPrediction_proto option"

definition build_migration_message :: "NATInfo option \<Rightarrow> ConnectionMigration" where
  "build_migration_message new_nat_info =
     \<lparr> cg_new_ipv6_addresses = [], cg_new_ipv4_reflexive = [],
       cg_new_prediction = map_option PortPredictionData_to_proto (Option.bind new_nat_info prediction) \<rparr>"

text \<open>What the stream to the peer answers.\<close>

record peer_stream =
  ps_open :: "unit io"
  ps_write :: "unit io"
  ps_finish :: "unit io"

text \<open>The bytes put on the stream and the outcome.\<close>

definition send_migration_notification ::
  "(ConnectionMigration \<Rightarrow> bytes) \<Rightarrow> peer_stream \<Rightarrow> NATInfo option \<Rightarrow> bytes \<times> (unit, MigrationError) result" where
  "send_migration_notification encode stream new_nat_info =
     (case ps_open stream of
        IoErr e \<Rightarrow> ([], Err (PathValidationFailed e))
      | IoOk _ \<Rightarrow>
          let migration = build_migration_message new_nat_info;
              type_id = 0x0001 :: u16;
              payload = encode migration;
              buf = be_bytes 2 (unat type_id) @ payload
          in case ps_write stream of
               IoErr e \<Rightarrow> ([], Err (PathValidationFailed e))
             | IoOk _ \<Rightarrow>
                 (case ps_finish stream of
                    IoErr e \<Rightarrow> (buf, Err (PathValidationFailed e))
                  | IoOk _ \<Rightarrow> (buf, Ok ())))"

section \<open>Migrating\<close>

record 'ip tick =
  tk_now_ms :: nat
  tk_closed :: bool
  tk_local_ip :: "'ip option"

fun wait_for_path_validation ::
  "VoIPConfig \<Rightarrow> nat \<Rightarrow> 'ip tick list \<Rightarrow> ('ip \<times> u16, MigrationError) result option" where
  "wait_for_path_validation cfg started [] = None"
| "wait_for_path_validation cfg started (t # ticks) =
     (if tk_now_ms t > started + unat (migration_path_timeout_ms cfg)
      then Some (Err (MigrationTimeout (migration_path_timeout_ms cfg)))
      else if tk_closed t
      then Some (Err (PathValidationFailed ''connection closed during migration''))
      else case tk_local_ip t of
             Some local_ip \<Rightarrow> Some (Ok (local_ip, 0))
           | None \<Rightarrow> wait_for_path_validation cfg started ticks)"

text \<open>The whole handler: the prober afterwards, the bytes sent to the peer, the result; \<open>None\<close> when the
  NAT probe does not return.  \<open>reprobe\<close> is the probing run.\<close>

definition handle_network_change ::
  "(NATProber \<Rightarrow> (NATProber \<times> (NATInfo, NatProbeError) result) option) \<Rightarrow> (ConnectionMigration \<Rightarrow> bytes)
     \<Rightarrow> peer_stream \<Rightarrow> VoIPConfig \<Rightarrow> nat \<Rightarrow> 'ip tick list \<Rightarrow> NetworkChangeEvent \<Rightarrow> NATProber option
     \<Rightarrow> (NATProber option \<times> bytes \<times> ('ip MigrationResult, unit) result) option" where
  "handle_network_change reprobe encode stream cfg started ticks event nat_prober =
     (case wait_for_path_validation cfg started ticks of
        None \<Rightarrow>
          Some (nat_prober, [], Ok (MigrationFailure (MigrationTimeout (migration_path_timeout_ms cfg))))
      | Some (Err e) \<Rightarrow> Some (nat_prober, [], Ok (MigrationFailure e))
      | Some Panic \<Rightarrow> Some (nat_prober, [], Panic)
      | Some (Ok new_local_addr) \<Rightarrow>
          let finish = (\<lambda>prober nat_reprobed new_nat_info.
                (prober, fst (send_migration_notification encode stream new_nat_info),
                 Ok (MigrationSuccess new_local_addr nat_reprobed new_nat_info)))
          in if \<not> requires_nat_reprobe event then Some (finish nat_prober False None)
             else case nat_prober of
                    None \<Rightarrow> Some (finish None False None)
                  | Some prober \<Rightarrow>
                      map_option
                        (\<lambda>(prober, r). case r of
                           Ok info \<Rightarrow> finish (Some prober) True (Some info)
                         | Err _ \<Rightarrow> finish (Some prober) False None
                         | Panic \<Rightarrow> (Some prober, [], Panic))
                        (reprobe (invalidate_cache prober)))"

section \<open>The network monitor\<close>

record 'addr NetworkMonitor =
  nm_last_addresses :: "'addr list"
  nm_active :: bool

definition NetworkMonitor_new :: "'addr NetworkMonitor" where
  "NetworkMonitor_new = \<lparr> nm_last_addresses = [], nm_active = False \<rparr>"

definition monitor_start :: "'addr NetworkMonitor \<Rightarrow> 'addr NetworkMonitor" where
  "monitor_start m = m\<lparr>nm_active := True\<rparr>"

definition monitor_stop :: "'addr NetworkMonitor \<Rightarrow> 'addr NetworkMonitor" where
  "monitor_stop m = m\<lparr>nm_active := False\<rparr>"

definition check_for_changes :: "'addr NetworkMonitor \<Rightarrow> NetworkChangeEvent list" where
  "check_for_changes m = (if \<not> nm_active m then [] else [])"

definition update_addresses :: "'addr list \<Rightarrow> 'addr NetworkMonitor \<Rightarrow> 'addr NetworkMonitor" where
  "update_addresses addresses m = m\<lparr>nm_last_addresses := addresses\<rparr>"

section \<open>Retries\<close>

record MigrationRetryHandler =
  mh_attempt :: u32
  mh_max_attempts :: u32
  mh_initial_delay_secs :: u64
  mh_backoff_multiplier :: u32

definition MigrationRetryHandler_new :: "VoIPConfig \<Rightarrow> MigrationRetryHandler" where
  "MigrationRetryHandler_new cfg =
     \<lparr> mh_attempt = 0, mh_max_attempts = push_retry_max_attempts cfg,
       mh_initial_delay_secs = push_retry_initial_delay_secs cfg,
       mh_backoff_multiplier = push_retry_backoff_multiplier cfg \<rparr>"

definition mh_next_delay :: "bool \<Rightarrow> MigrationRetryHandler \<Rightarrow> (u64 option, unit) result" where
  "mh_next_delay oc h =
     (if mh_attempt h \<ge> mh_max_attempts h then Ok None
      else res_bind (checked_pow oc (ucast (mh_backoff_multiplier h)) (unat (mh_attempt h))) (\<lambda>p.
           res_map Some (checked_mul oc (mh_initial_delay_secs h) p)))"

definition mh_record_attempt :: "bool \<Rightarrow> MigrationRetryHandler \<Rightarrow> (MigrationRetryHandler, unit) result" where
  "mh_record_attempt oc h = res_map (\<lambda>a. h\<lparr>mh_attempt := a\<rparr>) (checked_add oc (mh_attempt h) 1)"

definition mh_is_exhausted :: "MigrationRetryHandler \<Rightarrow> bool" where
  "mh_is_exhausted h = (mh_attempt h \<ge> mh_max_attempts h)"

definition mh_reset :: "MigrationRetryHandler \<Rightarrow> MigrationRetryHandler" where
  "mh_reset h = h\<lparr>mh_attempt := 0\<rparr>"

definition mh_current_attempt :: "MigrationRetryHandler \<Rightarrow> u32" where
  "mh_current_attempt h = mh_attempt h"

section \<open>Facts\<close>

text \<open>The wait decides at the first tick that is late, sees the connection closed or sees an address.\<close>

lemma wait_no_panic: "wait_for_path_validation cfg started ticks \<noteq> Some Panic"
  by (induction ticks) (auto split: option.splits)

lemma wait_skips:
  assumes "\<forall>t \<in> set pre. tk_now_ms t \<le> started + unat (migration_path_timeout_ms cfg)
      \<and> \<not> tk_closed t \<and> tk_local_ip t = None"
  shows "wait_for_path_validation cfg started (pre @ ticks) = wait_for_path_validation cfg started ticks"
  using assms by (induction pre) auto

lemma wait_OkD:
  assumes "wait_for_path_validation cfg started ticks = Some (Ok a)"
  shows "\<exists>t \<in> set ticks. tk_now_ms t \<le> started + unat (migration_path_timeout_ms cfg)
    \<and> \<not> tk_closed t \<and> tk_local_ip t = Some (fst a) \<and> snd a = 0"
  using assms
proof (induction ticks)
  case Nil
  then show ?case by simp
next
  case (Cons t ticks)
  show ?case
  proof (cases "tk_local_ip t")
    case None
    then show ?thesis using Cons by (simp split: if_splits)
  next
    case (Some ip)
    then show ?thesis using Cons.prems by (auto split: if_splits)
  qed
qed

lemma wait_ErrD:
  assumes "wait_for_path_validation cfg started ticks = Some (Err e)"
  shows "e = MigrationTimeout (migration_path_timeout_ms cfg)
      \<and> (\<exists>t \<in> set ticks. tk_now_ms t > started + unat (migration_path_timeout_ms cfg))
    \<or> e = PathValidationFailed ''connection closed during migration'' \<and> (\<exists>t \<in> set ticks. tk_closed t)"
  using assms by (induction ticks) (auto split: if_splits option.splits)

text \<open>The notification is a signaling frame of type 1.\<close>

lemma notification_frame:
  assumes "send_migration_notification encode stream info = (buf, Ok ())"
  shows "decode_message buf = Ok (1, encode (build_migration_message info))"
proof -
  have "buf = encode_message 1 (encode (build_migration_message info))"
    using assms
    by (auto simp: send_migration_notification_def encode_message_def Let_def split: io.splits)
  then show ?thesis by (simp add: decode_encode_message)
qed

text \<open>A connection that is alive and has a local address counts as migrated at the first look,
  whether or not its path has changed.\<close>

lemma migration_without_path_change:
  assumes "tk_now_ms t \<le> started + unat (migration_path_timeout_ms cfg)" and "\<not> tk_closed t"
    and "tk_local_ip t = Some old_ip"
  shows "handle_network_change reprobe encode stream cfg started (t # ticks) Ipv6PrefixChange p
    = Some (p, fst (send_migration_notification encode stream None), Ok (MigrationSuccess (old_ip, 0) False None))"
  using assms by (simp add: handle_network_change_def)

text \<open>The retry delays are those of the configuration, shifted by one.\<close>

lemma migration_delay_eq:
  assumes "k < push_retry_max_attempts cfg"
  shows "mh_next_delay oc ((MigrationRetryHandler_new cfg)\<lparr>mh_attempt := k\<rparr>)
    = res_map Some (retry_delay_secs oc cfg (k + 1))"
proof -
  have "unat (k + 1) = unat k + 1" by (rule unat_plus_one_below [OF assms])
  then have "k + 1 \<noteq> 0" by (metis add_is_0 unat_0 zero_neq_one)
  moreover have "\<not> push_retry_max_attempts cfg \<le> k" using assms by simp
  ultimately show ?thesis
    by (cases "checked_pow oc (ucast (push_retry_backoff_multiplier cfg) :: u64) (unat k) :: (u64, unit) result")
      (simp_all add: mh_next_delay_def MigrationRetryHandler_new_def retry_delay_secs_def Let_def)
qed

lemma nat_probe_cache:
  assumes "nat_probe oc ans now_secs now_ms p = Some (p', r)"
  shows "case r of
      Ok info \<Rightarrow> \<exists>c. np_cache p' = Some c \<and> npc_cache_timestamp c = now_ms
    | _ \<Rightarrow> p' = p"
proof -
  define probes where "probes = collect_probes oc ans 0
    (take (unat (path_probe_count (np_config p))) (signaling_server_ips (np_config p)))"
  have stamp: "npc_cache_timestamp (build_cache now_ms rs info cfg) = now_ms" for rs info cfg
    by (simp add: build_cache_def Let_def)
  consider "(p', r) = (p, Err NatProbeError.NotConnected)" | c where "probes = Some c"
      "(p', r) = (case c of Panic \<Rightarrow> (p, Panic) | Err _ \<Rightarrow> (p, Panic)
         | Ok results \<Rightarrow> if length results < 3 then (p, Err (InsufficientProbes (length results) 3))
             else (case classify_nat oc now_secs results (np_config p) of
                     Ok info \<Rightarrow> (p\<lparr>np_cache := Some (build_cache now_ms results info (np_config p))\<rparr>, Ok info)
                   | _ \<Rightarrow> (p, Panic)))"
    using assms unfolding nat_probe_def Let_def probes_def [symmetric]
    by (auto split: if_splits)
  then show ?thesis
    by cases (auto simp: stamp split: result.splits if_splits)
qed

text \<open>What follows a validated path: the probe where one is due, and the notice.\<close>

lemma validated_change:
  assumes change: "handle_network_change (nat_probe oc ans now_secs now_ms) encode stream cfg started ticks event prober
      = Some (prober', sent, Ok res)"
    and ok: "wait_for_path_validation cfg started ticks = Some (Ok a)"
  shows "\<exists>reprobed info. res = MigrationSuccess a reprobed info \<and> (reprobed \<longleftrightarrow> info \<noteq> None)
    \<and> (if requires_nat_reprobe event \<and> prober \<noteq> None
       then \<exists>p. prober' = Some p \<and> (if reprobed
              then \<exists>c. np_cache p = Some c \<and> npc_cache_timestamp c = now_ms else np_cache p = None)
       else \<not> reprobed \<and> prober' = prober)
    \<and> sent = fst (send_migration_notification encode stream info)"
proof (cases "requires_nat_reprobe event \<and> prober \<noteq> None")
  case False
  then show ?thesis
    using assms by (auto simp: handle_network_change_def Let_def split: option.splits if_splits)
next
  case True
  then obtain p where p: "prober = Some p" by blast
  obtain p' r where run: "nat_probe oc ans now_secs now_ms (invalidate_cache p) = Some (p', r)"
    using assms True p by (auto simp: handle_network_change_def Let_def)
  note c = nat_probe_cache [OF run]
  show ?thesis
    using assms True p run c
    by (cases r) (auto simp: handle_network_change_def Let_def invalidate_cache_def)
qed

lemma notice_sent:
  "fst (send_migration_notification encode stream info) \<in> {[], encode_message 1 (encode (build_migration_message info))}"
  by (simp add: send_migration_notification_def encode_message_def Let_def split: io.splits)

section \<open>Properties\<close>


definition sample_tick :: "nat tick" where
  "sample_tick = \<lparr> tk_now_ms = 100, tk_closed = False, tk_local_ip = Some 7 \<rparr>"

definition sample_stream :: peer_stream where
  "sample_stream = \<lparr> ps_open = IoOk (), ps_write = IoOk (), ps_finish = IoOk () \<rparr>"

definition sample_answer :: probe_answer where
  "sample_answer = \<lparr> pa_open = OpenTimeout, pa_write = IoOk (), pa_read = ReadTimeout, pa_rtt_ms = 0, pa_now_ms = 0 \<rparr>"


end
