(* ===== verification/Client_Caches.thy ===== *)
theory Client_Caches
  imports Dht_Record Rate_Limit Tls_Config
begin

text \<open>
  The client's caches: the peer address book (\<open>src/crates/voip-client/src/peer_cache.rs\<close>) and the
  store of TLS session tickets (\<open>src/crates/voip-client/src/session_store.rs\<close>).

  Times are readings of the monotonic clock in nanoseconds.  Every operation runs under the lock of its
  structure.  Where one reads the clock it takes the reading as an argument; an insertion into
  the ticket store reads it twice, before the lock for the timestamp and after it for the eviction.  The values \<open>rustls\<close> stores (server names, key exchange groups,
  session values) have arbitrary types.
\<close>

section \<open>The address book\<close>

record CachedPeer =
  cp_record :: PeerRecord_proto
  cp_discovered_via :: DiscoveryMethod
  cp_discovered_at :: nat
  cp_ttl :: nat

record PeerAddressBook =
  ab_peers :: "(string \<times> CachedPeer) list"
  ab_default_ttl :: nat

definition CachedPeer_is_expired :: "nat \<Rightarrow> CachedPeer \<Rightarrow> bool" where
  "CachedPeer_is_expired now e \<longleftrightarrow> now - cp_discovered_at e > cp_ttl e"

definition PeerAddressBook_new :: "nat \<Rightarrow> PeerAddressBook" where
  "PeerAddressBook_new default_ttl = \<lparr> ab_peers = [], ab_default_ttl = default_ttl \<rparr>"

definition PeerAddressBook_default_settings :: PeerAddressBook where
  "PeerAddressBook_default_settings = PeerAddressBook_new (300 * 10 ^ 9)"

definition ab_insert ::
  "nat \<Rightarrow> PeerRecord_proto \<Rightarrow> DiscoveryMethod \<Rightarrow> PeerAddressBook \<Rightarrow> PeerAddressBook" where
  "ab_insert now record via b =
     (let entry = \<lparr> cp_record = record, cp_discovered_via = via, cp_discovered_at = now,
                    cp_ttl = ab_default_ttl b \<rparr>
      in b\<lparr>ab_peers := AList.update (p_peer_id record) entry (ab_peers b)\<rparr>)"

definition ab_get ::
  "nat \<Rightarrow> string \<Rightarrow> PeerAddressBook \<Rightarrow> (PeerRecord_proto \<times> DiscoveryMethod) option" where
  "ab_get now peer_id b =
     (case map_of (ab_peers b) peer_id of
        None \<Rightarrow> None
      | Some cached \<Rightarrow>
          if CachedPeer_is_expired now cached then None
          else Some (cp_record cached, cp_discovered_via cached))"

definition ab_invalidate :: "string \<Rightarrow> PeerAddressBook \<Rightarrow> PeerAddressBook" where
  "ab_invalidate peer_id b = b\<lparr>ab_peers := AList.delete peer_id (ab_peers b)\<rparr>"

definition ab_cleanup_expired :: "nat \<Rightarrow> PeerAddressBook \<Rightarrow> PeerAddressBook \<times> nat" where
  "ab_cleanup_expired now b =
     (let before = length (ab_peers b);
          kept = filter (\<lambda>(_, entry). \<not> CachedPeer_is_expired now entry) (ab_peers b)
      in (b\<lparr>ab_peers := kept\<rparr>, before - length kept))"

definition ab_len :: "PeerAddressBook \<Rightarrow> nat" where
  "ab_len b = length (ab_peers b)"

definition ab_is_empty :: "PeerAddressBook \<Rightarrow> bool" where
  "ab_is_empty b \<longleftrightarrow> ab_len b = 0"

definition ab_clear :: "PeerAddressBook \<Rightarrow> PeerAddressBook" where
  "ab_clear b = b\<lparr>ab_peers := []\<rparr>"

section \<open>The ticket store\<close>

definition MAX_TLS13_TICKETS_PER_SERVER :: nat where
  "MAX_TLS13_TICKETS_PER_SERVER = 4"

record ('g, 's, 'v) ServerData =
  sd_kx_hint :: "'g option"
  sd_tls12 :: "'s option"
  sd_tls13 :: "'v list"
  sd_tls13_timestamps :: "nat list"

definition ServerData_default :: "('g, 's, 'v) ServerData" where
  "ServerData_default = \<lparr> sd_kx_hint = None, sd_tls12 = None, sd_tls13 = [], sd_tls13_timestamps = [] \<rparr>"

record ('n, 'g, 's, 'v) SessionTicketStore =
  ss_servers :: "('n \<times> ('g, 's, 'v) ServerData) list"
  ss_ttl :: nat

definition SessionTicketStore_new :: "nat \<Rightarrow> ('n, 'g, 's, 'v) SessionTicketStore" where
  "SessionTicketStore_new ttl_secs = \<lparr> ss_servers = [], ss_ttl = ttl_secs * 10 ^ 9 \<rparr>"

definition SessionTicketStore_from_config :: "VoIPConfig \<Rightarrow> ('n, 'g, 's, 'v) SessionTicketStore" where
  "SessionTicketStore_from_config cfg = SessionTicketStore_new (unat (session_ticket_ttl_secs cfg))"

text \<open>Both queues lose their fronts while the front timestamp is too old.\<close>

fun evict_loop :: "nat \<Rightarrow> nat \<Rightarrow> nat list \<Rightarrow> 'v list \<Rightarrow> nat list \<times> 'v list" where
  "evict_loop now ttl [] tickets = ([], tickets)"
| "evict_loop now ttl (stored_at # stamps) tickets =
     (if now - stored_at \<ge> ttl then evict_loop now ttl stamps (tl tickets)
      else (stored_at # stamps, tickets))"

definition evict_expired_tickets ::
  "nat \<Rightarrow> nat \<Rightarrow> ('g, 's, 'v) ServerData \<Rightarrow> ('g, 's, 'v) ServerData" where
  "evict_expired_tickets now ttl d =
     (case evict_loop now ttl (sd_tls13_timestamps d) (sd_tls13 d) of
        (stamps, tickets) \<Rightarrow> d\<lparr>sd_tls13 := tickets, sd_tls13_timestamps := stamps\<rparr>)"

definition server_data :: "'n \<Rightarrow> ('n, 'g, 's, 'v) SessionTicketStore \<Rightarrow> ('g, 's, 'v) ServerData" where
  "server_data name s = (case map_of (ss_servers s) name of Some d \<Rightarrow> d | None \<Rightarrow> ServerData_default)"

definition put_server ::
  "'n \<Rightarrow> ('g, 's, 'v) ServerData \<Rightarrow> ('n, 'g, 's, 'v) SessionTicketStore \<Rightarrow> ('n, 'g, 's, 'v) SessionTicketStore" where
  "put_server name d s = s\<lparr>ss_servers := AList.update name d (ss_servers s)\<rparr>"

definition ticket_count :: "('n, 'g, 's, 'v) SessionTicketStore \<Rightarrow> nat" where
  "ticket_count s = sum_list (map (\<lambda>(_, d). length (sd_tls13 d)) (ss_servers s))"

definition ss_clear :: "('n, 'g, 's, 'v) SessionTicketStore \<Rightarrow> ('n, 'g, 's, 'v) SessionTicketStore" where
  "ss_clear s = s\<lparr>ss_servers := []\<rparr>"

definition set_kx_hint ::
  "'n \<Rightarrow> 'g \<Rightarrow> ('n, 'g, 's, 'v) SessionTicketStore \<Rightarrow> ('n, 'g, 's, 'v) SessionTicketStore" where
  "set_kx_hint name g s = put_server name ((server_data name s)\<lparr>sd_kx_hint := Some g\<rparr>) s"

definition kx_hint :: "'n \<Rightarrow> ('n, 'g, 's, 'v) SessionTicketStore \<Rightarrow> 'g option" where
  "kx_hint name s = Option.bind (map_of (ss_servers s) name) sd_kx_hint"

definition set_tls12_session ::
  "'n \<Rightarrow> 's \<Rightarrow> ('n, 'g, 's, 'v) SessionTicketStore \<Rightarrow> ('n, 'g, 's, 'v) SessionTicketStore" where
  "set_tls12_session name v s = put_server name ((server_data name s)\<lparr>sd_tls12 := Some v\<rparr>) s"

definition tls12_session :: "'n \<Rightarrow> ('n, 'g, 's, 'v) SessionTicketStore \<Rightarrow> 's option" where
  "tls12_session name s = Option.bind (map_of (ss_servers s) name) sd_tls12"

definition remove_tls12_session ::
  "'n \<Rightarrow> ('n, 'g, 's, 'v) SessionTicketStore \<Rightarrow> ('n, 'g, 's, 'v) SessionTicketStore" where
  "remove_tls12_session name s =
     (case map_of (ss_servers s) name of
        None \<Rightarrow> s
      | Some d \<Rightarrow> put_server name (d\<lparr>sd_tls12 := None\<rparr>) s)"

definition insert_tls13_ticket ::
  "nat \<Rightarrow> nat \<Rightarrow> 'n \<Rightarrow> 'v \<Rightarrow> ('n, 'g, 's, 'v) SessionTicketStore \<Rightarrow>
    ('n, 'g, 's, 'v) SessionTicketStore" where
  "insert_tls13_ticket now evict_now name v s =
     (let d = evict_expired_tickets evict_now (ss_ttl s) (server_data name s);
          d = (if length (sd_tls13 d) \<ge> MAX_TLS13_TICKETS_PER_SERVER
               then d\<lparr>sd_tls13 := tl (sd_tls13 d), sd_tls13_timestamps := tl (sd_tls13_timestamps d)\<rparr>
               else d)
      in put_server name (d\<lparr>sd_tls13 := sd_tls13 d @ [v],
                            sd_tls13_timestamps := sd_tls13_timestamps d @ [now]\<rparr>) s)"

definition take_tls13_ticket ::
  "nat \<Rightarrow> 'n \<Rightarrow> ('n, 'g, 's, 'v) SessionTicketStore \<Rightarrow> ('n, 'g, 's, 'v) SessionTicketStore \<times> 'v option" where
  "take_tls13_ticket now name s =
     (case map_of (ss_servers s) name of
        None \<Rightarrow> (s, None)
      | Some d \<Rightarrow>
          let d = evict_expired_tickets now (ss_ttl s) d in
          if sd_tls13 d = [] then (put_server name d s, None)
          else (put_server name (d\<lparr>sd_tls13 := butlast (sd_tls13 d)\<rparr>) s, Some (last (sd_tls13 d))))"

section \<open>Configurations with resumption\<close>

text \<open>A client configuration that keeps its tickets in a store.\<close>

record ('n, 'g, 's, 'v) ResumingClientConfig = RustlsClientConfig +
  rr_store :: "('n, 'g, 's, 'v) SessionTicketStore"

record ('n, 'g, 's, 'v) ResumingQuinnConfig =
  rq_crypto :: "('n, 'g, 's, 'v) ResumingClientConfig"
  rq_datagram_receive_buffer_size :: "nat option"
  rq_datagram_send_buffer_size :: nat
  rq_max_idle_timeout_ms :: "nat option"

definition client_config_with_resumption ::
  "VoIPConfig \<Rightarrow> (('n, 'g, 's, 'v) ResumingClientConfig, string) result" where
  "client_config_with_resumption cfg =
     (let store = SessionTicketStore_from_config cfg in
      Ok \<lparr> rc_verifier = NoVerifier, rc_client_auth = False, rc_alpn_protocols = [], rr_store = store \<rparr>)"

definition quinn_client_config_with_resumption ::
  "tls_library \<Rightarrow> VoIPConfig \<Rightarrow> (('n, 'g, 's, 'v) ResumingQuinnConfig, string) result" where
  "quinn_client_config_with_resumption lib cfg =
     res_bind (client_config_with_resumption cfg) (\<lambda>rustls_config.
     res_bind (map_err (\<lambda>e. ''QuicClientConfig: '' @ e)
                 (tl_quic_client lib (RustlsClientConfig.truncate rustls_config))) (\<lambda>_.
     let idle_timeout = unat (quic_idle_timeout_ms cfg) in
     if \<not> tl_idle_timeout_ok lib idle_timeout then Err ''invalid idle timeout''
     else Ok \<lparr> rq_crypto = rustls_config, rq_datagram_receive_buffer_size = Some 65536,
               rq_datagram_send_buffer_size = 65536, rq_max_idle_timeout_ms = Some idle_timeout \<rparr>))"

text \<open>A resuming client has an empty store with the configured lifetime and goes on with every
  server, in a release build as well.\<close>

lemma resumption_never_verifies:
  assumes "quinn_client_config_with_resumption lib cfg = Ok q"
  shows "client_accepts vouched (RustlsClientConfig.truncate (rq_crypto q)) cert name"
    and "rr_store (rq_crypto q) = SessionTicketStore_new (unat (session_ticket_ttl_secs cfg))"
  using assms
  by (auto simp: quinn_client_config_with_resumption_def client_config_with_resumption_def res_ok_iffs
      client_accepts_def verify_server_cert_def RustlsClientConfig.truncate_def
      SessionTicketStore_from_config_def Let_def split: if_splits)

section \<open>The address book as a timed map\<close>

text \<open>What the operations mean: a log of them, oldest first, determines what is known at a time.\<close>

datatype book_op =
    BookInsert nat PeerRecord_proto DiscoveryMethod
  | BookInvalidate string
  | BookCleanup nat
  | BookClear

fun book_step :: "book_op \<Rightarrow> PeerAddressBook \<Rightarrow> PeerAddressBook" where
  "book_step (BookInsert now r via) b = ab_insert now r via b"
| "book_step (BookInvalidate p) b = ab_invalidate p b"
| "book_step (BookCleanup now) b = fst (ab_cleanup_expired now b)"
| "book_step BookClear b = ab_clear b"

text \<open>The specification: a map from peers to what was last inserted and when.  Cleaning up has no
  meaning in it.\<close>

type_synonym book_spec = "string \<Rightarrow> (nat \<times> PeerRecord_proto \<times> DiscoveryMethod) option"

fun spec_step :: "book_op \<Rightarrow> book_spec \<Rightarrow> book_spec" where
  "spec_step (BookInsert now r via) m = m(p_peer_id r \<mapsto> (now, r, via))"
| "spec_step (BookInvalidate p) m = m(p := None)"
| "spec_step (BookCleanup now) m = m"
| "spec_step BookClear m = Map.empty"

definition spec_get :: "nat \<Rightarrow> nat \<Rightarrow> string \<Rightarrow> book_spec \<Rightarrow> (PeerRecord_proto \<times> DiscoveryMethod) option" where
  "spec_get ttl now p m =
     (case m p of Some (t, r, via) \<Rightarrow> if now - t \<le> ttl then Some (r, via) else None | None \<Rightarrow> None)"

text \<open>A run with the clock readings in order, all up to a final time.\<close>

fun op_time :: "book_op \<Rightarrow> nat \<Rightarrow> nat" where
  "op_time (BookInsert now _ _) _ = now"
| "op_time (BookCleanup now) _ = now"
| "op_time _ t = t"

fun clock_ok :: "nat \<Rightarrow> book_op list \<Rightarrow> nat \<Rightarrow> bool" where
  "clock_ok t [] now \<longleftrightarrow> t \<le> now"
| "clock_ok t (op # ops) now \<longleftrightarrow> t \<le> op_time op t \<and> clock_ok (op_time op t) ops now"

text \<open>The simulation relation at a time: an entry is the specified one, and a missing one has expired.\<close>

fun entry_rel :: "nat \<Rightarrow> nat \<Rightarrow> CachedPeer option \<Rightarrow> (nat \<times> PeerRecord_proto \<times> DiscoveryMethod) option \<Rightarrow> bool" where
  "entry_rel ttl t (Some e) x \<longleftrightarrow>
     cp_ttl e = ttl \<and> x = Some (cp_discovered_at e, cp_record e, cp_discovered_via e)"
| "entry_rel ttl t None None \<longleftrightarrow> True"
| "entry_rel ttl t None (Some (t0, _)) \<longleftrightarrow> t - t0 > ttl"

definition book_rel :: "nat \<Rightarrow> PeerAddressBook \<Rightarrow> book_spec \<Rightarrow> bool" where
  "book_rel t b m \<longleftrightarrow> distinct (map fst (ab_peers b)) \<and>
     (\<forall>p. entry_rel (ab_default_ttl b) t (map_of (ab_peers b) p) (m p))"

lemma entry_rel_later: "entry_rel ttl t e x \<Longrightarrow> t \<le> t' \<Longrightarrow> entry_rel ttl t' e x"
  by (cases "(ttl, t, e, x)" rule: entry_rel.cases) auto

lemma entry_rel_none: "entry_rel ttl t None x \<longleftrightarrow> (case x of None \<Rightarrow> True | Some (t0, _) \<Rightarrow> t - t0 > ttl)"
  by (cases "(ttl, t, None :: CachedPeer option, x)" rule: entry_rel.cases) auto

lemma book_rel_step:
  assumes "book_rel t b m" and "t \<le> op_time op t"
  shows "book_rel (op_time op t) (book_step op b) (spec_step op m)"
proof -
  have d: "distinct (map fst (ab_peers b))" using assms(1) by (simp add: book_rel_def)
  have e: "entry_rel (ab_default_ttl b) (op_time op t) (map_of (ab_peers b) p) (m p)" for p
    using assms by (auto simp: book_rel_def intro: entry_rel_later)
  show ?thesis
  proof (cases op)
    case (BookInsert now r via)
    then show ?thesis
      using d e by (simp add: book_rel_def ab_insert_def Let_def update_conv' distinct_update)
  next
    case (BookInvalidate p)
    then show ?thesis
      using d e by (simp add: book_rel_def ab_invalidate_def delete_conv' distinct_delete)
  next
    case (BookCleanup now)
    have "entry_rel (ab_default_ttl b) now
        (case map_of (ab_peers b) p of Some v \<Rightarrow> if \<not> CachedPeer_is_expired now v then Some v else None
         | None \<Rightarrow> None) (m p)" for p
      using e [of p] BookCleanup
      by (cases "map_of (ab_peers b) p") (auto simp: entry_rel_none CachedPeer_is_expired_def)
    then show ?thesis
      using d BookCleanup
      by (simp add: book_rel_def ab_cleanup_expired_def map_of_filter_value distinct_map_filter Let_def)
  next
    case BookClear
    then show ?thesis by (simp add: book_rel_def ab_clear_def)
  qed
qed

lemma book_step_ttl [simp]: "ab_default_ttl (book_step op b) = ab_default_ttl b"
  by (cases op) (simp_all add: ab_insert_def ab_invalidate_def ab_cleanup_expired_def ab_clear_def Let_def)

lemma book_rel_run:
  "book_rel t b m \<Longrightarrow> clock_ok t ops now \<Longrightarrow>
    book_rel now (fold book_step ops b) (fold spec_step ops m)"
proof (induction ops arbitrary: t b m)
  case Nil
  then show ?case by (auto simp: book_rel_def intro: entry_rel_later)
next
  case (Cons op ops)
  then show ?case using book_rel_step [of t b m op] by simp
qed

lemma ab_get_rel:
  assumes "book_rel now b m"
  shows "ab_get now p b = spec_get (ab_default_ttl b) now p m"
proof -
  have "entry_rel (ab_default_ttl b) now (map_of (ab_peers b) p) (m p)"
    using assms by (simp add: book_rel_def)
  then show ?thesis
    by (cases "map_of (ab_peers b) p")
      (auto simp: ab_get_def spec_get_def entry_rel_none CachedPeer_is_expired_def split: option.splits)
qed

lemma fold_book_step_ttl [simp]: "ab_default_ttl (fold book_step ops b) = ab_default_ttl b"
  by (induction ops arbitrary: b) simp_all

text \<open>C29: The address book refines a map of last insertions: whatever the insertions, invalidations,
  clean-ups and clears before it, with a clock that does not go back, a lookup returns exactly the
  record and discovery method inserted last for that peer, if it is at most a TTL old, and nothing
  otherwise.  Cleaning up is never observable.\<close>

theorem address_book_refinement:
  assumes "clock_ok t0 ops now"
  shows "ab_get now p (fold book_step ops (PeerAddressBook_new ttl))
         = spec_get ttl now p (fold spec_step ops Map.empty)"
proof -
  have "book_rel t0 (PeerAddressBook_new ttl) Map.empty"
    by (simp add: book_rel_def PeerAddressBook_new_def)
  from ab_get_rel [OF book_rel_run [OF this assms]] show ?thesis
    by (simp add: PeerAddressBook_new_def)
qed

text \<open>A record inserted, replaced, and looked up after a clean-up, within its lifetime and after.\<close>

definition sample_record :: "string \<Rightarrow> PeerRecord_proto" where
  "sample_record name = \<lparr> p_peer_id = ''p1'', p_display_name = name, p_ipv6_addresses = [],
     p_ipv4_reflexive = [], p_nat_info = None, p_tracks = [], p_status = 0, p_timestamp = 0,
     p_ttl_seconds = 0, p_signature = [] \<rparr>"

definition sample_book_ops :: "book_op list" where
  "sample_book_ops = [BookInsert 0 (sample_record ''old'') Dht, BookInsert 5 (sample_record ''new'') Signaling,
     BookCleanup 11]"

theorem address_book_refinement_witness:
  "clock_ok 0 sample_book_ops 15 \<and> clock_ok 0 sample_book_ops 16
   \<and> ab_get 15 ''p1'' (fold book_step sample_book_ops (PeerAddressBook_new 10))
       = Some (sample_record ''new'', Signaling)
   \<and> ab_get 16 ''p1'' (fold book_step sample_book_ops (PeerAddressBook_new 10)) = None"
  using address_book_refinement [of 0 sample_book_ops 15 "''p1''" 10]
    address_book_refinement [of 0 sample_book_ops 16 "''p1''" 10]
  by (simp add: sample_book_ops_def sample_record_def spec_get_def)

section \<open>The ticket store never hands out an expired ticket\<close>

datatype ('n, 'g, 's, 'v) ticket_op =
    TicketInsert nat nat 'n 'v
  | TicketTake nat 'n
  | SetKxHint 'n 'g
  | SetTls12 'n 's
  | RemoveTls12 'n
  | ClearTickets

fun ticket_step ::
  "('n, 'g, 's, 'v) ticket_op \<Rightarrow> ('n, 'g, 's, 'v) SessionTicketStore \<Rightarrow>
    ('n, 'g, 's, 'v) SessionTicketStore \<times> 'v option" where
  "ticket_step (TicketInsert stamp now n v) s = (insert_tls13_ticket stamp now n v s, None)"
| "ticket_step (TicketTake now n) s = take_tls13_ticket now n s"
| "ticket_step (SetKxHint n g) s = (set_kx_hint n g s, None)"
| "ticket_step (SetTls12 n v) s = (set_tls12_session n v s, None)"
| "ticket_step (RemoveTls12 n) s = (remove_tls12_session n s, None)"
| "ticket_step ClearTickets s = (ss_clear s, None)"

fun ticket_time :: "('n, 'g, 's, 'v) ticket_op \<Rightarrow> nat \<Rightarrow> nat" where
  "ticket_time (TicketInsert stamp now n v) t = now"
| "ticket_time (TicketTake now n) t = now"
| "ticket_time _ t = t"

fun reads_forward :: "nat \<Rightarrow> ('n, 'g, 's, 'v) ticket_op \<Rightarrow> bool" where
  "reads_forward t (TicketInsert stamp now n v) \<longleftrightarrow> t \<le> stamp \<and> stamp \<le> now"
| "reads_forward t (TicketTake now n) \<longleftrightarrow> t \<le> now"
| "reads_forward t _ \<longleftrightarrow> True"

fun ticket_clock :: "nat \<Rightarrow> ('n, 'g, 's, 'v) ticket_op list \<Rightarrow> bool" where
  "ticket_clock t [] \<longleftrightarrow> True"
| "ticket_clock t (op # ops) \<longleftrightarrow> reads_forward t op \<and> ticket_clock (ticket_time op t) ops"

text \<open>What a run inserts for a server, with the times, and what it hands out.\<close>

fun inserts :: "'n \<Rightarrow> ('n, 'g, 's, 'v) ticket_op \<Rightarrow> (nat \<times> 'v) list" where
  "inserts n (TicketInsert stamp now m v) = (if m = n then [(stamp, v)] else [])"
| "inserts n _ = []"

fun takes :: "'n \<Rightarrow> ('n, 'g, 's, 'v) ticket_op \<Rightarrow> 'v option \<Rightarrow> (nat \<times> 'v) list" where
  "takes n (TicketTake now m) (Some v) = (if m = n then [(now, v)] else [])"
| "takes n _ _ = []"

fun taken_at :: "'n \<Rightarrow> ('n, 'g, 's, 'v) ticket_op list \<Rightarrow> ('n, 'g, 's, 'v) SessionTicketStore \<Rightarrow> (nat \<times> 'v) list" where
  "taken_at n [] s = []"
| "taken_at n (op # ops) s =
     takes n op (snd (ticket_step op s)) @ taken_at n ops (fst (ticket_step op s))"

definition inserted_at :: "'n \<Rightarrow> ('n, 'g, 's, 'v) ticket_op list \<Rightarrow> (nat \<times> 'v) list" where
  "inserted_at n ops = concat (map (inserts n) ops)"

lemma server_data_put [simp]:
  "server_data n (put_server m d s) = (if n = m then d else server_data n s)"
  by (simp add: server_data_def put_server_def update_conv')

lemma ss_ttl_put [simp]: "ss_ttl (put_server m d s) = ss_ttl s"
  by (simp add: put_server_def)

lemma ss_ttl_step [simp]: "ss_ttl (fst (ticket_step op s)) = ss_ttl s"
  by (cases op)
    (simp_all add: insert_tls13_ticket_def take_tls13_ticket_def set_kx_hint_def set_tls12_session_def
      remove_tls12_session_def ss_clear_def Let_def split: option.split)

text \<open>The tickets of a server with the times they were stored.  A timestamp may be older than its
  ticket, since taking a ticket leaves its timestamp behind, but never younger.\<close>

definition stamped :: "nat \<Rightarrow> ('g, 's, 'v) ServerData \<Rightarrow> (nat \<times> 'v) list \<Rightarrow> bool" where
  "stamped now d born \<longleftrightarrow> map snd born = sd_tls13 d
     \<and> length born \<le> length (sd_tls13_timestamps d)
     \<and> (\<forall>k < length born. sd_tls13_timestamps d ! k \<le> fst (born ! k))
     \<and> sorted (sd_tls13_timestamps d)
     \<and> (\<forall>t \<in> set (sd_tls13_timestamps d). t \<le> now)
     \<and> (\<forall>b \<in> set born. fst b \<le> now)
     \<and> length born \<le> MAX_TLS13_TICKETS_PER_SERVER"

lemma stamped_later: "stamped t d born \<Longrightarrow> t \<le> t' \<Longrightarrow> stamped t' d born"
  by (fastforce simp: stamped_def)

lemma evict_loop_drop:
  "\<exists>n. evict_loop now ttl stamps tickets = (drop n stamps, drop n tickets)
     \<and> (\<forall>t \<in> set (drop n stamps). sorted stamps \<longrightarrow> now - t < ttl)"
proof (induction now ttl stamps tickets rule: evict_loop.induct)
  case (1 now ttl tickets)
  then show ?case by (intro exI [of _ 0]) simp
next
  case (2 now ttl stored_at stamps tickets)
  show ?case
  proof (cases "now - stored_at \<ge> ttl")
    case True
    with 2 obtain n where
      "evict_loop now ttl stamps (tl tickets) = (drop n stamps, drop n (tl tickets))"
      "\<forall>t \<in> set (drop n stamps). sorted stamps \<longrightarrow> now - t < ttl" by blast
    with True show ?thesis by (intro exI [of _ "Suc n"]) (simp add: drop_Suc)
  next
    case False
    then show ?thesis by (intro exI [of _ 0]) auto
  qed
qed

lemma stamped_drop:
  assumes "stamped now d born"
  shows "stamped now (d\<lparr>sd_tls13 := drop n (sd_tls13 d),
                         sd_tls13_timestamps := drop n (sd_tls13_timestamps d)\<rparr>) (drop n born)"
  using assms by (auto simp: stamped_def drop_map [symmetric] sorted_wrt_drop dest: in_set_dropD)

lemma evict_stamped:
  assumes "stamped now d born"
  obtains n where "stamped now (evict_expired_tickets now ttl d) (drop n born)"
    and "\<And>b. b \<in> set (drop n born) \<Longrightarrow> now - fst b < ttl"
proof -
  obtain n where e: "evict_loop now ttl (sd_tls13_timestamps d) (sd_tls13 d)
        = (drop n (sd_tls13_timestamps d), drop n (sd_tls13 d))"
    and fresh: "\<forall>t \<in> set (drop n (sd_tls13_timestamps d)). now - t < ttl"
    using evict_loop_drop [of now ttl "sd_tls13_timestamps d" "sd_tls13 d"] assms
    by (auto simp: stamped_def)
  have st: "stamped now (evict_expired_tickets now ttl d) (drop n born)"
    using stamped_drop [OF assms, of n] by (simp add: evict_expired_tickets_def e)
  have "now - fst b < ttl" if mem: "b \<in> set (drop n born)" for b
  proof -
    obtain k where k: "k < length (drop n born)" "b = drop n born ! k"
      using mem unfolding in_set_conv_nth by blast
    then have "drop n (sd_tls13_timestamps d) ! k \<le> fst b" "k < length (drop n (sd_tls13_timestamps d))"
      using st by (auto simp: stamped_def evict_expired_tickets_def e)
    moreover from this(2) have "now - drop n (sd_tls13_timestamps d) ! k < ttl"
      using fresh by (blast intro: nth_mem)
    ultimately show ?thesis by linarith
  qed
  with st show ?thesis by (rule that)
qed

lemma stamped_empty [simp]: "stamped t ServerData_default []"
  by (simp add: stamped_def ServerData_default_def)

lemma stamped_fields [simp]:
  "stamped t (d\<lparr>sd_kx_hint := g\<rparr>) born = stamped t d born"
  "stamped t (d\<lparr>sd_tls12 := v\<rparr>) born = stamped t d born"
  by (simp_all add: stamped_def)

lemma stamped_push:
  assumes "stamped now d born" and "length born < MAX_TLS13_TICKETS_PER_SERVER"
    and "\<forall>x \<in> set (sd_tls13_timestamps d). x \<le> stamp" and "stamp \<le> now"
  shows "stamped now (d\<lparr>sd_tls13 := sd_tls13 d @ [v],
                         sd_tls13_timestamps := sd_tls13_timestamps d @ [stamp]\<rparr>) (born @ [(stamp, v)])"
  using assms by (auto simp: stamped_def nth_append less_Suc_eq sorted_append)

lemma stamped_pop:
  "stamped now d born \<Longrightarrow> stamped now (d\<lparr>sd_tls13 := butlast (sd_tls13 d)\<rparr>) (butlast born)"
  by (auto simp: stamped_def map_butlast nth_butlast dest: in_set_butlastD)

definition fresh_match :: "nat \<Rightarrow> nat \<times> 'v \<Rightarrow> nat \<times> 'v \<Rightarrow> bool" where
  "fresh_match ttl tk ins \<longleftrightarrow> snd tk = snd ins \<and> fst ins \<le> fst tk \<and> fst tk - fst ins < ttl"

lemma insert_stamped:
  assumes "stamped t (server_data n s) born" and "t \<le> stamp" "stamp \<le> now"
  shows "\<exists>born'. stamped now (server_data n (insert_tls13_ticket stamp now n v s)) born'
           \<and> mset born' \<subseteq># mset born + {#(stamp, v)#}"
proof -
  let ?d = "evict_expired_tickets now (ss_ttl s) (server_data n s)"
  obtain k where k: "stamped now ?d (drop k born)"
    using stamped_later [OF assms(1)] assms(2,3) evict_stamped by (meson order_trans)
  define j where "j = (if length (sd_tls13 ?d) \<ge> MAX_TLS13_TICKETS_PER_SERVER then 1 else 0 :: nat)"
  let ?e = "?d\<lparr>sd_tls13 := drop j (sd_tls13 ?d), sd_tls13_timestamps := drop j (sd_tls13_timestamps ?d)\<rparr>"
  have e: "stamped now ?e (drop j (drop k born))" by (rule stamped_drop [OF k])
  have len: "length (drop j (drop k born)) < MAX_TLS13_TICKETS_PER_SERVER"
    using k by (auto simp: stamped_def j_def MAX_TLS13_TICKETS_PER_SERVER_def dest!: arg_cong [of _ _ length])
  have "set (sd_tls13_timestamps ?d) \<subseteq> set (sd_tls13_timestamps (server_data n s))"
    using evict_loop_drop [of now "ss_ttl s" "sd_tls13_timestamps (server_data n s)" "sd_tls13 (server_data n s)"]
    by (auto simp: evict_expired_tickets_def dest: in_set_dropD)
  then have old: "\<forall>x \<in> set (sd_tls13_timestamps ?e). x \<le> stamp"
    using assms by (fastforce simp: stamped_def dest: in_set_dropD)
  have "stamped now (server_data n (insert_tls13_ticket stamp now n v s)) (drop (j + k) born @ [(stamp, v)])"
    using stamped_push [OF e len old assms(3), of v]
    by (simp add: insert_tls13_ticket_def j_def Let_def drop_Suc split: if_splits)
  moreover have "mset (drop (j + k) born) \<subseteq># mset born"
    by (metis append_take_drop_id mset_append mset_subset_eq_add_right)
  ultimately show ?thesis by (intro exI [of _ "drop (j + k) born @ [(stamp, v)]"]) simp
qed

lemma ex2I: "P x y \<Longrightarrow> \<exists>x y. P x y"
  by blast

lemma take_stamped:
  assumes "stamped t (server_data n s) born" and "t \<le> now"
  shows "\<exists>born' hs. stamped now (server_data n (fst (take_tls13_ticket now n s))) born'
           \<and> mset born' + mset hs \<subseteq># mset born
           \<and> list_all2 (fresh_match (ss_ttl s)) (takes n (TicketTake now n) (snd (take_tls13_ticket now n s))) hs"
proof (cases "map_of (ss_servers s) n")
  case None
  then show ?thesis
    using stamped_later [OF assms] by (intro ex2I [where x = born and y = "[]"]) (simp add: take_tls13_ticket_def)
next
  case (Some d)
  then have d: "server_data n s = d" by (simp add: server_data_def)
  let ?e = "evict_expired_tickets now (ss_ttl s) d"
  obtain k where st: "stamped now ?e (drop k born)"
    and fresh: "\<And>b. b \<in> set (drop k born) \<Longrightarrow> now - fst b < ss_ttl s"
    using stamped_later [OF assms, unfolded d] by (rule evict_stamped [where ttl = "ss_ttl s"]) (rule that, assumption)
  have sub: "mset (drop k born) \<subseteq># mset born"
    by (metis append_take_drop_id mset_append mset_subset_eq_add_right)
  have e: "sd_tls13 ?e = map snd (drop k born)" using st by (simp add: stamped_def)
  show ?thesis
  proof (cases "drop k born = []")
    case True
    then show ?thesis
      using st Some e by (intro ex2I [where x = "[]" and y = "[]"]) (simp add: take_tls13_ticket_def)
  next
    case False
    define b where "b = last (drop k born)"
    have b: "drop k born = butlast (drop k born) @ [b]"
      unfolding b_def by (rule append_butlast_last_id [OF False, symmetric])
    then have bin: "b \<in> set (drop k born)" by (metis in_set_conv_decomp)
    have "fst b \<le> now" using st bin by (simp add: stamped_def)
    then have "fresh_match (ss_ttl s) (now, snd b) b" using fresh [OF bin] by (simp add: fresh_match_def)
    moreover have "mset (butlast (drop k born)) + mset [b] \<subseteq># mset born"
      using sub b by (metis mset_append)
    moreover have "take_tls13_ticket now n s
        = (put_server n (?e\<lparr>sd_tls13 := butlast (sd_tls13 ?e)\<rparr>) s, Some (snd b))"
      using Some False e by (simp add: take_tls13_ticket_def Let_def b_def last_map)
    ultimately show ?thesis
      using stamped_pop [OF st] by (intro ex2I [where x = "butlast (drop k born)" and y = "[b]"]) simp
  qed
qed

lemma other_server:
  "n \<noteq> m \<Longrightarrow> server_data n (insert_tls13_ticket stamp now m v s) = server_data n s"
  "n \<noteq> m \<Longrightarrow> server_data n (fst (take_tls13_ticket now m s)) = server_data n s"
  by (simp_all add: insert_tls13_ticket_def take_tls13_ticket_def Let_def split: option.split)

lemma ticket_step_stamped:
  assumes st: "stamped t (server_data n s) born" and rf: "reads_forward t op"
  shows "\<exists>born' hs. stamped (ticket_time op t) (server_data n (fst (ticket_step op s))) born'
           \<and> mset born' + mset hs \<subseteq># mset born + mset (inserts n op)
           \<and> list_all2 (fresh_match (ss_ttl s)) (takes n op (snd (ticket_step op s))) hs"
proof (cases op)
  case (TicketInsert stamp now m v)
  show ?thesis
  proof (cases "m = n")
    case True
    then show ?thesis
      using insert_stamped [OF st, of stamp now v] rf TicketInsert by auto
  next
    case False
    then show ?thesis
      using stamped_later [OF st, of now] rf TicketInsert
      by (intro ex2I [where x = born and y = "[]"]) (simp add: other_server)
  qed
next
  case (TicketTake now m)
  show ?thesis
  proof (cases "m = n")
    case True
    then show ?thesis using take_stamped [OF st, of now] rf TicketTake by simp
  next
    case False
    then have "takes n op x = []" for x using TicketTake by (cases x) simp_all
    then show ?thesis
      using stamped_later [OF st, of now] rf TicketTake False
      by (intro ex2I [where x = born and y = "[]"]) (simp add: other_server)
  qed
next
  case (SetKxHint m g)
  then show ?thesis
    using st by (intro ex2I [where x = born and y = "[]"]) (auto simp: set_kx_hint_def)
next
  case (SetTls12 m g)
  then show ?thesis
    using st by (intro ex2I [where x = born and y = "[]"]) (auto simp: set_tls12_session_def)
next
  case (RemoveTls12 m)
  then show ?thesis
    using st by (intro ex2I [where x = born and y = "[]"])
      (auto simp: remove_tls12_session_def server_data_def [of m] split: option.split)
next
  case ClearTickets
  then show ?thesis
    by (intro exI [of _ "[]"]) (simp add: ss_clear_def server_data_def)
qed

lemma ticket_run_stamped:
  "stamped t (server_data n s) born \<Longrightarrow> ticket_clock t ops \<Longrightarrow>
    \<exists>hs. mset hs \<subseteq># mset born + mset (inserted_at n ops)
      \<and> list_all2 (fresh_match (ss_ttl s)) (taken_at n ops s) hs"
proof (induction ops arbitrary: t s born)
  case Nil
  then show ?case by (intro exI [of _ "[]"]) (simp add: inserted_at_def)
next
  case (Cons op ops)
  obtain born' hs where 1: "stamped (ticket_time op t) (server_data n (fst (ticket_step op s))) born'"
      "mset born' + mset hs \<subseteq># mset born + mset (inserts n op)"
      "list_all2 (fresh_match (ss_ttl s)) (takes n op (snd (ticket_step op s))) hs"
    using ticket_step_stamped [OF Cons.prems(1)] Cons.prems(2) by (metis ticket_clock.simps(2))
  obtain gs where 2: "mset gs \<subseteq># mset born' + mset (inserted_at n ops)"
      "list_all2 (fresh_match (ss_ttl s)) (taken_at n ops (fst (ticket_step op s))) gs"
    using Cons.IH [OF 1(1)] Cons.prems(2) by auto
  have "mset (hs @ gs) \<subseteq># mset hs + (mset born' + mset (inserted_at n ops))"
    using 2(1) by simp
  also have "\<dots> \<subseteq># mset born + mset (inserted_at n (op # ops))"
    using subset_mset.add_right_mono [OF 1(2), of "mset (inserted_at n ops)"]
    by (simp add: inserted_at_def ac_simps)
  finally show ?case
    using list_all2_appendI [OF 1(3) 2(2)] unfolding taken_at.simps by blast
qed

text \<open>C10: The tickets the store hands out for a server can be matched one to one with insertions of
  the same tickets for that server, each less than the configured lifetime before: no expired ticket,
  no foreign ticket, and no ticket twice.  The operations may be interleaved with all others, for any
  servers.\<close>

theorem tickets_fresh_and_single_use:
  fixes ops :: "('n, 'g, 's, 'v) ticket_op list"
  assumes "ticket_clock 0 ops"
  shows "\<exists>hs. mset hs \<subseteq># mset (inserted_at n ops)
    \<and> list_all2 (fresh_match (ttl_secs * 10 ^ 9)) (taken_at n ops (SessionTicketStore_new ttl_secs)) hs"
proof -
  have "stamped 0 (server_data n (SessionTicketStore_new ttl_secs :: ('n, 'g, 's, 'v) SessionTicketStore)) []"
    by (simp add: server_data_def SessionTicketStore_new_def)
  from ticket_run_stamped [OF this assms] show ?thesis by (simp add: SessionTicketStore_new_def)
qed

text \<open>Two tickets in, two out, youngest first.\<close>

definition sample_ticket_ops :: "(nat, nat, nat, nat) ticket_op list" where
  "sample_ticket_ops =
     [TicketInsert 1 1 7 100, TicketInsert 2 2 7 200, TicketInsert 2 3 8 300, SetKxHint 7 0,
      TicketTake 4 7, TicketTake 5 7, TicketTake 6 7]"

theorem tickets_fresh_and_single_use_witness:
  "ticket_clock 0 sample_ticket_ops
   \<and> taken_at 7 sample_ticket_ops (SessionTicketStore_new 1) = [(4, 200), (5, 100)]
   \<and> (\<exists>hs. mset hs \<subseteq># mset (inserted_at 7 sample_ticket_ops)
        \<and> list_all2 (fresh_match (1 * 10 ^ 9)) (taken_at 7 sample_ticket_ops (SessionTicketStore_new 1)) hs)"
proof -
  have clock: "ticket_clock 0 sample_ticket_ops" by (simp add: sample_ticket_ops_def)
  have "taken_at 7 sample_ticket_ops (SessionTicketStore_new 1) = [(4, 200), (5, 100)]"
    by (simp add: sample_ticket_ops_def SessionTicketStore_new_def insert_tls13_ticket_def Let_def
        server_data_def put_server_def evict_expired_tickets_def ServerData_default_def
        MAX_TLS13_TICKETS_PER_SERVER_def take_tls13_ticket_def set_kx_hint_def)
  with clock tickets_fresh_and_single_use [OF clock, of 7 1] show ?thesis by blast
qed

text \<open>The timestamps a taken ticket leaves behind date the tickets stored after it: a ticket two
  nanoseconds old is dropped, whatever the configured lifetime.\<close>

lemma fresh_ticket_dropped:
  "taken_at n [TicketInsert 0 0 n v, TicketTake 1 n, TicketInsert (ttl * 10 ^ 9 - 2) (ttl * 10 ^ 9 - 1) n w,
               TicketTake (ttl * 10 ^ 9) n] (SessionTicketStore_new ttl) = [(1, v)]"
  if "1 < ttl * 10 ^ 9"
  using that
  by (simp add: SessionTicketStore_new_def insert_tls13_ticket_def Let_def
      server_data_def put_server_def evict_expired_tickets_def ServerData_default_def
      MAX_TLS13_TICKETS_PER_SERVER_def take_tls13_ticket_def)

end
