(* ===== verification/Client_App.thy ===== *)
theory Client_App
  imports Push_Retry
begin

text \<open>
  The client object of the application layer (\<open>src/crates/voip-client/src/client.rs\<close>) and the
  bindings for Kotlin and Swift around it (\<open>src/crates/voip-ffi/src/lib.rs\<close>).

  Every operation holds the lock of the client throughout, so a sequence of operations describes any
  interleaving of callers.  Packet loss is a floating point number in the source and of an arbitrary
  type here, since no operation computes with it.  \<open>debug_str\<close> is Rust's debug rendering of a string,
  which only the message of one core error uses.
\<close>

section \<open>The client\<close>

datatype ClientCallState = ClientIdle | ClientRinging | ClientIncoming | ClientConnected | ClientEnded

record 'f ConnectionInfo =
  ci_method :: ConnectionMethod_proto
  ci_rtt_ms :: u32
  ci_packet_loss_pct :: 'f
  ci_jitter_ms :: u32

record CallStats =
  cs_duration_secs :: u64
  cs_bytes_sent :: u64
  cs_bytes_received :: u64
  cs_packets_sent :: u64
  cs_packets_received :: u64
  cs_packets_lost :: u64

definition CallStats_default :: CallStats where
  "CallStats_default =
     \<lparr> cs_duration_secs = 0, cs_bytes_sent = 0, cs_bytes_received = 0, cs_packets_sent = 0,
       cs_packets_received = 0, cs_packets_lost = 0 \<rparr>"

record 'f Client =
  cl_config :: VoIPConfig
  cl_state :: ClientCallState
  cl_connection_info :: "'f ConnectionInfo option"
  cl_call_stats :: CallStats
  cl_is_muted :: bool
  cl_current_peer_id :: "string option"

definition Client_new :: "VoIPConfig \<Rightarrow> 'f Client" where
  "Client_new config =
     \<lparr> cl_config = config, cl_state = ClientIdle, cl_connection_info = None,
       cl_call_stats = CallStats_default, cl_is_muted = False, cl_current_peer_id = None \<rparr>"

type_synonym 'f client_op = "'f Client \<Rightarrow> 'f Client \<times> (unit, ClientError) result"

definition Client_init :: "'f client_op" where
  "Client_init c = (c, Ok ())"

definition Client_call :: "string \<Rightarrow> 'f client_op" where
  "Client_call peer_id c =
     (if cl_state c \<noteq> ClientIdle then (c, Err ClientError.CallInProgress)
      else (c\<lparr>cl_state := ClientRinging, cl_current_peer_id := Some peer_id,
              cl_call_stats := CallStats_default\<rparr>, Ok ()))"

definition Client_hangup :: "'f client_op" where
  "Client_hangup c =
     (if cl_state c = ClientIdle then (c, Err ClientError.NoActiveCall)
      else (c\<lparr>cl_state := ClientEnded, cl_current_peer_id := None, cl_connection_info := None\<rparr>, Ok ()))"

definition Client_mute :: "'f client_op" where
  "Client_mute c =
     (if cl_state c \<noteq> ClientConnected then (c, Err ClientError.NoActiveCall) else (c\<lparr>cl_is_muted := True\<rparr>, Ok ()))"

definition Client_unmute :: "'f client_op" where
  "Client_unmute c =
     (if cl_state c \<noteq> ClientConnected then (c, Err ClientError.NoActiveCall) else (c\<lparr>cl_is_muted := False\<rparr>, Ok ()))"

definition Client_accept :: "'f client_op" where
  "Client_accept c =
     (if cl_state c \<noteq> ClientIncoming then (c, Err ClientError.NoActiveCall) else (c\<lparr>cl_state := ClientConnected\<rparr>, Ok ()))"

definition Client_reject :: "'f client_op" where
  "Client_reject c =
     (if cl_state c \<noteq> ClientIncoming then (c, Err ClientError.NoActiveCall)
      else (c\<lparr>cl_state := ClientEnded, cl_current_peer_id := None\<rparr>, Ok ()))"

definition Client_shutdown :: "'f client_op" where
  "Client_shutdown c =
     (c\<lparr>cl_state := ClientIdle, cl_current_peer_id := None, cl_connection_info := None\<rparr>, Ok ())"

section \<open>The bindings\<close>

datatype FfiError =
    FfiNotInitialized
  | FfiCallInProgress
  | FfiNoActiveCall
  | FfiConnectionFailed string
  | FfiCallSetupTimeout string
  | FfiCallRejected string
  | FfiNatTraversalFailed string
  | FfiMasqueFailed string
  | FfiInternal string

text \<open>The em dash and the arrow of the messages, in UTF-8.\<close>

definition em_dash :: string where
  "em_dash = [CHR 0xE2, CHR 0x80, CHR 0x94]"

definition arrow :: string where
  "arrow = [CHR 0xE2, CHR 0x86, CHR 0x92]"

fun VoipError_to_string :: "(string \<Rightarrow> string) \<Rightarrow> VoipError \<Rightarrow> string" where
  "VoipError_to_string debug_str (VoipError.QuicConnectionFailed s) = ''QUIC connection failed: '' @ s"
| "VoipError_to_string debug_str VoipError.QuicHandshakeTimeout = ''QUIC handshake timeout''"
| "VoipError_to_string debug_str VoipError.VMigrationFailed = ''Connection migration failed''"
| "VoipError_to_string debug_str (VoipError.NatProbeFailed s) = ''NAT probing failed: '' @ s"
| "VoipError_to_string debug_str VoipError.NatRandomBothSides =
     ''Both peers have random NAT '' @ em_dash @ '' prediction impossible''"
| "VoipError_to_string debug_str VoipError.UdpBlocked = ''UDP blocked by firewall''"
| "VoipError_to_string debug_str VoipError.TcpBlocked =
     ''TCP port 443 also blocked '' @ em_dash @ '' no MASQUE possible''"
| "VoipError_to_string debug_str (VoipError.MasqueProxyUnreachable s) = ''MASQUE proxy unreachable: '' @ s"
| "VoipError_to_string debug_str (VoipError.MasqueTunnelFailed s) = ''MASQUE tunnel setup failed: '' @ s"
| "VoipError_to_string debug_str VoipError.MasqueTunnelDisconnected = ''MASQUE tunnel disconnected during call''"
| "VoipError_to_string debug_str VoipError.MasqueNoProxy = ''No MASQUE proxy available''"
| "VoipError_to_string debug_str VoipError.ProxyTokenInvalid = ''ProxyToken validation failed''"
| "VoipError_to_string debug_str (VoipError.SignalingError s) = ''Signaling server error: '' @ s"
| "VoipError_to_string debug_str (VoipError.JwtAuthFailed s) = ''JWT authentication failed: '' @ s"
| "VoipError_to_string debug_str VoipError.RateLimited = ''Rate limited''"
| "VoipError_to_string debug_str (VoipError.PeerNotFound s) = ''Peer not found: '' @ s"
| "VoipError_to_string debug_str (VoipError.VPeerOffline s) = ''Peer offline: '' @ s"
| "VoipError_to_string debug_str (VoipError.InvalidTransition from' to' reason) =
     ''Invalid state transition: '' @ debug_str from' @ '' '' @ arrow @ '' '' @ debug_str to' @ '': '' @ reason"
| "VoipError_to_string debug_str (VoipError.CallAlreadyExists s) = ''Call already exists: '' @ s"
| "VoipError_to_string debug_str (VoipError.DhtLookupFailed s) = ''DHT lookup failed: '' @ s"
| "VoipError_to_string debug_str VoipError.DhtRecordVerificationFailed = ''DHT record verification failed''"
| "VoipError_to_string debug_str VoipError.SignatureVerificationFailed = ''Ed25519 signature verification failed''"
| "VoipError_to_string debug_str (VoipError.InvalidKeyMaterial s) = ''Invalid key material: '' @ s"
| "VoipError_to_string debug_str (VoipError.Internal s) = ''Internal error: '' @ s"

fun FfiError_from :: "(string \<Rightarrow> string) \<Rightarrow> ClientError \<Rightarrow> FfiError" where
  "FfiError_from debug_str ClientError.NotInitialized = FfiNotInitialized"
| "FfiError_from debug_str ClientError.CallInProgress = FfiCallInProgress"
| "FfiError_from debug_str ClientError.NoActiveCall = FfiNoActiveCall"
| "FfiError_from debug_str (ClientError.ConnectionFailed s) = FfiConnectionFailed s"
| "FfiError_from debug_str (ClientError.CallSetupTimeout s) = FfiCallSetupTimeout s"
| "FfiError_from debug_str (ClientError.CallRejected s) = FfiCallRejected s"
| "FfiError_from debug_str (ClientError.NatTraversalFailed s) = FfiNatTraversalFailed s"
| "FfiError_from debug_str (ClientError.MasqueFailed s) = FfiMasqueFailed s"
| "FfiError_from debug_str (ClientError.Audio s) = FfiInternal s"
| "FfiError_from debug_str (ClientError.Core e) = FfiInternal (VoipError_to_string debug_str e)"
| "FfiError_from debug_str ClientError.AllMethodsFailed = FfiInternal ''all connection methods failed''"
| "FfiError_from debug_str (ClientError.QuicTimeout ms) =
     FfiCallSetupTimeout (''QUIC timeout after '' @ show_nat (unat ms) @ ''ms'')"
| "FfiError_from debug_str ClientError.PredictionFailedRandom = FfiNatTraversalFailed ''random NAT both sides''"
| "FfiError_from debug_str ClientError.UdpBlocked = FfiConnectionFailed ''UDP blocked''"
| "FfiError_from debug_str ClientError.TcpBlocked = FfiConnectionFailed ''TCP blocked''"
| "FfiError_from debug_str ClientError.MasqueUnreachable = FfiMasqueFailed ''proxy unreachable''"
| "FfiError_from debug_str (ClientError.MigrationFailed s) = FfiConnectionFailed (''migration: '' @ s)"
| "FfiError_from debug_str (ClientError.NetworkError s) = FfiConnectionFailed s"
| "FfiError_from debug_str (ClientError.SignalingError s) = FfiConnectionFailed s"
| "FfiError_from debug_str ClientError.PeerTimeout = FfiCallSetupTimeout ''peer timeout''"
| "FfiError_from debug_str (ClientError.NatProbeError s) = FfiNatTraversalFailed s"
| "FfiError_from debug_str (ClientError.ProbeError s) = FfiNatTraversalFailed s"
| "FfiError_from debug_str (ClientError.AudioError s) = FfiInternal s"
| "FfiError_from debug_str (ClientError.MigrationTimeout ms) =
     FfiConnectionFailed (''migration timeout '' @ show_nat (unat ms) @ ''ms'')"

fun FfiError_to_string :: "FfiError \<Rightarrow> string" where
  "FfiError_to_string FfiNotInitialized = ''Client not initialized''"
| "FfiError_to_string FfiCallInProgress = ''Call already in progress''"
| "FfiError_to_string FfiNoActiveCall = ''No active call''"
| "FfiError_to_string (FfiConnectionFailed s) = ''Connection failed: '' @ s"
| "FfiError_to_string (FfiCallSetupTimeout s) = ''Call setup timeout: '' @ s"
| "FfiError_to_string (FfiCallRejected s) = ''Call rejected: '' @ s"
| "FfiError_to_string (FfiNatTraversalFailed s) = ''NAT traversal failed: '' @ s"
| "FfiError_to_string (FfiMasqueFailed s) = ''MASQUE relay failed: '' @ s"
| "FfiError_to_string (FfiInternal s) = ''Internal error: '' @ s"

datatype FfiCallState = FfiIdle | FfiRinging | FfiIncoming | FfiConnected | FfiEnded

fun FfiCallState_from :: "ClientCallState \<Rightarrow> FfiCallState" where
  "FfiCallState_from ClientIdle = FfiIdle"
| "FfiCallState_from ClientRinging = FfiRinging"
| "FfiCallState_from ClientIncoming = FfiIncoming"
| "FfiCallState_from ClientConnected = FfiConnected"
| "FfiCallState_from ClientEnded = FfiEnded"

record FfiConfig =
  fc_discovery_privacy_first :: bool
  fc_dht_lookup_timeout_ms :: u64
  fc_dht_bootstrap_nodes :: "string list"
  fc_signaling_server_url :: string
  fc_masque_fallback_enabled :: bool
  fc_push_retry_enabled :: bool
  fc_quic_connect_timeout_ms :: u64
  fc_call_ring_timeout_ms :: u64

definition to_core_config :: "FfiConfig \<Rightarrow> VoIPConfig" where
  "to_core_config f = VoIPConfig_default\<lparr>
     discovery_privacy_first := fc_discovery_privacy_first f,
     dht_lookup_timeout_ms := fc_dht_lookup_timeout_ms f,
     dht_bootstrap_nodes := fc_dht_bootstrap_nodes f,
     masque_fallback_enabled := fc_masque_fallback_enabled f,
     push_retry_enabled := fc_push_retry_enabled f,
     quic_connect_timeout_ms := fc_quic_connect_timeout_ms f,
     call_ring_timeout_ms := fc_call_ring_timeout_ms f\<rparr>"

definition FfiConfig_from :: "VoIPConfig \<Rightarrow> FfiConfig" where
  "FfiConfig_from c =
     \<lparr> fc_discovery_privacy_first = discovery_privacy_first c,
       fc_dht_lookup_timeout_ms = dht_lookup_timeout_ms c,
       fc_dht_bootstrap_nodes = dht_bootstrap_nodes c,
       fc_signaling_server_url = [],
       fc_masque_fallback_enabled = masque_fallback_enabled c,
       fc_push_retry_enabled = push_retry_enabled c,
       fc_quic_connect_timeout_ms = quic_connect_timeout_ms c,
       fc_call_ring_timeout_ms = call_ring_timeout_ms c \<rparr>"

definition FfiConfig_default :: FfiConfig where
  "FfiConfig_default = FfiConfig_from VoIPConfig_default"

record 'f FfiConnectionInfo =
  fi_method :: ConnectionMethod
  fi_rtt_ms :: u32
  fi_packet_loss_pct :: 'f
  fi_jitter_ms :: u32
  fi_discovery_method :: DiscoveryMethod

definition FfiConnectionInfo_from :: "'f ConnectionInfo \<Rightarrow> 'f FfiConnectionInfo" where
  "FfiConnectionInfo_from info =
     \<lparr> fi_method = ConnectionMethod_from_proto (ci_method info), fi_rtt_ms = ci_rtt_ms info,
       fi_packet_loss_pct = ci_packet_loss_pct info, fi_jitter_ms = ci_jitter_ms info,
       fi_discovery_method = Dht \<rparr>"

record 'f VoipClient =
  vc_inner :: "'f Client option"
  vc_config :: FfiConfig

definition VoipClient_new :: "FfiConfig \<Rightarrow> 'f VoipClient" where
  "VoipClient_new config = \<lparr> vc_inner = None, vc_config = config \<rparr>"

text \<open>What every call through the bindings does with an operation of the client.\<close>

definition with_client ::
  "(string \<Rightarrow> string) \<Rightarrow> 'f client_op \<Rightarrow> 'f VoipClient \<Rightarrow> 'f VoipClient \<times> (unit, FfiError) result" where
  "with_client debug_str f v =
     (case vc_inner v of
        None \<Rightarrow> (v, Err FfiNotInitialized)
      | Some c \<Rightarrow>
          (case f c of
             (c', Ok _) \<Rightarrow> (v\<lparr>vc_inner := Some c'\<rparr>, Ok ())
           | (c', Err e) \<Rightarrow> (v\<lparr>vc_inner := Some c'\<rparr>, Err (FfiError_from debug_str e))
           | (c', Panic) \<Rightarrow> (v\<lparr>vc_inner := Some c'\<rparr>, Panic)))"

definition ffi_init :: "(string \<Rightarrow> string) \<Rightarrow> 'f VoipClient \<Rightarrow> 'f VoipClient \<times> (unit, FfiError) result" where
  "ffi_init debug_str v =
     (let client = Client_new (to_core_config (vc_config v)) in
      case Client_init client of
        (client, Ok _) \<Rightarrow> (v\<lparr>vc_inner := Some client\<rparr>, Ok ())
      | (_, Err e) \<Rightarrow> (v, Err (FfiError_from debug_str e))
      | (_, Panic) \<Rightarrow> (v, Panic))"

definition ffi_call :: "(string \<Rightarrow> string) \<Rightarrow> string \<Rightarrow> 'f VoipClient \<Rightarrow> 'f VoipClient \<times> (unit, FfiError) result" where
  "ffi_call debug_str peer_id = with_client debug_str (Client_call peer_id)"

definition ffi_hangup :: "(string \<Rightarrow> string) \<Rightarrow> 'f VoipClient \<Rightarrow> 'f VoipClient \<times> (unit, FfiError) result" where
  "ffi_hangup debug_str = with_client debug_str Client_hangup"

definition ffi_mute :: "(string \<Rightarrow> string) \<Rightarrow> 'f VoipClient \<Rightarrow> 'f VoipClient \<times> (unit, FfiError) result" where
  "ffi_mute debug_str = with_client debug_str Client_mute"

definition ffi_unmute :: "(string \<Rightarrow> string) \<Rightarrow> 'f VoipClient \<Rightarrow> 'f VoipClient \<times> (unit, FfiError) result" where
  "ffi_unmute debug_str = with_client debug_str Client_unmute"

definition get_call_state :: "'f VoipClient \<Rightarrow> FfiCallState" where
  "get_call_state v =
     (case vc_inner v of Some c \<Rightarrow> FfiCallState_from (cl_state c) | None \<Rightarrow> FfiIdle)"

definition get_connection_info :: "'f VoipClient \<Rightarrow> 'f FfiConnectionInfo option" where
  "get_connection_info v =
     (case vc_inner v of Some c \<Rightarrow> map_option FfiConnectionInfo_from (cl_connection_info c) | None \<Rightarrow> None)"

definition get_call_stats :: "'f VoipClient \<Rightarrow> CallStats" where
  "get_call_stats v = (case vc_inner v of Some c \<Rightarrow> cl_call_stats c | None \<Rightarrow> CallStats_default)"

definition ffi_is_muted :: "'f VoipClient \<Rightarrow> bool" where
  "ffi_is_muted v = (case vc_inner v of Some c \<Rightarrow> cl_is_muted c | None \<Rightarrow> False)"

definition ffi_shutdown :: "(string \<Rightarrow> string) \<Rightarrow> 'f VoipClient \<Rightarrow> 'f VoipClient \<times> (unit, FfiError) result" where
  "ffi_shutdown debug_str v =
     (case vc_inner v of
        None \<Rightarrow> (v, Ok ())
      | Some c \<Rightarrow>
          (case Client_shutdown c of
             (_, Ok _) \<Rightarrow> (v\<lparr>vc_inner := None\<rparr>, Ok ())
           | (_, Err e) \<Rightarrow> (v\<lparr>vc_inner := None\<rparr>, Err (FfiError_from debug_str e))
           | (_, Panic) \<Rightarrow> (v\<lparr>vc_inner := None\<rparr>, Panic)))"

section \<open>What the application can do\<close>

datatype app_op = AppInit | AppCall string | AppHangup | AppMute | AppUnmute | AppShutdown

fun app_run1 :: "(string \<Rightarrow> string) \<Rightarrow> app_op \<Rightarrow> 'f VoipClient \<Rightarrow> 'f VoipClient \<times> (unit, FfiError) result" where
  "app_run1 debug_str AppInit v = ffi_init debug_str v"
| "app_run1 debug_str (AppCall p) v = ffi_call debug_str p v"
| "app_run1 debug_str AppHangup v = ffi_hangup debug_str v"
| "app_run1 debug_str AppMute v = ffi_mute debug_str v"
| "app_run1 debug_str AppUnmute v = ffi_unmute debug_str v"
| "app_run1 debug_str AppShutdown v = ffi_shutdown debug_str v"

fun app_run :: "(string \<Rightarrow> string) \<Rightarrow> app_op list \<Rightarrow> 'f VoipClient \<Rightarrow> 'f VoipClient \<times> (unit, FfiError) result list" where
  "app_run debug_str [] v = (v, [])"
| "app_run debug_str (op # ops) v =
     (case app_run1 debug_str op v of (v', r) \<Rightarrow>
        case app_run debug_str ops v' of (v'', rs) \<Rightarrow> (v'', r # rs))"

text \<open>The behaviour as an abstract machine: not initialized, ready, calling a peer, or over.\<close>

datatype app_phase = AppFresh | AppReady | AppCalling string | AppOver

fun app_step :: "app_op \<Rightarrow> app_phase \<Rightarrow> app_phase \<times> (unit, FfiError) result" where
  "app_step AppInit _ = (AppReady, Ok ())"
| "app_step AppShutdown _ = (AppFresh, Ok ())"
| "app_step _ AppFresh = (AppFresh, Err FfiNotInitialized)"
| "app_step (AppCall p) AppReady = (AppCalling p, Ok ())"
| "app_step (AppCall p) s = (s, Err FfiCallInProgress)"
| "app_step AppHangup AppReady = (AppReady, Err FfiNoActiveCall)"
| "app_step AppHangup _ = (AppOver, Ok ())"
| "app_step _ s = (s, Err FfiNoActiveCall)"

fun app_steps :: "app_op list \<Rightarrow> app_phase \<Rightarrow> app_phase \<times> (unit, FfiError) result list" where
  "app_steps [] s = (s, [])"
| "app_steps (op # ops) s =
     (case app_step op s of (s', r) \<Rightarrow> case app_steps ops s' of (s'', rs) \<Rightarrow> (s'', r # rs))"

fun app_phase_state :: "app_phase \<Rightarrow> FfiCallState" where
  "app_phase_state (AppCalling _) = FfiRinging"
| "app_phase_state AppOver = FfiEnded"
| "app_phase_state _ = FfiIdle"

fun app_phase_peer :: "app_phase \<Rightarrow> string option" where
  "app_phase_peer (AppCalling p) = Some p"
| "app_phase_peer _ = None"

fun app_phase_client :: "app_phase \<Rightarrow> ClientCallState" where
  "app_phase_client (AppCalling _) = ClientRinging"
| "app_phase_client AppOver = ClientEnded"
| "app_phase_client _ = ClientIdle"

text \<open>The object a phase stands for.\<close>

definition app_object :: "FfiConfig \<Rightarrow> app_phase \<Rightarrow> 'f VoipClient" where
  "app_object config s =
     \<lparr> vc_inner = (if s = AppFresh then None
         else Some ((Client_new (to_core_config config))
           \<lparr>cl_state := app_phase_client s, cl_current_peer_id := app_phase_peer s\<rparr>)),
       vc_config = config \<rparr>"

lemmas app_defs = app_object_def with_client_def Client_new_def Client_init_def Client_call_def
  Client_hangup_def Client_mute_def Client_unmute_def Client_shutdown_def
  ffi_init_def ffi_call_def ffi_hangup_def ffi_mute_def ffi_unmute_def ffi_shutdown_def

lemma app_run1_step:
  "app_run1 debug_str op (app_object config s) = (app_object config (fst (app_step op s)), snd (app_step op s))"
  by (cases op; cases s) (simp_all add: app_defs)

lemma app_run_steps:
  "app_run debug_str ops (app_object config s)
    = (app_object config (fst (app_steps ops s)), snd (app_steps ops s))"
  by (induction ops arbitrary: s) (simp_all add: app_run1_step case_prod_beta)

text \<open>C39: The client object behind the bindings behaves as the four-phase machine: every answer to every
  sequence of calls of its interface is the machine's, and so is the call state it reports.  In
  particular it never reports a connected or an incoming call, muting never succeeds, and after a call is
  hung up no other can be placed before the object is initialized again.\<close>

theorem bindings_refine_phases:
  "let v = app_run debug_str ops (VoipClient_new config :: 'f VoipClient); s = app_steps ops AppFresh
   in snd v = snd s \<and> get_call_state (fst v) = app_phase_state (fst s)
      \<and> get_connection_info (fst v) = None \<and> get_call_stats (fst v) = CallStats_default
      \<and> \<not> ffi_is_muted (fst v)"
proof -
  have new: "VoipClient_new config = (app_object config AppFresh :: 'f VoipClient)"
    by (simp add: VoipClient_new_def app_object_def)
  show ?thesis
    unfolding Let_def new app_run_steps
    by (cases "fst (app_steps ops AppFresh)")
      (simp_all add: app_object_def get_call_state_def get_connection_info_def get_call_stats_def
        ffi_is_muted_def Client_new_def)
qed

lemma second_call_refused:
  assumes "\<forall>op \<in> set ops. op \<noteq> AppInit \<and> op \<noteq> AppShutdown"
  shows "app_steps (ops @ [AppCall q]) AppOver = (AppOver, snd (app_steps ops AppOver) @ [Err FfiCallInProgress])"
  using assms
proof (induction ops)
  case (Cons op ops)
  then have "fst (app_step op AppOver) = AppOver" by (cases op) simp_all
  with Cons show ?case by (cases "app_step op AppOver") (simp add: case_prod_beta)
qed simp

text \<open>The configuration of the bindings reaches the client except for the address of the signaling
  server, which the client has no place for.\<close>

lemma config_round_trip: "(FfiConfig_from (to_core_config f))\<lparr>fc_signaling_server_url := fc_signaling_server_url f\<rparr> = f"
  by (simp add: FfiConfig_from_def to_core_config_def)

end
