(* ===== verification/Peer_Runtime.thy ===== *)
theory Peer_Runtime
  imports Sig_Rest Proxy_Node Push_Retry
begin

text \<open>
  The peer runtime (\<open>src/crates/voip-client/src/peer.rs\<close>) and the HTTP client for the signaling
  server (\<open>src/crates/voip-client/src/signaling_client.rs\<close>).

  Ed25519 and the \<open>hex\<close> package are arguments.  An error is its outermost message, which is what
  \<open>anyhow\<close> prints.  \<open>send\<close> gives the answer of the network to a request; an answer carries what
  \<open>serde_json\<close> makes of its body for each type the code asks for, \<open>None\<close> where the body does not parse
  as that type.  The accept loop and the endpoint it serves are QUIC input and output and left out.
\<close>

section \<open>Identities\<close>

record ('sk, 'vk) ed25519 =
  ed_from_bytes :: "bytes \<Rightarrow> 'sk"
  ed_to_bytes :: "'sk \<Rightarrow> bytes"
  ed_verifying_key :: "'sk \<Rightarrow> 'vk"
  ed_vk_bytes :: "'vk \<Rightarrow> bytes"

record hex_package =
  hx_encode :: "bytes \<Rightarrow> string"
  hx_decode :: "string \<Rightarrow> (bytes, string) result"

record ('sk, 'vk) PeerIdentity =
  id_signing_key :: 'sk
  id_verifying_key :: 'vk
  id_peer_id :: string

definition PeerIdentity_from_bytes :: "('sk, 'vk) ed25519 \<Rightarrow> bytes \<Rightarrow> ('sk, 'vk) PeerIdentity" where
  "PeerIdentity_from_bytes ed signing_key_bytes =
     (let sk = ed_from_bytes ed signing_key_bytes;
          vk = ed_verifying_key ed sk
      in \<lparr> id_signing_key = sk, id_verifying_key = vk,
           id_peer_id = peer_id_from_public_key (ed_vk_bytes ed) vk \<rparr>)"

definition PeerIdentity_from_hex ::
  "('sk, 'vk) ed25519 \<Rightarrow> hex_package \<Rightarrow> string \<Rightarrow> string \<Rightarrow> (('sk, 'vk) PeerIdentity, string) result" where
  "PeerIdentity_from_hex ed hx signing_key_hex verifying_key_hex =
     (case hx_decode hx signing_key_hex of
        Err e \<Rightarrow> Err (''invalid signing_key hex: '' @ e)
      | Panic \<Rightarrow> Panic
      | Ok sk_bytes \<Rightarrow>
          if length sk_bytes \<noteq> 32 then Err ''signing_key must be 32 bytes''
          else
            let sk = ed_from_bytes ed sk_bytes;
                expected_vk_hex = hx_encode hx (ed_vk_bytes ed (ed_verifying_key ed sk))
            in if expected_vk_hex \<noteq> verifying_key_hex
               then Err (''verifying_key does not match signing_key (expected '' @ expected_vk_hex
                         @ '', got '' @ verifying_key_hex @ '')'')
               else Ok (PeerIdentity_from_bytes ed sk_bytes))"

section \<open>Requests\<close>

record PeerConfig =
  pc_signaling_url :: string
  pc_display_name :: string
  pc_listen_addr :: string

definition PeerConfig_default :: PeerConfig where
  "PeerConfig_default =
     \<lparr> pc_signaling_url = ''http://127.0.0.1:8443'', pc_display_name = ''voip-peer'',
       pc_listen_addr = ''0.0.0.0:4433'' \<rparr>"

text \<open>The body of a registration, the parsed answer to it, and the parsed answer to a lookup.\<close>

record register_body =
  rb_peer_id :: string
  rb_display_name :: string

record RegisterReply =
  ry_peer_id :: string
  ry_jwt_token :: string

record PeerLookup =
  pl_peer_id :: string
  pl_display_name :: string
  pl_ipv6_addresses :: "string list"
  pl_ipv4_reflexive :: "string list"
  pl_nat_type :: string
  pl_status :: string
  pl_last_seen :: u64

record http_call =
  hc_method :: Method
  hc_url :: string
  hc_authorization :: "string option"
  hc_body :: "register_body option"

record http_reply =
  ha_status :: u16
  ha_text :: "string option"
  ha_register :: "RegisterReply option"
  ha_lookup :: "PeerLookup option"
  ha_proxies :: "(ProxyRecord list, string) result"
  ha_strings :: "(string list, string) result"

text \<open>The HTTP library: building a client, sending, and printing a status.\<close>

record http_library =
  hl_build :: "unit io"
  hl_send :: "http_call \<Rightarrow> http_reply io"
  hl_status_text :: "u16 \<Rightarrow> string"
  hl_reason :: "u16 \<Rightarrow> string option"

definition http_success :: "u16 \<Rightarrow> bool" where
  "http_success status \<longleftrightarrow> 200 \<le> status \<and> status < 300"

record ('sk, 'vk) Peer =
  pe_identity :: "('sk, 'vk) PeerIdentity"
  pe_config :: PeerConfig
  pe_jwt :: "string option"

text \<open>Building the TLS configuration, parsing the address and binding may each fail.\<close>

definition Peer_new ::
  "(unit, string) result \<Rightarrow> (string \<Rightarrow> 'a option) \<Rightarrow> ('a \<Rightarrow> unit io) \<Rightarrow> ('sk, 'vk) PeerIdentity \<Rightarrow> PeerConfig
     \<Rightarrow> (('sk, 'vk) Peer, string) result" where
  "Peer_new server_cfg parse_addr bind identity config =
     (case server_cfg of
        Err e \<Rightarrow> Err (''failed to build QUIC server config: '' @ e)
      | Panic \<Rightarrow> Panic
      | Ok _ \<Rightarrow>
          (case parse_addr (pc_listen_addr config) of
             None \<Rightarrow> Err (''invalid listen_addr: '' @ pc_listen_addr config)
           | Some listen_addr \<Rightarrow>
               (case bind listen_addr of
                  IoErr _ \<Rightarrow> Err (''failed to bind QUIC endpoint to '' @ pc_listen_addr config)
                | IoOk _ \<Rightarrow> Ok \<lparr> pe_identity = identity, pe_config = config, pe_jwt = None \<rparr>)))"

definition Peer_local_addr :: "'a io \<Rightarrow> ('a, string) result" where
  "Peer_local_addr local = map_err (\<lambda>_. ''endpoint has no local address'') local"

definition peer_base_url :: "PeerConfig \<Rightarrow> string" where
  "peer_base_url config = trim_end_matches CHR ''/'' (pc_signaling_url config)"

definition register_call :: "PeerConfig \<Rightarrow> string \<Rightarrow> http_call" where
  "register_call config peer_id =
     \<lparr> hc_method = POST, hc_url = peer_base_url config @ ''/v1/peers'', hc_authorization = None,
       hc_body = Some \<lparr> rb_peer_id = peer_id, rb_display_name = pc_display_name config \<rparr> \<rparr>"

definition lookup_call :: "PeerConfig \<Rightarrow> string \<Rightarrow> string \<Rightarrow> http_call" where
  "lookup_call config jwt peer_id =
     \<lparr> hc_method = GET, hc_url = peer_base_url config @ ''/v1/peers/'' @ peer_id,
       hc_authorization = Some (''Bearer '' @ jwt), hc_body = None \<rparr>"

definition Peer_register ::
  "http_library \<Rightarrow> ('sk, 'vk) Peer \<Rightarrow> ('sk, 'vk) Peer \<times> (RegisterReply, string) result" where
  "Peer_register http peer =
     (let call = register_call (pe_config peer) (id_peer_id (pe_identity peer)) in
      case hl_build http of
        IoErr e \<Rightarrow> (peer, Err e)
      | IoOk _ \<Rightarrow>
          (case hl_send http call of
             IoErr _ \<Rightarrow> (peer, Err (''POST '' @ hc_url call @ '' failed''))
           | IoOk resp \<Rightarrow>
               if \<not> http_success (ha_status resp)
               then (peer, Err (''register failed: HTTP '' @ hl_status_text http (ha_status resp) @ '': ''
                                @ (case ha_text resp of Some text \<Rightarrow> text | None \<Rightarrow> [])))
               else case ha_register resp of
                      None \<Rightarrow> (peer, Err ''failed to parse register response'')
                    | Some parsed \<Rightarrow>
                        if ry_peer_id parsed \<noteq> id_peer_id (pe_identity peer)
                        then (peer, Err (''server returned mismatched peer_id: expected ''
                                         @ id_peer_id (pe_identity peer) @ '', got '' @ ry_peer_id parsed))
                        else (peer\<lparr>pe_jwt := Some (ry_jwt_token parsed)\<rparr>, Ok parsed)))"

text \<open>The dash in the message is the UTF-8 em dash.\<close>

definition Peer_lookup_peer ::
  "http_library \<Rightarrow> ('sk, 'vk) Peer \<Rightarrow> string \<Rightarrow> (PeerLookup, string) result" where
  "Peer_lookup_peer http peer peer_id =
     (case pe_jwt peer of
        None \<Rightarrow> Err (''not registered '' @ [CHR 0xE2, CHR 0x80, CHR 0x94] @ '' call register() first'')
      | Some jwt \<Rightarrow>
          let call = lookup_call (pe_config peer) jwt peer_id in
          (case hl_build http of
             IoErr e \<Rightarrow> Err e
           | IoOk _ \<Rightarrow>
               (case hl_send http call of
                  IoErr _ \<Rightarrow> Err (''GET '' @ hc_url call @ '' failed'')
                | IoOk resp \<Rightarrow>
                    if \<not> http_success (ha_status resp)
                    then Err (''lookup failed: HTTP '' @ hl_status_text http (ha_status resp) @ '': ''
                              @ (case ha_text resp of Some text \<Rightarrow> text | None \<Rightarrow> []))
                    else case ha_lookup resp of
                           None \<Rightarrow> Err ''failed to parse peer record response''
                         | Some record \<Rightarrow> Ok record)))"

section \<open>The HTTP client\<close>

record SignalingHttpClient =
  hcl_base_url :: string
  hcl_jwt_token :: string

definition SignalingHttpClient_new :: "string \<Rightarrow> string \<Rightarrow> SignalingHttpClient" where
  "SignalingHttpClient_new base_url jwt_token =
     \<lparr> hcl_base_url = trim_end_matches CHR ''/'' base_url, hcl_jwt_token = jwt_token \<rparr>"

definition http_get_call :: "SignalingHttpClient \<Rightarrow> string \<Rightarrow> http_call" where
  "http_get_call c path =
     \<lparr> hc_method = GET, hc_url = hcl_base_url c @ path,
       hc_authorization = Some (''Bearer '' @ hcl_jwt_token c), hc_body = None \<rparr>"

definition or_unknown :: "string option \<Rightarrow> string" where
  "or_unknown reason = (case reason of Some r \<Rightarrow> r | None \<Rightarrow> ''unknown'')"

definition http_get_proxies :: "http_library \<Rightarrow> SignalingHttpClient \<Rightarrow> (ProxyRecord list, ClientError) result" where
  "http_get_proxies http c =
     (case hl_send http (http_get_call c ''/v1/proxies'') of
        IoErr e \<Rightarrow> Err (ClientError.SignalingError (''proxy fetch: '' @ e))
      | IoOk response \<Rightarrow>
          if \<not> http_success (ha_status response)
          then Err (ClientError.SignalingError (''proxy fetch returned '' @ hl_status_text http (ha_status response) @ '': ''
                    @ or_unknown (hl_reason http (ha_status response))))
          else case ha_proxies response of
                 Err e \<Rightarrow> Err (ClientError.SignalingError (''proxy decode: '' @ e))
               | Panic \<Rightarrow> Panic
               | Ok proxies \<Rightarrow> Ok proxies)"

definition http_get_dht_bootstrap :: "http_library \<Rightarrow> SignalingHttpClient \<Rightarrow> (string list, ClientError) result" where
  "http_get_dht_bootstrap http c =
     (case hl_send http (http_get_call c ''/v1/dht/bootstrap'') of
        IoErr e \<Rightarrow> Err (ClientError.SignalingError (''DHT bootstrap fetch: '' @ e))
      | IoOk response \<Rightarrow>
          if \<not> http_success (ha_status response)
          then Err (ClientError.SignalingError (''DHT bootstrap returned '' @ hl_status_text http (ha_status response) @ '': ''
                    @ or_unknown (hl_reason http (ha_status response))))
          else case ha_strings response of
                 Err e \<Rightarrow> Err (ClientError.SignalingError (''DHT bootstrap decode: '' @ e))
               | Panic \<Rightarrow> Panic
               | Ok addresses \<Rightarrow> Ok addresses)"

section \<open>Against the modelled server\<close>

text \<open>The signaling server as the client's network: the path of a URL, the JSON of a request with the
  defaults the server declares for missing fields, and the JSON of its answers.  The server answers with
  objects only, none of which parses as a list; an object parses as another type if it has that type's
  fields.\<close>

record ('p, 'c, 'k) http_server =
  sv_env :: "('p, 'c, 'k) rest_env"
  sv_url_path :: "string \<Rightarrow> string"
  sv_client :: SocketAddr
  sv_error_text :: "SignalingError \<Rightarrow> string"
  sv_rejected_status :: u16
  sv_not_a_list :: string

definition server_request :: "('p, 'c, 'k) http_server \<Rightarrow> http_call \<Rightarrow> rest_request" where
  "server_request sv call =
     \<lparr> rq_method = hc_method call, rq_path = sv_url_path sv (hc_url call),
       rq_authorization = map_option str_bytes (hc_authorization call), rq_addr = sv_client sv,
       rq_register = map_option (\<lambda>b. \<lparr> rp_peer_id = rb_peer_id b, rp_display_name = rb_display_name b,
         rp_ipv6_addresses = [], rp_ipv4_reflexive = [], rp_nat_type = None, rp_status = None,
         rp_fcm_token = None \<rparr>) (hc_body call),
       rq_token_request = None, rq_username = None, rq_token = None \<rparr>"

fun response_status :: "u16 \<Rightarrow> rest_response \<Rightarrow> u16" where
  "response_status rejected (Created _) = 201"
| "response_status rejected NoContent = 204"
| "response_status rejected (Upgraded _) = 101"
| "response_status rejected NotFound = 404"
| "response_status rejected MethodNotAllowed = 405"
| "response_status rejected ExtractorRejected = rejected"
| "response_status rejected _ = 200"

definition lookup_of :: "PeerResponse \<Rightarrow> PeerLookup" where
  "lookup_of r =
     \<lparr> pl_peer_id = pr_peer_id r, pl_display_name = pr_display_name r,
       pl_ipv6_addresses = pr_ipv6_addresses r, pl_ipv4_reflexive = pr_ipv4_reflexive r,
       pl_nat_type = pr_nat_type r, pl_status = pr_status r, pl_last_seen = pr_last_seen r \<rparr>"

definition answer_of :: "('p, 'c, 'k) http_server \<Rightarrow> rest_response \<Rightarrow> http_reply" where
  "answer_of sv r =
     \<lparr> ha_status = response_status (sv_rejected_status sv) r, ha_text = None,
       ha_register = (case r of Created x \<Rightarrow>
         Some \<lparr> ry_peer_id = rr_peer_id x, ry_jwt_token = rr_jwt_token x \<rparr> | _ \<Rightarrow> None),
       ha_lookup = (case r of PeerJson x \<Rightarrow> Some (lookup_of x) | _ \<Rightarrow> None),
       ha_proxies = Err (sv_not_a_list sv), ha_strings = Err (sv_not_a_list sv) \<rparr>"

definition error_answer :: "('p, 'c, 'k) http_server \<Rightarrow> SignalingError \<Rightarrow> http_reply" where
  "error_answer sv e =
     \<lparr> ha_status = http_status e, ha_text = Some (sv_error_text sv e), ha_register = None, ha_lookup = None,
       ha_proxies = Err (sv_not_a_list sv), ha_strings = Err (sv_not_a_list sv) \<rparr>"

definition serve ::
  "('p, 'c, 'k) http_server \<Rightarrow> moment \<Rightarrow> http_call \<Rightarrow> ('p, 'c) AppState \<Rightarrow> ('p, 'c) AppState \<times> http_reply io" where
  "serve sv M call st =
     (case router (sv_env sv) M (server_request sv call) st of
        (st', Ok r) \<Rightarrow> (st', IoOk (answer_of sv r))
      | (st', Err e) \<Rightarrow> (st', IoOk (error_answer sv e))
      | (st', Panic) \<Rightarrow> (st', IoErr ''connection closed''))"

definition answering :: "http_library \<Rightarrow> http_reply io \<Rightarrow> http_library" where
  "answering http ans = http\<lparr>hl_build := IoOk (), hl_send := (\<lambda>_. ans)\<rparr>"

text \<open>A registration and a lookup, each one request to the server.\<close>

definition register_at ::
  "http_library \<Rightarrow> ('p, 'c, 'k) http_server \<Rightarrow> moment \<Rightarrow> ('sk, 'vk) Peer \<Rightarrow> ('p, 'c) AppState
     \<Rightarrow> ('p, 'c) AppState \<times> ('sk, 'vk) Peer \<times> (RegisterReply, string) result" where
  "register_at http sv M peer st =
     (case serve sv M (register_call (pe_config peer) (id_peer_id (pe_identity peer))) st of
        (st', ans) \<Rightarrow> (st', Peer_register (answering http ans) peer))"

definition lookup_at ::
  "http_library \<Rightarrow> ('p, 'c, 'k) http_server \<Rightarrow> moment \<Rightarrow> ('sk, 'vk) Peer \<Rightarrow> string \<Rightarrow> ('p, 'c) AppState
     \<Rightarrow> ('p, 'c) AppState \<times> (PeerLookup, string) result" where
  "lookup_at http sv M peer peer_id st =
     (case pe_jwt peer of
        None \<Rightarrow> (st, Peer_lookup_peer http peer peer_id)
      | Some jwt \<Rightarrow>
          (case serve sv M (lookup_call (pe_config peer) jwt peer_id) st of
             (st', ans) \<Rightarrow> (st', Peer_lookup_peer (answering http ans) peer peer_id)))"

text \<open>What the code relies on of the libraries: URLs keep the path appended to them, headers of visible
  ASCII reach the handler, path segments of hexadecimal digits are not changed, and signatures verify.\<close>

definition libraries_ok :: "('p, 'c, 'k) http_server \<Rightarrow> PeerConfig \<Rightarrow> bool" where
  "libraries_ok sv config \<longleftrightarrow>
     (\<forall>path. set path \<subseteq> set ''/v1/peers'' \<union> set HEX_CHARS \<longrightarrow>
        sv_url_path sv (peer_base_url config @ path) = path)
     \<and> (\<forall>s. visible_ascii s \<longrightarrow> re_header_str (sv_env sv) (str_bytes s) = Some s)
     \<and> (\<forall>s. set s \<subseteq> set HEX_CHARS \<longrightarrow> re_path_decode (sv_env sv) s = Some s)
     \<and> (\<forall>m. re_ed_verify (sv_env sv) m (se_sign (re_server (sv_env sv)) m)
           \<and> length (se_sign (re_server (sv_env sv)) m) = 64)"

text \<open>A registration of a peer that the server lets through.\<close>

definition registration_open ::
  "('p, 'c, 'k) http_server \<Rightarrow> moment \<Rightarrow> ('p, 'c) AppState \<Rightarrow> string \<Rightarrow> bool" where
  "registration_open sv M st p \<longleftrightarrow>
     json_faithful (re_to_json (sv_env sv)) (re_from_json (sv_env sv))
       (mo_now_secs M, p, jwt_expiry_secs (as_config st))
     \<and> unat (mo_now_secs M) + unat (jwt_expiry_secs (as_config st)) < 2 ^ 64
     \<and> is_ok (parse_peer_id (re_key_from_bytes (sv_env sv)) p)
     \<and> (\<exists>limiter. check_registration (mo_instant M) p (as_rate_limiter st) = Ok (limiter, True))"

lemma set_hex_encode: "set (hex_encode bs) \<subseteq> set HEX_CHARS"
proof (induction bs)
  case (Cons b bs)
  have "unat (drop_bit 4 b) < length HEX_CHARS" "unat (b AND 0x0f) < length HEX_CHARS"
    using nibbles [of b] by (simp_all add: HEX_CHARS_def)
  then have "HEX_CHARS ! unat (drop_bit 4 b) \<in> set HEX_CHARS" "HEX_CHARS ! unat (b AND 0x0f) \<in> set HEX_CHARS"
    by (simp_all add: nth_mem)
  with Cons show ?case by (simp add: hex_encode_def)
qed (simp add: hex_encode_def)

lemma route_of_peer:
  assumes "set p \<subseteq> set HEX_CHARS" and "p \<noteq> []"
  shows "route_of (''/v1/peers/'' @ p) = PeerRoute p"
proof -
  have "CHR ''l'' \<notin> set p" and slash: "CHR ''/'' \<notin> set p" using assms(1) by (auto simp: HEX_CHARS_def)
  then have "p \<noteq> ''lookup''" by auto
  moreover have "split_char CHR ''/'' p = [p]" using slash by (rule split_char_last)
  ultimately show ?thesis using assms(2) by (simp add: route_of_def starts_with_def)
qed

lemma get_peer_request:
  assumes reg: "registries (re_server E) plook clook"
    and req: "rq_method req = GET" "rq_path req = ''/v1/peers/'' @ p" "bearer E M req \<noteq> None"
    and p: "set p \<subseteq> set HEX_CHARS" "p \<noteq> []" "re_path_decode E p = Some p"
  shows "\<exists>st'. router E M req st = (st', case plook (as_peers st) p of
      Some e \<Rightarrow> Ok (PeerJson (peer_response (pe_info e))) | None \<Rightarrow> Err (SignalingError.UnknownPeer p))"
proof -
  have "\<exists>auth. auth_middleware E M req = Ok auth"
    using req(3)
    by (auto simp: auth_middleware_def bearer_def bind_eq_Some_conv split: option.splits if_splits result.splits)
  then have "router E M req st = rest_get_peer E p st"
    using req p route_of_peer [OF p(1,2)]
    by (auto simp: router_def dispatch_route_def is_get_def with_arg_def Let_def)
  moreover obtain st' r where g: "get_peer (re_server E) p st = (st', r)"
    by (cases "get_peer (re_server E) p st")
  ultimately show ?thesis
    using registries.get_peer_maps(1) [OF reg g]
    by (auto simp: rest_get_peer_def g split: option.splits)
qed

lemma register_at_ok:
  assumes reg: "registries (re_server (sv_env sv)) plook clook"
    and lib: "libraries_ok sv (pe_config peer)"
    and opened: "registration_open sv M st (id_peer_id (pe_identity peer))"
  shows "\<exists>t st1. register_at http sv M peer st
        = (st1, peer\<lparr>pe_jwt := Some t\<rparr>, Ok \<lparr> ry_peer_id = id_peer_id (pe_identity peer), ry_jwt_token = t \<rparr>)
    \<and> (\<exists>e. plook (as_peers st1) (id_peer_id (pe_identity peer)) = Some e
         \<and> pi_peer_id (pe_info e) = id_peer_id (pe_identity peer)
         \<and> pi_display_name (pe_info e) = pc_display_name (pe_config peer)
         \<and> pi_ipv6_addresses (pe_info e) = [] \<and> pi_ipv4_reflexive (pe_info e) = [])
    \<and> (\<forall>q e. q \<noteq> id_peer_id (pe_identity peer) \<longrightarrow> plook (as_peers st1) q = Some e
         \<longrightarrow> plook (as_peers st) q = Some e)
    \<and> token_good (sv_env sv) t (id_peer_id (pe_identity peer)) (mo_now_secs M)
        (mo_now_secs M + jwt_expiry_secs (as_config st)) \<and> visible_ascii t"
proof -
  let ?p = "id_peer_id (pe_identity peer)"
  let ?call = "register_call (pe_config peer) ?p"
  have sig: "\<forall>m. re_ed_verify (sv_env sv) m (se_sign (re_server (sv_env sv)) m)
      \<and> length (se_sign (re_server (sv_env sv)) m) = 64"
    and path: "sv_url_path sv (peer_base_url (pe_config peer) @ ''/v1/peers'') = ''/v1/peers''"
    using lib by (simp_all add: libraries_ok_def)
  obtain limiter where o: "json_faithful (re_to_json (sv_env sv)) (re_from_json (sv_env sv))
       (mo_now_secs M, ?p, jwt_expiry_secs (as_config st))"
    "unat (mo_now_secs M) + unat (jwt_expiry_secs (as_config st)) < 2 ^ 64"
    "is_ok (parse_peer_id (re_key_from_bytes (sv_env sv)) ?p)"
    "check_registration (mo_instant M) ?p (as_rate_limiter st) = Ok (limiter, True)"
    using opened by (auto simp: registration_open_def)
  define body where "body = \<lparr> rp_peer_id = ?p, rp_display_name = pc_display_name (pe_config peer),
    rp_ipv6_addresses = [], rp_ipv4_reflexive = [], rp_nat_type = None, rp_status = None, rp_fcm_token = None \<rparr>"
  have req: "rq_method (server_request sv ?call) = POST" "rq_path (server_request sv ?call) = ''/v1/peers''"
    "rq_register (server_request sv ?call) = Some body" "rp_peer_id body = ?p"
    by (simp_all add: server_request_def register_call_def path body_def)
  obtain t st1 where g: "router (sv_env sv) M (server_request sv ?call) st = (st1, Ok (Created
        \<lparr> rr_peer_id = ?p, rr_jwt_token = t, rr_expires_in_secs = jwt_expiry_secs (as_config st) \<rparr>))"
    "plook (as_peers st1) ?p = Some \<lparr> pe_info = registered_info (mo_now_secs M) body,
       pe_sender = Option.bind (plook (as_peers st) ?p) pe_sender \<rparr>"
    "\<forall>q e. q \<noteq> ?p \<longrightarrow> plook (as_peers st1) q = Some e \<longrightarrow> plook (as_peers st) q = Some e"
    "token_good (sv_env sv) t ?p (mo_now_secs M) (mo_now_secs M + jwt_expiry_secs (as_config st))"
    "visible_ascii t"
    using registration_grants [OF reg sig o(1,2) refl refl req o(3,4)] by (elim exE conjE) (rule that)
  have "register_at http sv M peer st
      = (st1, peer\<lparr>pe_jwt := Some t\<rparr>, Ok \<lparr> ry_peer_id = ?p, ry_jwt_token = t \<rparr>)"
    using g(1) by (simp add: register_at_def serve_def Peer_register_def answering_def answer_of_def
        http_success_def Let_def)
  moreover have "\<exists>e. plook (as_peers st1) ?p = Some e \<and> pi_peer_id (pe_info e) = ?p \<and> pi_display_name (pe_info e) = pc_display_name (pe_config peer)
      \<and> pi_ipv6_addresses (pe_info e) = [] \<and> pi_ipv4_reflexive (pe_info e) = []"
    using g(2) by (simp add: registered_info_def body_def)
  ultimately show ?thesis using g(3-5) by blast
qed

lemma lookup_at_ok:
  assumes reg: "registries (re_server (sv_env sv)) plook clook"
    and lib: "libraries_ok sv (pe_config peer)"
    and jwt: "pe_jwt peer = Some t" "visible_ascii t" "token_good (sv_env sv) t p from' until'"
    and time: "from' \<le> mo_now_secs M" "mo_now_secs M \<le> until'"
    and q: "set q \<subseteq> set HEX_CHARS" "q \<noteq> []"
  shows "snd (lookup_at http sv M peer q st) = (case plook (as_peers st) q of
      Some e \<Rightarrow> Ok (lookup_of (peer_response (pe_info e)))
    | None \<Rightarrow> Err (''lookup failed: HTTP '' @ hl_status_text http 404 @ '': '' @ sv_error_text sv (SignalingError.UnknownPeer q)))"
proof -
  let ?req = "server_request sv (lookup_call (pe_config peer) t q)"
  have "set (''/v1/peers/'' @ q) \<subseteq> set ''/v1/peers'' \<union> set HEX_CHARS" using q(1) by auto
  then have path: "sv_url_path sv (peer_base_url (pe_config peer) @ ''/v1/peers/'' @ q) = ''/v1/peers/'' @ q"
    using lib unfolding libraries_ok_def by blast
  have hdr: "re_header_str (sv_env sv) (str_bytes (''Bearer '' @ t)) = Some (''Bearer '' @ t)"
    using lib jwt(2) by (simp add: libraries_ok_def)
  have dec: "re_path_decode (sv_env sv) q = Some q" using lib q by (simp add: libraries_ok_def)
  have req: "rq_method ?req = GET" "rq_path ?req = ''/v1/peers/'' @ q"
    "Option.bind (rq_authorization ?req) (re_header_str (sv_env sv)) = Some (''Bearer '' @ t)"
    using path hdr by (simp_all add: server_request_def lookup_call_def)
  have "bearer (sv_env sv) M ?req \<noteq> None"
    using token_good_bearer [OF jwt(3) time req(3)] by simp
  from get_peer_request [OF reg req(1,2) this q dec, of st] obtain st' where
    "router (sv_env sv) M ?req st = (st', case plook (as_peers st) q of
      Some e \<Rightarrow> Ok (PeerJson (peer_response (pe_info e))) | None \<Rightarrow> Err (SignalingError.UnknownPeer q))" by blast
  then show ?thesis
    by (auto simp: lookup_at_def jwt(1) serve_def Peer_lookup_peer_def answering_def answer_of_def
        error_answer_def http_success_def Let_def split: option.splits)
qed

section \<open>Properties\<close>

text \<open>C20: Registering gives access to the registry.  A peer whose registration the server lets through
  stores a token, and with it every later lookup, until the token expires and whatever happened to
  the server in between, returns exactly the registry's entry of the asked peer, or the server's
  refusal if there is none.\<close>

theorem registered_peer_finds_peers:
  assumes "registries (re_server (sv_env sv)) plook clook"
    and "libraries_ok sv (pe_config peer)"
    and "registration_open sv M st (id_peer_id (pe_identity peer))"
  shows "\<exists>t st1. register_at http sv M peer st
        = (st1, peer\<lparr>pe_jwt := Some t\<rparr>, Ok \<lparr> ry_peer_id = id_peer_id (pe_identity peer), ry_jwt_token = t \<rparr>)
    \<and> plook (as_peers st1) (id_peer_id (pe_identity peer)) \<noteq> None
    \<and> (\<forall>M' st2 bs. mo_now_secs M \<le> mo_now_secs M' \<longrightarrow>
         mo_now_secs M' \<le> mo_now_secs M + jwt_expiry_secs (as_config st) \<longrightarrow> bs \<noteq> [] \<longrightarrow>
         snd (lookup_at http sv M' (peer\<lparr>pe_jwt := Some t\<rparr>) (hex_encode bs) st2)
           = (case plook (as_peers st2) (hex_encode bs) of
                Some e \<Rightarrow> Ok (lookup_of (peer_response (pe_info e)))
              | None \<Rightarrow> Err (''lookup failed: HTTP '' @ hl_status_text http 404 @ '': ''
                             @ sv_error_text sv (SignalingError.UnknownPeer (hex_encode bs)))))"
proof -
  obtain t st1 where r: "register_at http sv M peer st
        = (st1, peer\<lparr>pe_jwt := Some t\<rparr>, Ok \<lparr> ry_peer_id = id_peer_id (pe_identity peer), ry_jwt_token = t \<rparr>)"
    "plook (as_peers st1) (id_peer_id (pe_identity peer)) \<noteq> None"
    and t: "token_good (sv_env sv) t (id_peer_id (pe_identity peer)) (mo_now_secs M)
        (mo_now_secs M + jwt_expiry_secs (as_config st))" "visible_ascii t"
    using register_at_ok [OF assms, of http] by (metis option.distinct(1))
  have "hex_encode bs \<noteq> []" if "bs \<noteq> []" for bs using that length_hex_encode [of bs] by fastforce
  then show ?thesis
    using r lookup_at_ok [OF assms(1) _ _ t(2,1) _ _ set_hex_encode, where peer = "peer\<lparr>pe_jwt := Some t\<rparr>"] assms(2)
    by (intro exI [of _ t] exI [of _ st1] conjI allI impI) simp_all
qed

text \<open>A peer with the all-zero key against the sample server.\<close>

definition sample_ed25519 :: "(bytes, bytes) ed25519" where
  "sample_ed25519 = \<lparr> ed_from_bytes = id, ed_to_bytes = id, ed_verifying_key = id, ed_vk_bytes = id \<rparr>"

definition sample_runtime_peer :: "(bytes, bytes) Peer" where
  "sample_runtime_peer =
     \<lparr> pe_identity = PeerIdentity_from_bytes sample_ed25519 (replicate 32 0), pe_config = PeerConfig_default,
       pe_jwt = None \<rparr>"

definition sample_http_server :: "(PeerEntry lru_list, CallEntry lru_list, unit) http_server" where
  "sample_http_server =
     \<lparr> sv_env = sample_rest_env, sv_url_path = drop (length (peer_base_url PeerConfig_default)),
       sv_client = \<lparr> sa_ip = ''192.0.2.7'', sa_port = 5000, sa_is_ipv6 = False \<rparr>,
       sv_error_text = SignalingError_to_string, sv_rejected_status = 400, sv_not_a_list = ''invalid type: map'' \<rparr>"

definition sample_http_library :: http_library where
  "sample_http_library =
     \<lparr> hl_build = IoOk (), hl_send = (\<lambda>_. IoErr ''unreachable''), hl_status_text = (\<lambda>s. show_nat (unat s)),
       hl_reason = (\<lambda>_. None) \<rparr>"

lemma sample_libraries_ok: "libraries_ok sample_http_server PeerConfig_default"
  by (simp add: libraries_ok_def sample_http_server_def sample_rest_env_def list_env_def bytes_str_str_bytes)

lemma sample_peer_fields:
  "id_peer_id (pe_identity sample_runtime_peer) = sample_peer_id" "pe_config sample_runtime_peer = PeerConfig_default"
  by (simp_all add: sample_runtime_peer_def PeerIdentity_from_bytes_def sample_ed25519_def
      peer_id_from_public_key_def sample_peer_id_def Let_def)

lemma sample_registration_open:
  "registration_open sample_http_server (rest_moment 100) sample_server sample_peer_id"
  using sample_json sample_id_valid sample_registration_allowed
  by (simp add: registration_open_def sample_http_server_def sample_jwt_expiry)
    (simp add: rest_moment_def)

theorem registered_peer_finds_peers_witness:
  "\<exists>t st1 r. register_at sample_http_library sample_http_server (rest_moment 100) sample_runtime_peer sample_server
       = (st1, sample_runtime_peer\<lparr>pe_jwt := Some t\<rparr>, Ok \<lparr> ry_peer_id = sample_peer_id, ry_jwt_token = t \<rparr>)
     \<and> snd (lookup_at sample_http_library sample_http_server (rest_moment 3700)
         (sample_runtime_peer\<lparr>pe_jwt := Some t\<rparr>) sample_peer_id st1) = Ok r"
proof -
  have reg: "registries (re_server (sv_env sample_http_server)) lru_list_lookup lru_list_lookup"
    using sample_rest_registries by (simp add: sample_http_server_def)
  obtain t st1 where 1: "register_at sample_http_library sample_http_server (rest_moment 100) sample_runtime_peer sample_server
       = (st1, sample_runtime_peer\<lparr>pe_jwt := Some t\<rparr>, Ok \<lparr> ry_peer_id = sample_peer_id, ry_jwt_token = t \<rparr>)"
    "lru_list_lookup (as_peers st1) sample_peer_id \<noteq> None"
    and 2: "snd (lookup_at sample_http_library sample_http_server (rest_moment 3700)
         (sample_runtime_peer\<lparr>pe_jwt := Some t\<rparr>) (hex_encode (replicate 32 0)) st1)
       = (case lru_list_lookup (as_peers st1) (hex_encode (replicate 32 0)) of
                Some e \<Rightarrow> Ok (lookup_of (peer_response (pe_info e)))
              | None \<Rightarrow> Err (''lookup failed: HTTP '' @ hl_status_text sample_http_library 404 @ '': ''
                 @ sv_error_text sample_http_server (SignalingError.UnknownPeer (hex_encode (replicate 32 0)))))"
    using registered_peer_finds_peers [OF reg, of sample_runtime_peer "rest_moment 100" sample_server sample_http_library]
      sample_libraries_ok sample_registration_open
    unfolding sample_peer_fields sample_jwt_expiry
    by (elim meta_impE exE conjE) (assumption+, rule that, assumption, assumption, simp add: rest_moment_def)
  from 1(2) 2 show ?thesis
    using 1(1) unfolding sample_peer_id_def [symmetric] by (auto split: option.splits)
qed

section \<open>Identities and lists\<close>

text \<open>A stored key pair is accepted exactly if it is the pair of one 32-byte key, and the peer id is
  then the server's name for the public key.\<close>

lemma from_hex_accepts_iff:
  assumes "\<And>bs. hx_decode hx (hx_encode hx bs) = Ok bs"
  shows "(\<exists>i. PeerIdentity_from_hex ed hx (hx_encode hx sk) vk = Ok i)
    \<longleftrightarrow> length sk = 32 \<and> vk = hx_encode hx (ed_vk_bytes ed (ed_verifying_key ed (ed_from_bytes ed sk)))"
  using assms by (auto simp: PeerIdentity_from_hex_def Let_def)

text \<open>The HTTP client asks for lists; the server answers with objects.  Its two queries never succeed.\<close>

lemma http_client_never_decodes:
  assumes "serve sv M (http_get_call c path) st = (st', IoOk ans)"
  shows "\<exists>e. http_get_proxies (answering http (IoOk ans)) c = Err (ClientError.SignalingError e)"
    and "\<exists>e. http_get_dht_bootstrap (answering http (IoOk ans)) c = Err (ClientError.SignalingError e)"
  using assms
  by (auto simp: serve_def http_get_proxies_def http_get_dht_bootstrap_def answering_def answer_of_def
      error_answer_def split: prod.splits result.splits)

end
