(* ===== verification/Voip_Cli.thy ===== *)
theory Voip_Cli
  imports Peer_Runtime
begin

text \<open>
  The command line client: the identity file (\<open>src/crates/voip-cli/src/identity.rs\<close>) and the commands
  up to the address a call dials (\<open>src/crates/voip-cli/src/commands.rs\<close>).

  The state is the contents of the two files the commands keep, the identity and the token.  How a
  file operation ends is an argument; a write that fails has written a prefix.  File modes and the printed
  text apart from \<open>whoami\<close> are left out; the exchange of messages is in \<open>Cli_Session\<close>.
  An error is its outermost message, which is what \<open>anyhow\<close> prints.
\<close>

section \<open>The identity file\<close>

record Identity =
  if_peer_id :: string
  if_signing_key :: string
  if_verifying_key :: string

record cli_disk =
  dk_identity :: "string option"
  dk_jwt :: "string option"

text \<open>The home directory is known or not; the paths; how opening and writing end.\<close>

record cli_fs =
  fs_home :: bool
  fs_path :: string
  fs_dir :: string
  fs_jwt_path :: string
  fs_read :: "unit io"
  fs_mkdir :: "unit io"
  fs_open :: "unit io"
  fs_written :: "nat option"

record identity_json =
  ij_write :: "Identity \<Rightarrow> (string, string) result"
  ij_read :: "string \<Rightarrow> Identity option"

definition Identity_generate :: "('sk, 'vk) ed25519 \<Rightarrow> hex_package \<Rightarrow> 'sk \<Rightarrow> Identity" where
  "Identity_generate ed hx sk =
     (let vk = ed_verifying_key ed sk in
      \<lparr> if_peer_id = peer_id_from_public_key (ed_vk_bytes ed) vk,
        if_signing_key = hx_encode hx (ed_to_bytes ed sk),
        if_verifying_key = hx_encode hx (ed_vk_bytes ed vk) \<rparr>)"

definition Identity_signing_key :: "('sk, 'vk) ed25519 \<Rightarrow> hex_package \<Rightarrow> Identity \<Rightarrow> ('sk, string) result" where
  "Identity_signing_key ed hx i =
     (case hx_decode hx (if_signing_key i) of
        Err e \<Rightarrow> Err (''invalid signing_key hex: '' @ e)
      | Panic \<Rightarrow> Panic
      | Ok bs \<Rightarrow>
          if length bs \<noteq> 32 then Err ''signing_key must be 32 bytes'' else Ok (ed_from_bytes ed bs))"

definition Identity_verifying_key ::
  "(bytes \<Rightarrow> ('vk, string) result) \<Rightarrow> hex_package \<Rightarrow> Identity \<Rightarrow> ('vk, string) result" where
  "Identity_verifying_key vk_from_bytes hx i =
     (case hx_decode hx (if_verifying_key i) of
        Err e \<Rightarrow> Err (''invalid verifying_key hex: '' @ e)
      | Panic \<Rightarrow> Panic
      | Ok bs \<Rightarrow>
          if length bs \<noteq> 32 then Err ''verifying_key must be 32 bytes''
          else case vk_from_bytes bs of
                 Err e \<Rightarrow> Err (''invalid verifying key: '' @ e)
               | Panic \<Rightarrow> Panic
               | Ok vk \<Rightarrow> Ok vk)"

definition identity_path :: "cli_fs \<Rightarrow> (string, string) result" where
  "identity_path fs = (if fs_home fs then Ok (fs_path fs) else Err ''$HOME not set'')"

definition load_from :: "cli_fs \<Rightarrow> identity_json \<Rightarrow> cli_disk \<Rightarrow> (Identity, string) result" where
  "load_from fs json disk =
     (case (dk_identity disk, fs_read fs) of
        (Some contents, IoOk _) \<Rightarrow>
          (case ij_read json contents of
             None \<Rightarrow> Err (''failed to parse identity at '' @ fs_path fs)
           | Some i \<Rightarrow> Ok i)
      | _ \<Rightarrow> Err (''failed to read identity at '' @ fs_path fs))"

definition load :: "cli_fs \<Rightarrow> identity_json \<Rightarrow> cli_disk \<Rightarrow> (Identity, string) result" where
  "load fs json disk = res_bind (identity_path fs) (\<lambda>_. load_from fs json disk)"

definition save_to :: "cli_fs \<Rightarrow> identity_json \<Rightarrow> Identity \<Rightarrow> cli_disk \<Rightarrow> cli_disk \<times> (unit, string) result" where
  "save_to fs json i disk =
     (case fs_mkdir fs of
        IoErr _ \<Rightarrow> (disk, Err (''failed to create directory '' @ fs_dir fs))
      | IoOk _ \<Rightarrow>
          (case ij_write json i of
             Err _ \<Rightarrow> (disk, Err ''failed to serialize identity'')
           | Panic \<Rightarrow> (disk, Panic)
           | Ok text \<Rightarrow>
               (case fs_open fs of
                  IoErr _ \<Rightarrow> (disk, Err (''failed to open '' @ fs_path fs @ '' for writing''))
                | IoOk _ \<Rightarrow>
                    (case fs_written fs of
                       Some n \<Rightarrow> (disk\<lparr>dk_identity := Some (take n text)\<rparr>,
                                  Err (''failed to write identity to '' @ fs_path fs))
                     | None \<Rightarrow> (disk\<lparr>dk_identity := Some text\<rparr>, Ok ())))))"

definition save :: "cli_fs \<Rightarrow> identity_json \<Rightarrow> Identity \<Rightarrow> cli_disk \<Rightarrow> cli_disk \<times> (unit, string) result" where
  "save fs json i disk =
     (case identity_path fs of
        Ok _ \<Rightarrow> save_to fs json i disk | Err e \<Rightarrow> (disk, Err e) | Panic \<Rightarrow> (disk, Panic))"

definition identity_exists :: "cli_fs \<Rightarrow> cli_disk \<Rightarrow> bool" where
  "identity_exists fs disk \<longleftrightarrow> fs_home fs \<and> dk_identity disk \<noteq> None"

section \<open>Commands\<close>

definition no_identity :: string where
  "no_identity = ''no identity found. Run `voip-cli init` first.''"

definition context' :: "'e \<Rightarrow> ('a, 'e) result \<Rightarrow> ('a, 'e) result" where
  "context' msg r = (case r of Err _ \<Rightarrow> Err msg | _ \<Rightarrow> r)"

text \<open>The key pair comes from the random number generator of the operating system.\<close>

definition cli_init ::
  "cli_fs \<Rightarrow> identity_json \<Rightarrow> ('sk, 'vk) ed25519 \<Rightarrow> hex_package \<Rightarrow> 'sk \<Rightarrow> bool \<Rightarrow> cli_disk
     \<Rightarrow> cli_disk \<times> (unit, string) result" where
  "cli_init fs json ed hx sk force disk =
     (case identity_path fs of
        Err e \<Rightarrow> (disk, Err e)
      | Panic \<Rightarrow> (disk, Panic)
      | Ok path \<Rightarrow>
          if dk_identity disk \<noteq> None \<and> \<not> force
          then (disk, Err (''identity already exists at '' @ path @ ''. Use --force to overwrite (DESTRUCTIVE).''))
          else save fs json (Identity_generate ed hx sk) disk)"

definition cli_whoami :: "cli_fs \<Rightarrow> identity_json \<Rightarrow> cli_disk \<Rightarrow> (string, string) result" where
  "cli_whoami fs json disk = res_map if_peer_id (context' no_identity (load fs json disk))"

text \<open>Slicing a string panics inside a character.\<close>

definition is_char_boundary :: "nat \<Rightarrow> string \<Rightarrow> bool" where
  "is_char_boundary i s \<longleftrightarrow> i = 0 \<or> i = length s
     \<or> i < length s \<and> (let b = of_char (s ! i) :: nat in b < 0x80 \<or> 0xC0 \<le> b)"

definition cli_register ::
  "cli_fs \<Rightarrow> identity_json \<Rightarrow> http_library \<Rightarrow> string \<Rightarrow> string \<Rightarrow> cli_disk \<Rightarrow> cli_disk \<times> (unit, string) result" where
  "cli_register fs json http url display_name disk =
     (case context' no_identity (load fs json disk) of
        Err e \<Rightarrow> (disk, Err e)
      | Panic \<Rightarrow> (disk, Panic)
      | Ok i \<Rightarrow>
          let call = register_call
                \<lparr> pc_signaling_url = url, pc_display_name = display_name, pc_listen_addr = [] \<rparr> (if_peer_id i)
          in case hl_build http of
               IoErr e \<Rightarrow> (disk, Err e)
             | IoOk _ \<Rightarrow>
                 (case hl_send http call of
                    IoErr _ \<Rightarrow> (disk, Err (''POST '' @ hc_url call @ '' failed''))
                  | IoOk resp \<Rightarrow>
                      if \<not> http_success (ha_status resp)
                      then (disk, Err (''register failed: HTTP '' @ hl_status_text http (ha_status resp) @ '': ''
                                       @ (case ha_text resp of Some text \<Rightarrow> text | None \<Rightarrow> [])))
                      else case ha_register resp of
                             None \<Rightarrow> (disk, Err ''failed to parse register response'')
                           | Some parsed \<Rightarrow>
                               if ry_peer_id parsed \<noteq> if_peer_id i
                               then (disk, Err (''server returned mismatched peer_id: expected ''
                                                @ if_peer_id i @ '', got '' @ ry_peer_id parsed))
                               else
                                 (case (fs_open fs, fs_written fs) of
                                    (IoOk _, None) \<Rightarrow>
                                      (disk\<lparr>dk_jwt := Some (ry_jwt_token parsed)\<rparr>,
                                       if is_char_boundary (min 40 (length (ry_jwt_token parsed))) (ry_jwt_token parsed)
                                       then Ok () else Panic)
                                  | (IoOk _, Some n) \<Rightarrow>
                                      (disk\<lparr>dk_jwt := Some (take n (ry_jwt_token parsed))\<rparr>,
                                       Err (''failed to write JWT to '' @ fs_jwt_path fs))
                                  | (IoErr _, _) \<Rightarrow> (disk, Err (''failed to write JWT to '' @ fs_jwt_path fs)))))"

text \<open>The address a call dials.\<close>

definition resolve_target ::
  "(PeerLookup, string) result \<Rightarrow> string \<Rightarrow> string option \<Rightarrow> (string, string) result" where
  "resolve_target looked_up peer_id direct_addr =
     (case direct_addr of
        Some addr \<Rightarrow> Ok addr
      | None \<Rightarrow>
          (case context' ''failed to look up peer via signaling'' looked_up of
             Err e \<Rightarrow> Err e
           | Panic \<Rightarrow> Panic
           | Ok record \<Rightarrow>
               (case pl_ipv6_addresses record of
                  addr # _ \<Rightarrow> Ok addr
                | [] \<Rightarrow>
                    (case pl_ipv4_reflexive record of
                       addr # _ \<Rightarrow> Ok addr
                     | [] \<Rightarrow> Err (''peer '' @ peer_id @ '' registered with no addresses. Use --direct-addr ''
                               @ ''<ip:port> to specify the target'' @ [CHR 0x27] @ ''s QUIC address manually'')))))"

definition cli_call_target ::
  "cli_fs \<Rightarrow> identity_json \<Rightarrow> ('sk, 'vk) ed25519 \<Rightarrow> hex_package \<Rightarrow> http_library \<Rightarrow> (unit, string) result
     \<Rightarrow> (string \<Rightarrow> 'a option) \<Rightarrow> ('a \<Rightarrow> unit io) \<Rightarrow> 'a io \<Rightarrow> string \<Rightarrow> string \<Rightarrow> string option \<Rightarrow> string
     \<Rightarrow> cli_disk \<Rightarrow> ('a, string) result" where
  "cli_call_target fs json ed hx http server_cfg parse_addr bind local url peer_id direct_addr listen_addr disk =
     res_bind (context' no_identity (load fs json disk)) (\<lambda>i.
     res_bind (context' ''failed to decode identity keypair''
                 (PeerIdentity_from_hex ed hx (if_signing_key i) (if_verifying_key i))) (\<lambda>identity.
     if \<not> (8 \<le> length (if_peer_id i) \<and> is_char_boundary 8 (if_peer_id i)) then Panic
     else
     let cfg = \<lparr> pc_signaling_url = url, pc_display_name = ''caller-'' @ take 8 (if_peer_id i),
                 pc_listen_addr = listen_addr \<rparr> in
     res_bind (Peer_new server_cfg parse_addr bind identity cfg) (\<lambda>peer.
     res_bind (Peer_local_addr local) (\<lambda>_.
     case Peer_register http peer of
       (peer, r) \<Rightarrow>
         res_bind (context' ''failed to register with signaling server'' r) (\<lambda>_.
         res_bind (resolve_target (Peer_lookup_peer http peer peer_id) peer_id direct_addr) (\<lambda>target_addr.
         case parse_addr target_addr of
           None \<Rightarrow> Err (''invalid target address: '' @ target_addr)
         | Some target \<Rightarrow> Ok target))))))"

section \<open>Facts\<close>

lemma context'_Ok [simp]: "context' msg (Ok x) = Ok x"
  by (simp add: context'_def)

lemma save_ok:
  assumes "save fs json i disk = (disk', Ok ())"
  obtains contents where "ij_write json i = Ok contents" "disk' = disk\<lparr>dk_identity := Some contents\<rparr>" "fs_home fs"
  using assms
  by (auto simp: save_def save_to_def identity_path_def split: if_splits io.splits result.splits option.splits)

lemma load_saved:
  assumes "save fs json i disk = (disk', Ok ())" and "fs_read fs' = IoOk ()" "fs_home fs'"
    and "\<And>contents. ij_write json i = Ok contents \<Longrightarrow> ij_read json contents = Some i"
  shows "load fs' json disk' = Ok i"
proof -
  obtain contents where "ij_write json i = Ok contents" "disk' = disk\<lparr>dk_identity := Some contents\<rparr>"
    using assms(1) by (rule save_ok)
  then show ?thesis using assms(2-4) by (simp add: load_def load_from_def identity_path_def)
qed

section \<open>Identities and calls\<close>

text \<open>The identity of the command line client.  Without the force flag an existing identity file
  is never touched.  After \<open>init\<close> succeeds, \<open>whoami\<close> prints the peer id of the new key, and the peer
  runtime decodes the stored pair to that very key with the same peer id.\<close>

lemma cli_identity_kept_and_usable:
  assumes hex: "\<And>bs. hx_decode hx (hx_encode hx bs) = Ok bs"
    and key: "length (ed_to_bytes ed sk) = 32" "ed_from_bytes ed (ed_to_bytes ed sk) = sk"
    and json: "\<And>i contents. ij_write json i = Ok contents \<Longrightarrow> ij_read json contents = Some i"
    and readable: "fs_read fs' = IoOk ()" "fs_home fs'"
    and init: "cli_init fs json ed hx sk force disk = (disk', r)"
  shows "(dk_identity disk \<noteq> None \<and> \<not> force \<longrightarrow> disk' = disk \<and> r \<noteq> Ok ())
    \<and> (r = Ok () \<longrightarrow>
         cli_whoami fs' json disk' = Ok (peer_id_from_public_key (ed_vk_bytes ed) (ed_verifying_key ed sk))
       \<and> (\<exists>i. load fs' json disk' = Ok i
            \<and> PeerIdentity_from_hex ed hx (if_signing_key i) (if_verifying_key i)
                = Ok \<lparr> id_signing_key = sk, id_verifying_key = ed_verifying_key ed sk, id_peer_id = if_peer_id i \<rparr>))"
proof (intro conjI impI)
  assume "dk_identity disk \<noteq> None \<and> \<not> force"
  with init show "disk' = disk" "r \<noteq> Ok ()" by (auto simp: cli_init_def identity_path_def split: if_splits)
next
  assume "r = Ok ()"
  with init have "save fs json (Identity_generate ed hx sk) disk = (disk', Ok ())"
    by (auto simp: cli_init_def split: result.splits if_splits)
  then have load: "load fs' json disk' = Ok (Identity_generate ed hx sk)"
    using readable json by (rule load_saved)
  then show "cli_whoami fs' json disk' = Ok (peer_id_from_public_key (ed_vk_bytes ed) (ed_verifying_key ed sk))"
    by (simp add: cli_whoami_def Identity_generate_def Let_def)
  show "\<exists>i. load fs' json disk' = Ok i
      \<and> PeerIdentity_from_hex ed hx (if_signing_key i) (if_verifying_key i)
          = Ok \<lparr> id_signing_key = sk, id_verifying_key = ed_verifying_key ed sk, id_peer_id = if_peer_id i \<rparr>"
    using load hex key
    by (simp add: PeerIdentity_from_hex_def PeerIdentity_from_bytes_def Identity_generate_def Let_def)
qed

definition sample_hex :: hex_package where
  "sample_hex = \<lparr> hx_encode = hex_encode, hx_decode = (\<lambda>s. case hex_decode s of Ok bs \<Rightarrow> Ok bs | _ \<Rightarrow> Err ''Odd length'') \<rparr>"

definition sample_json_codec :: identity_json where
  "sample_json_codec =
     (let i = Identity_generate sample_ed25519 sample_hex (replicate 32 7) in
      \<lparr> ij_write = (\<lambda>x. if x = i then Ok ''identity'' else Err ''other''), ij_read = (\<lambda>_. Some i) \<rparr>)"

definition sample_fs :: cli_fs where
  "sample_fs = \<lparr> fs_home = True, fs_path = ''/h/.voip-cli/identity.json'', fs_dir = ''/h/.voip-cli'',
     fs_jwt_path = ''/h/.voip-cli/jwt.txt'', fs_read = IoOk (), fs_mkdir = IoOk (), fs_open = IoOk (),
     fs_written = None \<rparr>"

lemma cli_identity_kept_and_usable_witness:
  "let (disk', r) = cli_init sample_fs sample_json_codec sample_ed25519 sample_hex (replicate 32 7) False
         \<lparr> dk_identity = None, dk_jwt = None \<rparr>
   in r = Ok () \<and> cli_whoami sample_fs sample_json_codec disk' = Ok (hex_encode (replicate 32 7))"
proof -
  let ?init = "cli_init sample_fs sample_json_codec sample_ed25519 sample_hex (replicate 32 7) False
         \<lparr> dk_identity = None, dk_jwt = None \<rparr>"
  obtain disk' r where init: "?init = (disk', r)" by (cases ?init)
  then have ok: "r = Ok ()"
    by (auto simp: cli_init_def identity_path_def sample_fs_def save_def save_to_def sample_json_codec_def Let_def)
  have hex: "hx_decode sample_hex (hx_encode sample_hex bs) = Ok bs" for bs
    by (simp add: sample_hex_def hex_decode_encode)
  have json: "ij_read sample_json_codec contents = Some i" if "ij_write sample_json_codec i = Ok contents" for i contents
    using that by (auto simp: sample_json_codec_def Let_def split: if_splits)
  have key: "length (ed_to_bytes sample_ed25519 (replicate 32 7)) = 32"
    "ed_from_bytes sample_ed25519 (ed_to_bytes sample_ed25519 (replicate 32 7)) = replicate 32 7"
    "fs_read sample_fs = IoOk ()" "fs_home sample_fs"
    by (simp_all add: sample_ed25519_def sample_fs_def)
  have vk: "ed_vk_bytes sample_ed25519 (ed_verifying_key sample_ed25519 k) = k" for k
    by (simp add: sample_ed25519_def)
  show ?thesis
    using cli_identity_kept_and_usable [OF hex key(1,2) json key(3,4) init] ok
    by (simp add: init peer_id_from_public_key_def vk)
qed

text \<open>Overwriting truncates first: if the write then fails, the old identity is gone.\<close>

lemma failed_overwrite_loses_identity:
  assumes "fs_home fs" "fs_mkdir fs = IoOk ()" "fs_open fs = IoOk ()" "fs_written fs = Some 0"
    and "ij_write json (Identity_generate ed hx sk) = Ok contents"
  shows "dk_identity (fst (cli_init fs json ed hx sk True disk)) = Some []"
  using assms by (simp add: cli_init_def identity_path_def save_def save_to_def)

text \<open>Calling a peer by its id.  A callee that registered through the peer runtime, as \<open>listen\<close>
  does, is found by a registered caller under the name it chose, but with no address: without a direct
  address the call ends with the error that the peer has none.  With a direct address the lookup does
  not matter.\<close>

lemma call_needs_direct_address:
  assumes reg: "registries (re_server (sv_env sv)) plook clook"
    and lib: "libraries_ok sv (pe_config callee)" "libraries_ok sv (pe_config caller)"
    and id: "id_peer_id (pe_identity callee) = hex_encode bs" "bs \<noteq> []"
      "id_peer_id (pe_identity caller) \<noteq> hex_encode bs"
    and opened: "registration_open sv M1 st (hex_encode bs)"
      "registration_open sv M2 st1 (id_peer_id (pe_identity caller))"
    and steps: "register_at http sv M1 callee st = (st1, r1)" "register_at http sv M2 caller st1 = (st2, caller', r2)"
    and kept: "plook (as_peers st2) (hex_encode bs) \<noteq> None"
    and time: "mo_now_secs M2 \<le> mo_now_secs M3" "mo_now_secs M3 \<le> mo_now_secs M2 + jwt_expiry_secs (as_config st1)"
  shows "\<exists>found. snd (lookup_at http sv M3 caller' (hex_encode bs) st2) = Ok found
    \<and> pl_peer_id found = hex_encode bs \<and> pl_display_name found = pc_display_name (pe_config callee)
    \<and> (case direct_addr of
         Some addr \<Rightarrow> resolve_target (Ok found) (hex_encode bs) direct_addr = Ok addr
       | None \<Rightarrow> resolve_target (Ok found) (hex_encode bs) direct_addr
           = Err (''peer '' @ hex_encode bs @ '' registered with no addresses. Use --direct-addr ''
                  @ ''<ip:port> to specify the target'' @ [CHR 0x27] @ ''s QUIC address manually''))"
proof -
  obtain e where e: "plook (as_peers st1) (hex_encode bs) = Some e"
      "pi_display_name (pe_info e) = pc_display_name (pe_config callee)"
      "pi_ipv6_addresses (pe_info e) = []" "pi_ipv4_reflexive (pe_info e) = []"
      "pi_peer_id (pe_info e) = hex_encode bs"
    using register_at_ok [OF reg lib(1), where http = http and M = M1 and st = st] opened(1) steps(1) id(1) by auto
  obtain t where t: "caller' = caller\<lparr>pe_jwt := Some t\<rparr>"
      "\<forall>q e. q \<noteq> id_peer_id (pe_identity caller) \<longrightarrow> plook (as_peers st2) q = Some e \<longrightarrow> plook (as_peers st1) q = Some e"
      "token_good (sv_env sv) t (id_peer_id (pe_identity caller)) (mo_now_secs M2)
        (mo_now_secs M2 + jwt_expiry_secs (as_config st1))" "visible_ascii t"
    using register_at_ok [OF reg lib(2) opened(2), where http = http] steps(2) by auto
  have entry: "plook (as_peers st2) (hex_encode bs) = Some e" using kept t(2) id(3) e(1) by (metis not_None_eq option.inject)
  have "hex_encode bs \<noteq> []" using id(2) length_hex_encode [of bs] by fastforce
  then have "snd (lookup_at http sv M3 caller' (hex_encode bs) st2) = Ok (lookup_of (peer_response (pe_info e)))"
    using lookup_at_ok [OF reg _ _ t(4,3) time set_hex_encode, where peer = caller' and http = http and st = st2] lib(2) t(1) entry by simp
  then show ?thesis
    by (auto simp: lookup_of_def peer_response_def e resolve_target_def split: option.split)
qed

end
