(* ===== verification/Cli_Session.thy ===== *)
theory Cli_Session
  imports Voip_Cli Tls_Config Utf8 "HOL-Library.Sublist"
begin

text \<open>
  What \<open>listen\<close> and \<open>call\<close> of the command line client do over the network
  (\<open>src/crates/voip-cli/src/commands.rs\<close>, \<open>main.rs\<close>, and the accept loop of
  \<open>src/crates/voip-client/src/peer.rs\<close>): the message and its acknowledgement, and the entry point.

  How each network operation ends is an argument.  The handlers of a listener run concurrently and
  share one atomic counter; the connections are listed in the order in which they reach it.  A printed
  line is a value of \<open>cli_line\<close>.
\<close>

section \<open>Trimming\<close>

text \<open>\<open>str::trim_end\<close>: the white space characters of Unicode in UTF-8, each read backwards.\<close>

definition white_space_rev :: "string list" where
  "white_space_rev =
     [[CHR 0x0A], [CHR 0x09], [CHR 0x0B], [CHR 0x0C], [CHR 0x0D], [CHR 0x20],
      [CHR 0x85, CHR 0xC2], [CHR 0xA0, CHR 0xC2], [CHR 0x80, CHR 0x9A, CHR 0xE1]]
     @ map (\<lambda>c. [c, CHR 0x80, CHR 0xE2])
         [CHR 0x80, CHR 0x81, CHR 0x82, CHR 0x83, CHR 0x84, CHR 0x85, CHR 0x86, CHR 0x87, CHR 0x88,
          CHR 0x89, CHR 0x8A, CHR 0xA8, CHR 0xA9, CHR 0xAF]
     @ [[CHR 0x9F, CHR 0x81, CHR 0xE2], [CHR 0x80, CHR 0x80, CHR 0xE3]]"

function trim_rev :: "string \<Rightarrow> string" where
  "trim_rev s =
     (case find (\<lambda>w. prefix w s) white_space_rev of
        None \<Rightarrow> s
      | Some w \<Rightarrow> trim_rev (drop (length w) s))"
  by pat_completeness auto

lemma white_space_heads: "list_all (\<lambda>w. w \<noteq> [] \<and> \<not> is_digit (hd w)) white_space_rev"
  by code_simp

lemma find_SomeD: "find P xs = Some x \<Longrightarrow> x \<in> set xs \<and> P x"
  by (induction xs) (auto split: if_splits)

termination trim_rev
proof (relation "measure length", goal_cases)
  case (2 s w)
  from find_SomeD [OF this] have "w \<noteq> []" and "prefix w s"
    using white_space_heads by (auto simp only: list_all_iff)
  then show ?case by (cases w) (auto simp: prefix_def)
qed simp

declare trim_rev.simps [simp del]

definition trim_end :: "string \<Rightarrow> string" where
  "trim_end s = rev (trim_rev (rev s))"

section \<open>Listening\<close>

datatype stream_read = StreamData bytes | StreamEnd | StreamFailed string

record incoming =
  ic_remote :: string
  ic_accept_bi :: "unit io"
  ic_read :: stream_read
  ic_write :: "unit io"

datatype cli_line =
    Said string string
  | NoData string
  | ReadError string
  | ReplyWriteError string
  | AcceptBiError string
  | RegistrationFailed string
  | SentLine string
  | Received string
  | PeerClosed
  | CallComplete

text \<open>The loop ends when the endpoint is closed; a connection whose handshake fails is skipped.\<close>

fun run_accept_loop ::
  "('conn \<Rightarrow> 's \<Rightarrow> 's \<times> 'o) \<Rightarrow> 'conn io option list \<Rightarrow> 's \<Rightarrow> 's \<times> 'o list \<times> (unit, string) result option" where
  "run_accept_loop on_conn [] st = (st, [], None)"
| "run_accept_loop on_conn (None # evs) st = (st, [], Some (Ok ()))"
| "run_accept_loop on_conn (Some (IoErr e) # evs) st = run_accept_loop on_conn evs st"
| "run_accept_loop on_conn (Some (IoOk conn) # evs) st =
     (let (st, out) = on_conn conn st; (st, outs, r) = run_accept_loop on_conn evs st in (st, out # outs, r))"

text \<open>The handler of \<open>listen\<close>: the counter, what it prints, and the reply if it was written.\<close>

definition ack_reply :: "u64 \<Rightarrow> string" where
  "ack_reply n = ''ack: '' @ show_nat (unat n) @ [CHR 0x0A]"

definition answer_connection :: "incoming \<Rightarrow> u64 \<Rightarrow> u64 \<times> cli_line list \<times> bytes option" where
  "answer_connection conn counter =
     (case ic_accept_bi conn of
        IoErr e \<Rightarrow> (counter, [AcceptBiError e], None)
      | IoOk _ \<Rightarrow>
          (case ic_read conn of
             StreamEnd \<Rightarrow> (counter, [NoData (ic_remote conn)], None)
           | StreamFailed e \<Rightarrow> (counter, [ReadError e], None)
           | StreamData data \<Rightarrow>
               let said = Said (ic_remote conn) (trim_end (from_utf8_lossy (take 4096 data))) in
               (case ic_write conn of
                  IoOk _ \<Rightarrow> (counter + 1, [said], Some (str_bytes (ack_reply counter)))
                | IoErr e \<Rightarrow> (counter + 1, [said, ReplyWriteError e], None))))"

text \<open>Everything the commands rely on.\<close>

record ('sk, 'vk, 'a) cli_world =
  cw_fs :: cli_fs
  cw_json :: identity_json
  cw_ed :: "('sk, 'vk) ed25519"
  cw_hex :: hex_package
  cw_http :: http_library
  cw_tls :: tls_library
  cw_parse_addr :: "string \<Rightarrow> 'a option"
  cw_show_addr :: "'a \<Rightarrow> string"
  cw_bind :: "'a \<Rightarrow> unit io"
  cw_local_addr :: "'a io"

definition build_server_config :: "tls_library \<Rightarrow> (unit, string) result" where
  "build_server_config lib = res_map (\<lambda>_. ()) (dangerous_quinn_server_config lib)"

definition cli_listen ::
  "('sk, 'vk, 'a) cli_world \<Rightarrow> incoming io option list \<Rightarrow> string \<Rightarrow> string \<Rightarrow> string \<Rightarrow> cli_disk
     \<Rightarrow> (cli_line list \<times> (unit, string) result option, string) result" where
  "cli_listen W conns url display_name listen_addr disk =
     res_bind (context' no_identity (load (cw_fs W) (cw_json W) disk)) (\<lambda>i.
     res_bind (context' ''failed to decode identity keypair''
                 (PeerIdentity_from_hex (cw_ed W) (cw_hex W) (if_signing_key i) (if_verifying_key i))) (\<lambda>identity.
     let cfg = \<lparr> pc_signaling_url = url, pc_display_name = display_name, pc_listen_addr = listen_addr \<rparr> in
     res_bind (Peer_new (build_server_config (cw_tls W)) (cw_parse_addr W) (cw_bind W) identity cfg) (\<lambda>peer.
     res_bind (Peer_local_addr (cw_local_addr W)) (\<lambda>_.
     let warning = (case snd (Peer_register (cw_http W) peer) of Err e \<Rightarrow> [RegistrationFailed e] | _ \<Rightarrow> []);
         (counter, outs, ended) = run_accept_loop answer_connection conns 0
     in Ok (warning @ concat (map fst outs), ended)))))"

section \<open>Calling\<close>

text \<open>How connecting and the stream behave; \<open>None\<close> is the timeout after ten seconds.\<close>

record call_net =
  cn_connect :: "unit io"
  cn_handshake :: "QuinnClientConfig \<Rightarrow> unit io option"
  cn_open_bi :: "unit io"
  cn_write :: "bytes \<Rightarrow> unit io"
  cn_flush :: "unit io"
  cn_read :: stream_read

definition call_payload :: "string \<Rightarrow> bytes" where
  "call_payload message = str_bytes (message @ [CHR 0x0A])"

definition reply_lines :: "bytes \<Rightarrow> cli_line list" where
  "reply_lines data =
     (if take 4096 data = [] then [] else [Received (trim_end (from_utf8_lossy (take 4096 data)))])"

definition call_exchange ::
  "tls_library \<Rightarrow> call_net \<Rightarrow> string \<Rightarrow> string \<Rightarrow> cli_line list \<times> (unit, string) result" where
  "call_exchange lib net target message =
     (case dangerous_quinn_client_config lib of
        Err e \<Rightarrow> ([], Err (''failed to build QUIC client config: '' @ e))
      | Panic \<Rightarrow> ([], Panic)
      | Ok client_cfg \<Rightarrow>
     (case cn_connect net of
        IoErr e \<Rightarrow> ([], Err (''failed to initiate QUIC connect to '' @ target @ '': '' @ e))
      | IoOk _ \<Rightarrow>
     (case cn_handshake net client_cfg of
        None \<Rightarrow> ([], Err (''QUIC connect timeout (10s) to '' @ target))
      | Some (IoErr e) \<Rightarrow> ([], Err (''QUIC connect to '' @ target @ '' failed: '' @ e))
      | Some (IoOk _) \<Rightarrow>
     (case cn_open_bi net of
        IoErr e \<Rightarrow> ([], Err (''failed to open bidi stream: '' @ e))
      | IoOk _ \<Rightarrow>
     (case cn_write net (call_payload message) of
        IoErr e \<Rightarrow> ([], Err (''failed to write message: '' @ e))
      | IoOk _ \<Rightarrow>
     (case cn_flush net of
        IoErr e \<Rightarrow> ([], Err (''failed to flush send stream: '' @ e))
      | IoOk _ \<Rightarrow>
     (case cn_read net of
        StreamFailed e \<Rightarrow> ([SentLine message], Err (''failed to read reply: '' @ e))
      | StreamEnd \<Rightarrow> ([SentLine message, PeerClosed, CallComplete], Ok ())
      | StreamData data \<Rightarrow> (SentLine message # reply_lines data @ [CallComplete], Ok ()))))))))"

definition cli_call ::
  "('sk, 'vk, 'a) cli_world \<Rightarrow> call_net \<Rightarrow> string \<Rightarrow> string \<Rightarrow> string \<Rightarrow> string option \<Rightarrow> string \<Rightarrow> cli_disk
     \<Rightarrow> cli_line list \<times> (unit, string) result" where
  "cli_call W net url peer_id message direct_addr listen_addr disk =
     (case cli_call_target (cw_fs W) (cw_json W) (cw_ed W) (cw_hex W) (cw_http W) (build_server_config (cw_tls W))
             (cw_parse_addr W) (cw_bind W) (cw_local_addr W) url peer_id direct_addr listen_addr disk of
        Ok target \<Rightarrow> call_exchange (cw_tls W) net (cw_show_addr W target) message
      | Err e \<Rightarrow> ([], Err e)
      | Panic \<Rightarrow> ([], Panic))"

section \<open>The entry point\<close>

datatype Commands =
    Init bool
  | Whoami
  | Register string string
  | Listen string string string
  | Call string string string "string option" string

record Cli =
  cl_verbose :: u8
  cl_command :: Commands

definition log_filter :: "u8 \<Rightarrow> string" where
  "log_filter verbose =
     (if verbose = 0 then ''voip_cli=info,voip_client=warn''
      else if verbose = 1 then ''voip_cli=debug,voip_client=info''
      else ''voip_cli=trace,voip_client=debug'')"

text \<open>The disk afterwards and the exit; \<open>None\<close> while a listener waits.  \<open>sk\<close> is the key that \<open>init\<close>
  would generate.\<close>

definition cli_main ::
  "('sk, 'vk, 'a) cli_world \<Rightarrow> bool \<Rightarrow> 'sk \<Rightarrow> incoming io option list \<Rightarrow> call_net \<Rightarrow> Cli \<Rightarrow> cli_disk
     \<Rightarrow> cli_disk \<times> (unit, string) result option" where
  "cli_main W installed sk conns net cli disk =
     (if \<not> installed then (disk, Some Panic)
      else case cl_command cli of
        Init force \<Rightarrow> map_prod id Some (cli_init (cw_fs W) (cw_json W) (cw_ed W) (cw_hex W) sk force disk)
      | Whoami \<Rightarrow> (disk, Some (res_map (\<lambda>_. ()) (cli_whoami (cw_fs W) (cw_json W) disk)))
      | Register url display_name \<Rightarrow>
          map_prod id Some (cli_register (cw_fs W) (cw_json W) (cw_http W) url display_name disk)
      | Listen url display_name listen \<Rightarrow>
          (disk, case cli_listen W conns url display_name listen disk of
                   Ok (_, ended) \<Rightarrow> ended | Err e \<Rightarrow> Some (Err e) | Panic \<Rightarrow> Some Panic)
      | Call url peer_id message direct_addr listen \<Rightarrow>
          (disk, Some (snd (cli_call W net url peer_id message direct_addr listen disk))))"

text \<open>Only \<open>init\<close> writes the identity file, and only \<open>register\<close> the token.\<close>

lemma init_keeps_jwt: "dk_jwt (fst (cli_init fs json ed hx sk force disk)) = dk_jwt disk"
  by (simp add: cli_init_def save_def save_to_def split: result.split io.split option.split)

lemma register_keeps_identity: "dk_identity (fst (cli_register fs json http url name disk)) = dk_identity disk"
proof (cases "context' no_identity (load fs json disk)")
  case (Ok i)
  then show ?thesis
    by (simp add: cli_register_def Let_def split: io.split option.split)
qed (simp_all add: cli_register_def)

lemma cli_main_disk:
  "dk_identity (fst (cli_main W installed sk conns net cli disk)) \<noteq> dk_identity disk
     \<Longrightarrow> \<exists>force. cl_command cli = Init force"
  "dk_jwt (fst (cli_main W installed sk conns net cli disk)) \<noteq> dk_jwt disk
     \<Longrightarrow> \<exists>url name. cl_command cli = Register url name"
  by (auto simp: cli_main_def init_keeps_jwt register_keeps_identity split: if_splits Commands.splits)

section \<open>Facts\<close>

lemma trim_end_newline: "trim_end (s @ [CHR 0x0A]) = trim_end s"
  unfolding trim_end_def by (subst trim_rev.simps) (simp add: white_space_rev_def)

lemma trim_end_digit:
  assumes "is_digit d"
  shows "trim_end (s @ [d]) = s @ [d]"
proof -
  have "\<not> prefix w (d # rev s)" if "w \<in> set white_space_rev" for w
    using white_space_heads that assms by (cases w) (auto simp: list_all_iff)
  then have "find (\<lambda>w. prefix w (d # rev s)) white_space_rev = None"
    by (simp add: find_None_iff)
  then show ?thesis unfolding trim_end_def by (subst trim_rev.simps) simp
qed

lemma length_show_nat: "n < 10 ^ Suc k \<Longrightarrow> length (show_nat n) \<le> Suc k"
proof (induction k arbitrary: n)
  case 0
  then show ?case by (simp add: show_nat.simps [of n])
next
  case (Suc k)
  show ?case
  proof (cases "n < 10")
    case False
    have "n div 10 < 10 ^ Suc k" using Suc.prems by (simp add: less_mult_imp_div_less mult.commute)
    with False show ?thesis using Suc.IH [of "n div 10"] by (simp add: show_nat.simps [of n])
  qed (simp add: show_nat.simps [of n])
qed

lemma payload_read:
  assumes "utf8_valid (str_bytes message)" and "length message < 4096"
  shows "trim_end (from_utf8_lossy (take 4096 (call_payload message))) = trim_end message"
proof -
  have "utf8_valid (str_bytes [CHR 0x0A])" by (rule utf8_valid_ascii) (simp add: str_bytes_def)
  with assms(1) have "utf8_valid (str_bytes (message @ [CHR 0x0A]))"
    by (simp only: str_bytes_append utf8_valid_append)
  then have "from_utf8_lossy (str_bytes (message @ [CHR 0x0A])) = message @ [CHR 0x0A]"
    by (rule from_utf8_lossy_str_bytes)
  moreover have "take 4096 (call_payload message) = str_bytes (message @ [CHR 0x0A])"
    using assms(2) by (simp add: call_payload_def str_bytes_def)
  ultimately show ?thesis by (simp only: trim_end_newline)
qed

lemma ack_read: "reply_lines (str_bytes (ack_reply n)) = [Received (''ack: '' @ show_nat (unat n))]"
proof -
  let ?d = "show_nat (unat n)"
  have d: "?d \<noteq> []" "list_all is_digit ?d" using show_nat_digits by auto
  have "unat n < 2 ^ LENGTH(64)" by (rule unsigned_less)
  also have "(2 :: nat) ^ LENGTH(64) \<le> 10 ^ Suc 19" by simp
  finally have "unat n < 10 ^ Suc 19" .
  then have len: "length ?d \<le> 20" using length_show_nat [of "unat n" 19] by simp
  have "\<forall>b \<in> set (str_bytes (ack_reply n)). b \<le> 0x7F"
    using d(2) by (auto simp: ack_reply_def str_bytes_def list_all_iff is_digit_def word_le_nat_alt unat_of_nat)
  then have "from_utf8_lossy (str_bytes (ack_reply n)) = ack_reply n"
    by (intro from_utf8_lossy_str_bytes utf8_valid_ascii)
  moreover have "take 4096 (str_bytes (ack_reply n)) = str_bytes (ack_reply n)" "str_bytes (ack_reply n) \<noteq> []"
    using len by (simp_all add: ack_reply_def str_bytes_def)
  moreover have "trim_end (ack_reply n) = ''ack: '' @ ?d"
  proof -
    have "trim_end (ack_reply n) = trim_end (''ack: '' @ ?d)"
      using trim_end_newline [of "''ack: '' @ ?d"] by (simp add: ack_reply_def)
    also have "\<dots> = trim_end ((''ack: '' @ butlast ?d) @ [last ?d])" using d(1) by simp
    also have "\<dots> = (''ack: '' @ butlast ?d) @ [last ?d]"
      using d by (intro trim_end_digit) (simp add: list_all_iff)
    finally show ?thesis using d(1) by simp
  qed
  ultimately show ?thesis by (simp add: reply_lines_def)
qed

text \<open>The connections that sent something.\<close>

definition heard :: "cli_line list \<times> bytes option \<Rightarrow> bool" where
  "heard out = list_ex (\<lambda>l. case l of Said _ _ \<Rightarrow> True | _ \<Rightarrow> False) (fst out)"

lemma accept_loop_counts:
  "run_accept_loop answer_connection evs c = (c', outs, r) \<Longrightarrow> c' = c + of_nat (length (filter heard outs))"
proof (induction answer_connection evs c arbitrary: outs rule: run_accept_loop.induct)
  case (4 conn evs c)
  obtain c1 out where o: "answer_connection conn c = (c1, out)" by (metis surj_pair)
  then obtain outs1 where l: "run_accept_loop answer_connection evs c1 = (c', outs1, r)" and outs: "outs = out # outs1"
    using 4(2) by (auto split: prod.splits)
  have "c1 = c + (if heard out then 1 else 0)"
    using o by (auto simp: answer_connection_def heard_def Let_def split: io.splits stream_read.splits)
  then show ?case using 4(1) [OF o [symmetric] refl l] by (simp add: outs)
qed auto

section \<open>Properties\<close>


text \<open>A listener that has heard one caller, and a second one.\<close>

definition sample_incoming :: "string \<Rightarrow> incoming" where
  "sample_incoming message =
     \<lparr> ic_remote = ''192.0.2.7:5000'', ic_accept_bi = IoOk (), ic_read = StreamData (call_payload message), ic_write = IoOk () \<rparr>"

definition sample_call_tls :: tls_library where
  "sample_call_tls =
     \<lparr> tl_debug_assertions = True, tl_native_certs = [], tl_show_general = id, tl_quic_client = (\<lambda>_. IoOk ()),
       tl_idle_timeout_ok = (\<lambda>_. True), tl_key_pair = IoOk [1], tl_self_signed = (\<lambda>_ _. IoOk [2]),
       tl_private_key = (\<lambda>_. IoOk ()), tl_single_cert = (\<lambda>_ _. IoOk ()) \<rparr>"

definition sample_call_net :: call_net where
  "sample_call_net =
     \<lparr> cn_connect = IoOk (),
       cn_handshake = (\<lambda>cfg. Some (if client_accepts (\<lambda>_ _ _. False) (qc_crypto cfg) [2] ''voip-peer'' then IoOk () else IoErr ''UnknownIssuer'')),
       cn_open_bi = IoOk (), cn_write = (\<lambda>_. IoOk ()), cn_flush = IoOk (),
       cn_read = StreamData (the (snd (snd (answer_connection (sample_incoming ''ping'') 1)))) \<rparr>"


end
