(* ===== verification/Sig_Probe.thy ===== *)
theory Sig_Probe
  imports Nat_Probe Sig_Frame
begin

text \<open>
  The server's side of path probing (\<open>src/crates/voip-signaling/src/quic_probe.rs\<close>), and probing as a
  whole: what the client's prober makes of servers that reflect the address they see.  The protobuf
  encoder is an argument.  Starting the probe server only logs and is left out.
\<close>

record PathProbeResponse =
  pp_server_ip :: string
  pp_observed_ip :: string
  pp_observed_port :: u32
  pp_timestamp_ms :: u64

definition build_path_probe_response ::
  "(PathProbeResponse \<Rightarrow> bytes) \<Rightarrow> string \<Rightarrow> string \<Rightarrow> u32 \<Rightarrow> u64 \<Rightarrow> FramedMessage" where
  "build_path_probe_response encode server_ip observed_ip observed_port timestamp_ms =
     \<lparr> fm_type_id = PATH_PROBE_RESPONSE,
       fm_payload = encode \<lparr> pp_server_ip = server_ip, pp_observed_ip = observed_ip,
         pp_observed_port = observed_port, pp_timestamp_ms = timestamp_ms \<rparr> \<rparr>"

definition encode_path_probe_response ::
  "(PathProbeResponse \<Rightarrow> bytes) \<Rightarrow> u64 \<Rightarrow> string \<Rightarrow> string \<Rightarrow> u32 \<Rightarrow> bytes" where
  "encode_path_probe_response encode now_ms server_ip observed_ip observed_port =
     FramedMessage_to_bytes (build_path_probe_response encode server_ip observed_ip observed_port now_ms)"

definition handle_path_migration ::
  "(PathProbeResponse \<Rightarrow> bytes) \<Rightarrow> u64 \<Rightarrow> string \<Rightarrow> string \<times> u16 \<Rightarrow> bytes" where
  "handle_path_migration encode now_ms server_ip observed_addr =
     (case observed_addr of (ip, port) \<Rightarrow> encode_path_probe_response encode now_ms server_ip ip (ucast port))"

record QuicProbeConfig =
  qp_server_ips :: "string list"
  qp_port :: u16
  qp_max_connections :: u32

definition QuicProbeConfig_default :: QuicProbeConfig where
  "QuicProbeConfig_default = \<lparr> qp_server_ips = [], qp_port = 443, qp_max_connections = 100 \<rparr>"

section \<open>Facts\<close>

text \<open>The encoder writes the documented layout.\<close>

definition wire_encoder :: "(PathProbeResponse \<Rightarrow> bytes) \<Rightarrow> bool" where
  "wire_encoder encode \<longleftrightarrow>
     (\<forall>r. encode r = probe_response_wire (pp_server_ip r) (pp_observed_ip r) (pp_observed_port r) (pp_timestamp_ms r))"

text \<open>A probe that a server answers with the address it observed; the client reads at most 1024
  bytes.\<close>

definition reflected :: "(PathProbeResponse \<Rightarrow> bytes) \<Rightarrow> string \<Rightarrow> string \<times> u16 \<Rightarrow> u64 \<Rightarrow> probe_answer \<Rightarrow> bool" where
  "reflected encode server_ip addr ts a \<longleftrightarrow>
     pa_open a = OpenOk \<and> pa_write a = IoOk ()
     \<and> pa_read a = ReadBytes (handle_path_migration encode ts server_ip addr)
     \<and> length (handle_path_migration encode ts server_ip addr) \<le> 1024
     \<and> utf8_valid (str_bytes server_ip) \<and> utf8_valid (str_bytes (fst addr))"

definition observed_result :: "string \<Rightarrow> string \<times> u16 \<Rightarrow> probe_answer \<Rightarrow> NATProbeResult" where
  "observed_result server_ip addr a =
     \<lparr> npr_server_ip = server_ip, npr_local_port = 0, npr_external_ip = fst addr,
       npr_external_port = snd addr, npr_timestamp_ms = pa_now_ms a, npr_rtt_ms = pa_rtt_ms a \<rparr>"

lemma probe_single_path_reflected:
  assumes "wire_encoder encode" and "reflected encode server_ip addr ts a"
  shows "probe_single_path oc a server_ip = Some (Ok (observed_result server_ip addr a))"
proof -
  let ?wire = "probe_response_wire server_ip (fst addr) (ucast (snd addr)) ts"
  have frame: "handle_path_migration encode ts server_ip addr = be_bytes 2 0x200 @ ?wire"
    using assms(1)
    by (simp add: handle_path_migration_def encode_path_probe_response_def build_path_probe_response_def
        FramedMessage_to_bytes_def encode_message_def wire_encoder_def case_prod_beta)
  have port: "ucast (ucast (snd addr) :: u32) = snd addr"
    by (rule bit_word_eqI) (simp add: bit_simps)
  have small: "length ?wire < 2 ^ 63" using assms(2) by (simp add: reflected_def frame)
  have "parse_path_probe_response oc ?wire
      = Some (Ok \<lparr> ppr_observed_ip = fst addr, ppr_observed_port = snd addr \<rparr>)"
    using probe_loop_wire [OF _ _ small, of oc] assms(2) port
    by (simp add: parse_path_probe_response_def reflected_def)
  then show ?thesis
    using assms(2) by (simp add: probe_single_path_def reflected_def frame observed_result_def wire_simps)
qed

lemma collect_probes_reflected:
  assumes "wire_encoder encode"
    and "\<And>k. k < length ips \<Longrightarrow> reflected encode (ips ! k) (addr (i + k)) (ts (i + k)) (ans (i + k))"
  shows "collect_probes oc ans i ips
    = Some (Ok (map (\<lambda>k. observed_result (ips ! k) (addr (i + k)) (ans (i + k))) [0..<length ips]))"
  using assms(2)
proof (induction ips arbitrary: i)
  case (Cons ip ips)
  have "probe_single_path oc (ans i) ip = Some (Ok (observed_result ip (addr i) (ans i)))"
    using probe_single_path_reflected [OF assms(1)] Cons.prems [of 0] by simp
  moreover have "reflected encode (ips ! k) (addr (i + 1 + k)) (ts (i + 1 + k)) (ans (i + 1 + k))"
    if "k < length ips" for k
    using Cons.prems [of "Suc k"] that by simp
  then have "collect_probes oc ans (i + 1) ips
      = Some (Ok (map (\<lambda>k. observed_result (ips ! k) (addr (i + 1 + k)) (ans (i + 1 + k))) [0..<length ips]))"
    by (rule Cons.IH)
  moreover have "map (\<lambda>k. observed_result ((ip # ips) ! k) (addr (i + k)) (ans (i + k))) [0..<Suc (length ips)]
      = observed_result ip (addr i) (ans i)
        # map (\<lambda>k. observed_result (ips ! k) (addr (i + 1 + k)) (ans (i + 1 + k))) [0..<length ips]"
    by (simp add: map_upt_Suc del: upt_Suc)
  ultimately show ?case by (simp del: upt_Suc)
qed simp

section \<open>Properties\<close>

text \<open>C7: Probing against servers that reflect the observed address.  With at least three of them the
  probe succeeds.  The NAT is classified as a cone exactly if all servers saw one port; and if it
  allocates ports with a constant step, the prediction names the address the last server saw and its
  range contains the port the NAT allocates next, as long as that is a usable port.\<close>

theorem probing_predicts_next_port:
  fixes addr :: "nat \<Rightarrow> string \<times> u16"
  assumes enc: "wire_encoder encode" and cfg: "small_config (np_config p)"
    and ips: "ips = take (unat (path_probe_count (np_config p))) (signaling_server_ips (np_config p))"
      "3 \<le> length ips"
    and answers: "\<forall>k < length ips. reflected encode (ips ! k) (addr k) (ts k) (ans k)"
    and v4: "CHR '':'' \<notin> set (fst (addr 0))"
  shows "\<exists>info p'. nat_probe oc ans now_secs now_ms p = Some (p', Ok info)
    \<and> (info = cone_nat \<longleftrightarrow> (\<forall>k < length ips. snd (addr k) = snd (addr 0)))
    \<and> (\<forall>d nxt. d \<noteq> 0 \<and> (\<forall>k. Suc k < length ips \<longrightarrow>
           int (unat (snd (addr (Suc k)))) = int (unat (snd (addr k))) + d)
         \<and> nxt = int (unat (snd (addr (length ips - 1)))) + d \<and> 1024 \<le> nxt \<and> nxt \<le> 65535
       \<longrightarrow> nat_type info = SymmetricSequential
         \<and> (\<exists>pr. prediction info = Some pr \<and> external_ip pr = fst (addr (length ips - 1))
              \<and> int (unat (predicted_port_start pr)) \<le> nxt \<and> nxt \<le> int (unat (predicted_port_end pr))))"
proof -
  let ?n = "length ips"
  define results where "results = map (\<lambda>k. observed_result (ips ! k) (addr k) (ans k)) [0..<?n]"
  have len: "length results = ?n" and ne: "results \<noteq> []" using ips(2) by (auto simp: results_def)
  have hd: "hd results = observed_result (ips ! 0) (addr 0) (ans 0)"
    and last: "last results = observed_result (ips ! (?n - 1)) (addr (?n - 1)) (ans (?n - 1))"
    using ne ips(2) by (auto simp: hd_conv_nth last_conv_nth results_def)
  have v4': "CHR '':'' \<notin> set (npr_external_ip (hd results))" using v4 by (simp add: hd observed_result_def)
  have ports: "probe_ports results = map (\<lambda>k. snd (addr k)) [0..<?n]"
    by (simp add: probe_ports_def results_def observed_result_def)
  have collect: "collect_probes oc ans 0 ips = Some (Ok results)"
    using collect_probes_reflected [OF enc, of ips addr 0 ts ans oc] answers by (simp add: results_def)
  obtain info where info: "classify_nat oc now_secs results (np_config p) = Ok info"
    using classify_symmetric [OF cfg ne v4', of oc now_secs] classify_cone [OF ne v4', of oc now_secs "np_config p"] by blast
  have run: "nat_probe oc ans now_secs now_ms p
      = Some (p\<lparr>np_cache := Some (build_cache now_ms results info (np_config p))\<rparr>, Ok info)"
    using ips collect info len by (auto simp: nat_probe_def Let_def)
  have hd0: "hd (map (\<lambda>k. snd (addr k)) [0..<?n]) = snd (addr 0)"
    using ips(2) by (cases ips) (simp_all add: upt_conv_Cons del: upt_Suc)
  have cone: "info = cone_nat \<longleftrightarrow> (\<forall>k < ?n. snd (addr k) = snd (addr 0))"
    using cone_classification_iff [OF cfg ne v4', of oc now_secs] info ips(2)
      hd0 by (auto simp: ports_all_same_iff ports)
  have step: "nat_type info = SymmetricSequential \<and> (\<exists>pr. prediction info = Some pr
      \<and> external_ip pr = fst (addr (?n - 1))
      \<and> int (unat (predicted_port_start pr)) \<le> nxt \<and> nxt \<le> int (unat (predicted_port_end pr)))"
    if d: "d \<noteq> 0" "\<forall>k. Suc k < ?n \<longrightarrow> int (unat (snd (addr (Suc k)))) = int (unat (snd (addr k))) + d"
      and nxt: "nxt = int (unat (snd (addr (?n - 1)))) + d" "1024 \<le> nxt" "nxt \<le> 65535" for d nxt
  proof -
    have "port_deltas (probe_ports results) = replicate (?n - 1) d"
      using d(2) by (intro nth_equalityI) (auto simp: ports port_deltas_def windows2_def nth_tl)
    from classify_constant_step [OF cfg ne v4' d(1) _ this [folded len], of oc now_secs]
    have i: "info = \<lparr> nat_type = SymmetricSequential, prediction = Some (predicted_around now_secs (last results) d
        Sequential (int (margin_of (np_config p) Sequential))) \<rparr>"
      using info ips(2) len by simp
    have c: "nxt = int (unat (npr_external_port (last results))) + d" using nxt(1) by (simp add: last observed_result_def)
    show ?thesis
      using predicted_range(2,3) [OF c nxt(2,3) refl]
      by (simp add: i) (simp add: predicted_around_def Let_def last observed_result_def)
  qed
  show ?thesis
    by (rule exI [of _ info], rule exI, rule conjI [OF run], rule conjI [OF cone]) (use step in blast)
qed

text \<open>Three servers that see the ports 40000, 40002 and 40004 of one address.\<close>

definition sample_encode :: "PathProbeResponse \<Rightarrow> bytes" where
  "sample_encode r = probe_response_wire (pp_server_ip r) (pp_observed_ip r) (pp_observed_port r) (pp_timestamp_ms r)"

definition sample_addr :: "nat \<Rightarrow> string \<times> u16" where
  "sample_addr k = (''1.2.3.4'', 40000 + 2 * of_nat k)"

definition sample_probers :: NATProber where
  "sample_probers = NATProber_new (VoIPConfig_default\<lparr>signaling_server_ips := [''10.0.0.1'', ''10.0.0.2'', ''10.0.0.3'']\<rparr>)"

definition sample_reflections :: "nat \<Rightarrow> probe_answer" where
  "sample_reflections k =
     \<lparr> pa_open = OpenOk, pa_write = IoOk (),
       pa_read = ReadBytes (handle_path_migration sample_encode 0
         (signaling_server_ips (np_config sample_probers) ! k) (sample_addr k)),
       pa_rtt_ms = 20, pa_now_ms = 0 \<rparr>"

lemma sample_wire_length:
  assumes "server_ip \<in> {''10.0.0.1'', ''10.0.0.2'', ''10.0.0.3''}" and "port \<in> {40000, 40002, 40004}"
  shows "length (probe_response_wire server_ip ''1.2.3.4'' port 0) \<le> 1000"
proof -
  have "leb_encode 10 = [10]" "leb_encode 8 = [8]" "leb_encode 18 = [18]" "leb_encode 7 = [7]" "leb_encode 24 = [24]"
    by (simp_all add: leb_encode_small)
  moreover have "length (leb_encode 40000) \<le> 3" "length (leb_encode 40002) \<le> 3" "length (leb_encode 40004) \<le> 3"
    by (simp_all add: leb_encode.simps Let_def)
  ultimately show ?thesis
    using assms by (auto simp: probe_response_wire_def string_field_def varint_field_def)
qed

lemma sample_reflected:
  assumes "k < 3"
  shows "reflected sample_encode (signaling_server_ips (np_config sample_probers) ! k) (sample_addr k) 0
    (sample_reflections k)"
proof -
  have k: "k = 0 \<or> k = 1 \<or> k = 2" using assms by linarith
  define ip where "ip = signaling_server_ips (np_config sample_probers) ! k"
  define port :: u32 where "port = ucast (snd (sample_addr k))"
  have ip: "ip \<in> {''10.0.0.1'', ''10.0.0.2'', ''10.0.0.3''}" and port: "port \<in> {40000, 40002, 40004}"
    using k by (auto simp: ip_def port_def sample_probers_def NATProber_new_def sample_addr_def)
  have "utf8_valid (str_bytes ip)" using ip by (auto intro!: utf8_valid_ascii simp: str_bytes_def)
  moreover have "utf8_valid (str_bytes ''1.2.3.4'')" by (auto intro!: utf8_valid_ascii simp: str_bytes_def)
  moreover have "handle_path_migration sample_encode 0 ip (sample_addr k)
      = be_bytes 2 0x200 @ probe_response_wire ip ''1.2.3.4'' port 0"
    by (simp add: handle_path_migration_def encode_path_probe_response_def build_path_probe_response_def
        FramedMessage_to_bytes_def encode_message_def sample_encode_def sample_addr_def port_def)
  ultimately show ?thesis
    using sample_wire_length [OF ip port]
    by (simp add: reflected_def sample_reflections_def ip_def [symmetric] wire_simps)
      (simp add: sample_addr_def)
qed

theorem probing_predicts_next_port_witness:
  "\<exists>info p' pr. nat_probe True sample_reflections 7 7 sample_probers = Some (p', Ok info)
     \<and> nat_type info = SymmetricSequential \<and> prediction info = Some pr
     \<and> int (unat (predicted_port_start pr)) \<le> 40006 \<and> 40006 \<le> int (unat (predicted_port_end pr))"
proof -
  let ?ips = "[''10.0.0.1'', ''10.0.0.2'', ''10.0.0.3'']"
  have enc: "wire_encoder sample_encode" by (simp add: wire_encoder_def sample_encode_def)
  have cfg: "small_config (np_config sample_probers)"
    by (simp add: small_config_def sample_probers_def NATProber_new_def)
  have ips: "?ips = take (unat (path_probe_count (np_config sample_probers))) (signaling_server_ips (np_config sample_probers))"
    "3 \<le> length ?ips"
    by (simp_all add: sample_probers_def NATProber_new_def VoIPConfig_default_def)
  have answers: "\<forall>k < length ?ips. reflected sample_encode (?ips ! k) (sample_addr k) 0 (sample_reflections k)"
    using sample_reflected by (simp add: sample_probers_def NATProber_new_def)
  have v4: "CHR '':'' \<notin> set (fst (sample_addr 0))" by (simp add: sample_addr_def)
  have steps: "int (unat (snd (sample_addr (Suc k)))) = int (unat (snd (sample_addr k))) + 2" if "Suc k < length ?ips" for k
  proof -
    have "k = 0 \<or> k = 1" using that by auto
    then show ?thesis by (auto simp: sample_addr_def)
  qed
  have nxt: "40006 = int (unat (snd (sample_addr (length ?ips - 1)))) + 2" by (simp add: sample_addr_def)
  obtain info p' where r: "nat_probe True sample_reflections 7 7 sample_probers = Some (p', Ok info)"
    and seq: "\<And>d nxt. d \<noteq> 0 \<and> (\<forall>k. Suc k < length ?ips \<longrightarrow>
           int (unat (snd (sample_addr (Suc k)))) = int (unat (snd (sample_addr k))) + d)
         \<and> nxt = int (unat (snd (sample_addr (length ?ips - 1)))) + d \<and> 1024 \<le> nxt \<and> nxt \<le> 65535
       \<Longrightarrow> nat_type info = SymmetricSequential
         \<and> (\<exists>pr. prediction info = Some pr \<and> external_ip pr = fst (sample_addr (length ?ips - 1))
              \<and> int (unat (predicted_port_start pr)) \<le> nxt \<and> nxt \<le> int (unat (predicted_port_end pr)))"
    using probing_predicts_next_port [where ts = "\<lambda>_. 0" and oc = True and now_secs = 7 and now_ms = 7,
        OF enc cfg ips answers v4]
    by (elim exE conjE) (rule that, assumption, blast)
  have "(2 :: int) \<noteq> 0 \<and> (\<forall>k. Suc k < length ?ips \<longrightarrow>
         int (unat (snd (sample_addr (Suc k)))) = int (unat (snd (sample_addr k))) + 2)
       \<and> 40006 = int (unat (snd (sample_addr (length ?ips - 1)))) + 2 \<and> 1024 \<le> (40006 :: int) \<and> (40006 :: int) \<le> 65535"
    using steps nxt by simp
  from seq [OF this] r show ?thesis by blast
qed

end
