(* ===== verification/Sig_Server.thy ===== *)
theory Sig_Server
  imports Sig_Session Sig_Rest Sig_Probe
begin

text \<open>
  The signaling server as a process (\<open>src/crates/voip-signaling/src/server.rs\<close>, \<open>main.rs\<close>): how it is
  configured, built and started, and what runs in it: REST requests, WebSocket sessions with their
  forwarding tasks, and the two tasks that clean up the rate limiter.

  The result of binding the socket is an argument, and the signing key is part of the environment.
\<close>

section \<open>Configuration and builder\<close>

definition DEFAULT_PORT :: u16 where
  "DEFAULT_PORT = 8443"

record ServerConfig =
  sc_listen_addr :: string
  sc_rate_limits :: RateLimitConfig
  sc_server_ips :: "string list"
  sc_voip_config :: VoIPConfig

definition ServerConfig_default :: ServerConfig where
  "ServerConfig_default =
     \<lparr> sc_listen_addr = ''0.0.0.0:'' @ show_nat (unat DEFAULT_PORT),
       sc_rate_limits = RateLimitConfig_default, sc_server_ips = [],
       sc_voip_config = VoIPConfig_default \<rparr>"

text \<open>The signing key is generated if none was set.\<close>

record 'k SignalingServerBuilder =
  sb_config :: ServerConfig
  sb_signing_key :: "'k option"

definition SignalingServerBuilder_new :: "'k SignalingServerBuilder" where
  "SignalingServerBuilder_new = \<lparr> sb_config = ServerConfig_default, sb_signing_key = None \<rparr>"

definition builder_listen_addr :: "string \<Rightarrow> 'k SignalingServerBuilder \<Rightarrow> 'k SignalingServerBuilder" where
  "builder_listen_addr addr b = b\<lparr>sb_config := (sb_config b)\<lparr>sc_listen_addr := addr\<rparr>\<rparr>"

definition builder_rate_limits :: "RateLimitConfig \<Rightarrow> 'k SignalingServerBuilder \<Rightarrow> 'k SignalingServerBuilder" where
  "builder_rate_limits limits b = b\<lparr>sb_config := (sb_config b)\<lparr>sc_rate_limits := limits\<rparr>\<rparr>"

definition builder_server_ip :: "string \<Rightarrow> 'k SignalingServerBuilder \<Rightarrow> 'k SignalingServerBuilder" where
  "builder_server_ip ip b =
     b\<lparr>sb_config := (sb_config b)\<lparr>sc_server_ips := sc_server_ips (sb_config b) @ [ip]\<rparr>\<rparr>"

definition builder_server_ips :: "string list \<Rightarrow> 'k SignalingServerBuilder \<Rightarrow> 'k SignalingServerBuilder" where
  "builder_server_ips ips b = b\<lparr>sb_config := (sb_config b)\<lparr>sc_server_ips := ips\<rparr>\<rparr>"

definition builder_signing_key :: "'k \<Rightarrow> 'k SignalingServerBuilder \<Rightarrow> 'k SignalingServerBuilder" where
  "builder_signing_key key b = b\<lparr>sb_signing_key := Some key\<rparr>"

definition builder_voip_config :: "VoIPConfig \<Rightarrow> 'k SignalingServerBuilder \<Rightarrow> 'k SignalingServerBuilder" where
  "builder_voip_config cfg b = b\<lparr>sb_config := (sb_config b)\<lparr>sc_voip_config := cfg\<rparr>\<rparr>"

record ('p, 'c, 'k) SignalingServer =
  ss_config :: ServerConfig
  ss_signing_key :: 'k
  ss_state :: "('p, 'c) AppState"

definition builder_build ::
  "('p, 'c) server_env \<Rightarrow> 'k \<Rightarrow> 'k SignalingServerBuilder \<Rightarrow> ('p, 'c, 'k) SignalingServer" where
  "builder_build E generated b =
     (let signing_key = (case sb_signing_key b of Some key \<Rightarrow> key | None \<Rightarrow> generated);
          cfg = sb_config b in
      \<lparr> ss_config = cfg, ss_signing_key = signing_key,
        ss_state = AppState_new E (sc_rate_limits cfg) (sc_server_ips cfg) (sc_voip_config cfg) \<rparr>)"

text \<open>The probe server only reports what it would bind: the sockets it opens are none.\<close>

datatype QuicProbeError = BindFailed string | ProbeTlsError string | ProbeConnectionError string

definition QuicProbeServer_start ::
  "QuicProbeConfig \<Rightarrow> (string \<times> u16) list \<times> (unit, QuicProbeError) result" where
  "QuicProbeServer_start config = ([], Ok ())"

section \<open>The running server\<close>

text \<open>A session holds the peer it speaks for and the flag that its two tasks share.\<close>

record ('p, 'c) running_server =
  rs_state :: "('p, 'c) AppState"
  rs_sessions :: "(session \<times> string option \<times> bool) list"
  rs_next_session :: session
  rs_accepting :: bool
  rs_probe_sockets :: "(string \<times> u16) list"

definition DEFAULT_SERVER_IPS :: "string list" where
  "DEFAULT_SERVER_IPS = [''10.0.0.1'', ''10.0.0.2'', ''10.0.0.3'', ''10.0.0.4'', ''10.0.0.5'']"

definition main_config :: VoIPConfig where
  "main_config = VoIPConfig_default\<lparr>signaling_server_ips := DEFAULT_SERVER_IPS\<rparr>"

definition main_builder :: "'k SignalingServerBuilder" where
  "main_builder =
     builder_voip_config main_config
       (builder_server_ips DEFAULT_SERVER_IPS
         (builder_listen_addr ''0.0.0.0:8443'' SignalingServerBuilder_new))"

definition server_main ::
  "('p, 'c) server_env \<Rightarrow> 'k \<Rightarrow> (string \<Rightarrow> 'a option) \<Rightarrow> ('a \<Rightarrow> unit io) \<Rightarrow> (('p, 'c) running_server, unit) result" where
  "server_main E generated parse_addr bind =
     (let server = builder_build E generated main_builder in
      case parse_addr (sc_listen_addr (ss_config server)) of
        None \<Rightarrow> Panic
      | Some addr \<Rightarrow>
          let (sockets, _) = QuicProbeServer_start
                \<lparr> qp_server_ips = DEFAULT_SERVER_IPS, qp_port = 443, qp_max_connections = 100 \<rparr> in
          (case bind addr of
             IoErr _ \<Rightarrow> Panic
           | IoOk _ \<Rightarrow>
               Ok \<lparr> rs_state = ss_state server, rs_sessions = [], rs_next_session = 0,
                    rs_accepting = True, rs_probe_sockets = sockets \<rparr>))"

text \<open>What happens in the process.  The clean-up tasks tick independently, each with its own reading
  of the clock; the signal of an operator stops the acceptance of requests.\<close>

datatype server_event =
    HttpRequest moment rest_request
  | SessionEvent moment session ws_event
  | ForwardingEnds session
  | CleanupTick nat "buckets \<Rightarrow> nat"
  | ShutdownSignal

text \<open>The state after an event, and whether a task has panicked.  A task that panics ends without
  clean-up.\<close>

definition serve_request ::
  "('p, 'c, 'k) rest_env \<Rightarrow> moment \<Rightarrow> rest_request \<Rightarrow> ('p, 'c) running_server \<Rightarrow> ('p, 'c) running_server \<times> bool" where
  "serve_request E M req rs =
     (case router E M req (rs_state rs) of
        (st, Panic) \<Rightarrow> (rs\<lparr>rs_state := st\<rparr>, True)
      | (st, Ok (Upgraded p)) \<Rightarrow>
          (rs\<lparr>rs_state := st, rs_next_session := rs_next_session rs + 1,
              rs_sessions := (rs_next_session rs, Some p, False) # rs_sessions rs\<rparr>, False)
      | (st, _) \<Rightarrow> (rs\<lparr>rs_state := st\<rparr>, False))"

definition serve_session ::
  "('p, 'c) server_env \<Rightarrow> moment \<Rightarrow> session \<Rightarrow> ws_event \<Rightarrow> ('p, 'c) running_server \<Rightarrow> ('p, 'c) running_server \<times> bool" where
  "serve_session E M s ev rs =
     (case map_of (rs_sessions rs) s of
        None \<Rightarrow> (rs, False)
      | Some (holder, disconnected) \<Rightarrow>
          (case ws_turn E M s ev (holder, rs_state rs) of
             ((holder, st), Ok _, True) \<Rightarrow>
               (rs\<lparr>rs_state := st, rs_sessions := AList.update s (holder, disconnected) (rs_sessions rs)\<rparr>, False)
           | ((holder, st), Ok _, False) \<Rightarrow>
               let (_, _, st) = ws_cleanup E disconnected (holder, st) in
               (rs\<lparr>rs_state := st, rs_sessions := AList.delete s (rs_sessions rs)\<rparr>, False)
           | ((holder, st), _, _) \<Rightarrow>
               (rs\<lparr>rs_state := st, rs_sessions := AList.delete s (rs_sessions rs)\<rparr>, True)))"

definition end_forwarding ::
  "('p, 'c) server_env \<Rightarrow> session \<Rightarrow> ('p, 'c) running_server \<Rightarrow> ('p, 'c) running_server" where
  "end_forwarding E s rs =
     (case map_of (rs_sessions rs) s of
        None \<Rightarrow> rs
      | Some (holder, disconnected) \<Rightarrow>
          let (disconnected, holder, st) = ws_cleanup E disconnected (holder, rs_state rs) in
          rs\<lparr>rs_state := st, rs_sessions := AList.update s (holder, disconnected) (rs_sessions rs)\<rparr>)"

definition cleanup_tick ::
  "('p, 'c) server_env \<Rightarrow> nat \<Rightarrow> (buckets \<Rightarrow> nat) \<Rightarrow> ('p, 'c) running_server \<Rightarrow> ('p, 'c) running_server \<times> bool" where
  "cleanup_tick E now pick rs =
     (case cleanup (se_oc E) now pick (as_rate_limiter (rs_state rs)) of
        Ok limiter \<Rightarrow> (rs\<lparr>rs_state := (rs_state rs)\<lparr>as_rate_limiter := limiter\<rparr>\<rparr>, False)
      | _ \<Rightarrow> (rs, True))"

fun server_event_step ::
  "('p, 'c, 'k) rest_env \<Rightarrow> server_event \<Rightarrow> ('p, 'c) running_server \<Rightarrow> ('p, 'c) running_server \<times> bool" where
  "server_event_step E (HttpRequest M req) rs = (if rs_accepting rs then serve_request E M req rs else (rs, False))"
| "server_event_step E (SessionEvent M s ev) rs = serve_session (re_server E) M s ev rs"
| "server_event_step E (ForwardingEnds s) rs = (end_forwarding (re_server E) s rs, False)"
| "server_event_step E (CleanupTick now pick) rs = cleanup_tick (re_server E) now pick rs"
| "server_event_step E ShutdownSignal rs = (rs\<lparr>rs_accepting := False\<rparr>, False)"

fun server_run ::
  "('p, 'c, 'k) rest_env \<Rightarrow> server_event list \<Rightarrow> ('p, 'c) running_server \<Rightarrow> ('p, 'c) running_server \<times> bool" where
  "server_run E [] rs = (rs, False)"
| "server_run E (ev # evs) rs =
     (let (rs, panicked) = server_event_step E ev rs; (rs, later) = server_run E evs rs
      in (rs, panicked \<or> later))"

section \<open>REST requests are atomic steps\<close>

context op_closed
begin

lemma check_rule:
  "(\<And>l a. ra = Ok (l, a) \<Longrightarrow> I (fst (fa l a))) \<Longrightarrow> (\<And>e. ra = Err e \<Longrightarrow> I (fst (fe e)))
    \<Longrightarrow> (ra = Panic \<Longrightarrow> I (fst fp))
    \<Longrightarrow> I (fst (case ra of Ok v \<Rightarrow> (case v of (l, a) \<Rightarrow> fa l a) | Err e \<Rightarrow> fe e | Panic \<Rightarrow> fp))"
  by (auto split: result.splits prod.splits)

lemma rest_handlers:
  assumes R: "re_server R = E" and I: "I st"
  shows "I (fst (rest_register_peer R M body st))" and "I (fst (rest_update_peer R M auth p body st))"
    and "I (fst (rest_unregister_peer R auth p st))"
    and "I (fst (rest_get_peer R p st))" and "I (fst (rest_get_peer_status R p st))"
    and "I (fst (rest_lookup_peer R u st))" and "I (fst (rest_issue_proxy_token R M tr st))"
proof -
  show "I (fst (rest_register_peer R M body st))"
    unfolding rest_register_peer_def Let_def R using I by (intro check_rule state_rules keep)
  show "I (fst (rest_update_peer R M auth p body st))"
    unfolding rest_update_peer_def Let_def R using I by (intro state_rules keep)
  show "I (fst (rest_unregister_peer R auth p st))"
    unfolding rest_unregister_peer_def R using I by (intro state_rules keep)
  show "I (fst (rest_get_peer R p st))"
    unfolding rest_get_peer_def R using I by (intro state_rules keep)
  show "I (fst (rest_get_peer_status R p st))"
    unfolding rest_get_peer_status_def R using I by (intro state_rules keep)
  show "I (fst (rest_lookup_peer R u st))"
    using I by (simp add: rest_lookup_peer_def split: option.split prod.split)
  show "I (fst (rest_issue_proxy_token R M tr st))"
    unfolding rest_issue_proxy_token_def Let_def R using I by (intro state_rules keep)
qed

lemma with_arg: "I st \<Longrightarrow> (\<And>x. I (fst (f x))) \<Longrightarrow> I (fst (with_arg y f st))"
  by (cases y) (simp_all add: with_arg_def)

lemma request: "re_server R = E \<Longrightarrow> I st \<Longrightarrow> I (fst (router R M req st))"
  unfolding router_def dispatch_route_def Let_def
  by (auto split: result.split Route.split intro!: with_arg rest_handlers)

lemma ws_cleanup_keeps: "I st \<Longrightarrow> I (snd (snd (ws_cleanup E d (h, st))))"
  by (simp add: ws_cleanup_def ops split: option.split)

lemma event_keeps:
  assumes R: "re_server R = E" and I: "I (rs_state rs)"
  shows "I (rs_state (fst (server_event_step R ev rs)))"
proof (cases ev)
  case (HttpRequest M req)
  obtain st r where "router R M req (rs_state rs) = (st, r)" by fastforce
  then show ?thesis
    using request [OF R I, of M req] I
    by (auto simp: HttpRequest serve_request_def split: result.split rest_response.split)
next
  case (SessionEvent M s e)
  show ?thesis
  proof (cases "map_of (rs_sessions rs) s")
    case (Some hd)
    obtain h d where hd: "hd = (h, d)" by (cases hd)
    obtain h' st r g where t: "ws_turn E M s e (h, rs_state rs) = ((h', st), r, g)" by (metis prod.exhaust)
    have "I st" using turn [OF I, of M s e h] t by simp
    then show ?thesis
      using ws_cleanup_keeps [of st d h']
      by (auto simp: SessionEvent R serve_session_def Some hd t Let_def case_prod_beta split: result.split bool.split)
  qed (simp add: SessionEvent serve_session_def I)
next
  case (ForwardingEnds s)
  then show ?thesis
    using I ws_cleanup_keeps [OF I] R
    by (auto simp: end_forwarding_def Let_def case_prod_beta split: option.split)
next
  case (CleanupTick now pick)
  then show ?thesis
    using I R closed [OF I step_cleanup] by (auto simp: cleanup_tick_def split: result.split)
qed (simp add: I)

lemma run_keeps: "re_server R = E \<Longrightarrow> I (rs_state rs) \<Longrightarrow> I (rs_state (fst (server_run R evs rs)))"
  by (induction evs arbitrary: rs) (auto simp: case_prod_beta event_keeps)

end

section \<open>No task panics\<close>

text \<open>The libraries return, and the clock is not at the end of its range.\<close>

definition json_returns :: "('p, 'c, 'k) rest_env \<Rightarrow> bool" where
  "json_returns E \<longleftrightarrow> (\<forall>claims. re_to_json E claims \<noteq> Panic) \<and> (\<forall>bs. re_from_json E bs \<noteq> Panic)"

fun clock_fits :: "VoIPConfig \<Rightarrow> server_event \<Rightarrow> bool" where
  "clock_fits cfg (HttpRequest M req) \<longleftrightarrow> unat (mo_now_secs M) + unat (jwt_expiry_secs cfg) < 2 ^ 64"
| "clock_fits cfg _ \<longleftrightarrow> True"

lemma base64url_returns: "base64url_decode input \<noteq> Panic"
proof -
  have "base64url_loop buffer bits res bs \<noteq> Panic" for buffer bits res bs
    by (induction bs arbitrary: buffer bits res) (auto simp: Let_def)
  then show ?thesis by (simp add: base64url_decode_def)
qed

lemma verify_jwt_returns:
  "json_returns E \<Longrightarrow> verify_jwt (re_from_json E) (re_ed_verify E) now token \<noteq> Panic"
  by (auto simp: verify_jwt_def json_returns_def base64url_returns split: list.split result.split)

lemma create_jwt_returns:
  "json_returns E \<Longrightarrow> unat now + unat expiry < 2 ^ 64 \<Longrightarrow> create_jwt oc (re_to_json E) sign now p expiry \<noteq> Panic"
  by (auto simp: create_jwt_def json_returns_def checked_add_def Let_def split: result.split)

lemma rest_handlers_return:
  "snd (rest_update_peer E M auth p body st) \<noteq> Panic" "snd (rest_unregister_peer E auth p st) \<noteq> Panic"
  "snd (rest_get_peer E p st) \<noteq> Panic" "snd (rest_get_peer_status E p st) \<noteq> Panic"
  "snd (rest_lookup_peer E u st) \<noteq> Panic" "snd (rest_issue_proxy_token E M tr st) \<noteq> Panic"
  by (auto simp: rest_update_peer_def rest_unregister_peer_def rest_get_peer_def rest_get_peer_status_def
      rest_lookup_peer_def rest_issue_proxy_token_def register_peer_def unregister_peer_def Let_def
      split: prod.split option.split)

text \<open>A set of states that is closed under the steps of the server, and in which neither the rate
  limiter nor the computation of a retry delay fails.\<close>

locale server_safe = op_closed E I for E :: "('p, 'c) server_env" and I +
  fixes cfg :: VoIPConfig
  assumes config: "I st \<Longrightarrow> as_config st = cfg"
    and checks: "I st \<Longrightarrow> \<exists>l a. rate_check act now p (as_rate_limiter st) = Ok (l, a)"
    and cleanups: "I st \<Longrightarrow> \<exists>l. cleanup (se_oc E) now pick (as_rate_limiter st) = Ok l"
    and retries: "n < push_retry_max_attempts cfg
      \<Longrightarrow> \<exists>d. res_bind (retry_delay_secs (se_oc E) cfg (n + 1))
            (\<lambda>d. checked_mul (se_oc E) d 1000) = Ok d"
begin

definition safe :: "('p, 'c) conn \<times> (unit, unit) result \<Rightarrow> bool" where
  "safe x \<longleftrightarrow> I (snd (fst x)) \<and> snd x = Ok ()"

lemma check_total:
  assumes "I st"
  shows "\<exists>l a. check_ws_message now p (as_rate_limiter st) = Ok (l, a)"
    and "\<exists>l a. check_registration now p (as_rate_limiter st) = Ok (l, a)"
    and "\<exists>l a. check_call now p (as_rate_limiter st) = Ok (l, a)"
  using checks [OF assms, of WsMessage now p] checks [OF assms, of Registration now p]
    checks [OF assms, of Call now p]
  by simp_all

lemma safe_rules:
  "I st \<Longrightarrow> safe ((h, st), Ok ())"
  "(b \<Longrightarrow> safe x) \<Longrightarrow> (\<not> b \<Longrightarrow> safe y) \<Longrightarrow> safe (if b then x else y)"
  "(o1 = None \<Longrightarrow> safe n) \<Longrightarrow> (\<And>v. o1 = Some v \<Longrightarrow> safe (f v)) \<Longrightarrow> safe (case o1 of None \<Rightarrow> n | Some v \<Rightarrow> f v)"
  "(\<And>v. r1 = Ok v \<Longrightarrow> safe (fo v)) \<Longrightarrow> (\<And>e. r1 = Err e \<Longrightarrow> safe (fe e)) \<Longrightarrow> (r1 = Panic \<Longrightarrow> safe fp)
    \<Longrightarrow> safe (case r1 of Ok v \<Rightarrow> fo v | Err e \<Rightarrow> fe e | Panic \<Rightarrow> fp)"
  "I (fst xx) \<Longrightarrow> (\<And>st' v. xx = (st', v) \<Longrightarrow> I st' \<Longrightarrow> safe (ff st' v)) \<Longrightarrow> safe (case xx of (st', v) \<Rightarrow> ff st' v)"
  "\<exists>l a. ra = Ok (l, a) \<Longrightarrow> (\<And>l a. ra = Ok (l, a) \<Longrightarrow> safe (fa l a))
    \<Longrightarrow> safe (case ra of Ok v \<Rightarrow> (case v of (l, a) \<Rightarrow> fa l a) | Err e \<Rightarrow> fe e | Panic \<Rightarrow> fp)"
  by (auto simp: safe_def split: option.splits result.splits prod.splits)

lemma create_call_returns: "create_call E call st \<noteq> (st', Panic)"
  by (auto simp: create_call_def)

lemma retry_returns:
  assumes "I st"
  shows "snd (handle_retryable_failure E M k p q reason other n st) = Ok ()"
proof (cases "push_retry_max_attempts (as_config st) \<le> n")
  case False
  then obtain d where "res_bind (retry_delay_secs (se_oc E) (as_config st) (n + 1))
      (\<lambda>d. checked_mul (se_oc E) d 1000) = Ok d"
    using retries [of n] config [OF assms] by (auto simp: not_le)
  with False show ?thesis
    by (simp add: handle_retryable_failure_def Let_def split: prod.split option.split)
qed (simp add: handle_retryable_failure_def)

lemma follow_up_returns:
  assumes "failure_follow_up E M k reason c other st = (st', r)" and "I st"
  shows "r = Ok ()"
proof -
  obtain st1 r1 where c: "coordinate_masque_relay E M k (CallEntry.cl_caller_id c) (cl_callee_id c) st = (st1, r1)"
    by fastforce
  then have "I st1" using relay [OF assms(2), of M k "cl_caller_id c" "cl_callee_id c"] by simp
  then have "snd (failure_follow_up E M k reason c other st) = Ok ()"
    using c retry_returns [OF assms(2)] retry_returns [of st1]
    by (auto simp: failure_follow_up_def Let_def split: result.split)
  then show ?thesis using assms(1) by simp
qed

lemmas safe_intros = safe_rules check_total keep

lemma safe_register: "I st \<Longrightarrow> safe (ws_handle_peer_register E M s pl (h, st))"
  unfolding ws_handle_peer_register_def Let_def prod.case by (intro safe_intros)

lemma safe_unregister: "I st \<Longrightarrow> safe (ws_handle_peer_unregister E pl (h, st))"
  unfolding ws_handle_peer_unregister_def Let_def prod.case by (intro safe_intros)

lemma safe_request: "I st \<Longrightarrow> safe (ws_handle_call_request E M s pl (h, st))"
  unfolding ws_handle_call_request_def Let_def prod.case
  by (intro safe_intros) (simp_all add: fresh_call_def create_call_returns)

lemma safe_accept: "I st \<Longrightarrow> safe (ws_handle_call_accept E M s pl (h, st))"
  unfolding ws_handle_call_accept_def Let_def prod.case by (intro safe_intros)

lemma safe_reject: "I st \<Longrightarrow> safe (ws_handle_call_reject E M s pl (h, st))"
  unfolding ws_handle_call_reject_def Let_def prod.case by (intro safe_intros)

lemma safe_failed: "I st \<Longrightarrow> safe (ws_handle_call_failed E M s pl (h, st))"
  unfolding ws_handle_call_failed_def Let_def prod.case
  by (intro safe_intros follow_up) (auto dest: follow_up_returns)

lemma safe_ended: "I st \<Longrightarrow> safe (ws_handle_call_ended E M s pl (h, st))"
  unfolding ws_handle_call_ended_def Let_def prod.case by (intro safe_intros)

lemma safe_dispatch: "I st \<Longrightarrow> safe (dispatch_ws_message E M s framed (h, st))"
  unfolding dispatch_ws_message_def Let_def
  by (simp add: safe_register safe_unregister safe_request safe_accept safe_reject safe_failed safe_ended
      safe_rules(1) reply)

lemma turn_returns:
  assumes "I st" and "ws_turn E M s ev (h, st) = (conn, r, go)"
  shows "r = Ok ()" and "I (snd conn)"
proof -
  have d: "snd (dispatch_ws_message E M s f (h', st')) = Ok ()" if "I st'" for f h' st'
    using safe_dispatch [OF that, of M s f h'] by (simp add: safe_def)
  show "I (snd conn)" using turn [OF assms(1), of M s ev h] assms(2) by simp
  show "r = Ok ()"
  proof (cases h)
    case None
    then show ?thesis
      using assms(2) d [OF assms(1)]
      by (auto simp: ws_turn_def split: ws_event.splits if_splits option.splits prod.splits)
        (metis snd_conv)+
  next
    case (Some p)
    obtain l a where c: "check_ws_message (mo_instant M) p (as_rate_limiter st) = Ok (l, a)"
      using check_total(1) [OF assms(1)] by blast
    then have "I (st\<lparr>as_rate_limiter := l\<rparr>)" by (rule ops(7) [OF assms(1)])
    from d [OF this] show ?thesis
      using assms(2) Some c
      by (auto simp: ws_turn_def Let_def split: ws_event.splits if_splits option.splits prod.splits)
        (metis snd_conv)+
  qed
qed

lemma register_returns:
  assumes "re_server R = E" and "I st" and "json_returns R" and "unat (mo_now_secs M) + unat (jwt_expiry_secs cfg) < 2 ^ 64"
  shows "snd (rest_register_peer R M body st) \<noteq> Panic"
proof -
  obtain l a where c: "check_registration (mo_instant M) (rp_peer_id body) (as_rate_limiter st) = Ok (l, a)"
    using check_total(2) [OF assms(2)] by blast
  have i: "I (st\<lparr>as_rate_limiter := l\<rparr>)" by (rule ops(8) [OF assms(2) c])
  have r: "snd (register_peer E info None st') = Ok ()" for info st'
    by (simp add: register_peer_def split: option.split)
  have g: "as_config (fst (register_peer E info None (st\<lparr>as_rate_limiter := l\<rparr>))) = cfg" for info
    by (rule config [OF ops(1) [OF i]])
  show ?thesis
    using create_jwt_returns [OF assms(3,4)]
    by (simp add: rest_register_peer_def assms(1) c Let_def case_prod_beta r g split: result.split)
qed

lemma request_returns:
  assumes "re_server R = E" and "I st" and "json_returns R" and "clock_fits cfg (HttpRequest M req)"
  shows "snd (router R M req st) \<noteq> Panic"
proof -
  have "auth_middleware R M req \<noteq> Panic"
    using verify_jwt_returns [OF assms(3)] by (auto simp: auth_middleware_def split: option.split result.split)
  moreover have "snd (with_arg x f st) \<noteq> Panic" if "\<And>y. snd (f y) \<noteq> Panic" for x and f :: "'x \<Rightarrow> ('p, 'c) handler_result"
    using that by (cases x) (simp_all add: with_arg_def)
  note with_arg = this
  have "snd (dispatch_route R M auth req st) \<noteq> Panic" for auth
    using register_returns [OF assms(1-3)] assms(4) verify_jwt_returns [OF assms(3)]
    by (auto simp: dispatch_route_def Let_def rest_handlers_return ws_upgrade_def no_panic
        split: Route.split intro!: with_arg)
  ultimately show ?thesis by (auto simp: router_def split: result.split)
qed

lemma event_returns:
  assumes "re_server R = E" and "I (rs_state rs)" and "json_returns R" and "clock_fits cfg ev"
  shows "\<not> snd (server_event_step R ev rs)"
proof (cases ev)
  case (HttpRequest M req)
  obtain st r where "router R M req (rs_state rs) = (st, r)" by fastforce
  moreover from this have "r \<noteq> Panic"
    using request_returns [OF assms(1-3), of M req] assms(4) HttpRequest by simp
  ultimately show ?thesis
    by (auto simp: HttpRequest serve_request_def split: result.split rest_response.split)
next
  case (SessionEvent M s e)
  show ?thesis
  proof (cases "map_of (rs_sessions rs) s")
    case (Some hd)
    obtain h d where hd: "hd = (h, d)" by (cases hd)
    obtain h' st r g where t: "ws_turn E M s e (h, rs_state rs) = ((h', st), r, g)" by (metis prod.exhaust)
    then have "r = Ok ()" by (rule turn_returns(1) [OF assms(2)])
    then show ?thesis
      by (simp add: SessionEvent assms(1) serve_session_def Some hd t case_prod_beta split: bool.split)
  qed (simp add: SessionEvent serve_session_def)
next
  case (CleanupTick now pick)
  then show ?thesis
    using cleanups [OF assms(2), of now pick] by (auto simp: assms(1) cleanup_tick_def)
qed simp_all

lemma run_returns:
  "re_server R = E \<Longrightarrow> I (rs_state rs) \<Longrightarrow> json_returns R \<Longrightarrow> list_all (clock_fits cfg) evs
     \<Longrightarrow> \<not> snd (server_run R evs rs)"
  by (induction evs arbitrary: rs) (auto simp: case_prod_beta event_keeps event_returns)

end

section \<open>The server that \<open>main\<close> starts\<close>

definition server_ok :: "VoIPConfig \<Rightarrow> ('p, 'c) AppState \<Rightarrow> bool" where
  "server_ok cfg st \<longleftrightarrow> limiter_ok (as_rate_limiter st) \<and> as_proxies st = [] \<and> as_config st = cfg
     \<and> as_dht_bootstrap st = dht_bootstrap_nodes cfg"

lemma server_ok_step:
  assumes "server_ok cfg st" and "atomic_step E st st'"
  shows "server_ok cfg st'"
  using assms(2)
proof cases
  case (step_check act now p limiter allowed)
  then show ?thesis using assms(1) limiter_ok_check [of "as_rate_limiter st" act now p] by (auto simp: server_ok_def)
next
  case (step_cleanup now pick limiter)
  then show ?thesis
    using assms(1) limiter_ok_cleanup [of "as_rate_limiter st" "se_oc E" now pick] by (auto simp: server_ok_def)
qed (use assms(1) in \<open>auto simp: server_ok_def app_state_ops limiter_ok_remove_peer Let_def
    split: option.splits prod.splits\<close>)

lemma main_retries:
  assumes "n < push_retry_max_attempts main_config"
  shows "\<exists>d. res_bind (retry_delay_secs oc main_config (n + 1)) (\<lambda>d. checked_mul oc d 1000) = Ok d"
proof -
  have "unat n < 3" using assms by (simp add: main_config_def VoIPConfig_default_def word_less_nat_alt)
  then have "unat n = 0 \<or> unat n = 1 \<or> unat n = 2" by linarith
  then have "n = 0 \<or> n = 1 \<or> n = 2" by (auto simp: word_unat_eq_iff)
  then show ?thesis
    by (auto simp: retry_delay_secs_def main_config_def VoIPConfig_default_def checked_pow_def checked_mul_def Let_def)
qed

interpretation main_server: server_safe E "server_ok main_config" main_config for E
proof
  fix st :: "('a, 'b) AppState" and act now p
  assume "server_ok main_config st"
  then have "limiter_ok (as_rate_limiter st)" by (simp add: server_ok_def)
  from limiter_ok_check [OF this] show "\<exists>l a. rate_check act now p (as_rate_limiter st) = Ok (l, a)" by blast
next
  fix st :: "('a, 'b) AppState" and now pick
  assume "server_ok main_config st"
  then have "limiter_ok (as_rate_limiter st)" by (simp add: server_ok_def)
  from limiter_ok_cleanup [OF this] show "\<exists>l. cleanup (se_oc E) now pick (as_rate_limiter st) = Ok l" by blast
qed (rule server_ok_step, assumption+, simp add: server_ok_def, rule main_retries)

lemma main_state:
  assumes "server_main E key parse_addr bind = Ok rs"
  shows "rs_state rs = AppState_new E RateLimitConfig_default DEFAULT_SERVER_IPS main_config"
    and "rs_probe_sockets rs = []" and "rs_accepting rs" and "rs_sessions rs = []"
  using assms
  by (auto simp: server_main_def builder_build_def main_builder_def builder_voip_config_def builder_server_ips_def
      builder_listen_addr_def SignalingServerBuilder_new_def ServerConfig_default_def QuicProbeServer_start_def
      Let_def split: option.splits io.splits)

lemma server_ok_start: "server_ok main_config (AppState_new E RateLimitConfig_default ips main_config)"
  by (simp add: server_ok_def AppState_new_def limiter_ok_new RateLimitConfig_default_def bucket_config_ok_def
      BucketConfig_CALLS_def BucketConfig_REGISTRATIONS_def BucketConfig_WS_MESSAGES_def)

lemma run_keeps_sockets: "rs_probe_sockets (fst (server_run E evs rs)) = rs_probe_sockets rs"
proof (induction evs arbitrary: rs)
  case (Cons ev evs)
  have "rs_probe_sockets (fst (server_event_step E ev rs)) = rs_probe_sockets rs"
    by (cases ev) (auto simp: serve_request_def serve_session_def end_forwarding_def cleanup_tick_def case_prod_beta
        split: prod.split result.split rest_response.split option.split bool.split)
  then show ?case by (simp add: case_prod_beta Cons.IH)
qed simp

section \<open>Properties\<close>

text \<open>C12: the server that \<open>main\<close> starts keeps running.  Whatever requests, session messages, ends of
  forwarding tasks and clean-up ticks it sees, in any order, no task panics, with and without overflow
  checks; the registries stay keyed by the identifiers of their entries with calls in a legal state,
  and the rate limiter well-formed.  It never learns of a proxy or of a bootstrap node, so asking for a
  relay always fails with \<open>MasqueNoProxy\<close> and leaves the state as it is; and no probe socket is open.\<close>

theorem main_server_runs:
  assumes "registries (re_server E) plook clook" and "json_returns E"
    and "server_main (re_server E) key parse_addr bind = Ok rs0"
    and "list_all (clock_fits main_config) evs"
    and "server_run E evs rs0 = (rs, panicked)"
  shows "\<not> panicked \<and> entries_ok plook clook (rs_state rs) \<and> limiter_ok (as_rate_limiter (rs_state rs))
    \<and> rest_get_proxies (rs_state rs) = ProxiesJson [] \<and> rest_dht_bootstrap (rs_state rs) = BootstrapJson []
    \<and> coordinate_masque_relay (re_server E) M call_id caller callee (rs_state rs) = (rs_state rs, Err MasqueNoProxy)
    \<and> rs_probe_sockets rs = []"
proof -
  note m = main_state [OF assms(3)]
  have ok0: "server_ok main_config (rs_state rs0)" using m(1) server_ok_start by simp
  have ok: "server_ok main_config (rs_state rs)"
    using main_server.run_keeps [where R = E and evs = evs, OF refl ok0] assms(5) by simp
  have "(registry_step (re_server E))\<^sup>*\<^sup>* (rs_state rs0) (rs_state rs)"
    using steps.run_keeps [where R = E and evs = evs and rs = rs0, OF refl rtranclp.rtrancl_refl] assms(5) by simp
  then have "entries_ok plook clook (rs_state rs)"
    unfolding m(1) by (rule registries.entries_ok_reachable [OF assms(1)])
  moreover have "\<not> panicked"
    using main_server.run_returns [OF refl ok0 assms(2,4)] assms(5) by simp
  moreover have "rs_probe_sockets rs = []"
    using run_keeps_sockets [of E evs rs0] m(2) assms(5) by simp
  ultimately show ?thesis
    using ok by (simp add: server_ok_def rest_get_proxies_def rest_dht_bootstrap_def get_proxies_def
        get_dht_bootstrap_def coordinate_masque_relay_def send_relay_needed_def Sig_Relay.select_proxy_def main_config_def
        VoIPConfig_default_def)
qed

definition sample_start :: "(PeerEntry lru_list, CallEntry lru_list) running_server" where
  "sample_start = \<lparr> rs_state = AppState_new (re_server sample_rest_env) RateLimitConfig_default DEFAULT_SERVER_IPS main_config,
     rs_sessions = [], rs_next_session = 0, rs_accepting = True, rs_probe_sockets = [] \<rparr>"

definition sample_events :: "server_event list" where
  "sample_events = [HttpRequest (rest_moment 100) (sample_request POST ''/v1/peers''), CleanupTick 5 (\<lambda>_. 0),
     SessionEvent (rest_moment 101) 0 WsClose, ShutdownSignal, HttpRequest (rest_moment 102) (sample_request GET ''/v1/proxies'')]"

theorem main_server_runs_witness:
  "\<not> snd (server_run sample_rest_env sample_events sample_start)
   \<and> rest_get_proxies (rs_state (fst (server_run sample_rest_env sample_events sample_start))) = ProxiesJson []"
proof -
  have "json_returns sample_rest_env" by (simp add: json_returns_def sample_rest_env_def)
  moreover have "server_main (re_server sample_rest_env) () Some (\<lambda>_. IoOk ()) = Ok sample_start"
    by (simp add: server_main_def builder_build_def main_builder_def builder_voip_config_def builder_server_ips_def
        builder_listen_addr_def SignalingServerBuilder_new_def ServerConfig_default_def QuicProbeServer_start_def
        sample_start_def)
  moreover have "list_all (clock_fits main_config) sample_events"
    by (simp add: sample_events_def rest_moment_def main_config_def VoIPConfig_default_def)
  ultimately show ?thesis
    using main_server_runs [OF sample_rest_registries _ _ _ prod.collapse [symmetric],
        of "()" Some "\<lambda>_. IoOk ()" sample_start sample_events]
    by simp
qed

end
