(* ===== verification/Spec2Isabelle.thy ===== *)
theory Spec2Isabelle
  imports Call_State Core_Crypto Moq_Session Masque_Bridge Nat_Probe Sig_Session Sig_Rest Push_Retry
    Port_Probe Dht_Discovery Dht_Startup Audio_Pipeline Connection_Manager Migration Client_Caches
    Client_App Voip_Cli Cli_Session Sig_Probe Sig_Server
begin

text \<open>
  Verification of the Three Pillars VoIP workspace (\<open>src/crates\<close>, wire formats in \<open>src/proto\<close>).

  \<^bold>\<open>The program.\<close>  Peers call each other directly where their NATs allow it and through volunteer relays
  where they do not.  \<open>voip-core\<close> holds configuration, value types, the call state machine and peer
  identifiers; \<open>voip-client\<close> probes the NAT, establishes, migrates and relays connections, and carries
  audio in MoQ datagrams; \<open>voip-signaling\<close> is the server where peers register and find each other, over
  REST and WebSocket sessions; \<open>voip-dht\<close> is the distributed alternative to it; \<open>voip-ffi\<close> and
  \<open>voip-cli\<close> are the ways in.

  \<^bold>\<open>Conventions.\<close>  Theory \<open>Voip_Prelude\<close> fixes them.  Machine integers are words of their width, and
  arithmetic that can overflow takes the flag \<open>oc\<close> of a build with overflow checks.  A fallible function
  returns a \<open>result\<close>, whose third value is a panic; a loop that may not end is a partial function into
  \<open>option\<close>, \<open>None\<close> meaning that it does not return, or runs over the list of events it is given.  Stateful code
  takes and returns its state as a record.  A clock reading, an answer of the network, a choice of the
  scheduler or of an iteration order is an argument.  Code outside the workspace (QUIC, TLS, HTTP,
  protobuf, JSON, Ed25519, SHA-256, Opus, Kademlia, the LRU cache) is an argument as well, and a theorem that
  relies on it states the documented behaviour it needs as a hypothesis.  Interleavings are sequences of
  the operations that run under one lock.

  \<^bold>\<open>Core (\<open>voip-core\<close>).\<close>
  \<^item> \<open>Core_Types\<close>: the enumerations and their wire numbers (\<open>types.rs\<close>), with the locale \<open>proto_enum\<close>
    for the conversions.
  \<^item> \<open>Core_Config\<close>: configuration, retry delays and the error type (\<open>config.rs\<close>, \<open>error.rs\<close>).
  \<^item> \<open>Call_State\<close>: the call state machine (\<open>state.rs\<close>): it implements the documented life cycle, keeps
    its invariant, and every call ends after a bounded number of transitions.
  \<^item> \<open>Core_Crypto\<close>: hexadecimal peer identifiers (\<open>crypto.rs\<close>).

  \<^bold>\<open>Formats.\<close>  \<open>Utf8\<close> (lossy and strict decoding), \<open>Leb128\<close>, \<open>Base64\<close>, and in the theories of their users
  the MoQ variable-length integers, capsules, tokens and frames.  The locale \<open>prefix_codec\<close> states what a
  self-delimiting format promises; each is an interpretation of it.

  \<^bold>\<open>Client (\<open>voip-client\<close>).\<close>
  \<^item> \<open>Moq_Codec\<close>, \<open>Moq_Session\<close>: datagrams, set-up messages and the session (\<open>moq.rs\<close>): round trips, the
    handshake completes, session invariants, exact reception statistics.
  \<^item> \<open>Tls_Config\<close>: the TLS and QUIC configurations of debug and release builds (\<open>tls.rs\<close>).
  \<^item> \<open>Masque_Tunnel\<close>: capsules, proxy addresses, the handshakes stage by stage, tunnels and their recovery;
    \<open>Masque_Bridge\<close>: the tasks that carry datagrams between a loopback QUIC connection and an HTTP/2 stream
    (both \<open>masque.rs\<close>): which datagrams get through.
  \<^item> \<open>Probe_Response\<close>, \<open>Nat_Probe\<close>: the probe reader, classification, prediction and cache
    (\<open>nat_probe.rs\<close>); \<open>Port_Probe\<close>: the dialing of a predicted range (\<open>probe.rs\<close>).
  \<^item> \<open>Connection_Race\<close>: Happy Eyeballs and simultaneous open with their tasks; \<open>Connection_Manager\<close>: the
    fallback chain (both \<open>connection.rs\<close>), and that a release build never gets to the end of it by HTTP/2;
    \<open>Migration\<close>: network changes (\<open>migration.rs\<close>).
  \<^item> \<open>Push_Retry\<close>: the retry scheduler and the client error type (\<open>push_retry.rs\<close>, \<open>error.rs\<close>).
  \<^item> \<open>Proxy_Token\<close>, \<open>Proxy_Node\<close>: relay tokens, limits, certificates, recovery order and cache
    (\<open>proxy.rs\<close>).
  \<^item> \<open>Audio_Pipeline\<close>: the Opus wrapper and the jitter buffer (\<open>audio.rs\<close>, \<open>pipeline.rs\<close>).
  \<^item> \<open>Client_Caches\<close>: the address book refines a timed map, the ticket store hands out fresh tickets
    once, and its configurations never verify (\<open>peer_cache.rs\<close>, \<open>session_store.rs\<close>).
  \<^item> \<open>Client_App\<close>: the client object and the mobile bindings (\<open>client.rs\<close>, \<open>voip-ffi/src/lib.rs\<close>).
  \<^item> \<open>Peer_Runtime\<close>: identities, registration and lookup, and the HTTP client (\<open>peer.rs\<close>,
    \<open>signaling_client.rs\<close>), composed with the modelled server; \<open>Voip_Cli\<close>: the identity file and the
    commands that keep it; \<open>Cli_Session\<close>: the accept loop, listening and calling, and the entry point
    (\<open>voip-cli\<close>).

  \<^bold>\<open>Signaling server (\<open>voip-signaling\<close>).\<close>
  \<^item> \<open>Rate_Limit\<close>: token buckets (\<open>rate_limit.rs\<close>): nobody gets more than the bucket and its refills in
    any interleaving, and evicting stale buckets is not observable.  The locale \<open>bucket_family\<close> serves
    the three kinds of request.
  \<^item> \<open>Sig_Frame\<close>: errors and framing (\<open>error.rs\<close>, \<open>state.rs\<close>); \<open>Lru_Cache\<close>: what the code relies on of the
    cache package, as a locale interpreted on a list.
  \<^item> \<open>Sig_State\<close>: registries of peers and calls (\<open>state.rs\<close>), in the locale \<open>registries\<close>;
    \<open>Sig_Relay\<close>: relay selection and push notices (\<open>masque.rs\<close>, \<open>push.rs\<close>);
    \<open>Sig_Session\<close>: the WebSocket sessions (\<open>session.rs\<close>) with who may do what to which call, delivery, and
    the registry invariant under every interleaving (locale \<open>op_closed\<close>).
  \<^item> \<open>Jwt\<close>, \<open>Sig_Rest\<close>: tokens, authentication and the REST handlers (\<open>jwt.rs\<close>, \<open>auth.rs\<close>,
    \<open>handlers.rs\<close>, routes of \<open>server.rs\<close>).
  \<^item> \<open>Sig_Probe\<close>: the server's probe answers (\<open>quic_probe.rs\<close>), and probing end to end.
  \<^item> \<open>Sig_Server\<close>: the builder and \<open>main\<close> (\<open>server.rs\<close>, \<open>main.rs\<close>), with requests, sessions and clean-ups as
    the events of one process.  The locale \<open>server_safe\<close> extends \<open>op_closed\<close>: in a closed set of states
    where the limiter and the retry delays do not fail, no handler panics; it is interpreted on the states
    of the server that \<open>main\<close> starts.

  \<^bold>\<open>DHT (\<open>voip-dht\<close>).\<close>  \<open>Dht_Record\<close>: records, signatures and expiry (\<open>record.rs\<close>); \<open>Dht_Node\<close>: the event
  loop (\<open>node.rs\<close>), which answers every caller at most once and loses none; \<open>Dht_Startup\<close>: the swarm, the
  loop together with it, and when a node comes up (\<open>node.rs\<close>); \<open>Dht_Discovery\<close>: publishing,
  discovery and the signaling fallback (\<open>discovery.rs\<close>).

  \<^bold>\<open>Composition.\<close>  \<open>Sig_Probe\<close> joins the server's answers with the client's prober: the predicted range
  contains the next port of a sequential NAT.  \<open>Peer_Runtime\<close> and \<open>Voip_Cli\<close> join the client's requests
  with the server's router and registry.  This theory joins the REST interface, the tokens and the
  sessions: who registered can be called.  \<open>Sig_Server\<close> joins all of the server; \<open>Cli_Session\<close> joins the two
  ends of a call and the TLS configuration.  \<open>Connection_Manager\<close> joins races, prediction and tunnels;
  \<open>Migration\<close> the prober and the frames; \<open>Dht_Discovery\<close> records, node and signaling client.

  \<^bold>\<open>Bounds.\<close>  Nothing is bounded by fuel.  The loops that wait for the outside world (\<open>select_loop\<close>,
  \<open>wait_for_path_validation\<close>, the event loops) recurse over the list of turns they are given, of any
  length, and return \<open>None\<close> or the state reached when it ends.  \<open>probe_loop\<close> is a partial function, since
  the code does not terminate on every input.  Lengths that the code keeps in 64 bits are required to
  fit where a theorem depends on it.

  \<^bold>\<open>Not modelled.\<close>  What the libraries do inside their calls (handshakes, certificate checks, query routing,
  audio coding): their answers enter as arguments.  Log output and file modes are omitted, and of formatted
  errors of \<open>crypto.rs\<close> only the fixed part is kept.  Parsing of command line arguments, the OpenAPI
  documentation, module declarations, build scripts and generated code have no behaviour of their own.
  Concurrent tasks interleave between the operations that hold a lock, or between turns of their loops; the
  memory model below that is not represented.
\<close>

section \<open>From registration to ringing\<close>

text \<open>A server that knows a peer without a session and a caller with one.\<close>

definition lobby :: "(PeerEntry lru_list, CallEntry lru_list) AppState" where
  "lobby = fst (register_peer (re_server sample_rest_env) (sample_info ''alice'') (Some 5)
     (fst (register_peer (re_server sample_rest_env) (sample_info sample_peer_id) None sample_server)))"

lemma sample_peer_id_parts:
  "comma_part 0 (str_bytes sample_peer_id) = sample_peer_id"
  "comma_part 0 (str_bytes (''c1,alice,'' @ sample_peer_id)) = ''c1''"
  "comma_part 1 (str_bytes (''c1,alice,'' @ sample_peer_id)) = ''alice''"
  "comma_part 2 (str_bytes (''c1,alice,'' @ sample_peer_id)) = sample_peer_id"
  "sample_peer_id \<noteq> ''alice''"
  by (simp_all add: sample_peer_id_def comma_part_def bytes_str_str_bytes hex_encode_def HEX_CHARS_def
      numeral_eq_Suc)

lemma lobby_parts:
  "as_peers lobby = (10000, [(''alice'', \<lparr> pe_info = sample_info ''alice'', pe_sender = Some 5 \<rparr>),
     (sample_peer_id, \<lparr> pe_info = sample_info sample_peer_id, pe_sender = None \<rparr>)])"
  "as_calls lobby = (1000, [])" "as_rate_limiter lobby = RateLimiter_new RateLimitConfig_default" "as_outbox lobby = []"
  using sample_peer_id_parts(5) by (simp_all add: lobby_def register_peer_def sample_rest_env_def sample_env_def list_env_def lru_list_ops_def
      sample_server_def AppState_new_def touch_def sample_info_def)

lemma fresh_limits:
  "res_map snd (check_ws_message 0 p (RateLimiter_new RateLimitConfig_default)) = Ok True"
  "res_map snd (check_registration 0 p (RateLimiter_new RateLimitConfig_default)) = Ok True"
  "res_map snd (check_call 0 p (RateLimiter_new RateLimitConfig_default)) = Ok True"
  by (simp_all add: check_ws_message_def check_registration_def check_call_def entry_or_insert_def
      RateLimiter_new_def RateLimitConfig_default_def BucketConfig_CALLS_def BucketConfig_REGISTRATIONS_def
      BucketConfig_WS_MESSAGES_def try_consume_def refill_def Bucket_new_def elapsed_ms_def Let_def)

text \<open>C11: a registered peer can be called.  Whoever registered over REST can, until the token expires and
  whatever else the server did meanwhile, open a WebSocket session with it; once that session has
  announced the peer, a call request of another connected peer is forwarded to that session
  unchanged, nothing else is sent, and the call is ringing.\<close>

theorem registered_peer_rings:
  assumes reg: "registries (re_server E) plook clook"
    and sig: "\<forall>m. re_ed_verify E m (se_sign (re_server E) m) \<and> length (se_sign (re_server E) m) = 64"
    and json: "json_faithful (re_to_json E) (re_from_json E) (mo_now_secs M, p, rr_expires_in_secs r)"
    and fits: "unat (mo_now_secs M) + unat (rr_expires_in_secs r) < 2 ^ 64"
    and req: "rq_method req = POST" "rq_path req = ''/v1/peers''" "rq_register req = Some body"
      "rp_peer_id body = p"
    and created: "router E M req st = (st1, Ok (Created r))"
    and time: "mo_now_secs M \<le> mo_now_secs M'" "mo_now_secs M' \<le> mo_now_secs M + rr_expires_in_secs r"
    and ws: "rq_method ws = GET" "rq_path ws = ''/v1/ws''" "rq_token ws = Some (rr_jwt_token r)"
    and known: "plook (as_peers st2) p \<noteq> None" and alive: "mo_alive M' s"
    and announce: "dec_PeerRegister (se_codec (re_server E)) pl = Some m" "rg_peer_id m = p"
    and request: "dec_CallRequest (se_codec (re_server E)) pl' = Some m'" "cr_callee_id m' = p"
      "cr_caller_id m' = c" "c \<noteq> p" "online plook M' st2 c sc" "clook (as_calls st2) (cr_call_id m') = None"
    and allowed: "res_map snd (check_ws_message (mo_instant M') p (as_rate_limiter st2)) = Ok True"
      "res_map snd (check_registration (mo_instant M') p (as_rate_limiter st2)) = Ok True"
      "res_map snd (check_call (mo_instant M') c (as_rate_limiter st2)) = Ok True"
  shows "router E M' ws st2 = (st2, Ok (Upgraded p))
    \<and> (\<exists>st3 st4. ws_turn (re_server E) M' s
          (WsBinary (FramedMessage_to_bytes \<lparr> fm_type_id = PEER_REGISTER, fm_payload = pl \<rparr>)) (Some p, st2)
          = ((Some p, st3), Ok (), True)
      \<and> dispatch_ws_message (re_server E) M' sc \<lparr> fm_type_id = CALL_REQUEST_CS, fm_payload = pl' \<rparr> (Some c, st3)
          = ((Some c, st4), Ok ())
      \<and> as_outbox st4 = as_outbox st2 @ [(s, \<lparr> fm_type_id = CALL_REQUEST_SC, fm_payload = pl' \<rparr>)]
      \<and> map_option CallEntry.cl_state (clook (as_calls st4) (cr_call_id m')) = Some 0)"
proof -
  note c = created_parts [OF created req(1-3)]
  obtain limiter where l: "check_registration (mo_instant M) p (as_rate_limiter st) = Ok (limiter, True)"
    using c(2) req(4) by blast
  have "token_good E (rr_jwt_token r) p (mo_now_secs M) (mo_now_secs M + rr_expires_in_secs r)"
    using registration_grants [OF reg sig json fits refl c(4) req _ l] c(1) req(4) created
    by (cases r) auto
  then have up: "router E M' ws st2 = (st2, Ok (Upgraded p))"
    using time ws by (rule token_good_ws)
  obtain st3 e where 3: "ws_turn (re_server E) M' s
      (WsBinary (FramedMessage_to_bytes \<lparr> fm_type_id = PEER_REGISTER, fm_payload = pl \<rparr>)) (Some p, st2)
      = ((Some p, st3), Ok (), True)"
    "plook (as_peers st3) = (plook (as_peers st2))(p \<mapsto> e)" "pe_sender e = Some s"
    "as_calls st3 = as_calls st2" "as_outbox st3 = as_outbox st2"
    "\<forall>now q. res_map snd (check_call now q (as_rate_limiter st3)) = res_map snd (check_call now q (as_rate_limiter st2))"
    using registries.ws_register_online [OF reg announce known allowed(1,2), of s] by blast
  have on: "online plook M' st3 (cr_caller_id m') sc" "online plook M' st3 (cr_callee_id m') s"
    using request(2-5) 3(2,3) alive by (simp_all add: online_def)
  have "res_map snd (check_call (mo_instant M') (cr_caller_id m') (as_rate_limiter st3)) = Ok True"
    using allowed(3) 3(6) request(3) by simp
  then obtain l3 where "check_call (mo_instant M') (cr_caller_id m') (as_rate_limiter st3) = Ok (l3, True)"
    by (auto simp: res_map_eq_Ok_iff)
  from registries.request_delivers [OF reg request(1) on _ this] 3(4) request(6)
  obtain st4 k where "ws_handle_call_request (re_server E) M' sc pl' (Some (cr_caller_id m'), st3)
        = ((Some (cr_caller_id m'), st4), Ok ())"
    "as_outbox st4 = as_outbox st3 @ [(s, \<lparr> fm_type_id = CALL_REQUEST_SC, fm_payload = pl' \<rparr>)]"
    "clook (as_calls st4) (cr_call_id m') = Some k" "CallEntry.cl_state k = 0" by auto
  then show ?thesis
    using up 3(1,5) request(3) by (intro conjI exI [of _ st3] exI [of _ st4]) (simp_all add: dispatch_ws_message_def)
qed

theorem registered_peer_rings_witness:
  "\<exists>t st1 st3 st4. router sample_rest_env (rest_moment 100) (sample_request POST ''/v1/peers'') sample_server
      = (st1, Ok (Created \<lparr> rr_peer_id = sample_peer_id, rr_jwt_token = t, rr_expires_in_secs = 3600 \<rparr>))
    \<and> router sample_rest_env (rest_moment 3700) ((sample_request GET ''/v1/ws'')\<lparr>rq_token := Some t\<rparr>) lobby
      = (lobby, Ok (Upgraded sample_peer_id))
    \<and> ws_turn (re_server sample_rest_env) (rest_moment 3700) 7
        (WsBinary (FramedMessage_to_bytes \<lparr> fm_type_id = PEER_REGISTER, fm_payload = str_bytes sample_peer_id \<rparr>))
        (Some sample_peer_id, lobby) = ((Some sample_peer_id, st3), Ok (), True)
    \<and> dispatch_ws_message (re_server sample_rest_env) (rest_moment 3700) 5
        \<lparr> fm_type_id = CALL_REQUEST_CS, fm_payload = str_bytes (''c1,alice,'' @ sample_peer_id) \<rparr> (Some ''alice'', st3)
        = ((Some ''alice'', st4), Ok ())
    \<and> as_outbox st4
        = [(7, \<lparr> fm_type_id = CALL_REQUEST_SC, fm_payload = str_bytes (''c1,alice,'' @ sample_peer_id) \<rparr>)]"
proof -
  let ?E = sample_rest_env and ?req = "sample_request POST ''/v1/peers''" and ?M' = "rest_moment 3700"
  have time: "mo_now_secs (rest_moment t) = t" "mo_instant (rest_moment t) = 0" "mo_alive (rest_moment t) s" for t s
    by (simp_all add: rest_moment_def)
  have req: "rq_method ?req = POST" "rq_path ?req = ''/v1/peers''"
    "rq_register ?req = Some (the (rq_register ?req))" "rp_peer_id (the (rq_register ?req)) = sample_peer_id"
    by (simp_all add: sample_request_def)
  obtain limiter where allowed: "check_registration (mo_instant (rest_moment 100)) sample_peer_id
      (as_rate_limiter sample_server) = Ok (limiter, True)"
    using sample_registration_allowed by blast
  obtain t st1 where step: "router ?E (rest_moment 100) ?req sample_server
      = (st1, Ok (Created \<lparr> rr_peer_id = sample_peer_id, rr_jwt_token = t, rr_expires_in_secs = 3600 \<rparr>))"
    using registration_grants [OF sample_rest_registries sample_signatures sample_json _ time(1) [symmetric]
        sample_jwt_expiry [symmetric] req sample_id_valid allowed] by auto
  define ws where "ws = (sample_request GET ''/v1/ws'')\<lparr>rq_token := Some t\<rparr>"
  have codec: "se_codec (re_server ?E) = plain_codec" by (simp add: sample_rest_env_def list_env_def)
  define m where "m = the (dec_PeerRegister plain_codec (str_bytes sample_peer_id))"
  define m' where "m' = the (dec_CallRequest plain_codec (str_bytes (''c1,alice,'' @ sample_peer_id)))"
  have m: "dec_PeerRegister (se_codec (re_server ?E)) (str_bytes sample_peer_id) = Some m" "rg_peer_id m = sample_peer_id"
    by (simp_all add: m_def codec plain_codec_def sample_peer_id_parts)
  have m': "dec_CallRequest (se_codec (re_server ?E)) (str_bytes (''c1,alice,'' @ sample_peer_id)) = Some m'"
    "cr_callee_id m' = sample_peer_id" "cr_caller_id m' = ''alice''" "cr_call_id m' = ''c1''"
    using sample_peer_id_parts by (simp_all add: m'_def codec plain_codec_def del: append.simps)
  have peers: "lru_list_lookup (as_peers lobby) sample_peer_id \<noteq> None"
    "online lru_list_lookup ?M' lobby ''alice'' 5" "lru_list_lookup (as_calls lobby) (cr_call_id m') = None"
    by (simp_all add: lobby_parts lru_list_lookup_def online_def time)
  have limits: "res_map snd (check_ws_message (mo_instant ?M') sample_peer_id (as_rate_limiter lobby)) = Ok True"
    "res_map snd (check_registration (mo_instant ?M') sample_peer_id (as_rate_limiter lobby)) = Ok True"
    "res_map snd (check_call (mo_instant ?M') ''alice'' (as_rate_limiter lobby)) = Ok True"
    by (simp_all add: lobby_parts time fresh_limits)
  note rings = registered_peer_rings [OF sample_rest_registries sample_signatures _ _ req step _ _ _ _ _
      peers(1) time(3) m m'(1-3) sample_peer_id_parts(5) [symmetric] peers(2,3) limits, of ws 7]
  have "json_faithful (re_to_json ?E) (re_from_json ?E) (mo_now_secs (rest_moment 100), sample_peer_id,
      rr_expires_in_secs \<lparr> rr_peer_id = sample_peer_id, rr_jwt_token = t, rr_expires_in_secs = 3600 \<rparr>)"
    using sample_json by (simp add: time)
  from rings [OF this] step show ?thesis
    by (auto simp: time ws_def sample_request_def lobby_parts)
qed

end
